(* ===== verification/Prelude.thy ===== *)
theory Prelude
  imports Main "HOL-Library.Word"
begin

text \<open>
  Shared material of the trafficmon development: the names of the machine types that the
  BPF programs (\<^verbatim>\<open>src/procinfo/bpf\<close>) and the Go engine use, the fact collections the
  component proofs are driven by, and the generic lemmas on alignment, byte strings and
  finite maps that more than one component needs.
\<close>

section \<open>Fact collections\<close>

named_theorems layout \<open>sizes and alignments of the kernel's C types\<close>
named_theorems wire \<open>encoding and decoding of fixed-width integers\<close>

section \<open>Machine types\<close>

type_synonym u8 = "8 word"
type_synonym u16 = "16 word"
type_synonym u32 = "32 word"
type_synonym u64 = "64 word"
type_synonym bytes = "u8 list"

section \<open>Alignment\<close>

text \<open>Rounding an offset up to the next multiple of an alignment.\<close>

definition align_up :: "nat \<Rightarrow> nat \<Rightarrow> nat" where
  "align_up x a = (x + a - 1) div a * a"

lemma align_up_ge: "0 < a \<Longrightarrow> x \<le> align_up x a"
proof -
  assume a: "0 < a"
  have "(x + a - 1) div a * a + (x + a - 1) mod a = x + a - 1"
    by simp
  moreover have "(x + a - 1) mod a \<le> a - 1"
    using a by (metis Suc_pred' less_Suc_eq_le mod_less_divisor)
  ultimately show ?thesis
    using a unfolding align_up_def by linarith
qed

lemma align_up_dvd [simp]: "a dvd align_up x a"
  by (simp add: align_up_def)

lemma align_up_less: "0 < a \<Longrightarrow> align_up x a < x + a"
  unfolding align_up_def by (meson add_gr_0 diff_less div_times_less_eq_dividend le_less_trans zero_less_one)

lemma align_up_id: "0 < a \<Longrightarrow> a dvd x \<Longrightarrow> align_up x a = x"
proof -
  assume a: "0 < a" and "a dvd x"
  then obtain k where k: "x = a * k" by auto
  have "(a * k + (a - 1)) div a = k + (a - 1) div a"
    using a by (intro div_mult_self4) simp
  with a k show ?thesis
    by (simp add: align_up_def mult.commute)
qed

lemma align_up_mono: "x \<le> y \<Longrightarrow> align_up x a \<le> align_up y a"
  unfolding align_up_def by (simp add: div_le_mono diff_le_mono)

text \<open>The rounded offset in closed form, and its value on literals.\<close>

lemma align_up_eq:
  assumes a: "0 < a"
  shows "align_up x a = (if x mod a = 0 then x else x + (a - x mod a))"
proof (cases "x mod a = 0")
  case True
  then show ?thesis using a by (simp add: align_up_id dvd_eq_mod_eq_0)
next
  case False
  have x: "x = x div a * a + x mod a" by simp
  have eq: "x + (a - x mod a) = (x div a + 1) * a"
  proof -
    have "x + (a - x mod a) = x div a * a + a"
      using x mod_less_divisor [OF a, of x] by linarith
    then show ?thesis by simp
  qed
  have "align_up x a \<le> align_up ((x div a + 1) * a) a"
    by (rule align_up_mono) (use eq in linarith)
  also have "\<dots> = (x div a + 1) * a"
    using a by (simp add: align_up_id)
  finally have le: "align_up x a \<le> (x div a + 1) * a" .
  obtain k where k: "align_up x a = a * k"
    by (meson align_up_dvd dvdE)
  have "x div a * a < a * k"
    using align_up_ge [OF a, of x] k x False by linarith
  then have "x div a < k"
    using a by (simp add: mult.commute)
  then have "(x div a + 1) * a \<le> k * a"
    by (intro mult_le_mono1) simp
  with le eq k False show ?thesis
    by (simp add: mult.commute)
qed

lemma align_up_0: "align_up 0 a = 0"
  by (cases a) (simp_all add: align_up_def)

lemma align_up_1: "align_up x (Suc 0) = x"
  by (simp add: align_up_def)

lemma align_up_numeral:
  "align_up (numeral x) (numeral a) =
     (if (numeral x :: nat) mod numeral a = 0 then numeral x
      else numeral x + (numeral a - numeral x mod numeral a))"
  "align_up (Suc 0) (numeral a) =
     (if Suc 0 mod numeral a = 0 then Suc 0 else Suc 0 + (numeral a - Suc 0 mod numeral a))"
  by (rule align_up_eq, simp)+

text \<open>The larger of two alignments, evaluated on literals by comparing them.\<close>

definition larger :: "nat \<Rightarrow> nat \<Rightarrow> nat" where
  "larger a b = (if a \<le> b then b else a)"

section \<open>Invariants of step relations\<close>

text \<open>What a client of a state machine relies on: a property every step keeps holds after any run.\<close>

locale step_invariant =
  fixes step :: "'s \<Rightarrow> 's \<Rightarrow> bool" and inv :: "'s \<Rightarrow> bool"
  assumes step_keeps: "step s s' \<Longrightarrow> inv s \<Longrightarrow> inv s'"
begin

lemma run_keeps: "step\<^sup>*\<^sup>* s s' \<Longrightarrow> inv s \<Longrightarrow> inv s'"
  by (induction rule: rtranclp_induct) (auto intro: step_keeps)

end

end
