(* ===== verification/Wire.thy ===== *)
theory Wire
  imports Prelude
begin

text \<open>
  Fixed-width integers as byte strings. Both the \<^verbatim>\<open>bpf\<close> target that writes an event and
  Go's \<^verbatim>\<open>binary.LittleEndian\<close> that reads it back store the least significant byte first;
  network byte order is the reverse. The theory also has the addresses of
  \<^verbatim>\<open>net/netip\<close> as far as the engine uses them.
\<close>

unbundle bit_operations_syntax

section \<open>Little-endian integers\<close>

fun le_bytes :: "nat \<Rightarrow> 'a::len word \<Rightarrow> bytes" where
  "le_bytes 0 w = []"
| "le_bytes (Suc n) w = ucast w # le_bytes n (drop_bit 8 w)"

fun le_word :: "bytes \<Rightarrow> 'a::len word" where
  "le_word [] = 0"
| "le_word (b # bs) = ucast b OR push_bit 8 (le_word bs)"

lemma length_le_bytes [simp]: "length (le_bytes n w) = n"
  by (induction n arbitrary: w) auto

lemma nth_le_bytes: "i < n \<Longrightarrow> le_bytes n w ! i = ucast (drop_bit (8 * i) w)"
proof (induction n arbitrary: w i)
  case (Suc n)
  then show ?case
    by (cases i) (simp_all add: drop_bit_drop_bit add.commute)
qed simp

lemma bit_le_word:
  "bit (le_word bs :: 'a::len word) k \<longleftrightarrow>
     k < LENGTH('a) \<and> k div 8 < length bs \<and> bit (bs ! (k div 8)) (k mod 8)"
proof (induction bs arbitrary: k)
  case (Cons b bs)
  show ?case
  proof (cases "k < 8")
    case True
    then show ?thesis by (auto simp: bit_or_iff bit_push_bit_iff bit_ucast_iff)
  next
    case False
    then have "k div 8 = Suc ((k - 8) div 8)" and "k mod 8 = (k - 8) mod 8"
      by (simp_all add: le_div_geq le_mod_geq)
    moreover have "\<not> bit b k"
      using False bit_imp_le_length [of b k] by auto
    ultimately show ?thesis
      using False Cons.IH [of "k - 8"] by (auto simp: bit_or_iff bit_push_bit_iff bit_ucast_iff)
  qed
qed simp

lemma le_word_le_bytes [wire]:
  fixes w :: "'a::len word"
  assumes "LENGTH('a) = 8 * n"
  shows "le_word (le_bytes n w) = w"
proof (rule bit_word_eqI)
  fix k
  assume "k < LENGTH('a)"
  then show "bit (le_word (le_bytes n w) :: 'a word) k = bit w k"
    using assms by (simp add: bit_le_word nth_le_bytes bit_ucast_iff bit_drop_bit_eq
        less_mult_imp_div_less mult.commute)
qed

lemma le_bytes_le_word:
  assumes "length bs = n" and "8 * n \<le> LENGTH('a)"
  shows "le_bytes n (le_word bs :: 'a::len word) = bs"
proof (rule nth_equalityI)
  fix i
  assume "i < length (le_bytes n (le_word bs :: 'a word))"
  then have i: "i < n" by simp
  show "le_bytes n (le_word bs :: 'a word) ! i = bs ! i"
  proof (rule bit_word_eqI)
    fix k
    assume "k < LENGTH(8)"
    then show "bit (le_bytes n (le_word bs :: 'a word) ! i) k = bit (bs ! i) k"
      using i assms
      by (simp add: nth_le_bytes bit_ucast_iff bit_drop_bit_eq bit_le_word)
  qed
qed (use assms in simp)

lemma le_word_eq_iff:
  assumes "length bs = n" and "LENGTH('a) = 8 * n"
  shows "le_word bs = (w :: 'a::len word) \<longleftrightarrow> bs = le_bytes n w"
proof
  assume "le_word bs = w"
  then show "bs = le_bytes n w"
    using le_bytes_le_word [OF assms(1), where 'a = 'a] assms(2) by simp
next
  assume "bs = le_bytes n w"
  then show "le_word bs = w"
    using assms(2) by (simp add: le_word_le_bytes)
qed

text \<open>Byte swap of a 16-bit value: \<^verbatim>\<open>ntohs\<close> on a little-endian target.\<close>

definition ntohs :: "u16 \<Rightarrow> u16" where
  "ntohs w = le_word (rev (le_bytes 2 w))"

lemma le_bytes_ntohs: "le_bytes 2 (ntohs w) = rev (le_bytes 2 w)"
  by (simp add: ntohs_def le_bytes_le_word)

lemma ntohs_ntohs [simp]: "ntohs (ntohs w) = w"
  by (simp add: ntohs_def [of "ntohs w"] le_bytes_ntohs le_word_le_bytes)

text \<open>\<^verbatim>\<open>memcpy\<close> of all of \<open>src\<close> to the start of an array.\<close>

definition memcpy :: "bytes \<Rightarrow> bytes \<Rightarrow> bytes" where
  "memcpy dst src = src @ drop (length src) dst"

lemma length_memcpy [simp]: "length src \<le> length dst \<Longrightarrow> length (memcpy dst src) = length dst"
  by (simp add: memcpy_def)

lemma take_memcpy [simp]: "take (length src) (memcpy dst src) = src"
  by (simp add: memcpy_def)

section \<open>Addresses (\<^verbatim>\<open>net/netip\<close>)\<close>

text \<open>
  A \<^verbatim>\<open>netip.Addr\<close> without zone: the zero value, an IPv4 address (4 bytes) or an IPv6
  address (16 bytes), in network order.
\<close>

datatype addr = AddrZero | AddrV4 bytes | AddrV6 bytes

definition v4_mapped_prefix :: bytes where
  "v4_mapped_prefix = replicate 10 0 @ [0xff, 0xff]"

text \<open>\<^verbatim>\<open>Addr.Unmap\<close>: an IPv4-mapped IPv6 address becomes the IPv4 address.\<close>

fun Unmap :: "addr \<Rightarrow> addr" where
  "Unmap (AddrV6 b) = (if take 12 b = v4_mapped_prefix then AddrV4 (drop 12 b) else AddrV6 b)"
| "Unmap a = a"

lemma Unmap_idem [simp]: "Unmap (Unmap a) = Unmap a"
  by (cases a) auto

end
