(* ===== verification/C_Types.thy ===== *)
theory C_Types
  imports Prelude
begin

text \<open>
  The C data layout the BPF programs are compiled with. The headers under
  \<^verbatim>\<open>src/procinfo/bpf/headers\<close> declare the kernel's types; \<open>ctype\<close> is their abstract
  syntax, and \<open>sizeof\<close>, \<open>alignof\<close> and \<open>offsetof\<close> are the rules of the \<^verbatim>\<open>bpf\<close> target
  (LP64, little endian): a member starts at the next multiple of its alignment, a bit
  field does not cross a storage unit of its declared type, an unnamed bit field moves the
  offset but does not raise the alignment, a packed structure has no padding, and a
  structure's size is rounded up to its alignment.

  The general theorems of this theory hold for every declaration: alignments are positive
  and divide the offset of the member they belong to, a member found under an access path
  lies inside the object, and the members of a structure are laid out one after the other.
\<close>

section \<open>Abstract syntax of C types\<close>

datatype ctype =
    CInt bool nat                  \<comment> \<open>an integer: signed, size in bytes\<close>
  | CPtr                           \<comment> \<open>a data or function pointer\<close>
  | CEnum "(string \<times> int) list"    \<comment> \<open>an enumeration and its enumerators\<close>
  | CArr ctype nat                 \<comment> \<open>\<open>t x[n]\<close>; \<open>n = 0\<close> for a flexible array\<close>
  | CStruct "cmember list"
  | CUnion "cmember list"
  | CPacked "cmember list"         \<comment> \<open>\<open>__attribute__((packed))\<close>\<close>
and cmember =
    Fld string ctype
  | Anon ctype                     \<comment> \<open>an anonymous structure or union\<close>
  | Bits string nat nat            \<comment> \<open>a bit field: size of its declared type in bytes, width\<close>
  | Pad nat nat                    \<comment> \<open>an unnamed bit field\<close>

section \<open>Size, alignment and offsets\<close>

text \<open>Where a bit field of width \<open>w\<close> in units of \<open>u\<close> bits starts, given the current offset.\<close>

definition bits_start :: "nat \<Rightarrow> nat \<Rightarrow> nat \<Rightarrow> nat" where
  "bits_start c u w =
     (if w = 0 then align_up c u
      else if c div u = (c + w - 1) div u then c
      else align_up c u)"

fun sizeof :: "ctype \<Rightarrow> nat"
  and alignof :: "ctype \<Rightarrow> nat"
  and members_align :: "cmember list \<Rightarrow> nat"
  and struct_end :: "cmember list \<Rightarrow> nat \<Rightarrow> nat"
  and union_end :: "cmember list \<Rightarrow> nat"
  and packed_end :: "cmember list \<Rightarrow> nat \<Rightarrow> nat"
where
  "sizeof (CInt s n) = n"
| "sizeof CPtr = 8"
| "sizeof (CEnum es) = 4"
| "sizeof (CArr t n) = sizeof t * n"
| "sizeof (CStruct ms) = align_up ((struct_end ms 0 + 7) div 8) (members_align ms)"
| "sizeof (CUnion ms) = align_up ((union_end ms + 7) div 8) (members_align ms)"
| "sizeof (CPacked ms) = (packed_end ms 0 + 7) div 8"
| "alignof (CInt s n) = n"
| "alignof CPtr = 8"
| "alignof (CEnum es) = 4"
| "alignof (CArr t n) = alignof t"
| "alignof (CStruct ms) = members_align ms"
| "alignof (CUnion ms) = members_align ms"
| "alignof (CPacked ms) = 1"
| "members_align [] = 1"
| "members_align (Fld f t # ms) = larger (alignof t) (members_align ms)"
| "members_align (Anon t # ms) = larger (alignof t) (members_align ms)"
| "members_align (Bits f u w # ms) = larger u (members_align ms)"
| "members_align (Pad u w # ms) = members_align ms"
| "struct_end [] c = c"
| "struct_end (Fld f t # ms) c = struct_end ms (align_up c (8 * alignof t) + 8 * sizeof t)"
| "struct_end (Anon t # ms) c = struct_end ms (align_up c (8 * alignof t) + 8 * sizeof t)"
| "struct_end (Bits f u w # ms) c = struct_end ms (bits_start c (8 * u) w + w)"
| "struct_end (Pad u w # ms) c = struct_end ms (bits_start c (8 * u) w + w)"
| "union_end [] = 0"
| "union_end (Fld f t # ms) = larger (8 * sizeof t) (union_end ms)"
| "union_end (Anon t # ms) = larger (8 * sizeof t) (union_end ms)"
| "union_end (Bits f u w # ms) = larger w (union_end ms)"
| "union_end (Pad u w # ms) = larger w (union_end ms)"
| "packed_end [] c = c"
| "packed_end (Fld f t # ms) c = packed_end ms (align_up c 8 + 8 * sizeof t)"
| "packed_end (Anon t # ms) c = packed_end ms (align_up c 8 + 8 * sizeof t)"
| "packed_end (Bits f u w # ms) c = packed_end ms (c + w)"
| "packed_end (Pad u w # ms) c = packed_end ms (c + w)"

text \<open>
  \<open>field t f\<close> finds the member \<open>f\<close> of an aggregate, looking through anonymous members as C
  does, and returns its byte offset and type. Bit fields have no address, so they are not
  found. \<open>offsetof t fs\<close> follows a path of member names.
\<close>

fun field :: "ctype \<Rightarrow> string \<Rightarrow> (nat \<times> ctype) option"
  and field_struct :: "cmember list \<Rightarrow> nat \<Rightarrow> string \<Rightarrow> (nat \<times> ctype) option"
  and field_union :: "cmember list \<Rightarrow> string \<Rightarrow> (nat \<times> ctype) option"
  and field_packed :: "cmember list \<Rightarrow> nat \<Rightarrow> string \<Rightarrow> (nat \<times> ctype) option"
where
  "field (CStruct ms) f = field_struct ms 0 f"
| "field (CUnion ms) f = field_union ms f"
| "field (CPacked ms) f = field_packed ms 0 f"
| "field (CInt s n) f = None"
| "field CPtr f = None"
| "field (CEnum es) f = None"
| "field (CArr t n) f = None"
| "field_struct [] c f = None"
| "field_struct (Fld g t # ms) c f =
     (if f = g then Some (align_up c (8 * alignof t) div 8, t)
      else field_struct ms (align_up c (8 * alignof t) + 8 * sizeof t) f)"
| "field_struct (Anon t # ms) c f =
     (case field t f of
        Some (o1, t1) \<Rightarrow> Some (align_up c (8 * alignof t) div 8 + o1, t1)
      | None \<Rightarrow> field_struct ms (align_up c (8 * alignof t) + 8 * sizeof t) f)"
| "field_struct (Bits g u w # ms) c f = field_struct ms (bits_start c (8 * u) w + w) f"
| "field_struct (Pad u w # ms) c f = field_struct ms (bits_start c (8 * u) w + w) f"
| "field_union [] f = None"
| "field_union (Fld g t # ms) f = (if f = g then Some (0, t) else field_union ms f)"
| "field_union (Anon t # ms) f =
     (case field t f of Some r \<Rightarrow> Some r | None \<Rightarrow> field_union ms f)"
| "field_union (Bits g u w # ms) f = field_union ms f"
| "field_union (Pad u w # ms) f = field_union ms f"
| "field_packed [] c f = None"
| "field_packed (Fld g t # ms) c f =
     (if f = g then Some (align_up c 8 div 8, t)
      else field_packed ms (align_up c 8 + 8 * sizeof t) f)"
| "field_packed (Anon t # ms) c f =
     (case field t f of
        Some (o1, t1) \<Rightarrow> Some (align_up c 8 div 8 + o1, t1)
      | None \<Rightarrow> field_packed ms (align_up c 8 + 8 * sizeof t) f)"
| "field_packed (Bits g u w # ms) c f = field_packed ms (c + w) f"
| "field_packed (Pad u w # ms) c f = field_packed ms (c + w) f"

fun offsetof :: "ctype \<Rightarrow> string list \<Rightarrow> (nat \<times> ctype) option" where
  "offsetof t [] = Some (0, t)"
| "offsetof t (f # fs) =
     (case field t f of
        None \<Rightarrow> None
      | Some (o1, t1) \<Rightarrow>
          (case offsetof t1 fs of None \<Rightarrow> None | Some (o2, t2) \<Rightarrow> Some (o1 + o2, t2)))"

section \<open>Well-formed declarations\<close>

text \<open>Integer types and bit-field units have one of the sizes the target has.\<close>

definition int_size :: "nat \<Rightarrow> bool" where
  "int_size n \<longleftrightarrow> n = 1 \<or> n = 2 \<or> n = 4 \<or> n = 8 \<or> n = 16"

fun wf_ctype :: "ctype \<Rightarrow> bool"
  and wf_members :: "cmember list \<Rightarrow> bool"
where
  "wf_ctype (CInt s n) = int_size n"
| "wf_ctype CPtr = True"
| "wf_ctype (CEnum es) = True"
| "wf_ctype (CArr t n) = wf_ctype t"
| "wf_ctype (CStruct ms) = wf_members ms"
| "wf_ctype (CUnion ms) = wf_members ms"
| "wf_ctype (CPacked ms) = wf_members ms"
| "wf_members [] = True"
| "wf_members (Fld f t # ms) = (wf_ctype t \<and> wf_members ms)"
| "wf_members (Anon t # ms) = (wf_ctype t \<and> wf_members ms)"
| "wf_members (Bits f u w # ms) = (int_size u \<and> wf_members ms)"
| "wf_members (Pad u w # ms) = (int_size u \<and> wf_members ms)"

section \<open>Alignment is a power of two\<close>

lemma int_size_power: "int_size n \<Longrightarrow> \<exists>k. n = 2 ^ k"
proof -
  assume "int_size n"
  then have "n = 2 ^ 0 \<or> n = 2 ^ 1 \<or> n = 2 ^ 2 \<or> n = 2 ^ 3 \<or> n = 2 ^ 4"
    by (simp add: int_size_def)
  then show ?thesis by blast
qed

lemma larger_power2: "(\<exists>k. a = 2 ^ k) \<Longrightarrow> (\<exists>k. b = 2 ^ k) \<Longrightarrow> \<exists>k. larger a b = (2::nat) ^ k"
  by (auto simp: larger_def)

lemma alignof_power2:
  "wf_ctype t \<Longrightarrow> \<exists>k. alignof t = 2 ^ k"
  "wf_members ms \<Longrightarrow> \<exists>k. members_align ms = 2 ^ k"
proof (induction t and ms rule: wf_ctype_wf_members.induct)
  case 2 show ?case by (simp add: exI [of _ 3])
next
  case 3 show ?case by (simp add: exI [of _ 2])
next
  case (7 ms) show ?case by (simp add: exI [of _ 0])
next
  case 8 show ?case by (simp add: exI [of _ 0])
qed (simp_all add: int_size_power larger_power2)

lemma power2_dvd_larger:
  assumes "\<exists>k. a = 2 ^ k" and "\<exists>k. b = 2 ^ k"
  shows "a dvd larger a b" and "b dvd (larger a b :: nat)"
  using assms by (auto simp: larger_def intro: le_imp_power_dvd)

lemma alignof_pos: "wf_ctype t \<Longrightarrow> 0 < alignof t"
  using alignof_power2(1) by fastforce

lemma members_align_pos: "wf_members ms \<Longrightarrow> 0 < members_align ms"
  using alignof_power2(2) by fastforce

lemma alignof_dvd_sizeof: "wf_ctype t \<Longrightarrow> alignof t dvd sizeof t"
  by (induction t rule: ctype.induct [where ?P2.0 = "\<lambda>_. True"]) simp_all

section \<open>Members lie inside the object\<close>

text \<open>Where a member starts and where the next one may start, in bits.\<close>

fun member_start :: "cmember \<Rightarrow> nat \<Rightarrow> nat" where
  "member_start (Fld f t) c = align_up c (8 * alignof t)"
| "member_start (Anon t) c = align_up c (8 * alignof t)"
| "member_start (Bits f u w) c = bits_start c (8 * u) w"
| "member_start (Pad u w) c = bits_start c (8 * u) w"

fun member_bits :: "cmember \<Rightarrow> nat" where
  "member_bits (Fld f t) = 8 * sizeof t"
| "member_bits (Anon t) = 8 * sizeof t"
| "member_bits (Bits f u w) = w"
| "member_bits (Pad u w) = w"

lemma struct_end_Cons: "struct_end (m # ms) c = struct_end ms (member_start m c + member_bits m)"
  by (cases m) simp_all

lemma member_start_ge: "wf_members (m # ms) \<Longrightarrow> c \<le> member_start m c"
  by (cases m) (auto simp: bits_start_def int_size_def intro!: align_up_ge alignof_pos)

lemma wf_members_tail: "wf_members (m # ms) \<Longrightarrow> wf_members ms"
  by (cases m) simp_all

lemma struct_end_ge: "wf_members ms \<Longrightarrow> c \<le> struct_end ms c"
proof (induction ms arbitrary: c)
  case (Cons m ms)
  have "c \<le> member_start m c + member_bits m"
    using member_start_ge [OF Cons.prems] by (simp add: trans_le_add1)
  also have "\<dots> \<le> struct_end (m # ms) c"
    using Cons wf_members_tail by (simp add: struct_end_Cons)
  finally show ?case .
qed simp

lemma packed_end_ge: "c \<le> packed_end ms c"
proof (induction ms arbitrary: c)
  case (Cons m ms)
  have "c \<le> align_up c 8"
    by (simp add: align_up_ge)
  with Cons show ?case
    by (cases m) (simp_all, (meson dual_order.trans le_add1)+)
qed simp

lemma align_up_8_mult: "8 * (align_up c (8 * a) div 8) = align_up c (8 * a)"
  by (simp add: align_up_def mult.commute mult.left_commute)

lemma align_up_8: "8 * (align_up c 8 div 8) = align_up c 8"
  using align_up_8_mult [of c 1] by simp

lemma struct_member_inside:
  assumes "wf_members ms" and "n \<le> sizeof t"
  shows "8 * (align_up c (8 * alignof t) div 8 + n)
    \<le> struct_end ms (align_up c (8 * alignof t) + 8 * sizeof t)"
  using assms(2) struct_end_ge [OF assms(1), of "align_up c (8 * alignof t) + 8 * sizeof t"]
  by (simp add: distrib_left align_up_8_mult)

lemma packed_member_inside:
  assumes "n \<le> sizeof t"
  shows "8 * (align_up c 8 div 8 + n) \<le> packed_end ms (align_up c 8 + 8 * sizeof t)"
  using assms packed_end_ge [of "align_up c 8 + 8 * sizeof t" ms]
  by (simp add: distrib_left align_up_8)

lemma bits_to_bytes: "8 * n \<le> e \<Longrightarrow> n \<le> (e + 7) div (8::nat)"
  by simp

lemma field_inside:
  "field t f = Some (o1, t1) \<Longrightarrow> wf_ctype t \<Longrightarrow> o1 + sizeof t1 \<le> sizeof t"
  "field_struct ms c f = Some (o1, t1) \<Longrightarrow> wf_members ms \<Longrightarrow> 8 * (o1 + sizeof t1) \<le> struct_end ms c"
  "field_union ms f = Some (o1, t1) \<Longrightarrow> wf_members ms \<Longrightarrow> 8 * (o1 + sizeof t1) \<le> union_end ms"
  "field_packed ms c f = Some (o1, t1) \<Longrightarrow> wf_members ms \<Longrightarrow> 8 * (o1 + sizeof t1) \<le> packed_end ms c"
proof (induction t f and ms c f and ms f and ms c f arbitrary: o1 t1 and o1 t1 and o1 t1 and o1 t1
    rule: field_field_struct_field_union_field_packed.induct)
  case (1 ms f)
  then have "o1 + sizeof t1 \<le> (struct_end ms 0 + 7) div 8" by (simp add: bits_to_bytes)
  also have "\<dots> \<le> sizeof (CStruct ms)"
    using 1 by (simp add: align_up_ge members_align_pos)
  finally show ?case .
next
  case (2 ms f)
  then have "o1 + sizeof t1 \<le> (union_end ms + 7) div 8" by (simp add: bits_to_bytes)
  also have "\<dots> \<le> sizeof (CUnion ms)"
    using 2 by (simp add: align_up_ge members_align_pos)
  finally show ?case .
next
  case (9 g t ms c f)
  then show ?case
    using struct_member_inside [of ms "sizeof t" t c] by (auto split: if_splits)
next
  case (10 t ms c f)
  then show ?case
    by (auto split: option.splits simp: add.assoc simp del: distrib_left_numeral
        intro!: struct_member_inside)
next
  case (15 t ms f)
  then show ?case by (fastforce split: option.splits simp: larger_def)
next
  case (19 g t ms c f)
  then show ?case
    using packed_member_inside [of "sizeof t" t c ms] by (auto split: if_splits)
next
  case (20 t ms c f)
  then show ?case
    by (auto split: option.splits simp: add.assoc simp del: distrib_left_numeral
        intro!: packed_member_inside)
qed (auto split: if_splits simp: larger_def bits_to_bytes)

lemma field_wf:
  "field t f = Some (o1, t1) \<Longrightarrow> wf_ctype t \<Longrightarrow> wf_ctype t1"
  "field_struct ms c f = Some (o1, t1) \<Longrightarrow> wf_members ms \<Longrightarrow> wf_ctype t1"
  "field_union ms f = Some (o1, t1) \<Longrightarrow> wf_members ms \<Longrightarrow> wf_ctype t1"
  "field_packed ms c f = Some (o1, t1) \<Longrightarrow> wf_members ms \<Longrightarrow> wf_ctype t1"
  by (induction t f and ms c f and ms f and ms c f arbitrary: o1 t1 and o1 t1 and o1 t1 and o1 t1
      rule: field_field_struct_field_union_field_packed.induct)
    (auto split: if_splits option.splits)

lemma offsetof_inside:
  "offsetof t fs = Some (o1, t1) \<Longrightarrow> wf_ctype t \<Longrightarrow> o1 + sizeof t1 \<le> sizeof t"
proof (induction fs arbitrary: t o1)
  case (Cons f fs)
  then obtain o2 t2 o3 where f: "field t f = Some (o2, t2)"
    and r: "offsetof t2 fs = Some (o3, t1)" and "o1 = o2 + o3"
    by (auto split: option.splits)
  have "o3 + sizeof t1 \<le> sizeof t2"
    using Cons.IH [OF r field_wf(1) [OF f Cons.prems(2)]] .
  with field_inside(1) [OF f Cons.prems(2)] \<open>o1 = o2 + o3\<close> show ?case by linarith
qed simp

section \<open>Members follow one another\<close>

fun member_extents :: "cmember list \<Rightarrow> nat \<Rightarrow> (nat \<times> nat) list" where
  "member_extents [] c = []"
| "member_extents (m # ms) c =
     (member_start m c, member_bits m) # member_extents ms (member_start m c + member_bits m)"

lemma member_extents_ge:
  "wf_members ms \<Longrightarrow> e \<in> set (member_extents ms c) \<Longrightarrow> c \<le> fst e"
proof (induction ms arbitrary: c)
  case (Cons m ms)
  then consider "e = (member_start m c, member_bits m)"
    | "e \<in> set (member_extents ms (member_start m c + member_bits m))"
    by auto
  then show ?case
  proof cases
    case 1
    then show ?thesis using member_start_ge [OF Cons.prems(1)] by simp
  next
    case 2
    then have "member_start m c + member_bits m \<le> fst e"
      using Cons.IH wf_members_tail [OF Cons.prems(1)] by blast
    with member_start_ge [OF Cons.prems(1), of c] show ?thesis by linarith
  qed
qed simp

lemma struct_members_disjoint:
  "wf_members ms \<Longrightarrow>
    sorted_wrt (\<lambda>a b. fst a + snd a \<le> fst b) (member_extents ms c)"
proof (induction ms arbitrary: c)
  case (Cons m ms)
  then show ?case
    using wf_members_tail [OF Cons.prems] by (auto dest: member_extents_ge)
qed simp

section \<open>Members are aligned\<close>

text \<open>Declarations with no packed part.\<close>

fun unpacked :: "ctype \<Rightarrow> bool"
  and unpacked_members :: "cmember list \<Rightarrow> bool"
where
  "unpacked (CInt s n) = True"
| "unpacked CPtr = True"
| "unpacked (CEnum es) = True"
| "unpacked (CArr t n) = unpacked t"
| "unpacked (CStruct ms) = unpacked_members ms"
| "unpacked (CUnion ms) = unpacked_members ms"
| "unpacked (CPacked ms) = False"
| "unpacked_members [] = True"
| "unpacked_members (Fld f t # ms) = (unpacked t \<and> unpacked_members ms)"
| "unpacked_members (Anon t # ms) = (unpacked t \<and> unpacked_members ms)"
| "unpacked_members (Bits f u w # ms) = unpacked_members ms"
| "unpacked_members (Pad u w # ms) = unpacked_members ms"

lemma members_align_dvd:
  assumes "wf_ctype t" and "wf_members ms"
  shows "alignof t dvd larger (alignof t) (members_align ms)"
    and "members_align ms dvd larger (alignof t) (members_align ms)"
  using power2_dvd_larger [OF alignof_power2(1) [OF assms(1)] alignof_power2(2) [OF assms(2)]] .

lemma members_align_dvd_Bits:
  "int_size u \<Longrightarrow> wf_members ms \<Longrightarrow> members_align ms dvd larger u (members_align ms)"
  using power2_dvd_larger(2) [OF int_size_power alignof_power2(2)] .

lemma align_up_div_8: "a dvd align_up c (8 * a) div 8"
proof -
  have "align_up c (8 * a) = 8 * (a * ((c + 8 * a - 1) div (8 * a)))"
    by (simp add: align_up_def)
  then show ?thesis by simp
qed

lemma field_aligned:
  "field t f = Some (o1, t1) \<Longrightarrow> wf_ctype t \<Longrightarrow> unpacked t \<Longrightarrow>
     alignof t1 dvd o1 \<and> alignof t1 dvd alignof t"
  "field_struct ms c f = Some (o1, t1) \<Longrightarrow> wf_members ms \<Longrightarrow> unpacked_members ms \<Longrightarrow>
     alignof t1 dvd o1 \<and> alignof t1 dvd members_align ms"
  "field_union ms f = Some (o1, t1) \<Longrightarrow> wf_members ms \<Longrightarrow> unpacked_members ms \<Longrightarrow>
     alignof t1 dvd o1 \<and> alignof t1 dvd members_align ms"
  "field_packed ms c f = Some (o1, t1) \<Longrightarrow> True"
proof (induction t f and ms c f and ms f and ms c f arbitrary: o1 t1 and o1 t1 and o1 t1 and o1 t1
    rule: field_field_struct_field_union_field_packed.induct)
  case (9 g t ms c f)
  then show ?case
    using members_align_dvd [of t ms]
    by (auto split: if_splits simp: align_up_div_8 intro: dvd_trans)
next
  case (10 t ms c f)
  then show ?case
    using members_align_dvd [of t ms] align_up_div_8 [of "alignof t" c]
    by (auto split: option.splits intro: dvd_trans dvd_add)
next
  case (11 g u w ms c f)
  then show ?case
    using members_align_dvd_Bits [of u ms] by (auto intro: dvd_trans)
next
  case (14 g t ms f)
  then show ?case
    using members_align_dvd [of t ms] by (auto split: if_splits intro: dvd_trans)
next
  case (15 t ms f)
  then show ?case
    using members_align_dvd [of t ms] by (auto split: option.splits intro: dvd_trans)
next
  case (16 g u w ms f)
  then show ?case
    using members_align_dvd_Bits [of u ms] by (auto intro: dvd_trans)
qed simp_all

lemma field_unpacked:
  "field t f = Some (o1, t1) \<Longrightarrow> unpacked t \<Longrightarrow> unpacked t1"
  "field_struct ms c f = Some (o1, t1) \<Longrightarrow> unpacked_members ms \<Longrightarrow> unpacked t1"
  "field_union ms f = Some (o1, t1) \<Longrightarrow> unpacked_members ms \<Longrightarrow> unpacked t1"
  "field_packed ms c f = Some (o1, t1) \<Longrightarrow> unpacked_members ms \<Longrightarrow> unpacked t1"
  by (induction t f and ms c f and ms f and ms c f arbitrary: o1 t1 and o1 t1 and o1 t1 and o1 t1
      rule: field_field_struct_field_union_field_packed.induct)
    (auto split: if_splits option.splits)

lemma offsetof_aligned:
  "offsetof t fs = Some (o1, t1) \<Longrightarrow> wf_ctype t \<Longrightarrow> unpacked t \<Longrightarrow>
    alignof t1 dvd o1 \<and> alignof t1 dvd alignof t"
proof (induction fs arbitrary: t o1)
  case (Cons f fs)
  then obtain o2 t2 o3 where f: "field t f = Some (o2, t2)"
    and r: "offsetof t2 fs = Some (o3, t1)" and o1: "o1 = o2 + o3"
    by (auto split: option.splits)
  have "alignof t1 dvd o3 \<and> alignof t1 dvd alignof t2"
    using Cons.IH [OF r] field_wf(1) [OF f] field_unpacked(1) [OF f] Cons.prems by simp
  with field_aligned(1) [OF f] Cons.prems o1 show ?case
    by (auto intro: dvd_trans dvd_add)
qed simp

section \<open>Evaluating layouts\<close>

text \<open>
  The simplifier evaluates a declaration from left to right: the congruence rules stop it
  from walking through field names and through the members it has not reached yet.
\<close>

lemma Fld_cong [cong]: "t = t' \<Longrightarrow> Fld f t = Fld f t'"
  by simp

lemma struct_end_cong [cong]: "c = c' \<Longrightarrow> struct_end ms c = struct_end ms c'"
  by simp

lemma packed_end_cong [cong]: "c = c' \<Longrightarrow> packed_end ms c = packed_end ms c'"
  by simp

lemma members_align_cong [cong]: "members_align ms = members_align ms"
  by simp

lemma union_end_cong [cong]: "union_end ms = union_end ms"
  by simp

lemma CEnum_cong [cong]: "CEnum es = CEnum es"
  by simp

lemma field_struct_cong [cong]: "c = c' \<Longrightarrow> field_struct ms c f = field_struct ms c' f"
  by simp

lemma field_packed_cong [cong]: "c = c' \<Longrightarrow> field_packed ms c f = field_packed ms c' f"
  by simp

lemma field_union_cong [cong]: "field_union ms f = field_union ms f"
  by simp

lemma bits_start_eval:
  assumes u: "0 < u"
  shows "bits_start c u w =
    (if w = 0 then align_up c u else if c mod u + w \<le> u then c else align_up c u)"
proof -
  have "(c div u = (c + w - 1) div u) = (c mod u + w \<le> u)" if w: "0 < w"
  proof -
    have "c + w - 1 = (c mod u + w - 1) + u * (c div u)"
      using w mult_div_mod_eq [of u c] by linarith
    then have "(c + w - 1) div u = c div u + (c mod u + w - 1) div u"
      using u by (simp only: div_mult_self2)
    then show ?thesis using u w by (auto simp: div_eq_0_iff)
  qed
  then show ?thesis by (auto simp: bits_start_def)
qed

lemma int_size_literal [layout]:
  "int_size (Suc 0)" "int_size 2" "int_size 4" "int_size 8" "int_size 16"
  by (simp_all add: int_size_def)

declare align_up_0 [layout] align_up_1 [layout] align_up_numeral [layout]
  bits_start_eval [layout] larger_def [layout]

end
