(* ===== verification/Bpf_Runtime.thy ===== *)
theory Bpf_Runtime
  imports Wire C_Types
begin

text \<open>
  What the three BPF programs share: \<open>struct event\<close>, which each of them declares with the
  same members, its image in the ring buffer, and the kernel side they run against. The
  helpers (\<^verbatim>\<open>bpf_ktime_get_ns\<close>, \<^verbatim>\<open>bpf_get_current_pid_tgid\<close>, \<^verbatim>\<open>bpf_ringbuf_reserve\<close>,
  \<^verbatim>\<open>bpf_probe_read_kernel\<close>) and the CO-RE relocations are the kernel's and the loader's code,
  so they are fields of the record \<open>bpf_env\<close>, a parameter of every program. The locales
  \<open>kernel_memory\<close> and \<open>relocated\<close> state what their documentation promises: a read copies
  the bytes at the address, and an access path is compiled to the offset the path has in
  the running kernel's type.
\<close>

section \<open>The event and its image\<close>

record event =
  ev_timestamp_ns :: u64
  ev_skaddr :: u64
  ev_pid :: u32
  ev_proto :: u8
  ev_ip_ver :: u8
  ev_local_port :: u16
  ev_remote_port :: u16
  ev_local_addr :: bytes
  ev_remote_addr :: bytes
  ev_new_state :: u32
  ev_source :: u8

text \<open>The two arrays have the 16 bytes the declaration gives them.\<close>

definition event_ok :: "event \<Rightarrow> bool" where
  "event_ok ev \<longleftrightarrow> length (ev_local_addr ev) = 16 \<and> length (ev_remote_addr ev) = 16"

text \<open>The memory image of the packed structure: the members one after the other.\<close>

definition event_bytes :: "event \<Rightarrow> bytes" where
  "event_bytes ev =
     le_bytes 8 (ev_timestamp_ns ev) @ le_bytes 8 (ev_skaddr ev) @ le_bytes 4 (ev_pid ev) @
     le_bytes 1 (ev_proto ev) @ le_bytes 1 (ev_ip_ver ev) @
     le_bytes 2 (ev_local_port ev) @ le_bytes 2 (ev_remote_port ev) @
     ev_local_addr ev @ ev_remote_addr ev @
     le_bytes 4 (ev_new_state ev) @ le_bytes 1 (ev_source ev)"

lemma length_event_bytes: "event_ok ev \<Longrightarrow> length (event_bytes ev) = 63"
  by (simp add: event_bytes_def event_ok_def)

section \<open>The kernel the programs run in\<close>

datatype read_src = Kernel u64 | Stack bytes

record bpf_env =
  ktime_get_ns :: u64
  get_current_pid_tgid :: u64
  ringbuf_reserve :: "event option"     \<comment> \<open>\<open>None\<close> for NULL, else the reserved memory as found\<close>
  probe_read_kernel :: "read_src \<Rightarrow> nat \<Rightarrow> bytes"
  core_off :: "string list \<Rightarrow> nat"      \<comment> \<open>relocated offset of an access path\<close>
  map_update_elem_ok :: bool            \<comment> \<open>whether \<^verbatim>\<open>bpf_map_update_elem\<close> stores the entry\<close>

text \<open>\<^verbatim>\<open>BPF_CORE_READ\<close>: read the \<open>n\<close> bytes of the member under a path of the object at \<open>p\<close>.\<close>

definition core_read :: "bpf_env \<Rightarrow> u64 \<Rightarrow> string list \<Rightarrow> nat \<Rightarrow> bytes" where
  "core_read env p path n = probe_read_kernel env (Kernel (p + of_nat (core_off env path))) n"

text \<open>\<open>mem_bytes mem a n\<close>: the \<open>n\<close> bytes of memory from \<open>a\<close> on.\<close>

definition mem_bytes :: "(u64 \<Rightarrow> u8) \<Rightarrow> u64 \<Rightarrow> nat \<Rightarrow> bytes" where
  "mem_bytes mem a n = map (\<lambda>i. mem (a + of_nat i)) [0..<n]"

lemma length_mem_bytes [simp]: "length (mem_bytes mem a n) = n"
  by (simp add: mem_bytes_def)

locale kernel_memory =
  fixes env :: bpf_env and mem :: "u64 \<Rightarrow> u8"
  assumes read_kernel: "probe_read_kernel env (Kernel a) n = mem_bytes mem a n"
    and read_stack: "length bs = n \<Longrightarrow> probe_read_kernel env (Stack bs) n = bs"
    and reserve_ok: "ringbuf_reserve env = Some ev \<Longrightarrow> event_ok ev"

locale relocated = kernel_memory +
  fixes ktype :: ctype
  assumes ktype_wf: "wf_ctype ktype"
    and core_off: "offsetof ktype path = Some (o1, t1) \<Longrightarrow> core_off env path = o1"
begin

text \<open>A relocated read returns the member's bytes, and these belong to the object.\<close>

lemma core_read_member:
  "offsetof ktype path = Some (o1, t1) \<Longrightarrow>
     core_read env p path n = mem_bytes mem (p + of_nat o1) n"
  by (simp add: core_read_def read_kernel core_off)

lemma core_read_inside:
  "offsetof ktype path = Some (o1, t1) \<Longrightarrow> core_off env path + sizeof t1 \<le> sizeof ktype"
  using offsetof_inside [OF _ ktype_wf] core_off by simp

end

text \<open>
  \<open>member_bytes mem t p path\<close>: the bytes of a member of the object of type \<open>t\<close> at address
  \<open>p\<close>. \<open>has_members t ms\<close>: the type has the members a program reads, with the sizes the
  program was compiled for.
\<close>

definition member_bytes :: "(u64 \<Rightarrow> u8) \<Rightarrow> ctype \<Rightarrow> u64 \<Rightarrow> string list \<Rightarrow> bytes" where
  "member_bytes mem t p path =
     (case offsetof t path of
        Some (o1, t1) \<Rightarrow> mem_bytes mem (p + of_nat o1) (sizeof t1)
      | None \<Rightarrow> [])"

definition has_members :: "ctype \<Rightarrow> (string list \<times> nat) list \<Rightarrow> bool" where
  "has_members t ms \<longleftrightarrow>
     list_all (\<lambda>(path, n). case offsetof t path of
                              Some (o1, t1) \<Rightarrow> sizeof t1 = n | None \<Rightarrow> False) ms"

lemma has_members_offsetof:
  assumes "has_members t ms" and "(path, n) \<in> set ms"
  shows "\<exists>o1 t1. offsetof t path = Some (o1, t1) \<and> sizeof t1 = n"
  using assms by (fastforce simp: has_members_def list_all_iff split: option.splits)

context relocated
begin

lemma core_read_member_bytes:
  assumes "has_members ktype ms" and "(path, n) \<in> set ms"
  shows "core_read env p path n = member_bytes mem ktype p path"
    and "length (member_bytes mem ktype p path) = n"
  using has_members_offsetof [OF assms]
  by (auto simp: core_read_member member_bytes_def)

end

text \<open>
  The environment in which every helper does what is documented, over a given memory and a
  given type of the running kernel. It satisfies both locales.
\<close>

fun read_mem :: "(u64 \<Rightarrow> u8) \<Rightarrow> read_src \<Rightarrow> nat \<Rightarrow> bytes" where
  "read_mem mem (Kernel a) n = mem_bytes mem a n"
| "read_mem mem (Stack bs) n = take n bs"

text \<open>A reservation of \<^verbatim>\<open>sizeof(*ev)\<close> bytes: whatever it holds, the arrays have 16 bytes.\<close>

definition fit_event :: "event \<Rightarrow> event" where
  "fit_event ev = ev\<lparr>ev_local_addr := take 16 (ev_local_addr ev @ replicate 16 0),
     ev_remote_addr := take 16 (ev_remote_addr ev @ replicate 16 0)\<rparr>"

definition kernel_env ::
    "(u64 \<Rightarrow> u8) \<Rightarrow> ctype \<Rightarrow> u64 \<Rightarrow> u64 \<Rightarrow> event option \<Rightarrow> bool \<Rightarrow> bpf_env" where
  "kernel_env mem t now pid_tgid res upd =
     \<lparr>ktime_get_ns = now, get_current_pid_tgid = pid_tgid, ringbuf_reserve = map_option fit_event res,
      probe_read_kernel = read_mem mem,
      core_off = (\<lambda>path. case offsetof t path of Some (o1, _) \<Rightarrow> o1 | None \<Rightarrow> 0),
      map_update_elem_ok = upd\<rparr>"

lemma kernel_env_relocated:
  assumes "wf_ctype t"
  shows "relocated (kernel_env mem t now pt res upd) mem t"
  using assms by unfold_locales (auto simp: kernel_env_def fit_event_def event_ok_def)

end
