(* ===== verification/Vmlinux_Amd64.thy ===== *)
theory Vmlinux_Amd64
  imports C_Types
begin

text \<open>
  The kernel types of \<^verbatim>\<open>src/procinfo/bpf/headers/vmlinux_amd64.h\<close>, the header the kprobe
  program is compiled against on amd64, in the same order and with the same conventions as
  the arm64 header's theory. It was taken from another kernel version, so most structures
  differ; the theories of the programs show that the members the programs read do not.
\<close>

section \<open>Enumerations\<close>

definition enum_tcp_states_amd64 :: "(string \<times> int) list" where
  "enum_tcp_states_amd64 =
    [(''TCP_ESTABLISHED'', 1),
     (''TCP_SYN_SENT'', 2),
     (''TCP_SYN_RECV'', 3),
     (''TCP_FIN_WAIT1'', 4),
     (''TCP_FIN_WAIT2'', 5),
     (''TCP_TIME_WAIT'', 6),
     (''TCP_CLOSE'', 7),
     (''TCP_CLOSE_WAIT'', 8),
     (''TCP_LAST_ACK'', 9),
     (''TCP_LISTEN'', 10),
     (''TCP_CLOSING'', 11),
     (''TCP_NEW_SYN_RECV'', 12),
     (''TCP_BOUND_INACTIVE'', 13),
     (''TCP_MAX_STATES'', 14)]"

definition enum_ipproto_amd64 :: "(string \<times> int) list" where
  "enum_ipproto_amd64 =
    [(''IPPROTO_IP'', 0),
     (''IPPROTO_ICMP'', 1),
     (''IPPROTO_IGMP'', 2),
     (''IPPROTO_IPIP'', 4),
     (''IPPROTO_TCP'', 6),
     (''IPPROTO_EGP'', 8),
     (''IPPROTO_PUP'', 12),
     (''IPPROTO_UDP'', 17),
     (''IPPROTO_IDP'', 22),
     (''IPPROTO_TP'', 29),
     (''IPPROTO_DCCP'', 33),
     (''IPPROTO_IPV6'', 41),
     (''IPPROTO_RSVP'', 46),
     (''IPPROTO_GRE'', 47),
     (''IPPROTO_ESP'', 50),
     (''IPPROTO_AH'', 51),
     (''IPPROTO_MTP'', 92),
     (''IPPROTO_BEETPH'', 94),
     (''IPPROTO_ENCAP'', 98),
     (''IPPROTO_PIM'', 103),
     (''IPPROTO_COMP'', 108),
     (''IPPROTO_L2TP'', 115),
     (''IPPROTO_SCTP'', 132),
     (''IPPROTO_UDPLITE'', 136),
     (''IPPROTO_MPLS'', 137),
     (''IPPROTO_ETHERNET'', 143),
     (''IPPROTO_RAW'', 255),
     (''IPPROTO_MPTCP'', 262),
     (''IPPROTO_MAX'', 263)]"

definition enum_bpf_update_flags_amd64 :: "(string \<times> int) list" where
  "enum_bpf_update_flags_amd64 =
    [(''BPF_ANY'', 0),
     (''BPF_NOEXIST'', 1),
     (''BPF_EXIST'', 2),
     (''BPF_F_LOCK'', 4)]"

definition enum_bpf_map_type_amd64 :: "(string \<times> int) list" where
  "enum_bpf_map_type_amd64 =
    [(''BPF_MAP_TYPE_UNSPEC'', 0),
     (''BPF_MAP_TYPE_HASH'', 1),
     (''BPF_MAP_TYPE_ARRAY'', 2),
     (''BPF_MAP_TYPE_PROG_ARRAY'', 3),
     (''BPF_MAP_TYPE_PERF_EVENT_ARRAY'', 4),
     (''BPF_MAP_TYPE_PERCPU_HASH'', 5),
     (''BPF_MAP_TYPE_PERCPU_ARRAY'', 6),
     (''BPF_MAP_TYPE_STACK_TRACE'', 7),
     (''BPF_MAP_TYPE_CGROUP_ARRAY'', 8),
     (''BPF_MAP_TYPE_LRU_HASH'', 9),
     (''BPF_MAP_TYPE_LRU_PERCPU_HASH'', 10),
     (''BPF_MAP_TYPE_LPM_TRIE'', 11),
     (''BPF_MAP_TYPE_ARRAY_OF_MAPS'', 12),
     (''BPF_MAP_TYPE_HASH_OF_MAPS'', 13),
     (''BPF_MAP_TYPE_DEVMAP'', 14),
     (''BPF_MAP_TYPE_SOCKMAP'', 15),
     (''BPF_MAP_TYPE_CPUMAP'', 16),
     (''BPF_MAP_TYPE_XSKMAP'', 17),
     (''BPF_MAP_TYPE_SOCKHASH'', 18),
     (''BPF_MAP_TYPE_CGROUP_STORAGE_DEPRECATED'', 19),
     (''BPF_MAP_TYPE_CGROUP_STORAGE'', 19),
     (''BPF_MAP_TYPE_REUSEPORT_SOCKARRAY'', 20),
     (''BPF_MAP_TYPE_PERCPU_CGROUP_STORAGE_DEPRECATED'', 21),
     (''BPF_MAP_TYPE_PERCPU_CGROUP_STORAGE'', 21),
     (''BPF_MAP_TYPE_QUEUE'', 22),
     (''BPF_MAP_TYPE_STACK'', 23),
     (''BPF_MAP_TYPE_SK_STORAGE'', 24),
     (''BPF_MAP_TYPE_DEVMAP_HASH'', 25),
     (''BPF_MAP_TYPE_STRUCT_OPS'', 26),
     (''BPF_MAP_TYPE_RINGBUF'', 27),
     (''BPF_MAP_TYPE_INODE_STORAGE'', 28),
     (''BPF_MAP_TYPE_TASK_STORAGE'', 29),
     (''BPF_MAP_TYPE_BLOOM_FILTER'', 30),
     (''BPF_MAP_TYPE_USER_RINGBUF'', 31),
     (''BPF_MAP_TYPE_CGRP_STORAGE'', 32)]"

definition enum_bpf_func_id_amd64 :: "(string \<times> int) list" where
  "enum_bpf_func_id_amd64 =
    [(''BPF_FUNC_unspec'', 0),
     (''BPF_FUNC_map_lookup_elem'', 1),
     (''BPF_FUNC_map_update_elem'', 2),
     (''BPF_FUNC_map_delete_elem'', 3),
     (''BPF_FUNC_probe_read'', 4),
     (''BPF_FUNC_ktime_get_ns'', 5),
     (''BPF_FUNC_trace_printk'', 6),
     (''BPF_FUNC_get_prandom_u32'', 7),
     (''BPF_FUNC_get_smp_processor_id'', 8),
     (''BPF_FUNC_skb_store_bytes'', 9),
     (''BPF_FUNC_l3_csum_replace'', 10),
     (''BPF_FUNC_l4_csum_replace'', 11),
     (''BPF_FUNC_tail_call'', 12),
     (''BPF_FUNC_clone_redirect'', 13),
     (''BPF_FUNC_get_current_pid_tgid'', 14),
     (''BPF_FUNC_get_current_uid_gid'', 15),
     (''BPF_FUNC_get_current_comm'', 16),
     (''BPF_FUNC_get_cgroup_classid'', 17),
     (''BPF_FUNC_skb_vlan_push'', 18),
     (''BPF_FUNC_skb_vlan_pop'', 19),
     (''BPF_FUNC_skb_get_tunnel_key'', 20),
     (''BPF_FUNC_skb_set_tunnel_key'', 21),
     (''BPF_FUNC_perf_event_read'', 22),
     (''BPF_FUNC_redirect'', 23),
     (''BPF_FUNC_get_route_realm'', 24),
     (''BPF_FUNC_perf_event_output'', 25),
     (''BPF_FUNC_skb_load_bytes'', 26),
     (''BPF_FUNC_get_stackid'', 27),
     (''BPF_FUNC_csum_diff'', 28),
     (''BPF_FUNC_skb_get_tunnel_opt'', 29),
     (''BPF_FUNC_skb_set_tunnel_opt'', 30),
     (''BPF_FUNC_skb_change_proto'', 31),
     (''BPF_FUNC_skb_change_type'', 32),
     (''BPF_FUNC_skb_under_cgroup'', 33),
     (''BPF_FUNC_get_hash_recalc'', 34),
     (''BPF_FUNC_get_current_task'', 35),
     (''BPF_FUNC_probe_write_user'', 36),
     (''BPF_FUNC_current_task_under_cgroup'', 37),
     (''BPF_FUNC_skb_change_tail'', 38),
     (''BPF_FUNC_skb_pull_data'', 39),
     (''BPF_FUNC_csum_update'', 40),
     (''BPF_FUNC_set_hash_invalid'', 41),
     (''BPF_FUNC_get_numa_node_id'', 42),
     (''BPF_FUNC_skb_change_head'', 43),
     (''BPF_FUNC_xdp_adjust_head'', 44),
     (''BPF_FUNC_probe_read_str'', 45),
     (''BPF_FUNC_get_socket_cookie'', 46),
     (''BPF_FUNC_get_socket_uid'', 47),
     (''BPF_FUNC_set_hash'', 48),
     (''BPF_FUNC_setsockopt'', 49),
     (''BPF_FUNC_skb_adjust_room'', 50),
     (''BPF_FUNC_redirect_map'', 51),
     (''BPF_FUNC_sk_redirect_map'', 52),
     (''BPF_FUNC_sock_map_update'', 53),
     (''BPF_FUNC_xdp_adjust_meta'', 54),
     (''BPF_FUNC_perf_event_read_value'', 55),
     (''BPF_FUNC_perf_prog_read_value'', 56),
     (''BPF_FUNC_getsockopt'', 57),
     (''BPF_FUNC_override_return'', 58),
     (''BPF_FUNC_sock_ops_cb_flags_set'', 59),
     (''BPF_FUNC_msg_redirect_map'', 60),
     (''BPF_FUNC_msg_apply_bytes'', 61),
     (''BPF_FUNC_msg_cork_bytes'', 62),
     (''BPF_FUNC_msg_pull_data'', 63),
     (''BPF_FUNC_bind'', 64),
     (''BPF_FUNC_xdp_adjust_tail'', 65),
     (''BPF_FUNC_skb_get_xfrm_state'', 66),
     (''BPF_FUNC_get_stack'', 67),
     (''BPF_FUNC_skb_load_bytes_relative'', 68),
     (''BPF_FUNC_fib_lookup'', 69),
     (''BPF_FUNC_sock_hash_update'', 70),
     (''BPF_FUNC_msg_redirect_hash'', 71),
     (''BPF_FUNC_sk_redirect_hash'', 72),
     (''BPF_FUNC_lwt_push_encap'', 73),
     (''BPF_FUNC_lwt_seg6_store_bytes'', 74),
     (''BPF_FUNC_lwt_seg6_adjust_srh'', 75),
     (''BPF_FUNC_lwt_seg6_action'', 76),
     (''BPF_FUNC_rc_repeat'', 77),
     (''BPF_FUNC_rc_keydown'', 78),
     (''BPF_FUNC_skb_cgroup_id'', 79),
     (''BPF_FUNC_get_current_cgroup_id'', 80),
     (''BPF_FUNC_get_local_storage'', 81),
     (''BPF_FUNC_sk_select_reuseport'', 82),
     (''BPF_FUNC_skb_ancestor_cgroup_id'', 83),
     (''BPF_FUNC_sk_lookup_tcp'', 84),
     (''BPF_FUNC_sk_lookup_udp'', 85),
     (''BPF_FUNC_sk_release'', 86),
     (''BPF_FUNC_map_push_elem'', 87),
     (''BPF_FUNC_map_pop_elem'', 88),
     (''BPF_FUNC_map_peek_elem'', 89),
     (''BPF_FUNC_msg_push_data'', 90),
     (''BPF_FUNC_msg_pop_data'', 91),
     (''BPF_FUNC_rc_pointer_rel'', 92),
     (''BPF_FUNC_spin_lock'', 93),
     (''BPF_FUNC_spin_unlock'', 94),
     (''BPF_FUNC_sk_fullsock'', 95),
     (''BPF_FUNC_tcp_sock'', 96),
     (''BPF_FUNC_skb_ecn_set_ce'', 97),
     (''BPF_FUNC_get_listener_sock'', 98),
     (''BPF_FUNC_skc_lookup_tcp'', 99),
     (''BPF_FUNC_tcp_check_syncookie'', 100),
     (''BPF_FUNC_sysctl_get_name'', 101),
     (''BPF_FUNC_sysctl_get_current_value'', 102),
     (''BPF_FUNC_sysctl_get_new_value'', 103),
     (''BPF_FUNC_sysctl_set_new_value'', 104),
     (''BPF_FUNC_strtol'', 105),
     (''BPF_FUNC_strtoul'', 106),
     (''BPF_FUNC_sk_storage_get'', 107),
     (''BPF_FUNC_sk_storage_delete'', 108),
     (''BPF_FUNC_send_signal'', 109),
     (''BPF_FUNC_tcp_gen_syncookie'', 110),
     (''BPF_FUNC_skb_output'', 111),
     (''BPF_FUNC_probe_read_user'', 112),
     (''BPF_FUNC_probe_read_kernel'', 113),
     (''BPF_FUNC_probe_read_user_str'', 114),
     (''BPF_FUNC_probe_read_kernel_str'', 115),
     (''BPF_FUNC_tcp_send_ack'', 116),
     (''BPF_FUNC_send_signal_thread'', 117),
     (''BPF_FUNC_jiffies64'', 118),
     (''BPF_FUNC_read_branch_records'', 119),
     (''BPF_FUNC_get_ns_current_pid_tgid'', 120),
     (''BPF_FUNC_xdp_output'', 121),
     (''BPF_FUNC_get_netns_cookie'', 122),
     (''BPF_FUNC_get_current_ancestor_cgroup_id'', 123),
     (''BPF_FUNC_sk_assign'', 124),
     (''BPF_FUNC_ktime_get_boot_ns'', 125),
     (''BPF_FUNC_seq_printf'', 126),
     (''BPF_FUNC_seq_write'', 127),
     (''BPF_FUNC_sk_cgroup_id'', 128),
     (''BPF_FUNC_sk_ancestor_cgroup_id'', 129),
     (''BPF_FUNC_ringbuf_output'', 130),
     (''BPF_FUNC_ringbuf_reserve'', 131),
     (''BPF_FUNC_ringbuf_submit'', 132),
     (''BPF_FUNC_ringbuf_discard'', 133),
     (''BPF_FUNC_ringbuf_query'', 134),
     (''BPF_FUNC_csum_level'', 135),
     (''BPF_FUNC_skc_to_tcp6_sock'', 136),
     (''BPF_FUNC_skc_to_tcp_sock'', 137),
     (''BPF_FUNC_skc_to_tcp_timewait_sock'', 138),
     (''BPF_FUNC_skc_to_tcp_request_sock'', 139),
     (''BPF_FUNC_skc_to_udp6_sock'', 140),
     (''BPF_FUNC_get_task_stack'', 141),
     (''BPF_FUNC_load_hdr_opt'', 142),
     (''BPF_FUNC_store_hdr_opt'', 143),
     (''BPF_FUNC_reserve_hdr_opt'', 144),
     (''BPF_FUNC_inode_storage_get'', 145),
     (''BPF_FUNC_inode_storage_delete'', 146),
     (''BPF_FUNC_d_path'', 147),
     (''BPF_FUNC_copy_from_user'', 148),
     (''BPF_FUNC_snprintf_btf'', 149),
     (''BPF_FUNC_seq_printf_btf'', 150),
     (''BPF_FUNC_skb_cgroup_classid'', 151),
     (''BPF_FUNC_redirect_neigh'', 152),
     (''BPF_FUNC_per_cpu_ptr'', 153),
     (''BPF_FUNC_this_cpu_ptr'', 154),
     (''BPF_FUNC_redirect_peer'', 155),
     (''BPF_FUNC_task_storage_get'', 156),
     (''BPF_FUNC_task_storage_delete'', 157),
     (''BPF_FUNC_get_current_task_btf'', 158),
     (''BPF_FUNC_bprm_opts_set'', 159),
     (''BPF_FUNC_ktime_get_coarse_ns'', 160),
     (''BPF_FUNC_ima_inode_hash'', 161),
     (''BPF_FUNC_sock_from_file'', 162),
     (''BPF_FUNC_check_mtu'', 163),
     (''BPF_FUNC_for_each_map_elem'', 164),
     (''BPF_FUNC_snprintf'', 165),
     (''BPF_FUNC_sys_bpf'', 166),
     (''BPF_FUNC_btf_find_by_name_kind'', 167),
     (''BPF_FUNC_sys_close'', 168),
     (''BPF_FUNC_timer_init'', 169),
     (''BPF_FUNC_timer_set_callback'', 170),
     (''BPF_FUNC_timer_start'', 171),
     (''BPF_FUNC_timer_cancel'', 172),
     (''BPF_FUNC_get_func_ip'', 173),
     (''BPF_FUNC_get_attach_cookie'', 174),
     (''BPF_FUNC_task_pt_regs'', 175),
     (''BPF_FUNC_get_branch_snapshot'', 176),
     (''BPF_FUNC_trace_vprintk'', 177),
     (''BPF_FUNC_skc_to_unix_sock'', 178),
     (''BPF_FUNC_kallsyms_lookup_name'', 179),
     (''BPF_FUNC_find_vma'', 180),
     (''BPF_FUNC_loop'', 181),
     (''BPF_FUNC_strncmp'', 182),
     (''BPF_FUNC_get_func_arg'', 183),
     (''BPF_FUNC_get_func_ret'', 184),
     (''BPF_FUNC_get_func_arg_cnt'', 185),
     (''BPF_FUNC_get_retval'', 186),
     (''BPF_FUNC_set_retval'', 187),
     (''BPF_FUNC_xdp_get_buff_len'', 188),
     (''BPF_FUNC_xdp_load_bytes'', 189),
     (''BPF_FUNC_xdp_store_bytes'', 190),
     (''BPF_FUNC_copy_from_user_task'', 191),
     (''BPF_FUNC_skb_set_tstamp'', 192),
     (''BPF_FUNC_ima_file_hash'', 193),
     (''BPF_FUNC_kptr_xchg'', 194),
     (''BPF_FUNC_map_lookup_percpu_elem'', 195),
     (''BPF_FUNC_skc_to_mptcp_sock'', 196),
     (''BPF_FUNC_dynptr_from_mem'', 197),
     (''BPF_FUNC_ringbuf_reserve_dynptr'', 198),
     (''BPF_FUNC_ringbuf_submit_dynptr'', 199),
     (''BPF_FUNC_ringbuf_discard_dynptr'', 200),
     (''BPF_FUNC_dynptr_read'', 201),
     (''BPF_FUNC_dynptr_write'', 202),
     (''BPF_FUNC_dynptr_data'', 203),
     (''BPF_FUNC_tcp_raw_gen_syncookie_ipv4'', 204),
     (''BPF_FUNC_tcp_raw_gen_syncookie_ipv6'', 205),
     (''BPF_FUNC_tcp_raw_check_syncookie_ipv4'', 206),
     (''BPF_FUNC_tcp_raw_check_syncookie_ipv6'', 207),
     (''BPF_FUNC_ktime_get_tai_ns'', 208),
     (''BPF_FUNC_user_ringbuf_drain'', 209),
     (''BPF_FUNC_cgrp_storage_get'', 210),
     (''BPF_FUNC_cgrp_storage_delete'', 211),
     (''__BPF_FUNC_MAX_ID'', 212)]"

section \<open>The socket a connect hook is given: \<open>struct sock_common\<close>\<close>

definition typedef___u64_amd64 :: ctype where
  "typedef___u64_amd64 =
   CInt False 8"

lemma layout_typedef___u64_amd64 [layout]:
  "sizeof typedef___u64_amd64 = 8" "alignof typedef___u64_amd64 = 8"
  "wf_ctype typedef___u64_amd64" "unpacked typedef___u64_amd64"
  by (simp_all add: typedef___u64_amd64_def layout)

definition typedef___addrpair_amd64 :: ctype where
  "typedef___addrpair_amd64 =
   typedef___u64_amd64"

lemma layout_typedef___addrpair_amd64 [layout]:
  "sizeof typedef___addrpair_amd64 = 8" "alignof typedef___addrpair_amd64 = 8"
  "wf_ctype typedef___addrpair_amd64" "unpacked typedef___addrpair_amd64"
  by (simp_all add: typedef___addrpair_amd64_def layout)

definition typedef___u32_amd64 :: ctype where
  "typedef___u32_amd64 =
   CInt False 4"

lemma layout_typedef___u32_amd64 [layout]:
  "sizeof typedef___u32_amd64 = 4" "alignof typedef___u32_amd64 = 4"
  "wf_ctype typedef___u32_amd64" "unpacked typedef___u32_amd64"
  by (simp_all add: typedef___u32_amd64_def layout)

definition typedef___be32_amd64 :: ctype where
  "typedef___be32_amd64 =
   typedef___u32_amd64"

lemma layout_typedef___be32_amd64 [layout]:
  "sizeof typedef___be32_amd64 = 4" "alignof typedef___be32_amd64 = 4"
  "wf_ctype typedef___be32_amd64" "unpacked typedef___be32_amd64"
  by (simp_all add: typedef___be32_amd64_def layout)

definition typedef___u16_amd64 :: ctype where
  "typedef___u16_amd64 =
   CInt False 2"

lemma layout_typedef___u16_amd64 [layout]:
  "sizeof typedef___u16_amd64 = 2" "alignof typedef___u16_amd64 = 2"
  "wf_ctype typedef___u16_amd64" "unpacked typedef___u16_amd64"
  by (simp_all add: typedef___u16_amd64_def layout)

definition typedef___portpair_amd64 :: ctype where
  "typedef___portpair_amd64 =
   typedef___u32_amd64"

lemma layout_typedef___portpair_amd64 [layout]:
  "sizeof typedef___portpair_amd64 = 4" "alignof typedef___portpair_amd64 = 4"
  "wf_ctype typedef___portpair_amd64" "unpacked typedef___portpair_amd64"
  by (simp_all add: typedef___portpair_amd64_def layout)

definition typedef___be16_amd64 :: ctype where
  "typedef___be16_amd64 =
   typedef___u16_amd64"

lemma layout_typedef___be16_amd64 [layout]:
  "sizeof typedef___be16_amd64 = 2" "alignof typedef___be16_amd64 = 2"
  "wf_ctype typedef___be16_amd64" "unpacked typedef___be16_amd64"
  by (simp_all add: typedef___be16_amd64_def layout)

definition struct_hlist_node_amd64 :: ctype where
  "struct_hlist_node_amd64 =
   CStruct
    [Fld ''next'' CPtr,
     Fld ''pprev'' CPtr]"

lemma layout_struct_hlist_node_amd64 [layout]:
  "sizeof struct_hlist_node_amd64 = 16" "alignof struct_hlist_node_amd64 = 8"
  "wf_ctype struct_hlist_node_amd64" "unpacked struct_hlist_node_amd64"
  by (simp_all add: struct_hlist_node_amd64_def layout)

definition typedef_possible_net_t_amd64 :: ctype where
  "typedef_possible_net_t_amd64 =
   CStruct
    [Fld ''net'' CPtr]"

lemma layout_typedef_possible_net_t_amd64 [layout]:
  "sizeof typedef_possible_net_t_amd64 = 8" "alignof typedef_possible_net_t_amd64 = 8"
  "wf_ctype typedef_possible_net_t_amd64" "unpacked typedef_possible_net_t_amd64"
  by (simp_all add: typedef_possible_net_t_amd64_def layout)

definition typedef___u8_amd64 :: ctype where
  "typedef___u8_amd64 =
   CInt False 1"

lemma layout_typedef___u8_amd64 [layout]:
  "sizeof typedef___u8_amd64 = 1" "alignof typedef___u8_amd64 = 1"
  "wf_ctype typedef___u8_amd64" "unpacked typedef___u8_amd64"
  by (simp_all add: typedef___u8_amd64_def layout)

definition struct_in6_addr_amd64 :: ctype where
  "struct_in6_addr_amd64 =
   CStruct
    [Fld ''in6_u'' (CUnion
       [Fld ''u6_addr8'' (CArr typedef___u8_amd64 16),
        Fld ''u6_addr16'' (CArr typedef___be16_amd64 8),
        Fld ''u6_addr32'' (CArr typedef___be32_amd64 4)])]"

lemma layout_struct_in6_addr_amd64 [layout]:
  "sizeof struct_in6_addr_amd64 = 16" "alignof struct_in6_addr_amd64 = 4"
  "wf_ctype struct_in6_addr_amd64" "unpacked struct_in6_addr_amd64"
  by (simp_all add: struct_in6_addr_amd64_def layout)

definition typedef___s64_amd64 :: ctype where
  "typedef___s64_amd64 =
   CInt True 8"

lemma layout_typedef___s64_amd64 [layout]:
  "sizeof typedef___s64_amd64 = 8" "alignof typedef___s64_amd64 = 8"
  "wf_ctype typedef___s64_amd64" "unpacked typedef___s64_amd64"
  by (simp_all add: typedef___s64_amd64_def layout)

definition typedef_s64_amd64 :: ctype where
  "typedef_s64_amd64 =
   typedef___s64_amd64"

lemma layout_typedef_s64_amd64 [layout]:
  "sizeof typedef_s64_amd64 = 8" "alignof typedef_s64_amd64 = 8"
  "wf_ctype typedef_s64_amd64" "unpacked typedef_s64_amd64"
  by (simp_all add: typedef_s64_amd64_def layout)

definition typedef_atomic64_t_amd64 :: ctype where
  "typedef_atomic64_t_amd64 =
   CStruct
    [Fld ''counter'' typedef_s64_amd64]"

lemma layout_typedef_atomic64_t_amd64 [layout]:
  "sizeof typedef_atomic64_t_amd64 = 8" "alignof typedef_atomic64_t_amd64 = 8"
  "wf_ctype typedef_atomic64_t_amd64" "unpacked typedef_atomic64_t_amd64"
  by (simp_all add: typedef_atomic64_t_amd64_def layout)

definition struct_hlist_nulls_node_amd64 :: ctype where
  "struct_hlist_nulls_node_amd64 =
   CStruct
    [Fld ''next'' CPtr,
     Fld ''pprev'' CPtr]"

lemma layout_struct_hlist_nulls_node_amd64 [layout]:
  "sizeof struct_hlist_nulls_node_amd64 = 16" "alignof struct_hlist_nulls_node_amd64 = 8"
  "wf_ctype struct_hlist_nulls_node_amd64" "unpacked struct_hlist_nulls_node_amd64"
  by (simp_all add: struct_hlist_nulls_node_amd64_def layout)

definition typedef_u32_amd64 :: ctype where
  "typedef_u32_amd64 =
   typedef___u32_amd64"

lemma layout_typedef_u32_amd64 [layout]:
  "sizeof typedef_u32_amd64 = 4" "alignof typedef_u32_amd64 = 4"
  "wf_ctype typedef_u32_amd64" "unpacked typedef_u32_amd64"
  by (simp_all add: typedef_u32_amd64_def layout)

definition typedef_atomic_t_amd64 :: ctype where
  "typedef_atomic_t_amd64 =
   CStruct
    [Fld ''counter'' (CInt True 4)]"

lemma layout_typedef_atomic_t_amd64 [layout]:
  "sizeof typedef_atomic_t_amd64 = 4" "alignof typedef_atomic_t_amd64 = 4"
  "wf_ctype typedef_atomic_t_amd64" "unpacked typedef_atomic_t_amd64"
  by (simp_all add: typedef_atomic_t_amd64_def layout)

definition struct_refcount_struct_amd64 :: ctype where
  "struct_refcount_struct_amd64 =
   CStruct
    [Fld ''refs'' typedef_atomic_t_amd64]"

lemma layout_struct_refcount_struct_amd64 [layout]:
  "sizeof struct_refcount_struct_amd64 = 4" "alignof struct_refcount_struct_amd64 = 4"
  "wf_ctype struct_refcount_struct_amd64" "unpacked struct_refcount_struct_amd64"
  by (simp_all add: struct_refcount_struct_amd64_def layout)

definition typedef_refcount_t_amd64 :: ctype where
  "typedef_refcount_t_amd64 =
   struct_refcount_struct_amd64"

lemma layout_typedef_refcount_t_amd64 [layout]:
  "sizeof typedef_refcount_t_amd64 = 4" "alignof typedef_refcount_t_amd64 = 4"
  "wf_ctype typedef_refcount_t_amd64" "unpacked typedef_refcount_t_amd64"
  by (simp_all add: typedef_refcount_t_amd64_def layout)

definition struct_sock_common_amd64 :: ctype where
  "struct_sock_common_amd64 =
   CStruct
    [Anon (CUnion
       [Fld ''skc_addrpair'' typedef___addrpair_amd64,
        Anon (CStruct
          [Fld ''skc_daddr'' typedef___be32_amd64,
           Fld ''skc_rcv_saddr'' typedef___be32_amd64])]),
     Anon (CUnion
       [Fld ''skc_hash'' (CInt False 4),
        Fld ''skc_u16hashes'' (CArr typedef___u16_amd64 2)]),
     Anon (CUnion
       [Fld ''skc_portpair'' typedef___portpair_amd64,
        Anon (CStruct
          [Fld ''skc_dport'' typedef___be16_amd64,
           Fld ''skc_num'' typedef___u16_amd64])]),
     Fld ''skc_family'' (CInt False 2),
     Fld ''skc_state'' (CInt False 1),
     Bits ''skc_reuse'' 1 4,
     Bits ''skc_reuseport'' 1 1,
     Bits ''skc_ipv6only'' 1 1,
     Bits ''skc_net_refcnt'' 1 1,
     Fld ''skc_bound_dev_if'' (CInt True 4),
     Anon (CUnion
       [Fld ''skc_bind_node'' struct_hlist_node_amd64,
        Fld ''skc_portaddr_node'' struct_hlist_node_amd64]),
     Fld ''skc_prot'' CPtr,
     Fld ''skc_net'' typedef_possible_net_t_amd64,
     Fld ''skc_v6_daddr'' struct_in6_addr_amd64,
     Fld ''skc_v6_rcv_saddr'' struct_in6_addr_amd64,
     Fld ''skc_cookie'' typedef_atomic64_t_amd64,
     Anon (CUnion
       [Fld ''skc_flags'' (CInt False 8),
        Fld ''skc_listener'' CPtr,
        Fld ''skc_tw_dr'' CPtr]),
     Fld ''skc_dontcopy_begin'' (CArr (CInt True 4) 0),
     Anon (CUnion
       [Fld ''skc_node'' struct_hlist_node_amd64,
        Fld ''skc_nulls_node'' struct_hlist_nulls_node_amd64]),
     Fld ''skc_tx_queue_mapping'' (CInt False 2),
     Fld ''skc_rx_queue_mapping'' (CInt False 2),
     Anon (CUnion
       [Fld ''skc_incoming_cpu'' (CInt True 4),
        Fld ''skc_rcv_wnd'' typedef_u32_amd64,
        Fld ''skc_tw_rcv_nxt'' typedef_u32_amd64]),
     Fld ''skc_refcnt'' typedef_refcount_t_amd64,
     Fld ''skc_dontcopy_end'' (CArr (CInt True 4) 0),
     Anon (CUnion
       [Fld ''skc_rxhash'' typedef_u32_amd64,
        Fld ''skc_window_clamp'' typedef_u32_amd64,
        Fld ''skc_tw_snd_nxt'' typedef_u32_amd64])]"

lemma layout_struct_sock_common_amd64 [layout]:
  "sizeof struct_sock_common_amd64 = 136" "alignof struct_sock_common_amd64 = 8"
  "wf_ctype struct_sock_common_amd64" "unpacked struct_sock_common_amd64"
  by (simp_all add: struct_sock_common_amd64_def layout)

section \<open>The whole socket: \<open>struct sock\<close>\<close>

definition typedef_u8_amd64 :: ctype where
  "typedef_u8_amd64 =
   typedef___u8_amd64"

lemma layout_typedef_u8_amd64 [layout]:
  "sizeof typedef_u8_amd64 = 1" "alignof typedef_u8_amd64 = 1"
  "wf_ctype typedef_u8_amd64" "unpacked typedef_u8_amd64"
  by (simp_all add: typedef_u8_amd64_def layout)

definition typedef_u16_amd64 :: ctype where
  "typedef_u16_amd64 =
   typedef___u16_amd64"

lemma layout_typedef_u16_amd64 [layout]:
  "sizeof typedef_u16_amd64 = 2" "alignof typedef_u16_amd64 = 2"
  "wf_ctype typedef_u16_amd64" "unpacked typedef_u16_amd64"
  by (simp_all add: typedef_u16_amd64_def layout)

definition struct_qspinlock_amd64 :: ctype where
  "struct_qspinlock_amd64 =
   CStruct
    [Anon (CUnion
       [Fld ''val'' typedef_atomic_t_amd64,
        Anon (CStruct
          [Fld ''locked'' typedef_u8_amd64,
           Fld ''pending'' typedef_u8_amd64]),
        Anon (CStruct
          [Fld ''locked_pending'' typedef_u16_amd64,
           Fld ''tail'' typedef_u16_amd64])])]"

lemma layout_struct_qspinlock_amd64 [layout]:
  "sizeof struct_qspinlock_amd64 = 4" "alignof struct_qspinlock_amd64 = 4"
  "wf_ctype struct_qspinlock_amd64" "unpacked struct_qspinlock_amd64"
  by (simp_all add: struct_qspinlock_amd64_def layout)

definition typedef_arch_spinlock_t_amd64 :: ctype where
  "typedef_arch_spinlock_t_amd64 =
   struct_qspinlock_amd64"

lemma layout_typedef_arch_spinlock_t_amd64 [layout]:
  "sizeof typedef_arch_spinlock_t_amd64 = 4" "alignof typedef_arch_spinlock_t_amd64 = 4"
  "wf_ctype typedef_arch_spinlock_t_amd64" "unpacked typedef_arch_spinlock_t_amd64"
  by (simp_all add: typedef_arch_spinlock_t_amd64_def layout)

definition struct_raw_spinlock_amd64 :: ctype where
  "struct_raw_spinlock_amd64 =
   CStruct
    [Fld ''raw_lock'' typedef_arch_spinlock_t_amd64]"

lemma layout_struct_raw_spinlock_amd64 [layout]:
  "sizeof struct_raw_spinlock_amd64 = 4" "alignof struct_raw_spinlock_amd64 = 4"
  "wf_ctype struct_raw_spinlock_amd64" "unpacked struct_raw_spinlock_amd64"
  by (simp_all add: struct_raw_spinlock_amd64_def layout)

definition struct_spinlock_amd64 :: ctype where
  "struct_spinlock_amd64 =
   CStruct
    [Anon (CUnion
       [Fld ''rlock'' struct_raw_spinlock_amd64])]"

lemma layout_struct_spinlock_amd64 [layout]:
  "sizeof struct_spinlock_amd64 = 4" "alignof struct_spinlock_amd64 = 4"
  "wf_ctype struct_spinlock_amd64" "unpacked struct_spinlock_amd64"
  by (simp_all add: struct_spinlock_amd64_def layout)

definition typedef_spinlock_t_amd64 :: ctype where
  "typedef_spinlock_t_amd64 =
   struct_spinlock_amd64"

lemma layout_typedef_spinlock_t_amd64 [layout]:
  "sizeof typedef_spinlock_t_amd64 = 4" "alignof typedef_spinlock_t_amd64 = 4"
  "wf_ctype typedef_spinlock_t_amd64" "unpacked typedef_spinlock_t_amd64"
  by (simp_all add: typedef_spinlock_t_amd64_def layout)

definition struct_list_head_amd64 :: ctype where
  "struct_list_head_amd64 =
   CStruct
    [Fld ''next'' CPtr,
     Fld ''prev'' CPtr]"

lemma layout_struct_list_head_amd64 [layout]:
  "sizeof struct_list_head_amd64 = 16" "alignof struct_list_head_amd64 = 8"
  "wf_ctype struct_list_head_amd64" "unpacked struct_list_head_amd64"
  by (simp_all add: struct_list_head_amd64_def layout)

definition struct_wait_queue_head_amd64 :: ctype where
  "struct_wait_queue_head_amd64 =
   CStruct
    [Fld ''lock'' typedef_spinlock_t_amd64,
     Fld ''head'' struct_list_head_amd64]"

lemma layout_struct_wait_queue_head_amd64 [layout]:
  "sizeof struct_wait_queue_head_amd64 = 24" "alignof struct_wait_queue_head_amd64 = 8"
  "wf_ctype struct_wait_queue_head_amd64" "unpacked struct_wait_queue_head_amd64"
  by (simp_all add: struct_wait_queue_head_amd64_def layout)

definition typedef_wait_queue_head_t_amd64 :: ctype where
  "typedef_wait_queue_head_t_amd64 =
   struct_wait_queue_head_amd64"

lemma layout_typedef_wait_queue_head_t_amd64 [layout]:
  "sizeof typedef_wait_queue_head_t_amd64 = 24" "alignof typedef_wait_queue_head_t_amd64 = 8"
  "wf_ctype typedef_wait_queue_head_t_amd64" "unpacked typedef_wait_queue_head_t_amd64"
  by (simp_all add: typedef_wait_queue_head_t_amd64_def layout)

definition typedef_socket_lock_t_amd64 :: ctype where
  "typedef_socket_lock_t_amd64 =
   CStruct
    [Fld ''slock'' typedef_spinlock_t_amd64,
     Fld ''owned'' (CInt True 4),
     Fld ''wq'' typedef_wait_queue_head_t_amd64]"

lemma layout_typedef_socket_lock_t_amd64 [layout]:
  "sizeof typedef_socket_lock_t_amd64 = 32" "alignof typedef_socket_lock_t_amd64 = 8"
  "wf_ctype typedef_socket_lock_t_amd64" "unpacked typedef_socket_lock_t_amd64"
  by (simp_all add: typedef_socket_lock_t_amd64_def layout)

definition struct_sk_buff_list_amd64 :: ctype where
  "struct_sk_buff_list_amd64 =
   CStruct
    [Fld ''next'' CPtr,
     Fld ''prev'' CPtr]"

lemma layout_struct_sk_buff_list_amd64 [layout]:
  "sizeof struct_sk_buff_list_amd64 = 16" "alignof struct_sk_buff_list_amd64 = 8"
  "wf_ctype struct_sk_buff_list_amd64" "unpacked struct_sk_buff_list_amd64"
  by (simp_all add: struct_sk_buff_list_amd64_def layout)

definition struct_sk_buff_head_amd64 :: ctype where
  "struct_sk_buff_head_amd64 =
   CStruct
    [Anon (CUnion
       [Anon (CStruct
          [Fld ''next'' CPtr,
           Fld ''prev'' CPtr]),
        Fld ''list'' struct_sk_buff_list_amd64]),
     Fld ''qlen'' typedef___u32_amd64,
     Fld ''lock'' typedef_spinlock_t_amd64]"

lemma layout_struct_sk_buff_head_amd64 [layout]:
  "sizeof struct_sk_buff_head_amd64 = 24" "alignof struct_sk_buff_head_amd64 = 8"
  "wf_ctype struct_sk_buff_head_amd64" "unpacked struct_sk_buff_head_amd64"
  by (simp_all add: struct_sk_buff_head_amd64_def layout)

definition struct_rb_root_amd64 :: ctype where
  "struct_rb_root_amd64 =
   CStruct
    [Fld ''rb_node'' CPtr]"

lemma layout_struct_rb_root_amd64 [layout]:
  "sizeof struct_rb_root_amd64 = 8" "alignof struct_rb_root_amd64 = 8"
  "wf_ctype struct_rb_root_amd64" "unpacked struct_rb_root_amd64"
  by (simp_all add: struct_rb_root_amd64_def layout)

definition typedef___s32_amd64 :: ctype where
  "typedef___s32_amd64 =
   CInt True 4"

lemma layout_typedef___s32_amd64 [layout]:
  "sizeof typedef___s32_amd64 = 4" "alignof typedef___s32_amd64 = 4"
  "wf_ctype typedef___s32_amd64" "unpacked typedef___s32_amd64"
  by (simp_all add: typedef___s32_amd64_def layout)

definition struct_timer_list_amd64 :: ctype where
  "struct_timer_list_amd64 =
   CStruct
    [Fld ''entry'' struct_hlist_node_amd64,
     Fld ''expires'' (CInt False 8),
     Fld ''function'' CPtr,
     Fld ''flags'' typedef_u32_amd64]"

lemma layout_struct_timer_list_amd64 [layout]:
  "sizeof struct_timer_list_amd64 = 40" "alignof struct_timer_list_amd64 = 8"
  "wf_ctype struct_timer_list_amd64" "unpacked struct_timer_list_amd64"
  by (simp_all add: struct_timer_list_amd64_def layout)

definition struct_page_frag_amd64 :: ctype where
  "struct_page_frag_amd64 =
   CStruct
    [Fld ''page'' CPtr,
     Fld ''offset'' typedef___u32_amd64,
     Fld ''size'' typedef___u32_amd64]"

lemma layout_struct_page_frag_amd64 [layout]:
  "sizeof struct_page_frag_amd64 = 16" "alignof struct_page_frag_amd64 = 8"
  "wf_ctype struct_page_frag_amd64" "unpacked struct_page_frag_amd64"
  by (simp_all add: struct_page_frag_amd64_def layout)

definition typedef_u64_amd64 :: ctype where
  "typedef_u64_amd64 =
   typedef___u64_amd64"

lemma layout_typedef_u64_amd64 [layout]:
  "sizeof typedef_u64_amd64 = 8" "alignof typedef_u64_amd64 = 8"
  "wf_ctype typedef_u64_amd64" "unpacked typedef_u64_amd64"
  by (simp_all add: typedef_u64_amd64_def layout)

definition typedef_netdev_features_t_amd64 :: ctype where
  "typedef_netdev_features_t_amd64 =
   typedef_u64_amd64"

lemma layout_typedef_netdev_features_t_amd64 [layout]:
  "sizeof typedef_netdev_features_t_amd64 = 8" "alignof typedef_netdev_features_t_amd64 = 8"
  "wf_ctype typedef_netdev_features_t_amd64" "unpacked typedef_netdev_features_t_amd64"
  by (simp_all add: typedef_netdev_features_t_amd64_def layout)

definition typedef_gfp_t_amd64 :: ctype where
  "typedef_gfp_t_amd64 =
   CInt False 4"

lemma layout_typedef_gfp_t_amd64 [layout]:
  "sizeof typedef_gfp_t_amd64 = 4" "alignof typedef_gfp_t_amd64 = 4"
  "wf_ctype typedef_gfp_t_amd64" "unpacked typedef_gfp_t_amd64"
  by (simp_all add: typedef_gfp_t_amd64_def layout)

definition struct_qrwlock_amd64 :: ctype where
  "struct_qrwlock_amd64 =
   CStruct
    [Anon (CUnion
       [Fld ''cnts'' typedef_atomic_t_amd64,
        Anon (CStruct
          [Fld ''wlocked'' typedef_u8_amd64,
           Fld ''__lstate'' (CArr typedef_u8_amd64 3)])]),
     Fld ''wait_lock'' typedef_arch_spinlock_t_amd64]"

lemma layout_struct_qrwlock_amd64 [layout]:
  "sizeof struct_qrwlock_amd64 = 8" "alignof struct_qrwlock_amd64 = 4"
  "wf_ctype struct_qrwlock_amd64" "unpacked struct_qrwlock_amd64"
  by (simp_all add: struct_qrwlock_amd64_def layout)

definition typedef_arch_rwlock_t_amd64 :: ctype where
  "typedef_arch_rwlock_t_amd64 =
   struct_qrwlock_amd64"

lemma layout_typedef_arch_rwlock_t_amd64 [layout]:
  "sizeof typedef_arch_rwlock_t_amd64 = 8" "alignof typedef_arch_rwlock_t_amd64 = 4"
  "wf_ctype typedef_arch_rwlock_t_amd64" "unpacked typedef_arch_rwlock_t_amd64"
  by (simp_all add: typedef_arch_rwlock_t_amd64_def layout)

definition typedef_rwlock_t_amd64 :: ctype where
  "typedef_rwlock_t_amd64 =
   CStruct
    [Fld ''raw_lock'' typedef_arch_rwlock_t_amd64]"

lemma layout_typedef_rwlock_t_amd64 [layout]:
  "sizeof typedef_rwlock_t_amd64 = 8" "alignof typedef_rwlock_t_amd64 = 4"
  "wf_ctype typedef_rwlock_t_amd64" "unpacked typedef_rwlock_t_amd64"
  by (simp_all add: typedef_rwlock_t_amd64_def layout)

definition typedef___kernel_uid32_t_amd64 :: ctype where
  "typedef___kernel_uid32_t_amd64 =
   CInt False 4"

lemma layout_typedef___kernel_uid32_t_amd64 [layout]:
  "sizeof typedef___kernel_uid32_t_amd64 = 4" "alignof typedef___kernel_uid32_t_amd64 = 4"
  "wf_ctype typedef___kernel_uid32_t_amd64" "unpacked typedef___kernel_uid32_t_amd64"
  by (simp_all add: typedef___kernel_uid32_t_amd64_def layout)

definition typedef_uid_t_amd64 :: ctype where
  "typedef_uid_t_amd64 =
   typedef___kernel_uid32_t_amd64"

lemma layout_typedef_uid_t_amd64 [layout]:
  "sizeof typedef_uid_t_amd64 = 4" "alignof typedef_uid_t_amd64 = 4"
  "wf_ctype typedef_uid_t_amd64" "unpacked typedef_uid_t_amd64"
  by (simp_all add: typedef_uid_t_amd64_def layout)

definition typedef_kuid_t_amd64 :: ctype where
  "typedef_kuid_t_amd64 =
   CStruct
    [Fld ''val'' typedef_uid_t_amd64]"

lemma layout_typedef_kuid_t_amd64 [layout]:
  "sizeof typedef_kuid_t_amd64 = 4" "alignof typedef_kuid_t_amd64 = 4"
  "wf_ctype typedef_kuid_t_amd64" "unpacked typedef_kuid_t_amd64"
  by (simp_all add: typedef_kuid_t_amd64_def layout)

definition typedef_ktime_t_amd64 :: ctype where
  "typedef_ktime_t_amd64 =
   typedef_s64_amd64"

lemma layout_typedef_ktime_t_amd64 [layout]:
  "sizeof typedef_ktime_t_amd64 = 8" "alignof typedef_ktime_t_amd64 = 8"
  "wf_ctype typedef_ktime_t_amd64" "unpacked typedef_ktime_t_amd64"
  by (simp_all add: typedef_ktime_t_amd64_def layout)

definition typedef_bool_amd64 :: ctype where
  "typedef_bool_amd64 =
   CInt False 1"

lemma layout_typedef_bool_amd64 [layout]:
  "sizeof typedef_bool_amd64 = 1" "alignof typedef_bool_amd64 = 1"
  "wf_ctype typedef_bool_amd64" "unpacked typedef_bool_amd64"
  by (simp_all add: typedef_bool_amd64_def layout)

definition struct_sock_cgroup_data_amd64 :: ctype where
  "struct_sock_cgroup_data_amd64 =
   CStruct
    [Fld ''cgroup'' CPtr,
     Fld ''classid'' typedef_u32_amd64,
     Fld ''prioidx'' typedef_u16_amd64]"

lemma layout_struct_sock_cgroup_data_amd64 [layout]:
  "sizeof struct_sock_cgroup_data_amd64 = 16" "alignof struct_sock_cgroup_data_amd64 = 8"
  "wf_ctype struct_sock_cgroup_data_amd64" "unpacked struct_sock_cgroup_data_amd64"
  by (simp_all add: struct_sock_cgroup_data_amd64_def layout)

definition struct_callback_head_amd64 :: ctype where
  "struct_callback_head_amd64 =
   CStruct
    [Fld ''next'' CPtr,
     Fld ''func'' CPtr]"

lemma layout_struct_callback_head_amd64 [layout]:
  "sizeof struct_callback_head_amd64 = 16" "alignof struct_callback_head_amd64 = 8"
  "wf_ctype struct_callback_head_amd64" "unpacked struct_callback_head_amd64"
  by (simp_all add: struct_callback_head_amd64_def layout)

definition typedef_netns_tracker_amd64 :: ctype where
  "typedef_netns_tracker_amd64 =
   CStruct
    []"

lemma layout_typedef_netns_tracker_amd64 [layout]:
  "sizeof typedef_netns_tracker_amd64 = 0" "alignof typedef_netns_tracker_amd64 = 1"
  "wf_ctype typedef_netns_tracker_amd64" "unpacked typedef_netns_tracker_amd64"
  by (simp_all add: typedef_netns_tracker_amd64_def layout)

definition struct_sock_amd64 :: ctype where
  "struct_sock_amd64 =
   CStruct
    [Fld ''__sk_common'' struct_sock_common_amd64,
     Fld ''sk_rx_dst'' CPtr,
     Fld ''sk_rx_dst_ifindex'' (CInt True 4),
     Fld ''sk_rx_dst_cookie'' typedef_u32_amd64,
     Fld ''sk_lock'' typedef_socket_lock_t_amd64,
     Fld ''sk_drops'' typedef_atomic_t_amd64,
     Fld ''sk_rcvlowat'' (CInt True 4),
     Fld ''sk_error_queue'' struct_sk_buff_head_amd64,
     Fld ''sk_receive_queue'' struct_sk_buff_head_amd64,
     Fld ''sk_backlog'' (CStruct
       [Fld ''rmem_alloc'' typedef_atomic_t_amd64,
        Fld ''len'' (CInt True 4),
        Fld ''head'' CPtr,
        Fld ''tail'' CPtr]),
     Fld ''sk_forward_alloc'' (CInt True 4),
     Fld ''sk_reserved_mem'' typedef_u32_amd64,
     Fld ''sk_ll_usec'' (CInt False 4),
     Fld ''sk_napi_id'' (CInt False 4),
     Fld ''sk_rcvbuf'' (CInt True 4),
     Fld ''sk_disconnects'' (CInt True 4),
     Fld ''sk_filter'' CPtr,
     Anon (CUnion
       [Fld ''sk_wq'' CPtr,
        Fld ''sk_wq_raw'' CPtr]),
     Fld ''sk_policy'' (CArr CPtr 2),
     Fld ''sk_dst_cache'' CPtr,
     Fld ''sk_omem_alloc'' typedef_atomic_t_amd64,
     Fld ''sk_sndbuf'' (CInt True 4),
     Fld ''sk_wmem_queued'' (CInt True 4),
     Fld ''sk_wmem_alloc'' typedef_refcount_t_amd64,
     Fld ''sk_tsq_flags'' (CInt False 8),
     Anon (CUnion
       [Fld ''sk_send_head'' CPtr,
        Fld ''tcp_rtx_queue'' struct_rb_root_amd64]),
     Fld ''sk_write_queue'' struct_sk_buff_head_amd64,
     Fld ''sk_peek_off'' typedef___s32_amd64,
     Fld ''sk_write_pending'' (CInt True 4),
     Fld ''sk_dst_pending_confirm'' typedef___u32_amd64,
     Fld ''sk_pacing_status'' typedef_u32_amd64,
     Fld ''sk_sndtimeo'' (CInt True 8),
     Fld ''sk_timer'' struct_timer_list_amd64,
     Fld ''sk_priority'' typedef___u32_amd64,
     Fld ''sk_mark'' typedef___u32_amd64,
     Fld ''sk_pacing_rate'' (CInt False 8),
     Fld ''sk_max_pacing_rate'' (CInt False 8),
     Fld ''sk_frag'' struct_page_frag_amd64,
     Fld ''sk_route_caps'' typedef_netdev_features_t_amd64,
     Fld ''sk_gso_type'' (CInt True 4),
     Fld ''sk_gso_max_size'' (CInt False 4),
     Fld ''sk_allocation'' typedef_gfp_t_amd64,
     Fld ''sk_txhash'' typedef___u32_amd64,
     Bits ''sk_gso_disabled'' 1 1,
     Bits ''sk_kern_sock'' 1 1,
     Bits ''sk_no_check_tx'' 1 1,
     Bits ''sk_no_check_rx'' 1 1,
     Bits ''sk_userlocks'' 1 4,
     Fld ''sk_pacing_shift'' typedef_u8_amd64,
     Fld ''sk_type'' typedef_u16_amd64,
     Fld ''sk_protocol'' typedef_u16_amd64,
     Fld ''sk_gso_max_segs'' typedef_u16_amd64,
     Fld ''sk_lingertime'' (CInt False 8),
     Fld ''sk_prot_creator'' CPtr,
     Fld ''sk_callback_lock'' typedef_rwlock_t_amd64,
     Fld ''sk_err'' (CInt True 4),
     Fld ''sk_err_soft'' (CInt True 4),
     Fld ''sk_ack_backlog'' typedef_u32_amd64,
     Fld ''sk_max_ack_backlog'' typedef_u32_amd64,
     Fld ''sk_uid'' typedef_kuid_t_amd64,
     Fld ''sk_txrehash'' typedef_u8_amd64,
     Fld ''sk_prefer_busy_poll'' typedef_u8_amd64,
     Fld ''sk_busy_poll_budget'' typedef_u16_amd64,
     Fld ''sk_peer_lock'' typedef_spinlock_t_amd64,
     Fld ''sk_bind_phc'' (CInt True 4),
     Fld ''sk_peer_pid'' CPtr,
     Fld ''sk_peer_cred'' CPtr,
     Fld ''sk_rcvtimeo'' (CInt True 8),
     Fld ''sk_stamp'' typedef_ktime_t_amd64,
     Fld ''sk_tskey'' typedef_atomic_t_amd64,
     Fld ''sk_zckey'' typedef_atomic_t_amd64,
     Fld ''sk_tsflags'' typedef_u32_amd64,
     Fld ''sk_shutdown'' typedef_u8_amd64,
     Fld ''sk_clockid'' typedef_u8_amd64,
     Bits ''sk_txtime_deadline_mode'' 1 1,
     Bits ''sk_txtime_report_errors'' 1 1,
     Bits ''sk_txtime_unused'' 1 6,
     Fld ''sk_use_task_frag'' typedef_bool_amd64,
     Fld ''sk_socket'' CPtr,
     Fld ''sk_user_data'' CPtr,
     Fld ''sk_security'' CPtr,
     Fld ''sk_cgrp_data'' struct_sock_cgroup_data_amd64,
     Fld ''sk_memcg'' CPtr,
     Fld ''sk_state_change'' CPtr,
     Fld ''sk_data_ready'' CPtr,
     Fld ''sk_write_space'' CPtr,
     Fld ''sk_error_report'' CPtr,
     Fld ''sk_backlog_rcv'' CPtr,
     Fld ''sk_validate_xmit_skb'' CPtr,
     Fld ''sk_destruct'' CPtr,
     Fld ''sk_reuseport_cb'' CPtr,
     Fld ''sk_bpf_storage'' CPtr,
     Fld ''sk_rcu'' struct_callback_head_amd64,
     Fld ''ns_tracker'' typedef_netns_tracker_amd64]"

lemma layout_struct_sock_amd64 [layout]:
  "sizeof struct_sock_amd64 = 760" "alignof struct_sock_amd64 = 8"
  "wf_ctype struct_sock_amd64" "unpacked struct_sock_amd64"
  by (simp_all add: struct_sock_amd64_def layout)

section \<open>TCP sockets, of which \<open>struct sock\<close> is a prefix\<close>

definition typedef___s16_amd64 :: ctype where
  "typedef___s16_amd64 =
   CInt True 2"

lemma layout_typedef___s16_amd64 [layout]:
  "sizeof typedef___s16_amd64 = 2" "alignof typedef___s16_amd64 = 2"
  "wf_ctype typedef___s16_amd64" "unpacked typedef___s16_amd64"
  by (simp_all add: typedef___s16_amd64_def layout)

definition struct_inet_cork_amd64 :: ctype where
  "struct_inet_cork_amd64 =
   CStruct
    [Fld ''flags'' (CInt False 4),
     Fld ''addr'' typedef___be32_amd64,
     Fld ''opt'' CPtr,
     Fld ''fragsize'' (CInt False 4),
     Fld ''length'' (CInt True 4),
     Fld ''dst'' CPtr,
     Fld ''tx_flags'' typedef_u8_amd64,
     Fld ''ttl'' typedef___u8_amd64,
     Fld ''tos'' typedef___s16_amd64,
     Fld ''priority'' (CInt True 1),
     Fld ''gso_size'' typedef___u16_amd64,
     Fld ''transmit_time'' typedef_u64_amd64,
     Fld ''mark'' typedef_u32_amd64]"

lemma layout_struct_inet_cork_amd64 [layout]:
  "sizeof struct_inet_cork_amd64 = 56" "alignof struct_inet_cork_amd64 = 8"
  "wf_ctype struct_inet_cork_amd64" "unpacked struct_inet_cork_amd64"
  by (simp_all add: struct_inet_cork_amd64_def layout)

definition typedef___be64_amd64 :: ctype where
  "typedef___be64_amd64 =
   typedef___u64_amd64"

lemma layout_typedef___be64_amd64 [layout]:
  "sizeof typedef___be64_amd64 = 8" "alignof typedef___be64_amd64 = 8"
  "wf_ctype typedef___be64_amd64" "unpacked typedef___be64_amd64"
  by (simp_all add: typedef___be64_amd64_def layout)

definition struct_flowi_tunnel_amd64 :: ctype where
  "struct_flowi_tunnel_amd64 =
   CStruct
    [Fld ''tun_id'' typedef___be64_amd64]"

lemma layout_struct_flowi_tunnel_amd64 [layout]:
  "sizeof struct_flowi_tunnel_amd64 = 8" "alignof struct_flowi_tunnel_amd64 = 8"
  "wf_ctype struct_flowi_tunnel_amd64" "unpacked struct_flowi_tunnel_amd64"
  by (simp_all add: struct_flowi_tunnel_amd64_def layout)

definition struct_flowi_common_amd64 :: ctype where
  "struct_flowi_common_amd64 =
   CStruct
    [Fld ''flowic_oif'' (CInt True 4),
     Fld ''flowic_iif'' (CInt True 4),
     Fld ''flowic_l3mdev'' (CInt True 4),
     Fld ''flowic_mark'' typedef___u32_amd64,
     Fld ''flowic_tos'' typedef___u8_amd64,
     Fld ''flowic_scope'' typedef___u8_amd64,
     Fld ''flowic_proto'' typedef___u8_amd64,
     Fld ''flowic_flags'' typedef___u8_amd64,
     Fld ''flowic_secid'' typedef___u32_amd64,
     Fld ''flowic_uid'' typedef_kuid_t_amd64,
     Fld ''flowic_multipath_hash'' typedef___u32_amd64,
     Fld ''flowic_tun_key'' struct_flowi_tunnel_amd64]"

lemma layout_struct_flowi_common_amd64 [layout]:
  "sizeof struct_flowi_common_amd64 = 40" "alignof struct_flowi_common_amd64 = 8"
  "wf_ctype struct_flowi_common_amd64" "unpacked struct_flowi_common_amd64"
  by (simp_all add: struct_flowi_common_amd64_def layout)

definition union_flowi_uli_amd64 :: ctype where
  "union_flowi_uli_amd64 =
   CUnion
    [Fld ''ports'' (CStruct
       [Fld ''dport'' typedef___be16_amd64,
        Fld ''sport'' typedef___be16_amd64]),
     Fld ''icmpt'' (CStruct
       [Fld ''type'' typedef___u8_amd64,
        Fld ''code'' typedef___u8_amd64]),
     Fld ''gre_key'' typedef___be32_amd64,
     Fld ''mht'' (CStruct
       [Fld ''type'' typedef___u8_amd64])]"

lemma layout_union_flowi_uli_amd64 [layout]:
  "sizeof union_flowi_uli_amd64 = 4" "alignof union_flowi_uli_amd64 = 4"
  "wf_ctype union_flowi_uli_amd64" "unpacked union_flowi_uli_amd64"
  by (simp_all add: union_flowi_uli_amd64_def layout)

definition struct_flowi4_amd64 :: ctype where
  "struct_flowi4_amd64 =
   CStruct
    [Fld ''__fl_common'' struct_flowi_common_amd64,
     Fld ''saddr'' typedef___be32_amd64,
     Fld ''daddr'' typedef___be32_amd64,
     Fld ''uli'' union_flowi_uli_amd64]"

lemma layout_struct_flowi4_amd64 [layout]:
  "sizeof struct_flowi4_amd64 = 56" "alignof struct_flowi4_amd64 = 8"
  "wf_ctype struct_flowi4_amd64" "unpacked struct_flowi4_amd64"
  by (simp_all add: struct_flowi4_amd64_def layout)

definition struct_flowi6_amd64 :: ctype where
  "struct_flowi6_amd64 =
   CStruct
    [Fld ''__fl_common'' struct_flowi_common_amd64,
     Fld ''daddr'' struct_in6_addr_amd64,
     Fld ''saddr'' struct_in6_addr_amd64,
     Fld ''flowlabel'' typedef___be32_amd64,
     Fld ''uli'' union_flowi_uli_amd64,
     Fld ''mp_hash'' typedef___u32_amd64]"

lemma layout_struct_flowi6_amd64 [layout]:
  "sizeof struct_flowi6_amd64 = 88" "alignof struct_flowi6_amd64 = 8"
  "wf_ctype struct_flowi6_amd64" "unpacked struct_flowi6_amd64"
  by (simp_all add: struct_flowi6_amd64_def layout)

definition struct_flowi_amd64 :: ctype where
  "struct_flowi_amd64 =
   CStruct
    [Fld ''u'' (CUnion
       [Fld ''__fl_common'' struct_flowi_common_amd64,
        Fld ''ip4'' struct_flowi4_amd64,
        Fld ''ip6'' struct_flowi6_amd64])]"

lemma layout_struct_flowi_amd64 [layout]:
  "sizeof struct_flowi_amd64 = 88" "alignof struct_flowi_amd64 = 8"
  "wf_ctype struct_flowi_amd64" "unpacked struct_flowi_amd64"
  by (simp_all add: struct_flowi_amd64_def layout)

definition struct_inet_cork_full_amd64 :: ctype where
  "struct_inet_cork_full_amd64 =
   CStruct
    [Fld ''base'' struct_inet_cork_amd64,
     Fld ''fl'' struct_flowi_amd64]"

lemma layout_struct_inet_cork_full_amd64 [layout]:
  "sizeof struct_inet_cork_full_amd64 = 144" "alignof struct_inet_cork_full_amd64 = 8"
  "wf_ctype struct_inet_cork_full_amd64" "unpacked struct_inet_cork_full_amd64"
  by (simp_all add: struct_inet_cork_full_amd64_def layout)

definition struct_inet_sock_amd64 :: ctype where
  "struct_inet_sock_amd64 =
   CStruct
    [Fld ''sk'' struct_sock_amd64,
     Fld ''pinet6'' CPtr,
     Fld ''inet_flags'' (CInt False 8),
     Fld ''inet_saddr'' typedef___be32_amd64,
     Fld ''uc_ttl'' typedef___s16_amd64,
     Fld ''inet_sport'' typedef___be16_amd64,
     Fld ''inet_opt'' CPtr,
     Fld ''inet_id'' typedef_atomic_t_amd64,
     Fld ''tos'' typedef___u8_amd64,
     Fld ''min_ttl'' typedef___u8_amd64,
     Fld ''mc_ttl'' typedef___u8_amd64,
     Fld ''pmtudisc'' typedef___u8_amd64,
     Fld ''rcv_tos'' typedef___u8_amd64,
     Fld ''convert_csum'' typedef___u8_amd64,
     Fld ''uc_index'' (CInt True 4),
     Fld ''mc_index'' (CInt True 4),
     Fld ''mc_addr'' typedef___be32_amd64,
     Fld ''local_port_range'' typedef_u32_amd64,
     Fld ''mc_list'' CPtr,
     Fld ''cork'' struct_inet_cork_full_amd64]"

lemma layout_struct_inet_sock_amd64 [layout]:
  "sizeof struct_inet_sock_amd64 = 976" "alignof struct_inet_sock_amd64 = 8"
  "wf_ctype struct_inet_sock_amd64" "unpacked struct_inet_sock_amd64"
  by (simp_all add: struct_inet_sock_amd64_def layout)

definition struct_fastopen_queue_amd64 :: ctype where
  "struct_fastopen_queue_amd64 =
   CStruct
    [Fld ''rskq_rst_head'' CPtr,
     Fld ''rskq_rst_tail'' CPtr,
     Fld ''lock'' typedef_spinlock_t_amd64,
     Fld ''qlen'' (CInt True 4),
     Fld ''max_qlen'' (CInt True 4),
     Fld ''ctx'' CPtr]"

lemma layout_struct_fastopen_queue_amd64 [layout]:
  "sizeof struct_fastopen_queue_amd64 = 40" "alignof struct_fastopen_queue_amd64 = 8"
  "wf_ctype struct_fastopen_queue_amd64" "unpacked struct_fastopen_queue_amd64"
  by (simp_all add: struct_fastopen_queue_amd64_def layout)

definition struct_request_sock_queue_amd64 :: ctype where
  "struct_request_sock_queue_amd64 =
   CStruct
    [Fld ''rskq_lock'' typedef_spinlock_t_amd64,
     Fld ''rskq_defer_accept'' typedef_u8_amd64,
     Fld ''synflood_warned'' typedef_u32_amd64,
     Fld ''qlen'' typedef_atomic_t_amd64,
     Fld ''young'' typedef_atomic_t_amd64,
     Fld ''rskq_accept_head'' CPtr,
     Fld ''rskq_accept_tail'' CPtr,
     Fld ''fastopenq'' struct_fastopen_queue_amd64]"

lemma layout_struct_request_sock_queue_amd64 [layout]:
  "sizeof struct_request_sock_queue_amd64 = 80" "alignof struct_request_sock_queue_amd64 = 8"
  "wf_ctype struct_request_sock_queue_amd64" "unpacked struct_request_sock_queue_amd64"
  by (simp_all add: struct_request_sock_queue_amd64_def layout)

definition struct_inet_connection_sock_amd64 :: ctype where
  "struct_inet_connection_sock_amd64 =
   CStruct
    [Fld ''icsk_inet'' struct_inet_sock_amd64,
     Fld ''icsk_accept_queue'' struct_request_sock_queue_amd64,
     Fld ''icsk_bind_hash'' CPtr,
     Fld ''icsk_bind2_hash'' CPtr,
     Fld ''icsk_timeout'' (CInt False 8),
     Fld ''icsk_retransmit_timer'' struct_timer_list_amd64,
     Fld ''icsk_delack_timer'' struct_timer_list_amd64,
     Fld ''icsk_rto'' typedef___u32_amd64,
     Fld ''icsk_rto_min'' typedef___u32_amd64,
     Fld ''icsk_delack_max'' typedef___u32_amd64,
     Fld ''icsk_pmtu_cookie'' typedef___u32_amd64,
     Fld ''icsk_ca_ops'' CPtr,
     Fld ''icsk_af_ops'' CPtr,
     Fld ''icsk_ulp_ops'' CPtr,
     Fld ''icsk_ulp_data'' CPtr,
     Fld ''icsk_clean_acked'' CPtr,
     Fld ''icsk_sync_mss'' CPtr,
     Bits ''icsk_ca_state'' 1 5,
     Bits ''icsk_ca_initialized'' 1 1,
     Bits ''icsk_ca_setsockopt'' 1 1,
     Bits ''icsk_ca_dst_locked'' 1 1,
     Fld ''icsk_retransmits'' typedef___u8_amd64,
     Fld ''icsk_pending'' typedef___u8_amd64,
     Fld ''icsk_backoff'' typedef___u8_amd64,
     Fld ''icsk_syn_retries'' typedef___u8_amd64,
     Fld ''icsk_probes_out'' typedef___u8_amd64,
     Fld ''icsk_ext_hdr_len'' typedef___u16_amd64,
     Fld ''icsk_ack'' (CStruct
       [Fld ''pending'' typedef___u8_amd64,
        Fld ''quick'' typedef___u8_amd64,
        Fld ''pingpong'' typedef___u8_amd64,
        Fld ''retry'' typedef___u8_amd64,
        Bits ''ato'' 4 8,
        Bits ''lrcv_flowlabel'' 4 20,
        Bits ''unused'' 4 4,
        Fld ''timeout'' (CInt False 8),
        Fld ''lrcvtime'' typedef___u32_amd64,
        Fld ''last_seg_size'' typedef___u16_amd64,
        Fld ''rcv_mss'' typedef___u16_amd64]),
     Fld ''icsk_mtup'' (CStruct
       [Fld ''search_high'' (CInt True 4),
        Fld ''search_low'' (CInt True 4),
        Bits ''probe_size'' 4 31,
        Bits ''enabled'' 4 1,
        Fld ''probe_timestamp'' typedef_u32_amd64]),
     Fld ''icsk_probes_tstamp'' typedef_u32_amd64,
     Fld ''icsk_user_timeout'' typedef_u32_amd64,
     Fld ''icsk_ca_priv'' (CArr typedef_u64_amd64 13)]"

lemma layout_struct_inet_connection_sock_amd64 [layout]:
  "sizeof struct_inet_connection_sock_amd64 = 1384" "alignof struct_inet_connection_sock_amd64 = 8"
  "wf_ctype struct_inet_connection_sock_amd64" "unpacked struct_inet_connection_sock_amd64"
  by (simp_all add: struct_inet_connection_sock_amd64_def layout)

definition struct_minmax_sample_amd64 :: ctype where
  "struct_minmax_sample_amd64 =
   CStruct
    [Fld ''t'' typedef_u32_amd64,
     Fld ''v'' typedef_u32_amd64]"

lemma layout_struct_minmax_sample_amd64 [layout]:
  "sizeof struct_minmax_sample_amd64 = 8" "alignof struct_minmax_sample_amd64 = 4"
  "wf_ctype struct_minmax_sample_amd64" "unpacked struct_minmax_sample_amd64"
  by (simp_all add: struct_minmax_sample_amd64_def layout)

definition struct_minmax_amd64 :: ctype where
  "struct_minmax_amd64 =
   CStruct
    [Fld ''s'' (CArr struct_minmax_sample_amd64 3)]"

lemma layout_struct_minmax_amd64 [layout]:
  "sizeof struct_minmax_amd64 = 24" "alignof struct_minmax_amd64 = 4"
  "wf_ctype struct_minmax_amd64" "unpacked struct_minmax_amd64"
  by (simp_all add: struct_minmax_amd64_def layout)

definition struct_tcp_options_received_amd64 :: ctype where
  "struct_tcp_options_received_amd64 =
   CStruct
    [Fld ''ts_recent_stamp'' (CInt True 4),
     Fld ''ts_recent'' typedef_u32_amd64,
     Fld ''rcv_tsval'' typedef_u32_amd64,
     Fld ''rcv_tsecr'' typedef_u32_amd64,
     Bits ''saw_tstamp'' 2 1,
     Bits ''tstamp_ok'' 2 1,
     Bits ''dsack'' 2 1,
     Bits ''wscale_ok'' 2 1,
     Bits ''sack_ok'' 2 3,
     Bits ''smc_ok'' 2 1,
     Bits ''snd_wscale'' 2 4,
     Bits ''rcv_wscale'' 2 4,
     Bits ''saw_unknown'' 1 1,
     Bits ''unused'' 1 7,
     Fld ''num_sacks'' typedef_u8_amd64,
     Fld ''user_mss'' typedef_u16_amd64,
     Fld ''mss_clamp'' typedef_u16_amd64]"

lemma layout_struct_tcp_options_received_amd64 [layout]:
  "sizeof struct_tcp_options_received_amd64 = 24" "alignof struct_tcp_options_received_amd64 = 4"
  "wf_ctype struct_tcp_options_received_amd64" "unpacked struct_tcp_options_received_amd64"
  by (simp_all add: struct_tcp_options_received_amd64_def layout)

definition struct_tcp_rack_amd64 :: ctype where
  "struct_tcp_rack_amd64 =
   CStruct
    [Fld ''mstamp'' typedef_u64_amd64,
     Fld ''rtt_us'' typedef_u32_amd64,
     Fld ''end_seq'' typedef_u32_amd64,
     Fld ''last_delivered'' typedef_u32_amd64,
     Fld ''reo_wnd_steps'' typedef_u8_amd64,
     Bits ''reo_wnd_persist'' 1 5,
     Bits ''dsack_seen'' 1 1,
     Bits ''advanced'' 1 1]"

lemma layout_struct_tcp_rack_amd64 [layout]:
  "sizeof struct_tcp_rack_amd64 = 24" "alignof struct_tcp_rack_amd64 = 8"
  "wf_ctype struct_tcp_rack_amd64" "unpacked struct_tcp_rack_amd64"
  by (simp_all add: struct_tcp_rack_amd64_def layout)

definition struct_rb_node_amd64 :: ctype where
  "struct_rb_node_amd64 =
   CStruct
    [Fld ''__rb_parent_color'' (CInt False 8),
     Fld ''rb_right'' CPtr,
     Fld ''rb_left'' CPtr]"

lemma layout_struct_rb_node_amd64 [layout]:
  "sizeof struct_rb_node_amd64 = 24" "alignof struct_rb_node_amd64 = 8"
  "wf_ctype struct_rb_node_amd64" "unpacked struct_rb_node_amd64"
  by (simp_all add: struct_rb_node_amd64_def layout)

definition struct_timerqueue_node_amd64 :: ctype where
  "struct_timerqueue_node_amd64 =
   CStruct
    [Fld ''node'' struct_rb_node_amd64,
     Fld ''expires'' typedef_ktime_t_amd64]"

lemma layout_struct_timerqueue_node_amd64 [layout]:
  "sizeof struct_timerqueue_node_amd64 = 32" "alignof struct_timerqueue_node_amd64 = 8"
  "wf_ctype struct_timerqueue_node_amd64" "unpacked struct_timerqueue_node_amd64"
  by (simp_all add: struct_timerqueue_node_amd64_def layout)

definition struct_hrtimer_amd64 :: ctype where
  "struct_hrtimer_amd64 =
   CStruct
    [Fld ''node'' struct_timerqueue_node_amd64,
     Fld ''_softexpires'' typedef_ktime_t_amd64,
     Fld ''function'' CPtr,
     Fld ''base'' CPtr,
     Fld ''state'' typedef_u8_amd64,
     Fld ''is_rel'' typedef_u8_amd64,
     Fld ''is_soft'' typedef_u8_amd64,
     Fld ''is_hard'' typedef_u8_amd64]"

lemma layout_struct_hrtimer_amd64 [layout]:
  "sizeof struct_hrtimer_amd64 = 64" "alignof struct_hrtimer_amd64 = 8"
  "wf_ctype struct_hrtimer_amd64" "unpacked struct_hrtimer_amd64"
  by (simp_all add: struct_hrtimer_amd64_def layout)

definition struct_tcp_sack_block_amd64 :: ctype where
  "struct_tcp_sack_block_amd64 =
   CStruct
    [Fld ''start_seq'' typedef_u32_amd64,
     Fld ''end_seq'' typedef_u32_amd64]"

lemma layout_struct_tcp_sack_block_amd64 [layout]:
  "sizeof struct_tcp_sack_block_amd64 = 8" "alignof struct_tcp_sack_block_amd64 = 4"
  "wf_ctype struct_tcp_sack_block_amd64" "unpacked struct_tcp_sack_block_amd64"
  by (simp_all add: struct_tcp_sack_block_amd64_def layout)

definition struct_tcp_sock_amd64 :: ctype where
  "struct_tcp_sock_amd64 =
   CStruct
    [Fld ''inet_conn'' struct_inet_connection_sock_amd64,
     Fld ''__cacheline_group_begin__tcp_sock_read_tx'' (CArr typedef___u8_amd64 0),
     Fld ''max_window'' typedef_u32_amd64,
     Fld ''rcv_ssthresh'' typedef_u32_amd64,
     Fld ''reordering'' typedef_u32_amd64,
     Fld ''notsent_lowat'' typedef_u32_amd64,
     Fld ''gso_segs'' typedef_u16_amd64,
     Fld ''lost_skb_hint'' CPtr,
     Fld ''retransmit_skb_hint'' CPtr,
     Fld ''__cacheline_group_end__tcp_sock_read_tx'' (CArr typedef___u8_amd64 0),
     Fld ''__cacheline_group_begin__tcp_sock_read_txrx'' (CArr typedef___u8_amd64 0),
     Fld ''tsoffset'' typedef_u32_amd64,
     Fld ''snd_wnd'' typedef_u32_amd64,
     Fld ''mss_cache'' typedef_u32_amd64,
     Fld ''snd_cwnd'' typedef_u32_amd64,
     Fld ''prr_out'' typedef_u32_amd64,
     Fld ''lost_out'' typedef_u32_amd64,
     Fld ''sacked_out'' typedef_u32_amd64,
     Fld ''tcp_header_len'' typedef_u16_amd64,
     Fld ''scaling_ratio'' typedef_u8_amd64,
     Bits ''chrono_type'' 1 2,
     Bits ''repair'' 1 1,
     Bits ''tcp_usec_ts'' 1 1,
     Bits ''is_sack_reneg'' 1 1,
     Bits ''is_cwnd_limited'' 1 1,
     Fld ''__cacheline_group_end__tcp_sock_read_txrx'' (CArr typedef___u8_amd64 0),
     Fld ''__cacheline_group_begin__tcp_sock_read_rx'' (CArr typedef___u8_amd64 0),
     Fld ''copied_seq'' typedef_u32_amd64,
     Fld ''rcv_tstamp'' typedef_u32_amd64,
     Fld ''snd_wl1'' typedef_u32_amd64,
     Fld ''tlp_high_seq'' typedef_u32_amd64,
     Fld ''rttvar_us'' typedef_u32_amd64,
     Fld ''retrans_out'' typedef_u32_amd64,
     Fld ''advmss'' typedef_u16_amd64,
     Fld ''urg_data'' typedef_u16_amd64,
     Fld ''lost'' typedef_u32_amd64,
     Fld ''rtt_min'' struct_minmax_amd64,
     Fld ''out_of_order_queue'' struct_rb_root_amd64,
     Fld ''snd_ssthresh'' typedef_u32_amd64,
     Fld ''__cacheline_group_end__tcp_sock_read_rx'' (CArr typedef___u8_amd64 0),
     Pad 8 64,
     Fld ''__cacheline_group_begin__tcp_sock_write_tx'' (CArr typedef___u8_amd64 0),
     Fld ''segs_out'' typedef_u32_amd64,
     Fld ''data_segs_out'' typedef_u32_amd64,
     Fld ''bytes_sent'' typedef_u64_amd64,
     Fld ''snd_sml'' typedef_u32_amd64,
     Fld ''chrono_start'' typedef_u32_amd64,
     Fld ''chrono_stat'' (CArr typedef_u32_amd64 3),
     Fld ''write_seq'' typedef_u32_amd64,
     Fld ''pushed_seq'' typedef_u32_amd64,
     Fld ''lsndtime'' typedef_u32_amd64,
     Fld ''mdev_us'' typedef_u32_amd64,
     Fld ''tcp_wstamp_ns'' typedef_u64_amd64,
     Fld ''tcp_clock_cache'' typedef_u64_amd64,
     Fld ''tcp_mstamp'' typedef_u64_amd64,
     Fld ''rtt_seq'' typedef_u32_amd64,
     Fld ''tsorted_sent_queue'' struct_list_head_amd64,
     Fld ''highest_sack'' CPtr,
     Fld ''ecn_flags'' typedef_u8_amd64,
     Fld ''__cacheline_group_end__tcp_sock_write_tx'' (CArr typedef___u8_amd64 0),
     Fld ''__cacheline_group_begin__tcp_sock_write_txrx'' (CArr typedef___u8_amd64 0),
     Fld ''pred_flags'' typedef___be32_amd64,
     Fld ''rcv_nxt'' typedef_u32_amd64,
     Fld ''snd_nxt'' typedef_u32_amd64,
     Fld ''snd_una'' typedef_u32_amd64,
     Fld ''window_clamp'' typedef_u32_amd64,
     Fld ''srtt_us'' typedef_u32_amd64,
     Fld ''packets_out'' typedef_u32_amd64,
     Fld ''snd_up'' typedef_u32_amd64,
     Fld ''delivered'' typedef_u32_amd64,
     Fld ''delivered_ce'' typedef_u32_amd64,
     Fld ''app_limited'' typedef_u32_amd64,
     Fld ''rcv_wnd'' typedef_u32_amd64,
     Fld ''rx_opt'' struct_tcp_options_received_amd64,
     Bits ''nonagle'' 1 4,
     Bits ''rate_app_limited'' 1 1,
     Fld ''__cacheline_group_end__tcp_sock_write_txrx'' (CArr typedef___u8_amd64 0),
     Fld ''__cacheline_group_begin__tcp_sock_write_rx'' (CArr typedef___u8_amd64 0),
     Fld ''bytes_received'' typedef_u64_amd64,
     Fld ''segs_in'' typedef_u32_amd64,
     Fld ''data_segs_in'' typedef_u32_amd64,
     Fld ''rcv_wup'' typedef_u32_amd64,
     Fld ''max_packets_out'' typedef_u32_amd64,
     Fld ''cwnd_usage_seq'' typedef_u32_amd64,
     Fld ''rate_delivered'' typedef_u32_amd64,
     Fld ''rate_interval_us'' typedef_u32_amd64,
     Fld ''rcv_rtt_last_tsecr'' typedef_u32_amd64,
     Fld ''first_tx_mstamp'' typedef_u64_amd64,
     Fld ''delivered_mstamp'' typedef_u64_amd64,
     Fld ''bytes_acked'' typedef_u64_amd64,
     Fld ''rcv_rtt_est'' (CStruct
       [Fld ''rtt_us'' typedef_u32_amd64,
        Fld ''seq'' typedef_u32_amd64,
        Fld ''time'' typedef_u64_amd64]),
     Fld ''rcvq_space'' (CStruct
       [Fld ''space'' (CInt True 4),
        Fld ''seq'' typedef_u32_amd64,
        Fld ''time'' typedef_u64_amd64]),
     Fld ''__cacheline_group_end__tcp_sock_write_rx'' (CArr typedef___u8_amd64 0),
     Fld ''dsack_dups'' typedef_u32_amd64,
     Fld ''last_oow_ack_time'' typedef_u32_amd64,
     Fld ''compressed_ack_rcv_nxt'' typedef_u32_amd64,
     Fld ''tsq_node'' struct_list_head_amd64,
     Fld ''rack'' struct_tcp_rack_amd64,
     Fld ''compressed_ack'' typedef_u8_amd64,
     Bits ''dup_ack_counter'' 1 2,
     Bits ''tlp_retrans'' 1 1,
     Bits ''unused'' 1 5,
     Bits ''thin_lto'' 1 1,
     Bits ''recvmsg_inq'' 1 1,
     Bits ''fastopen_connect'' 1 1,
     Bits ''fastopen_no_cookie'' 1 1,
     Bits ''fastopen_client_fail'' 1 2,
     Bits ''frto'' 1 1,
     Fld ''repair_queue'' typedef_u8_amd64,
     Bits ''save_syn'' 1 2,
     Bits ''syn_data'' 1 1,
     Bits ''syn_fastopen'' 1 1,
     Bits ''syn_fastopen_exp'' 1 1,
     Bits ''syn_fastopen_ch'' 1 1,
     Bits ''syn_data_acked'' 1 1,
     Fld ''tcp_tx_delay'' typedef_u32_amd64,
     Fld ''mdev_max_us'' typedef_u32_amd64,
     Fld ''keepalive_probes'' typedef_u8_amd64,
     Fld ''reord_seen'' typedef_u32_amd64,
     Fld ''snd_cwnd_cnt'' typedef_u32_amd64,
     Fld ''snd_cwnd_clamp'' typedef_u32_amd64,
     Fld ''snd_cwnd_used'' typedef_u32_amd64,
     Fld ''snd_cwnd_stamp'' typedef_u32_amd64,
     Fld ''prior_cwnd'' typedef_u32_amd64,
     Fld ''prr_delivered'' typedef_u32_amd64,
     Fld ''pacing_timer'' struct_hrtimer_amd64,
     Fld ''compressed_ack_timer'' struct_hrtimer_amd64,
     Fld ''ooo_last_skb'' CPtr,
     Fld ''duplicate_sack'' (CArr struct_tcp_sack_block_amd64 1),
     Fld ''selective_acks'' (CArr struct_tcp_sack_block_amd64 4),
     Fld ''recv_sack_cache'' (CArr struct_tcp_sack_block_amd64 4),
     Fld ''lost_cnt_hint'' (CInt True 4),
     Fld ''prior_ssthresh'' typedef_u32_amd64,
     Fld ''high_seq'' typedef_u32_amd64,
     Fld ''retrans_stamp'' typedef_u32_amd64,
     Fld ''undo_marker'' typedef_u32_amd64,
     Fld ''undo_retrans'' (CInt True 4),
     Fld ''bytes_retrans'' typedef_u64_amd64,
     Fld ''total_retrans'' typedef_u32_amd64,
     Fld ''rto_stamp'' typedef_u32_amd64,
     Fld ''total_rto'' typedef_u16_amd64,
     Fld ''total_rto_recoveries'' typedef_u16_amd64,
     Fld ''total_rto_time'' typedef_u32_amd64,
     Fld ''urg_seq'' typedef_u32_amd64,
     Fld ''keepalive_time'' (CInt False 4),
     Fld ''keepalive_intvl'' (CInt False 4),
     Fld ''linger2'' (CInt True 4),
     Fld ''bpf_sock_ops_cb_flags'' typedef_u8_amd64,
     Bits ''bpf_chg_cc_inprogress'' 1 1,
     Fld ''timeout_rehash'' typedef_u16_amd64,
     Fld ''rcv_ooopack'' typedef_u32_amd64,
     Fld ''mtu_probe'' (CStruct
       [Fld ''probe_seq_start'' typedef_u32_amd64,
        Fld ''probe_seq_end'' typedef_u32_amd64]),
     Fld ''plb_rehash'' typedef_u32_amd64,
     Fld ''mtu_info'' typedef_u32_amd64,
     Fld ''is_mptcp'' typedef_bool_amd64,
     Fld ''smc_hs_congested'' CPtr,
     Fld ''syn_smc'' typedef_bool_amd64,
     Fld ''af_specific'' CPtr,
     Fld ''md5sig_info'' CPtr,
     Fld ''ao_info'' CPtr,
     Fld ''fastopen_req'' CPtr,
     Fld ''fastopen_rsk'' CPtr,
     Fld ''saved_syn'' CPtr,
     Pad 8 64]"

lemma layout_struct_tcp_sock_amd64 [layout]:
  "sizeof struct_tcp_sock_amd64 = 2304" "alignof struct_tcp_sock_amd64 = 8"
  "wf_ctype struct_tcp_sock_amd64" "unpacked struct_tcp_sock_amd64"
  by (simp_all add: struct_tcp_sock_amd64_def layout)

definition struct_in6_pktinfo_amd64 :: ctype where
  "struct_in6_pktinfo_amd64 =
   CStruct
    [Fld ''ipi6_addr'' struct_in6_addr_amd64,
     Fld ''ipi6_ifindex'' (CInt True 4)]"

lemma layout_struct_in6_pktinfo_amd64 [layout]:
  "sizeof struct_in6_pktinfo_amd64 = 20" "alignof struct_in6_pktinfo_amd64 = 4"
  "wf_ctype struct_in6_pktinfo_amd64" "unpacked struct_in6_pktinfo_amd64"
  by (simp_all add: struct_in6_pktinfo_amd64_def layout)

definition typedef_s16_amd64 :: ctype where
  "typedef_s16_amd64 =
   typedef___s16_amd64"

lemma layout_typedef_s16_amd64 [layout]:
  "sizeof typedef_s16_amd64 = 2" "alignof typedef_s16_amd64 = 2"
  "wf_ctype typedef_s16_amd64" "unpacked typedef_s16_amd64"
  by (simp_all add: typedef_s16_amd64_def layout)

definition struct_inet6_cork_amd64 :: ctype where
  "struct_inet6_cork_amd64 =
   CStruct
    [Fld ''opt'' CPtr,
     Fld ''hop_limit'' typedef_u8_amd64,
     Fld ''tclass'' typedef_u8_amd64]"

lemma layout_struct_inet6_cork_amd64 [layout]:
  "sizeof struct_inet6_cork_amd64 = 16" "alignof struct_inet6_cork_amd64 = 8"
  "wf_ctype struct_inet6_cork_amd64" "unpacked struct_inet6_cork_amd64"
  by (simp_all add: struct_inet6_cork_amd64_def layout)

definition struct_ipv6_pinfo_amd64 :: ctype where
  "struct_ipv6_pinfo_amd64 =
   CStruct
    [Fld ''saddr'' struct_in6_addr_amd64,
     Fld ''sticky_pktinfo'' struct_in6_pktinfo_amd64,
     Fld ''daddr_cache'' CPtr,
     Fld ''saddr_cache'' CPtr,
     Fld ''flow_label'' typedef___be32_amd64,
     Fld ''frag_size'' typedef___u32_amd64,
     Fld ''hop_limit'' typedef_s16_amd64,
     Fld ''mcast_hops'' typedef_u8_amd64,
     Fld ''ucast_oif'' (CInt True 4),
     Fld ''mcast_oif'' (CInt True 4),
     Fld ''rxopt'' (CUnion
       [Fld ''bits'' (CStruct
          [Bits ''srcrt'' 2 1,
           Bits ''osrcrt'' 2 1,
           Bits ''rxinfo'' 2 1,
           Bits ''rxoinfo'' 2 1,
           Bits ''rxhlim'' 2 1,
           Bits ''rxohlim'' 2 1,
           Bits ''hopopts'' 2 1,
           Bits ''ohopopts'' 2 1,
           Bits ''dstopts'' 2 1,
           Bits ''odstopts'' 2 1,
           Bits ''rxflow'' 2 1,
           Bits ''rxtclass'' 2 1,
           Bits ''rxpmtu'' 2 1,
           Bits ''rxorigdstaddr'' 2 1,
           Bits ''recvfragsize'' 2 1]),
        Fld ''all'' typedef___u16_amd64]),
     Fld ''srcprefs'' typedef___u8_amd64,
     Fld ''pmtudisc'' typedef___u8_amd64,
     Fld ''min_hopcount'' typedef___u8_amd64,
     Fld ''tclass'' typedef___u8_amd64,
     Fld ''rcv_flowinfo'' typedef___be32_amd64,
     Fld ''dst_cookie'' typedef___u32_amd64,
     Fld ''ipv6_mc_list'' CPtr,
     Fld ''ipv6_ac_list'' CPtr,
     Fld ''ipv6_fl_list'' CPtr,
     Fld ''opt'' CPtr,
     Fld ''pktoptions'' CPtr,
     Fld ''rxpmtu'' CPtr,
     Fld ''cork'' struct_inet6_cork_amd64]"

lemma layout_struct_ipv6_pinfo_amd64 [layout]:
  "sizeof struct_ipv6_pinfo_amd64 = 160" "alignof struct_ipv6_pinfo_amd64 = 8"
  "wf_ctype struct_ipv6_pinfo_amd64" "unpacked struct_ipv6_pinfo_amd64"
  by (simp_all add: struct_ipv6_pinfo_amd64_def layout)

definition struct_tcp6_sock_amd64 :: ctype where
  "struct_tcp6_sock_amd64 =
   CStruct
    [Fld ''tcp'' struct_tcp_sock_amd64,
     Fld ''inet6'' struct_ipv6_pinfo_amd64,
     Pad 8 64,
     Pad 8 64,
     Pad 8 64,
     Pad 8 64]"

lemma layout_struct_tcp6_sock_amd64 [layout]:
  "sizeof struct_tcp6_sock_amd64 = 2496" "alignof struct_tcp6_sock_amd64 = 8"
  "wf_ctype struct_tcp6_sock_amd64" "unpacked struct_tcp6_sock_amd64"
  by (simp_all add: struct_tcp6_sock_amd64_def layout)

section \<open>Other objects that begin with a \<open>struct sock_common\<close>\<close>

definition struct_inet_timewait_sock_amd64 :: ctype where
  "struct_inet_timewait_sock_amd64 =
   CStruct
    [Fld ''__tw_common'' struct_sock_common_amd64,
     Fld ''tw_mark'' typedef___u32_amd64,
     Fld ''tw_substate'' (CInt False 1),
     Fld ''tw_rcv_wscale'' (CInt False 1),
     Fld ''tw_sport'' typedef___be16_amd64,
     Bits ''tw_transparent'' 4 1,
     Bits ''tw_flowlabel'' 4 20,
     Bits ''tw_usec_ts'' 4 1,
     Bits ''tw_pad'' 4 2,
     Bits ''tw_tos'' 4 8,
     Fld ''tw_txhash'' typedef_u32_amd64,
     Fld ''tw_priority'' typedef_u32_amd64,
     Fld ''tw_timer'' struct_timer_list_amd64,
     Fld ''tw_tb'' CPtr,
     Fld ''tw_tb2'' CPtr]"

lemma layout_struct_inet_timewait_sock_amd64 [layout]:
  "sizeof struct_inet_timewait_sock_amd64 = 216" "alignof struct_inet_timewait_sock_amd64 = 8"
  "wf_ctype struct_inet_timewait_sock_amd64" "unpacked struct_inet_timewait_sock_amd64"
  by (simp_all add: struct_inet_timewait_sock_amd64_def layout)

definition struct_request_sock_amd64 :: ctype where
  "struct_request_sock_amd64 =
   CStruct
    [Fld ''__req_common'' struct_sock_common_amd64,
     Fld ''dl_next'' CPtr,
     Fld ''mss'' typedef_u16_amd64,
     Fld ''num_retrans'' typedef_u8_amd64,
     Bits ''syncookie'' 1 1,
     Bits ''num_timeout'' 1 7,
     Fld ''ts_recent'' typedef_u32_amd64,
     Fld ''rsk_timer'' struct_timer_list_amd64,
     Fld ''rsk_ops'' CPtr,
     Fld ''sk'' CPtr,
     Fld ''saved_syn'' CPtr,
     Fld ''secid'' typedef_u32_amd64,
     Fld ''peer_secid'' typedef_u32_amd64,
     Fld ''timeout'' typedef_u32_amd64]"

lemma layout_struct_request_sock_amd64 [layout]:
  "sizeof struct_request_sock_amd64 = 232" "alignof struct_request_sock_amd64 = 8"
  "wf_ctype struct_request_sock_amd64" "unpacked struct_request_sock_amd64"
  by (simp_all add: struct_request_sock_amd64_def layout)

section \<open>Arguments and contexts of the hooks\<close>

definition typedef___kernel_sa_family_t_amd64 :: ctype where
  "typedef___kernel_sa_family_t_amd64 =
   CInt False 2"

lemma layout_typedef___kernel_sa_family_t_amd64 [layout]:
  "sizeof typedef___kernel_sa_family_t_amd64 = 2" "alignof typedef___kernel_sa_family_t_amd64 = 2"
  "wf_ctype typedef___kernel_sa_family_t_amd64" "unpacked typedef___kernel_sa_family_t_amd64"
  by (simp_all add: typedef___kernel_sa_family_t_amd64_def layout)

definition struct_in_addr_amd64 :: ctype where
  "struct_in_addr_amd64 =
   CStruct
    [Fld ''s_addr'' typedef___be32_amd64]"

lemma layout_struct_in_addr_amd64 [layout]:
  "sizeof struct_in_addr_amd64 = 4" "alignof struct_in_addr_amd64 = 4"
  "wf_ctype struct_in_addr_amd64" "unpacked struct_in_addr_amd64"
  by (simp_all add: struct_in_addr_amd64_def layout)

definition struct_sockaddr_in_amd64 :: ctype where
  "struct_sockaddr_in_amd64 =
   CStruct
    [Fld ''sin_family'' typedef___kernel_sa_family_t_amd64,
     Fld ''sin_port'' typedef___be16_amd64,
     Fld ''sin_addr'' struct_in_addr_amd64,
     Fld ''__pad'' (CArr (CInt False 1) 8)]"

lemma layout_struct_sockaddr_in_amd64 [layout]:
  "sizeof struct_sockaddr_in_amd64 = 16" "alignof struct_sockaddr_in_amd64 = 4"
  "wf_ctype struct_sockaddr_in_amd64" "unpacked struct_sockaddr_in_amd64"
  by (simp_all add: struct_sockaddr_in_amd64_def layout)

definition struct_sockaddr_in6_amd64 :: ctype where
  "struct_sockaddr_in6_amd64 =
   CStruct
    [Fld ''sin6_family'' (CInt False 2),
     Fld ''sin6_port'' typedef___be16_amd64,
     Fld ''sin6_flowinfo'' typedef___be32_amd64,
     Fld ''sin6_addr'' struct_in6_addr_amd64,
     Fld ''sin6_scope_id'' typedef___u32_amd64]"

lemma layout_struct_sockaddr_in6_amd64 [layout]:
  "sizeof struct_sockaddr_in6_amd64 = 28" "alignof struct_sockaddr_in6_amd64 = 4"
  "wf_ctype struct_sockaddr_in6_amd64" "unpacked struct_sockaddr_in6_amd64"
  by (simp_all add: struct_sockaddr_in6_amd64_def layout)

definition struct_fred_cs_amd64 :: ctype where
  "struct_fred_cs_amd64 =
   CStruct
    [Bits ''cs'' 8 16,
     Bits ''sl'' 8 2,
     Bits ''wfe'' 8 1]"

lemma layout_struct_fred_cs_amd64 [layout]:
  "sizeof struct_fred_cs_amd64 = 8" "alignof struct_fred_cs_amd64 = 8"
  "wf_ctype struct_fred_cs_amd64" "unpacked struct_fred_cs_amd64"
  by (simp_all add: struct_fred_cs_amd64_def layout)

definition struct_fred_ss_amd64 :: ctype where
  "struct_fred_ss_amd64 =
   CStruct
    [Bits ''ss'' 8 16,
     Bits ''sti'' 8 1,
     Bits ''swevent'' 8 1,
     Bits ''nmi'' 8 1,
     Pad 4 13,
     Bits ''vector'' 8 8,
     Pad 2 8,
     Bits ''type'' 8 4,
     Pad 1 4,
     Bits ''enclave'' 8 1,
     Bits ''lm'' 8 1,
     Bits ''nested'' 8 1,
     Pad 1 1,
     Bits ''insnlen'' 8 4]"

lemma layout_struct_fred_ss_amd64 [layout]:
  "sizeof struct_fred_ss_amd64 = 8" "alignof struct_fred_ss_amd64 = 8"
  "wf_ctype struct_fred_ss_amd64" "unpacked struct_fred_ss_amd64"
  by (simp_all add: struct_fred_ss_amd64_def layout)

definition struct_pt_regs_amd64 :: ctype where
  "struct_pt_regs_amd64 =
   CStruct
    [Fld ''r15'' (CInt False 8),
     Fld ''r14'' (CInt False 8),
     Fld ''r13'' (CInt False 8),
     Fld ''r12'' (CInt False 8),
     Fld ''bp'' (CInt False 8),
     Fld ''bx'' (CInt False 8),
     Fld ''r11'' (CInt False 8),
     Fld ''r10'' (CInt False 8),
     Fld ''r9'' (CInt False 8),
     Fld ''r8'' (CInt False 8),
     Fld ''ax'' (CInt False 8),
     Fld ''cx'' (CInt False 8),
     Fld ''dx'' (CInt False 8),
     Fld ''si'' (CInt False 8),
     Fld ''di'' (CInt False 8),
     Fld ''orig_ax'' (CInt False 8),
     Fld ''ip'' (CInt False 8),
     Anon (CUnion
       [Fld ''cs'' typedef_u16_amd64,
        Fld ''csx'' typedef_u64_amd64,
        Fld ''fred_cs'' struct_fred_cs_amd64]),
     Fld ''flags'' (CInt False 8),
     Fld ''sp'' (CInt False 8),
     Anon (CUnion
       [Fld ''ss'' typedef_u16_amd64,
        Fld ''ssx'' typedef_u64_amd64,
        Fld ''fred_ss'' struct_fred_ss_amd64])]"

lemma layout_struct_pt_regs_amd64 [layout]:
  "sizeof struct_pt_regs_amd64 = 168" "alignof struct_pt_regs_amd64 = 8"
  "wf_ctype struct_pt_regs_amd64" "unpacked struct_pt_regs_amd64"
  by (simp_all add: struct_pt_regs_amd64_def layout)

definition struct_trace_entry_amd64 :: ctype where
  "struct_trace_entry_amd64 =
   CStruct
    [Fld ''type'' (CInt False 2),
     Fld ''flags'' (CInt False 1),
     Fld ''preempt_count'' (CInt False 1),
     Fld ''pid'' (CInt True 4)]"

lemma layout_struct_trace_entry_amd64 [layout]:
  "sizeof struct_trace_entry_amd64 = 8" "alignof struct_trace_entry_amd64 = 4"
  "wf_ctype struct_trace_entry_amd64" "unpacked struct_trace_entry_amd64"
  by (simp_all add: struct_trace_entry_amd64_def layout)

definition struct_trace_event_raw_inet_sock_set_state_amd64 :: ctype where
  "struct_trace_event_raw_inet_sock_set_state_amd64 =
   CStruct
    [Fld ''ent'' struct_trace_entry_amd64,
     Fld ''skaddr'' CPtr,
     Fld ''oldstate'' (CInt True 4),
     Fld ''newstate'' (CInt True 4),
     Fld ''sport'' typedef___u16_amd64,
     Fld ''dport'' typedef___u16_amd64,
     Fld ''family'' typedef___u16_amd64,
     Fld ''protocol'' typedef___u16_amd64,
     Fld ''saddr'' (CArr typedef___u8_amd64 4),
     Fld ''daddr'' (CArr typedef___u8_amd64 4),
     Fld ''saddr_v6'' (CArr typedef___u8_amd64 16),
     Fld ''daddr_v6'' (CArr typedef___u8_amd64 16),
     Fld ''__data'' (CArr (CInt True 1) 0)]"

lemma layout_struct_trace_event_raw_inet_sock_set_state_amd64 [layout]:
  "sizeof struct_trace_event_raw_inet_sock_set_state_amd64 = 72" "alignof struct_trace_event_raw_inet_sock_set_state_amd64 = 8"
  "wf_ctype struct_trace_event_raw_inet_sock_set_state_amd64" "unpacked struct_trace_event_raw_inet_sock_set_state_amd64"
  by (simp_all add: struct_trace_event_raw_inet_sock_set_state_amd64_def layout)

section \<open>The socket's protocol operations and network namespace\<close>

definition typedef_slab_flags_t_amd64 :: ctype where
  "typedef_slab_flags_t_amd64 =
   CInt False 4"

lemma layout_typedef_slab_flags_t_amd64 [layout]:
  "sizeof typedef_slab_flags_t_amd64 = 4" "alignof typedef_slab_flags_t_amd64 = 4"
  "wf_ctype typedef_slab_flags_t_amd64" "unpacked typedef_slab_flags_t_amd64"
  by (simp_all add: typedef_slab_flags_t_amd64_def layout)

definition struct_proto_amd64 :: ctype where
  "struct_proto_amd64 =
   CStruct
    [Fld ''close'' CPtr,
     Fld ''pre_connect'' CPtr,
     Fld ''connect'' CPtr,
     Fld ''disconnect'' CPtr,
     Fld ''accept'' CPtr,
     Fld ''ioctl'' CPtr,
     Fld ''init'' CPtr,
     Fld ''destroy'' CPtr,
     Fld ''shutdown'' CPtr,
     Fld ''setsockopt'' CPtr,
     Fld ''getsockopt'' CPtr,
     Fld ''keepalive'' CPtr,
     Fld ''compat_ioctl'' CPtr,
     Fld ''sendmsg'' CPtr,
     Fld ''recvmsg'' CPtr,
     Fld ''splice_eof'' CPtr,
     Fld ''bind'' CPtr,
     Fld ''bind_add'' CPtr,
     Fld ''backlog_rcv'' CPtr,
     Fld ''bpf_bypass_getsockopt'' CPtr,
     Fld ''release_cb'' CPtr,
     Fld ''hash'' CPtr,
     Fld ''unhash'' CPtr,
     Fld ''rehash'' CPtr,
     Fld ''get_port'' CPtr,
     Fld ''put_port'' CPtr,
     Fld ''psock_update_sk_prot'' CPtr,
     Fld ''inuse_idx'' (CInt False 4),
     Fld ''forward_alloc_get'' CPtr,
     Fld ''stream_memory_free'' CPtr,
     Fld ''sock_is_readable'' CPtr,
     Fld ''enter_memory_pressure'' CPtr,
     Fld ''leave_memory_pressure'' CPtr,
     Fld ''memory_allocated'' CPtr,
     Fld ''per_cpu_fw_alloc'' CPtr,
     Fld ''sockets_allocated'' CPtr,
     Fld ''memory_pressure'' CPtr,
     Fld ''sysctl_mem'' CPtr,
     Fld ''sysctl_wmem'' CPtr,
     Fld ''sysctl_rmem'' CPtr,
     Fld ''sysctl_wmem_offset'' typedef_u32_amd64,
     Fld ''sysctl_rmem_offset'' typedef_u32_amd64,
     Fld ''max_header'' (CInt True 4),
     Fld ''no_autobind'' typedef_bool_amd64,
     Fld ''slab'' CPtr,
     Fld ''obj_size'' (CInt False 4),
     Fld ''ipv6_pinfo_offset'' (CInt False 4),
     Fld ''slab_flags'' typedef_slab_flags_t_amd64,
     Fld ''useroffset'' (CInt False 4),
     Fld ''usersize'' (CInt False 4),
     Fld ''orphan_count'' CPtr,
     Fld ''rsk_prot'' CPtr,
     Fld ''twsk_prot'' CPtr,
     Fld ''h'' (CUnion
       [Fld ''hashinfo'' CPtr,
        Fld ''udp_table'' CPtr,
        Fld ''raw_hash'' CPtr,
        Fld ''smc_hash'' CPtr]),
     Fld ''owner'' CPtr,
     Fld ''name'' (CArr (CInt True 1) 32),
     Fld ''node'' struct_list_head_amd64,
     Fld ''diag_destroy'' CPtr]"

lemma layout_struct_proto_amd64 [layout]:
  "sizeof struct_proto_amd64 = 464" "alignof struct_proto_amd64 = 8"
  "wf_ctype struct_proto_amd64" "unpacked struct_proto_amd64"
  by (simp_all add: struct_proto_amd64_def layout)

definition struct_llist_node_amd64 :: ctype where
  "struct_llist_node_amd64 =
   CStruct
    [Fld ''next'' CPtr]"

lemma layout_struct_llist_node_amd64 [layout]:
  "sizeof struct_llist_node_amd64 = 8" "alignof struct_llist_node_amd64 = 8"
  "wf_ctype struct_llist_node_amd64" "unpacked struct_llist_node_amd64"
  by (simp_all add: struct_llist_node_amd64_def layout)

definition struct_xarray_amd64 :: ctype where
  "struct_xarray_amd64 =
   CStruct
    [Fld ''xa_lock'' typedef_spinlock_t_amd64,
     Fld ''xa_flags'' typedef_gfp_t_amd64,
     Fld ''xa_head'' CPtr]"

lemma layout_struct_xarray_amd64 [layout]:
  "sizeof struct_xarray_amd64 = 16" "alignof struct_xarray_amd64 = 8"
  "wf_ctype struct_xarray_amd64" "unpacked struct_xarray_amd64"
  by (simp_all add: struct_xarray_amd64_def layout)

definition struct_idr_amd64 :: ctype where
  "struct_idr_amd64 =
   CStruct
    [Fld ''idr_rt'' struct_xarray_amd64,
     Fld ''idr_base'' (CInt False 4),
     Fld ''idr_next'' (CInt False 4)]"

lemma layout_struct_idr_amd64 [layout]:
  "sizeof struct_idr_amd64 = 24" "alignof struct_idr_amd64 = 8"
  "wf_ctype struct_idr_amd64" "unpacked struct_idr_amd64"
  by (simp_all add: struct_idr_amd64_def layout)

definition typedef_atomic_long_t_amd64 :: ctype where
  "typedef_atomic_long_t_amd64 =
   typedef_atomic64_t_amd64"

lemma layout_typedef_atomic_long_t_amd64 [layout]:
  "sizeof typedef_atomic_long_t_amd64 = 8" "alignof typedef_atomic_long_t_amd64 = 8"
  "wf_ctype typedef_atomic_long_t_amd64" "unpacked typedef_atomic_long_t_amd64"
  by (simp_all add: typedef_atomic_long_t_amd64_def layout)

definition struct_ns_common_amd64 :: ctype where
  "struct_ns_common_amd64 =
   CStruct
    [Fld ''stashed'' typedef_atomic_long_t_amd64,
     Fld ''ops'' CPtr,
     Fld ''inum'' (CInt False 4),
     Fld ''count'' typedef_refcount_t_amd64]"

lemma layout_struct_ns_common_amd64 [layout]:
  "sizeof struct_ns_common_amd64 = 24" "alignof struct_ns_common_amd64 = 8"
  "wf_ctype struct_ns_common_amd64" "unpacked struct_ns_common_amd64"
  by (simp_all add: struct_ns_common_amd64_def layout)

definition struct_ref_tracker_dir_amd64 :: ctype where
  "struct_ref_tracker_dir_amd64 =
   CStruct
    []"

lemma layout_struct_ref_tracker_dir_amd64 [layout]:
  "sizeof struct_ref_tracker_dir_amd64 = 0" "alignof struct_ref_tracker_dir_amd64 = 1"
  "wf_ctype struct_ref_tracker_dir_amd64" "unpacked struct_ref_tracker_dir_amd64"
  by (simp_all add: struct_ref_tracker_dir_amd64_def layout)

definition struct_hlist_head_amd64 :: ctype where
  "struct_hlist_head_amd64 =
   CStruct
    [Fld ''first'' CPtr]"

lemma layout_struct_hlist_head_amd64 [layout]:
  "sizeof struct_hlist_head_amd64 = 8" "alignof struct_hlist_head_amd64 = 8"
  "wf_ctype struct_hlist_head_amd64" "unpacked struct_hlist_head_amd64"
  by (simp_all add: struct_hlist_head_amd64_def layout)

definition struct_ctl_table_header_amd64 :: ctype where
  "struct_ctl_table_header_amd64 =
   CStruct
    [Anon (CUnion
       [Anon (CStruct
          [Fld ''ctl_table'' CPtr,
           Fld ''ctl_table_size'' (CInt True 4),
           Fld ''used'' (CInt True 4),
           Fld ''count'' (CInt True 4),
           Fld ''nreg'' (CInt True 4)]),
        Fld ''rcu'' struct_callback_head_amd64]),
     Fld ''unregistering'' CPtr,
     Fld ''ctl_table_arg'' CPtr,
     Fld ''root'' CPtr,
     Fld ''set'' CPtr,
     Fld ''parent'' CPtr,
     Fld ''node'' CPtr,
     Fld ''inodes'' struct_hlist_head_amd64]"

lemma layout_struct_ctl_table_header_amd64 [layout]:
  "sizeof struct_ctl_table_header_amd64 = 80" "alignof struct_ctl_table_header_amd64 = 8"
  "wf_ctype struct_ctl_table_header_amd64" "unpacked struct_ctl_table_header_amd64"
  by (simp_all add: struct_ctl_table_header_amd64_def layout)

definition struct_ctl_dir_amd64 :: ctype where
  "struct_ctl_dir_amd64 =
   CStruct
    [Fld ''header'' struct_ctl_table_header_amd64,
     Fld ''root'' struct_rb_root_amd64]"

lemma layout_struct_ctl_dir_amd64 [layout]:
  "sizeof struct_ctl_dir_amd64 = 88" "alignof struct_ctl_dir_amd64 = 8"
  "wf_ctype struct_ctl_dir_amd64" "unpacked struct_ctl_dir_amd64"
  by (simp_all add: struct_ctl_dir_amd64_def layout)

definition struct_ctl_table_set_amd64 :: ctype where
  "struct_ctl_table_set_amd64 =
   CStruct
    [Fld ''is_seen'' CPtr,
     Fld ''dir'' struct_ctl_dir_amd64]"

lemma layout_struct_ctl_table_set_amd64 [layout]:
  "sizeof struct_ctl_table_set_amd64 = 96" "alignof struct_ctl_table_set_amd64 = 8"
  "wf_ctype struct_ctl_table_set_amd64" "unpacked struct_ctl_table_set_amd64"
  by (simp_all add: struct_ctl_table_set_amd64_def layout)

definition struct_raw_notifier_head_amd64 :: ctype where
  "struct_raw_notifier_head_amd64 =
   CStruct
    [Fld ''head'' CPtr]"

lemma layout_struct_raw_notifier_head_amd64 [layout]:
  "sizeof struct_raw_notifier_head_amd64 = 8" "alignof struct_raw_notifier_head_amd64 = 8"
  "wf_ctype struct_raw_notifier_head_amd64" "unpacked struct_raw_notifier_head_amd64"
  by (simp_all add: struct_raw_notifier_head_amd64_def layout)

definition struct_netns_core_amd64 :: ctype where
  "struct_netns_core_amd64 =
   CStruct
    [Fld ''sysctl_hdr'' CPtr,
     Fld ''sysctl_somaxconn'' (CInt True 4),
     Fld ''sysctl_optmem_max'' (CInt True 4),
     Fld ''sysctl_txrehash'' typedef_u8_amd64,
     Fld ''prot_inuse'' CPtr,
     Fld ''rps_default_mask'' CPtr]"

lemma layout_struct_netns_core_amd64 [layout]:
  "sizeof struct_netns_core_amd64 = 40" "alignof struct_netns_core_amd64 = 8"
  "wf_ctype struct_netns_core_amd64" "unpacked struct_netns_core_amd64"
  by (simp_all add: struct_netns_core_amd64_def layout)

definition struct_netns_mib_amd64 :: ctype where
  "struct_netns_mib_amd64 =
   CStruct
    [Fld ''ip_statistics'' CPtr,
     Fld ''ipv6_statistics'' CPtr,
     Fld ''tcp_statistics'' CPtr,
     Fld ''net_statistics'' CPtr,
     Fld ''udp_statistics'' CPtr,
     Fld ''udp_stats_in6'' CPtr,
     Fld ''xfrm_statistics'' CPtr,
     Fld ''tls_statistics'' CPtr,
     Fld ''mptcp_statistics'' CPtr,
     Fld ''udplite_statistics'' CPtr,
     Fld ''udplite_stats_in6'' CPtr,
     Fld ''icmp_statistics'' CPtr,
     Fld ''icmpmsg_statistics'' CPtr,
     Fld ''icmpv6_statistics'' CPtr,
     Fld ''icmpv6msg_statistics'' CPtr,
     Fld ''proc_net_devsnmp6'' CPtr]"

lemma layout_struct_netns_mib_amd64 [layout]:
  "sizeof struct_netns_mib_amd64 = 128" "alignof struct_netns_mib_amd64 = 8"
  "wf_ctype struct_netns_mib_amd64" "unpacked struct_netns_mib_amd64"
  by (simp_all add: struct_netns_mib_amd64_def layout)

definition typedef_raw_spinlock_t_amd64 :: ctype where
  "typedef_raw_spinlock_t_amd64 =
   struct_raw_spinlock_amd64"

lemma layout_typedef_raw_spinlock_t_amd64 [layout]:
  "sizeof typedef_raw_spinlock_t_amd64 = 4" "alignof typedef_raw_spinlock_t_amd64 = 4"
  "wf_ctype typedef_raw_spinlock_t_amd64" "unpacked typedef_raw_spinlock_t_amd64"
  by (simp_all add: typedef_raw_spinlock_t_amd64_def layout)

definition struct_optimistic_spin_queue_amd64 :: ctype where
  "struct_optimistic_spin_queue_amd64 =
   CStruct
    [Fld ''tail'' typedef_atomic_t_amd64]"

lemma layout_struct_optimistic_spin_queue_amd64 [layout]:
  "sizeof struct_optimistic_spin_queue_amd64 = 4" "alignof struct_optimistic_spin_queue_amd64 = 4"
  "wf_ctype struct_optimistic_spin_queue_amd64" "unpacked struct_optimistic_spin_queue_amd64"
  by (simp_all add: struct_optimistic_spin_queue_amd64_def layout)

definition struct_mutex_amd64 :: ctype where
  "struct_mutex_amd64 =
   CStruct
    [Fld ''owner'' typedef_atomic_long_t_amd64,
     Fld ''wait_lock'' typedef_raw_spinlock_t_amd64,
     Fld ''osq'' struct_optimistic_spin_queue_amd64,
     Fld ''wait_list'' struct_list_head_amd64]"

lemma layout_struct_mutex_amd64 [layout]:
  "sizeof struct_mutex_amd64 = 32" "alignof struct_mutex_amd64 = 8"
  "wf_ctype struct_mutex_amd64" "unpacked struct_mutex_amd64"
  by (simp_all add: struct_mutex_amd64_def layout)

definition struct_netns_packet_amd64 :: ctype where
  "struct_netns_packet_amd64 =
   CStruct
    [Fld ''sklist_lock'' struct_mutex_amd64,
     Fld ''sklist'' struct_hlist_head_amd64]"

lemma layout_struct_netns_packet_amd64 [layout]:
  "sizeof struct_netns_packet_amd64 = 40" "alignof struct_netns_packet_amd64 = 8"
  "wf_ctype struct_netns_packet_amd64" "unpacked struct_netns_packet_amd64"
  by (simp_all add: struct_netns_packet_amd64_def layout)

definition struct_unix_table_amd64 :: ctype where
  "struct_unix_table_amd64 =
   CStruct
    [Fld ''locks'' CPtr,
     Fld ''buckets'' CPtr]"

lemma layout_struct_unix_table_amd64 [layout]:
  "sizeof struct_unix_table_amd64 = 16" "alignof struct_unix_table_amd64 = 8"
  "wf_ctype struct_unix_table_amd64" "unpacked struct_unix_table_amd64"
  by (simp_all add: struct_unix_table_amd64_def layout)

definition struct_netns_unix_amd64 :: ctype where
  "struct_netns_unix_amd64 =
   CStruct
    [Fld ''table'' struct_unix_table_amd64,
     Fld ''sysctl_max_dgram_qlen'' (CInt True 4),
     Fld ''ctl'' CPtr]"

lemma layout_struct_netns_unix_amd64 [layout]:
  "sizeof struct_netns_unix_amd64 = 32" "alignof struct_netns_unix_amd64 = 8"
  "wf_ctype struct_netns_unix_amd64" "unpacked struct_netns_unix_amd64"
  by (simp_all add: struct_netns_unix_amd64_def layout)

definition struct_rw_semaphore_amd64 :: ctype where
  "struct_rw_semaphore_amd64 =
   CStruct
    [Fld ''count'' typedef_atomic_long_t_amd64,
     Fld ''owner'' typedef_atomic_long_t_amd64,
     Fld ''osq'' struct_optimistic_spin_queue_amd64,
     Fld ''wait_lock'' typedef_raw_spinlock_t_amd64,
     Fld ''wait_list'' struct_list_head_amd64]"

lemma layout_struct_rw_semaphore_amd64 [layout]:
  "sizeof struct_rw_semaphore_amd64 = 40" "alignof struct_rw_semaphore_amd64 = 8"
  "wf_ctype struct_rw_semaphore_amd64" "unpacked struct_rw_semaphore_amd64"
  by (simp_all add: struct_rw_semaphore_amd64_def layout)

definition struct_blocking_notifier_head_amd64 :: ctype where
  "struct_blocking_notifier_head_amd64 =
   CStruct
    [Fld ''rwsem'' struct_rw_semaphore_amd64,
     Fld ''head'' CPtr]"

lemma layout_struct_blocking_notifier_head_amd64 [layout]:
  "sizeof struct_blocking_notifier_head_amd64 = 48" "alignof struct_blocking_notifier_head_amd64 = 8"
  "wf_ctype struct_blocking_notifier_head_amd64" "unpacked struct_blocking_notifier_head_amd64"
  by (simp_all add: struct_blocking_notifier_head_amd64_def layout)

definition struct_netns_nexthop_amd64 :: ctype where
  "struct_netns_nexthop_amd64 =
   CStruct
    [Fld ''rb_root'' struct_rb_root_amd64,
     Fld ''devhash'' CPtr,
     Fld ''seq'' (CInt False 4),
     Fld ''last_id_allocated'' typedef_u32_amd64,
     Fld ''notifier_chain'' struct_blocking_notifier_head_amd64]"

lemma layout_struct_netns_nexthop_amd64 [layout]:
  "sizeof struct_netns_nexthop_amd64 = 72" "alignof struct_netns_nexthop_amd64 = 8"
  "wf_ctype struct_netns_nexthop_amd64" "unpacked struct_netns_nexthop_amd64"
  by (simp_all add: struct_netns_nexthop_amd64_def layout)

definition struct_inet_timewait_death_row_amd64 :: ctype where
  "struct_inet_timewait_death_row_amd64 =
   CStruct
    [Fld ''tw_refcount'' typedef_refcount_t_amd64,
     Pad 8 64,
     Pad 8 64,
     Pad 8 64,
     Pad 8 64,
     Pad 8 64,
     Pad 8 64,
     Pad 8 64,
     Fld ''hashinfo'' CPtr,
     Fld ''sysctl_max_tw_buckets'' (CInt True 4),
     Pad 8 64,
     Pad 8 64,
     Pad 8 64,
     Pad 8 64,
     Pad 8 64,
     Pad 8 64]"

lemma layout_struct_inet_timewait_death_row_amd64 [layout]:
  "sizeof struct_inet_timewait_death_row_amd64 = 128" "alignof struct_inet_timewait_death_row_amd64 = 8"
  "wf_ctype struct_inet_timewait_death_row_amd64" "unpacked struct_inet_timewait_death_row_amd64"
  by (simp_all add: struct_inet_timewait_death_row_amd64_def layout)

definition struct_local_ports_amd64 :: ctype where
  "struct_local_ports_amd64 =
   CStruct
    [Fld ''range'' typedef_u32_amd64,
     Fld ''warned'' typedef_bool_amd64]"

lemma layout_struct_local_ports_amd64 [layout]:
  "sizeof struct_local_ports_amd64 = 8" "alignof struct_local_ports_amd64 = 4"
  "wf_ctype struct_local_ports_amd64" "unpacked struct_local_ports_amd64"
  by (simp_all add: struct_local_ports_amd64_def layout)

definition struct_seqcount_amd64 :: ctype where
  "struct_seqcount_amd64 =
   CStruct
    [Fld ''sequence'' (CInt False 4)]"

lemma layout_struct_seqcount_amd64 [layout]:
  "sizeof struct_seqcount_amd64 = 4" "alignof struct_seqcount_amd64 = 4"
  "wf_ctype struct_seqcount_amd64" "unpacked struct_seqcount_amd64"
  by (simp_all add: struct_seqcount_amd64_def layout)

definition typedef_seqcount_t_amd64 :: ctype where
  "typedef_seqcount_t_amd64 =
   struct_seqcount_amd64"

lemma layout_typedef_seqcount_t_amd64 [layout]:
  "sizeof typedef_seqcount_t_amd64 = 4" "alignof typedef_seqcount_t_amd64 = 4"
  "wf_ctype typedef_seqcount_t_amd64" "unpacked typedef_seqcount_t_amd64"
  by (simp_all add: typedef_seqcount_t_amd64_def layout)

definition struct_seqcount_spinlock_amd64 :: ctype where
  "struct_seqcount_spinlock_amd64 =
   CStruct
    [Fld ''seqcount'' typedef_seqcount_t_amd64]"

lemma layout_struct_seqcount_spinlock_amd64 [layout]:
  "sizeof struct_seqcount_spinlock_amd64 = 4" "alignof struct_seqcount_spinlock_amd64 = 4"
  "wf_ctype struct_seqcount_spinlock_amd64" "unpacked struct_seqcount_spinlock_amd64"
  by (simp_all add: struct_seqcount_spinlock_amd64_def layout)

definition typedef_seqcount_spinlock_t_amd64 :: ctype where
  "typedef_seqcount_spinlock_t_amd64 =
   struct_seqcount_spinlock_amd64"

lemma layout_typedef_seqcount_spinlock_t_amd64 [layout]:
  "sizeof typedef_seqcount_spinlock_t_amd64 = 4" "alignof typedef_seqcount_spinlock_t_amd64 = 4"
  "wf_ctype typedef_seqcount_spinlock_t_amd64" "unpacked typedef_seqcount_spinlock_t_amd64"
  by (simp_all add: typedef_seqcount_spinlock_t_amd64_def layout)

definition typedef_seqlock_t_amd64 :: ctype where
  "typedef_seqlock_t_amd64 =
   CStruct
    [Fld ''seqcount'' typedef_seqcount_spinlock_t_amd64,
     Fld ''lock'' typedef_spinlock_t_amd64]"

lemma layout_typedef_seqlock_t_amd64 [layout]:
  "sizeof typedef_seqlock_t_amd64 = 8" "alignof typedef_seqlock_t_amd64 = 4"
  "wf_ctype typedef_seqlock_t_amd64" "unpacked typedef_seqlock_t_amd64"
  by (simp_all add: typedef_seqlock_t_amd64_def layout)

definition typedef___kernel_gid32_t_amd64 :: ctype where
  "typedef___kernel_gid32_t_amd64 =
   CInt False 4"

lemma layout_typedef___kernel_gid32_t_amd64 [layout]:
  "sizeof typedef___kernel_gid32_t_amd64 = 4" "alignof typedef___kernel_gid32_t_amd64 = 4"
  "wf_ctype typedef___kernel_gid32_t_amd64" "unpacked typedef___kernel_gid32_t_amd64"
  by (simp_all add: typedef___kernel_gid32_t_amd64_def layout)

definition typedef_gid_t_amd64 :: ctype where
  "typedef_gid_t_amd64 =
   typedef___kernel_gid32_t_amd64"

lemma layout_typedef_gid_t_amd64 [layout]:
  "sizeof typedef_gid_t_amd64 = 4" "alignof typedef_gid_t_amd64 = 4"
  "wf_ctype typedef_gid_t_amd64" "unpacked typedef_gid_t_amd64"
  by (simp_all add: typedef_gid_t_amd64_def layout)

definition typedef_kgid_t_amd64 :: ctype where
  "typedef_kgid_t_amd64 =
   CStruct
    [Fld ''val'' typedef_gid_t_amd64]"

lemma layout_typedef_kgid_t_amd64 [layout]:
  "sizeof typedef_kgid_t_amd64 = 4" "alignof typedef_kgid_t_amd64 = 4"
  "wf_ctype typedef_kgid_t_amd64" "unpacked typedef_kgid_t_amd64"
  by (simp_all add: typedef_kgid_t_amd64_def layout)

definition struct_ping_group_range_amd64 :: ctype where
  "struct_ping_group_range_amd64 =
   CStruct
    [Fld ''lock'' typedef_seqlock_t_amd64,
     Fld ''range'' (CArr typedef_kgid_t_amd64 2)]"

lemma layout_struct_ping_group_range_amd64 [layout]:
  "sizeof struct_ping_group_range_amd64 = 16" "alignof struct_ping_group_range_amd64 = 4"
  "wf_ctype struct_ping_group_range_amd64" "unpacked struct_ping_group_range_amd64"
  by (simp_all add: struct_ping_group_range_amd64_def layout)

definition typedef_siphash_key_t_amd64 :: ctype where
  "typedef_siphash_key_t_amd64 =
   CStruct
    [Fld ''key'' (CArr typedef_u64_amd64 2)]"

lemma layout_typedef_siphash_key_t_amd64 [layout]:
  "sizeof typedef_siphash_key_t_amd64 = 16" "alignof typedef_siphash_key_t_amd64 = 8"
  "wf_ctype typedef_siphash_key_t_amd64" "unpacked typedef_siphash_key_t_amd64"
  by (simp_all add: typedef_siphash_key_t_amd64_def layout)

definition struct_netns_ipv4_amd64 :: ctype where
  "struct_netns_ipv4_amd64 =
   CStruct
    [Fld ''__cacheline_group_begin__netns_ipv4_read_tx'' (CArr typedef___u8_amd64 0),
     Fld ''sysctl_tcp_early_retrans'' typedef_u8_amd64,
     Fld ''sysctl_tcp_tso_win_divisor'' typedef_u8_amd64,
     Fld ''sysctl_tcp_tso_rtt_log'' typedef_u8_amd64,
     Fld ''sysctl_tcp_autocorking'' typedef_u8_amd64,
     Fld ''sysctl_tcp_min_snd_mss'' (CInt True 4),
     Fld ''sysctl_tcp_notsent_lowat'' (CInt False 4),
     Fld ''sysctl_tcp_limit_output_bytes'' (CInt True 4),
     Fld ''sysctl_tcp_min_rtt_wlen'' (CInt True 4),
     Fld ''sysctl_tcp_wmem'' (CArr (CInt True 4) 3),
     Fld ''sysctl_ip_fwd_use_pmtu'' typedef_u8_amd64,
     Fld ''__cacheline_group_end__netns_ipv4_read_tx'' (CArr typedef___u8_amd64 0),
     Fld ''__cacheline_group_begin__netns_ipv4_read_txrx'' (CArr typedef___u8_amd64 0),
     Fld ''sysctl_tcp_moderate_rcvbuf'' typedef_u8_amd64,
     Fld ''__cacheline_group_end__netns_ipv4_read_txrx'' (CArr typedef___u8_amd64 0),
     Fld ''__cacheline_group_begin__netns_ipv4_read_rx'' (CArr typedef___u8_amd64 0),
     Fld ''sysctl_ip_early_demux'' typedef_u8_amd64,
     Fld ''sysctl_tcp_early_demux'' typedef_u8_amd64,
     Fld ''sysctl_tcp_reordering'' (CInt True 4),
     Fld ''sysctl_tcp_rmem'' (CArr (CInt True 4) 3),
     Fld ''__cacheline_group_end__netns_ipv4_read_rx'' (CArr typedef___u8_amd64 0),
     Pad 8 64,
     Fld ''__cacheline_group_begin__icmp'' (CArr typedef___u8_amd64 0),
     Fld ''icmp_global_credit'' typedef_atomic_t_amd64,
     Fld ''icmp_global_stamp'' typedef_u32_amd64,
     Fld ''__cacheline_group_end__icmp'' (CArr typedef___u8_amd64 0),
     Pad 8 64,
     Pad 8 64,
     Pad 8 64,
     Pad 8 64,
     Pad 8 64,
     Pad 8 64,
     Pad 8 64,
     Fld ''__cacheline_group_pad__icmp'' (CStruct
       []),
     Fld ''tcp_death_row'' struct_inet_timewait_death_row_amd64,
     Fld ''udp_table'' CPtr,
     Fld ''forw_hdr'' CPtr,
     Fld ''frags_hdr'' CPtr,
     Fld ''ipv4_hdr'' CPtr,
     Fld ''route_hdr'' CPtr,
     Fld ''xfrm4_hdr'' CPtr,
     Fld ''devconf_all'' CPtr,
     Fld ''devconf_dflt'' CPtr,
     Fld ''ra_chain'' CPtr,
     Fld ''ra_mutex'' struct_mutex_amd64,
     Fld ''rules_ops'' CPtr,
     Fld ''fib_main'' CPtr,
     Fld ''fib_default'' CPtr,
     Fld ''fib_rules_require_fldissect'' (CInt False 4),
     Fld ''fib_has_custom_rules'' typedef_bool_amd64,
     Fld ''fib_has_custom_local_routes'' typedef_bool_amd64,
     Fld ''fib_offload_disabled'' typedef_bool_amd64,
     Fld ''sysctl_tcp_shrink_window'' typedef_u8_amd64,
     Fld ''fib_num_tclassid_users'' typedef_atomic_t_amd64,
     Fld ''fib_table_hash'' CPtr,
     Fld ''fibnl'' CPtr,
     Fld ''mc_autojoin_sk'' CPtr,
     Fld ''peers'' CPtr,
     Fld ''fqdir'' CPtr,
     Fld ''sysctl_icmp_echo_ignore_all'' typedef_u8_amd64,
     Fld ''sysctl_icmp_echo_enable_probe'' typedef_u8_amd64,
     Fld ''sysctl_icmp_echo_ignore_broadcasts'' typedef_u8_amd64,
     Fld ''sysctl_icmp_ignore_bogus_error_responses'' typedef_u8_amd64,
     Fld ''sysctl_icmp_errors_use_inbound_ifaddr'' typedef_u8_amd64,
     Fld ''sysctl_icmp_ratelimit'' (CInt True 4),
     Fld ''sysctl_icmp_ratemask'' (CInt True 4),
     Fld ''sysctl_icmp_msgs_per_sec'' (CInt True 4),
     Fld ''sysctl_icmp_msgs_burst'' (CInt True 4),
     Fld ''ip_rt_min_pmtu'' typedef_u32_amd64,
     Fld ''ip_rt_mtu_expires'' (CInt True 4),
     Fld ''ip_rt_min_advmss'' (CInt True 4),
     Fld ''ip_local_ports'' struct_local_ports_amd64,
     Fld ''sysctl_tcp_ecn'' typedef_u8_amd64,
     Fld ''sysctl_tcp_ecn_fallback'' typedef_u8_amd64,
     Fld ''sysctl_ip_default_ttl'' typedef_u8_amd64,
     Fld ''sysctl_ip_no_pmtu_disc'' typedef_u8_amd64,
     Fld ''sysctl_ip_fwd_update_priority'' typedef_u8_amd64,
     Fld ''sysctl_ip_nonlocal_bind'' typedef_u8_amd64,
     Fld ''sysctl_ip_autobind_reuse'' typedef_u8_amd64,
     Fld ''sysctl_ip_dynaddr'' typedef_u8_amd64,
     Fld ''sysctl_raw_l3mdev_accept'' typedef_u8_amd64,
     Fld ''sysctl_udp_early_demux'' typedef_u8_amd64,
     Fld ''sysctl_nexthop_compat_mode'' typedef_u8_amd64,
     Fld ''sysctl_fwmark_reflect'' typedef_u8_amd64,
     Fld ''sysctl_tcp_fwmark_accept'' typedef_u8_amd64,
     Fld ''sysctl_tcp_l3mdev_accept'' typedef_u8_amd64,
     Fld ''sysctl_tcp_mtu_probing'' typedef_u8_amd64,
     Fld ''sysctl_tcp_mtu_probe_floor'' (CInt True 4),
     Fld ''sysctl_tcp_base_mss'' (CInt True 4),
     Fld ''sysctl_tcp_probe_threshold'' (CInt True 4),
     Fld ''sysctl_tcp_probe_interval'' typedef_u32_amd64,
     Fld ''sysctl_tcp_keepalive_time'' (CInt True 4),
     Fld ''sysctl_tcp_keepalive_intvl'' (CInt True 4),
     Fld ''sysctl_tcp_keepalive_probes'' typedef_u8_amd64,
     Fld ''sysctl_tcp_syn_retries'' typedef_u8_amd64,
     Fld ''sysctl_tcp_synack_retries'' typedef_u8_amd64,
     Fld ''sysctl_tcp_syncookies'' typedef_u8_amd64,
     Fld ''sysctl_tcp_migrate_req'' typedef_u8_amd64,
     Fld ''sysctl_tcp_comp_sack_nr'' typedef_u8_amd64,
     Fld ''sysctl_tcp_backlog_ack_defer'' typedef_u8_amd64,
     Fld ''sysctl_tcp_pingpong_thresh'' typedef_u8_amd64,
     Fld ''sysctl_tcp_retries1'' typedef_u8_amd64,
     Fld ''sysctl_tcp_retries2'' typedef_u8_amd64,
     Fld ''sysctl_tcp_orphan_retries'' typedef_u8_amd64,
     Fld ''sysctl_tcp_tw_reuse'' typedef_u8_amd64,
     Fld ''sysctl_tcp_fin_timeout'' (CInt True 4),
     Fld ''sysctl_tcp_sack'' typedef_u8_amd64,
     Fld ''sysctl_tcp_window_scaling'' typedef_u8_amd64,
     Fld ''sysctl_tcp_timestamps'' typedef_u8_amd64,
     Fld ''sysctl_tcp_recovery'' typedef_u8_amd64,
     Fld ''sysctl_tcp_thin_linear_timeouts'' typedef_u8_amd64,
     Fld ''sysctl_tcp_slow_start_after_idle'' typedef_u8_amd64,
     Fld ''sysctl_tcp_retrans_collapse'' typedef_u8_amd64,
     Fld ''sysctl_tcp_stdurg'' typedef_u8_amd64,
     Fld ''sysctl_tcp_rfc1337'' typedef_u8_amd64,
     Fld ''sysctl_tcp_abort_on_overflow'' typedef_u8_amd64,
     Fld ''sysctl_tcp_fack'' typedef_u8_amd64,
     Fld ''sysctl_tcp_max_reordering'' (CInt True 4),
     Fld ''sysctl_tcp_adv_win_scale'' (CInt True 4),
     Fld ''sysctl_tcp_dsack'' typedef_u8_amd64,
     Fld ''sysctl_tcp_app_win'' typedef_u8_amd64,
     Fld ''sysctl_tcp_frto'' typedef_u8_amd64,
     Fld ''sysctl_tcp_nometrics_save'' typedef_u8_amd64,
     Fld ''sysctl_tcp_no_ssthresh_metrics_save'' typedef_u8_amd64,
     Fld ''sysctl_tcp_workaround_signed_windows'' typedef_u8_amd64,
     Fld ''sysctl_tcp_challenge_ack_limit'' (CInt True 4),
     Fld ''sysctl_tcp_min_tso_segs'' typedef_u8_amd64,
     Fld ''sysctl_tcp_reflect_tos'' typedef_u8_amd64,
     Fld ''sysctl_tcp_invalid_ratelimit'' (CInt True 4),
     Fld ''sysctl_tcp_pacing_ss_ratio'' (CInt True 4),
     Fld ''sysctl_tcp_pacing_ca_ratio'' (CInt True 4),
     Fld ''sysctl_tcp_child_ehash_entries'' (CInt False 4),
     Fld ''sysctl_tcp_comp_sack_delay_ns'' (CInt False 8),
     Fld ''sysctl_tcp_comp_sack_slack_ns'' (CInt False 8),
     Fld ''sysctl_max_syn_backlog'' (CInt True 4),
     Fld ''sysctl_tcp_fastopen'' (CInt True 4),
     Fld ''tcp_congestion_control'' CPtr,
     Fld ''tcp_fastopen_ctx'' CPtr,
     Fld ''sysctl_tcp_fastopen_blackhole_timeout'' (CInt False 4),
     Fld ''tfo_active_disable_times'' typedef_atomic_t_amd64,
     Fld ''tfo_active_disable_stamp'' (CInt False 8),
     Fld ''tcp_challenge_timestamp'' typedef_u32_amd64,
     Fld ''tcp_challenge_count'' typedef_u32_amd64,
     Fld ''sysctl_tcp_plb_enabled'' typedef_u8_amd64,
     Fld ''sysctl_tcp_plb_idle_rehash_rounds'' typedef_u8_amd64,
     Fld ''sysctl_tcp_plb_rehash_rounds'' typedef_u8_amd64,
     Fld ''sysctl_tcp_plb_suspend_rto_sec'' typedef_u8_amd64,
     Fld ''sysctl_tcp_plb_cong_thresh'' (CInt True 4),
     Fld ''sysctl_udp_wmem_min'' (CInt True 4),
     Fld ''sysctl_udp_rmem_min'' (CInt True 4),
     Fld ''sysctl_fib_notify_on_flag_change'' typedef_u8_amd64,
     Fld ''sysctl_tcp_syn_linear_timeouts'' typedef_u8_amd64,
     Fld ''sysctl_udp_l3mdev_accept'' typedef_u8_amd64,
     Fld ''sysctl_igmp_llm_reports'' typedef_u8_amd64,
     Fld ''sysctl_igmp_max_memberships'' (CInt True 4),
     Fld ''sysctl_igmp_max_msf'' (CInt True 4),
     Fld ''sysctl_igmp_qrv'' (CInt True 4),
     Fld ''ping_group_range'' struct_ping_group_range_amd64,
     Fld ''dev_addr_genid'' typedef_atomic_t_amd64,
     Fld ''sysctl_udp_child_hash_entries'' (CInt False 4),
     Fld ''sysctl_local_reserved_ports'' CPtr,
     Fld ''sysctl_ip_prot_sock'' (CInt True 4),
     Fld ''mr_tables'' struct_list_head_amd64,
     Fld ''mr_rules_ops'' CPtr,
     Fld ''sysctl_fib_multipath_hash_fields'' typedef_u32_amd64,
     Fld ''sysctl_fib_multipath_use_neigh'' typedef_u8_amd64,
     Fld ''sysctl_fib_multipath_hash_policy'' typedef_u8_amd64,
     Fld ''notifier_ops'' CPtr,
     Fld ''fib_seq'' (CInt False 4),
     Fld ''ipmr_notifier_ops'' CPtr,
     Fld ''ipmr_seq'' (CInt False 4),
     Fld ''rt_genid'' typedef_atomic_t_amd64,
     Fld ''ip_id_key'' typedef_siphash_key_t_amd64,
     Pad 8 64,
     Pad 8 64,
     Pad 8 64]"

lemma layout_struct_netns_ipv4_amd64 [layout]:
  "sizeof struct_netns_ipv4_amd64 = 832" "alignof struct_netns_ipv4_amd64 = 8"
  "wf_ctype struct_netns_ipv4_amd64" "unpacked struct_netns_ipv4_amd64"
  by (simp_all add: struct_netns_ipv4_amd64_def layout)

definition struct_percpu_counter_amd64 :: ctype where
  "struct_percpu_counter_amd64 =
   CStruct
    [Fld ''lock'' typedef_raw_spinlock_t_amd64,
     Fld ''count'' typedef_s64_amd64,
     Fld ''list'' struct_list_head_amd64,
     Fld ''counters'' CPtr]"

lemma layout_struct_percpu_counter_amd64 [layout]:
  "sizeof struct_percpu_counter_amd64 = 40" "alignof struct_percpu_counter_amd64 = 8"
  "wf_ctype struct_percpu_counter_amd64" "unpacked struct_percpu_counter_amd64"
  by (simp_all add: struct_percpu_counter_amd64_def layout)

definition struct_dst_ops_amd64 :: ctype where
  "struct_dst_ops_amd64 =
   CStruct
    [Fld ''family'' (CInt False 2),
     Fld ''gc_thresh'' (CInt False 4),
     Fld ''gc'' CPtr,
     Fld ''check'' CPtr,
     Fld ''default_advmss'' CPtr,
     Fld ''mtu'' CPtr,
     Fld ''cow_metrics'' CPtr,
     Fld ''destroy'' CPtr,
     Fld ''ifdown'' CPtr,
     Fld ''negative_advice'' CPtr,
     Fld ''link_failure'' CPtr,
     Fld ''update_pmtu'' CPtr,
     Fld ''redirect'' CPtr,
     Fld ''local_out'' CPtr,
     Fld ''neigh_lookup'' CPtr,
     Fld ''confirm_neigh'' CPtr,
     Fld ''kmem_cachep'' CPtr,
     Fld ''pcpuc_entries'' struct_percpu_counter_amd64,
     Pad 8 64,
     Pad 8 64,
     Pad 8 64]"

lemma layout_struct_dst_ops_amd64 [layout]:
  "sizeof struct_dst_ops_amd64 = 192" "alignof struct_dst_ops_amd64 = 8"
  "wf_ctype struct_dst_ops_amd64" "unpacked struct_dst_ops_amd64"
  by (simp_all add: struct_dst_ops_amd64_def layout)

definition struct_netns_sysctl_ipv6_amd64 :: ctype where
  "struct_netns_sysctl_ipv6_amd64 =
   CStruct
    [Fld ''hdr'' CPtr,
     Fld ''route_hdr'' CPtr,
     Fld ''icmp_hdr'' CPtr,
     Fld ''frags_hdr'' CPtr,
     Fld ''xfrm6_hdr'' CPtr,
     Fld ''flush_delay'' (CInt True 4),
     Fld ''ip6_rt_max_size'' (CInt True 4),
     Fld ''ip6_rt_gc_min_interval'' (CInt True 4),
     Fld ''ip6_rt_gc_timeout'' (CInt True 4),
     Fld ''ip6_rt_gc_interval'' (CInt True 4),
     Fld ''ip6_rt_gc_elasticity'' (CInt True 4),
     Fld ''ip6_rt_mtu_expires'' (CInt True 4),
     Fld ''ip6_rt_min_advmss'' (CInt True 4),
     Fld ''multipath_hash_fields'' typedef_u32_amd64,
     Fld ''multipath_hash_policy'' typedef_u8_amd64,
     Fld ''bindv6only'' typedef_u8_amd64,
     Fld ''flowlabel_consistency'' typedef_u8_amd64,
     Fld ''auto_flowlabels'' typedef_u8_amd64,
     Fld ''icmpv6_time'' (CInt True 4),
     Fld ''icmpv6_echo_ignore_all'' typedef_u8_amd64,
     Fld ''icmpv6_echo_ignore_multicast'' typedef_u8_amd64,
     Fld ''icmpv6_echo_ignore_anycast'' typedef_u8_amd64,
     Fld ''icmpv6_ratemask'' (CArr (CInt False 8) 4),
     Fld ''icmpv6_ratemask_ptr'' CPtr,
     Fld ''anycast_src_echo_reply'' typedef_u8_amd64,
     Fld ''ip_nonlocal_bind'' typedef_u8_amd64,
     Fld ''fwmark_reflect'' typedef_u8_amd64,
     Fld ''flowlabel_state_ranges'' typedef_u8_amd64,
     Fld ''idgen_retries'' (CInt True 4),
     Fld ''idgen_delay'' (CInt True 4),
     Fld ''flowlabel_reflect'' (CInt True 4),
     Fld ''max_dst_opts_cnt'' (CInt True 4),
     Fld ''max_hbh_opts_cnt'' (CInt True 4),
     Fld ''max_dst_opts_len'' (CInt True 4),
     Fld ''max_hbh_opts_len'' (CInt True 4),
     Fld ''seg6_flowlabel'' (CInt True 4),
     Fld ''ioam6_id'' typedef_u32_amd64,
     Fld ''ioam6_id_wide'' typedef_u64_amd64,
     Fld ''skip_notify_on_dev_down'' typedef_u8_amd64,
     Fld ''fib_notify_on_flag_change'' typedef_u8_amd64,
     Fld ''icmpv6_error_anycast_as_unicast'' typedef_u8_amd64]"

lemma layout_struct_netns_sysctl_ipv6_amd64 [layout]:
  "sizeof struct_netns_sysctl_ipv6_amd64 = 184" "alignof struct_netns_sysctl_ipv6_amd64 = 8"
  "wf_ctype struct_netns_sysctl_ipv6_amd64" "unpacked struct_netns_sysctl_ipv6_amd64"
  by (simp_all add: struct_netns_sysctl_ipv6_amd64_def layout)

definition typedef_work_func_t_amd64 :: ctype where
  "typedef_work_func_t_amd64 =
   CPtr"

lemma layout_typedef_work_func_t_amd64 [layout]:
  "sizeof typedef_work_func_t_amd64 = 8" "alignof typedef_work_func_t_amd64 = 8"
  "wf_ctype typedef_work_func_t_amd64" "unpacked typedef_work_func_t_amd64"
  by (simp_all add: typedef_work_func_t_amd64_def layout)

definition struct_work_struct_amd64 :: ctype where
  "struct_work_struct_amd64 =
   CStruct
    [Fld ''data'' typedef_atomic_long_t_amd64,
     Fld ''entry'' struct_list_head_amd64,
     Fld ''func'' typedef_work_func_t_amd64]"

lemma layout_struct_work_struct_amd64 [layout]:
  "sizeof struct_work_struct_amd64 = 32" "alignof struct_work_struct_amd64 = 8"
  "wf_ctype struct_work_struct_amd64" "unpacked struct_work_struct_amd64"
  by (simp_all add: struct_work_struct_amd64_def layout)

definition struct_delayed_work_amd64 :: ctype where
  "struct_delayed_work_amd64 =
   CStruct
    [Fld ''work'' struct_work_struct_amd64,
     Fld ''timer'' struct_timer_list_amd64,
     Fld ''wq'' CPtr,
     Fld ''cpu'' (CInt True 4)]"

lemma layout_struct_delayed_work_amd64 [layout]:
  "sizeof struct_delayed_work_amd64 = 88" "alignof struct_delayed_work_amd64 = 8"
  "wf_ctype struct_delayed_work_amd64" "unpacked struct_delayed_work_amd64"
  by (simp_all add: struct_delayed_work_amd64_def layout)

definition struct_netns_ipv6_amd64 :: ctype where
  "struct_netns_ipv6_amd64 =
   CStruct
    [Fld ''ip6_dst_ops'' struct_dst_ops_amd64,
     Fld ''sysctl'' struct_netns_sysctl_ipv6_amd64,
     Fld ''devconf_all'' CPtr,
     Fld ''devconf_dflt'' CPtr,
     Fld ''peers'' CPtr,
     Fld ''fqdir'' CPtr,
     Fld ''fib6_null_entry'' CPtr,
     Fld ''ip6_null_entry'' CPtr,
     Fld ''rt6_stats'' CPtr,
     Fld ''ip6_fib_timer'' struct_timer_list_amd64,
     Fld ''fib_table_hash'' CPtr,
     Fld ''fib6_main_tbl'' CPtr,
     Fld ''fib6_walkers'' struct_list_head_amd64,
     Fld ''fib6_walker_lock'' typedef_rwlock_t_amd64,
     Fld ''fib6_gc_lock'' typedef_spinlock_t_amd64,
     Fld ''ip6_rt_gc_expire'' typedef_atomic_t_amd64,
     Fld ''ip6_rt_last_gc'' (CInt False 8),
     Fld ''flowlabel_has_excl'' (CInt False 1),
     Fld ''fib6_has_custom_rules'' typedef_bool_amd64,
     Fld ''fib6_rules_require_fldissect'' (CInt False 4),
     Fld ''fib6_routes_require_src'' (CInt False 4),
     Fld ''ip6_prohibit_entry'' CPtr,
     Fld ''ip6_blk_hole_entry'' CPtr,
     Fld ''fib6_local_tbl'' CPtr,
     Fld ''fib6_rules_ops'' CPtr,
     Fld ''ndisc_sk'' CPtr,
     Fld ''tcp_sk'' CPtr,
     Fld ''igmp_sk'' CPtr,
     Fld ''mc_autojoin_sk'' CPtr,
     Fld ''inet6_addr_lst'' CPtr,
     Fld ''addrconf_hash_lock'' typedef_spinlock_t_amd64,
     Fld ''addr_chk_work'' struct_delayed_work_amd64,
     Fld ''mr6_tables'' struct_list_head_amd64,
     Fld ''mr6_rules_ops'' CPtr,
     Fld ''dev_addr_genid'' typedef_atomic_t_amd64,
     Fld ''fib6_sernum'' typedef_atomic_t_amd64,
     Fld ''seg6_data'' CPtr,
     Fld ''notifier_ops'' CPtr,
     Fld ''ip6mr_notifier_ops'' CPtr,
     Fld ''ipmr_seq'' (CInt False 4),
     Fld ''ip6addrlbl_table'' (CStruct
       [Fld ''head'' struct_hlist_head_amd64,
        Fld ''lock'' typedef_spinlock_t_amd64,
        Fld ''seq'' typedef_u32_amd64]),
     Fld ''ioam6_data'' CPtr,
     Pad 8 64,
     Pad 8 64,
     Pad 8 64,
     Pad 8 64]"

lemma layout_struct_netns_ipv6_amd64 [layout]:
  "sizeof struct_netns_ipv6_amd64 = 832" "alignof struct_netns_ipv6_amd64 = 8"
  "wf_ctype struct_netns_ipv6_amd64" "unpacked struct_netns_ipv6_amd64"
  by (simp_all add: struct_netns_ipv6_amd64_def layout)

definition struct_netns_sysctl_lowpan_amd64 :: ctype where
  "struct_netns_sysctl_lowpan_amd64 =
   CStruct
    [Fld ''frags_hdr'' CPtr]"

lemma layout_struct_netns_sysctl_lowpan_amd64 [layout]:
  "sizeof struct_netns_sysctl_lowpan_amd64 = 8" "alignof struct_netns_sysctl_lowpan_amd64 = 8"
  "wf_ctype struct_netns_sysctl_lowpan_amd64" "unpacked struct_netns_sysctl_lowpan_amd64"
  by (simp_all add: struct_netns_sysctl_lowpan_amd64_def layout)

definition struct_netns_ieee802154_lowpan_amd64 :: ctype where
  "struct_netns_ieee802154_lowpan_amd64 =
   CStruct
    [Fld ''sysctl'' struct_netns_sysctl_lowpan_amd64,
     Fld ''fqdir'' CPtr]"

lemma layout_struct_netns_ieee802154_lowpan_amd64 [layout]:
  "sizeof struct_netns_ieee802154_lowpan_amd64 = 16" "alignof struct_netns_ieee802154_lowpan_amd64 = 8"
  "wf_ctype struct_netns_ieee802154_lowpan_amd64" "unpacked struct_netns_ieee802154_lowpan_amd64"
  by (simp_all add: struct_netns_ieee802154_lowpan_amd64_def layout)

definition struct_netns_sctp_amd64 :: ctype where
  "struct_netns_sctp_amd64 =
   CStruct
    [Fld ''sctp_statistics'' CPtr,
     Fld ''proc_net_sctp'' CPtr,
     Fld ''sysctl_header'' CPtr,
     Fld ''ctl_sock'' CPtr,
     Fld ''udp4_sock'' CPtr,
     Fld ''udp6_sock'' CPtr,
     Fld ''udp_port'' (CInt True 4),
     Fld ''encap_port'' (CInt True 4),
     Fld ''local_addr_list'' struct_list_head_amd64,
     Fld ''addr_waitq'' struct_list_head_amd64,
     Fld ''addr_wq_timer'' struct_timer_list_amd64,
     Fld ''auto_asconf_splist'' struct_list_head_amd64,
     Fld ''addr_wq_lock'' typedef_spinlock_t_amd64,
     Fld ''local_addr_lock'' typedef_spinlock_t_amd64,
     Fld ''rto_initial'' (CInt False 4),
     Fld ''rto_min'' (CInt False 4),
     Fld ''rto_max'' (CInt False 4),
     Fld ''rto_alpha'' (CInt True 4),
     Fld ''rto_beta'' (CInt True 4),
     Fld ''max_burst'' (CInt True 4),
     Fld ''cookie_preserve_enable'' (CInt True 4),
     Fld ''sctp_hmac_alg'' CPtr,
     Fld ''valid_cookie_life'' (CInt False 4),
     Fld ''sack_timeout'' (CInt False 4),
     Fld ''hb_interval'' (CInt False 4),
     Fld ''probe_interval'' (CInt False 4),
     Fld ''max_retrans_association'' (CInt True 4),
     Fld ''max_retrans_path'' (CInt True 4),
     Fld ''max_retrans_init'' (CInt True 4),
     Fld ''pf_retrans'' (CInt True 4),
     Fld ''ps_retrans'' (CInt True 4),
     Fld ''pf_enable'' (CInt True 4),
     Fld ''pf_expose'' (CInt True 4),
     Fld ''sndbuf_policy'' (CInt True 4),
     Fld ''rcvbuf_policy'' (CInt True 4),
     Fld ''default_auto_asconf'' (CInt True 4),
     Fld ''addip_enable'' (CInt True 4),
     Fld ''addip_noauth'' (CInt True 4),
     Fld ''prsctp_enable'' (CInt True 4),
     Fld ''reconf_enable'' (CInt True 4),
     Fld ''auth_enable'' (CInt True 4),
     Fld ''intl_enable'' (CInt True 4),
     Fld ''ecn_enable'' (CInt True 4),
     Fld ''scope_policy'' (CInt True 4),
     Fld ''rwnd_upd_shift'' (CInt True 4),
     Fld ''max_autoclose'' (CInt False 8),
     Fld ''l3mdev_accept'' (CInt True 4)]"

lemma layout_struct_netns_sctp_amd64 [layout]:
  "sizeof struct_netns_sctp_amd64 = 304" "alignof struct_netns_sctp_amd64 = 8"
  "wf_ctype struct_netns_sctp_amd64" "unpacked struct_netns_sctp_amd64"
  by (simp_all add: struct_netns_sctp_amd64_def layout)

definition struct_netns_nf_amd64 :: ctype where
  "struct_netns_nf_amd64 =
   CStruct
    [Fld ''proc_netfilter'' CPtr,
     Fld ''nf_loggers'' (CArr CPtr 11),
     Fld ''nf_log_dir_header'' CPtr,
     Fld ''nf_lwtnl_dir_header'' CPtr,
     Fld ''hooks_ipv4'' (CArr CPtr 5),
     Fld ''hooks_ipv6'' (CArr CPtr 5),
     Fld ''hooks_arp'' (CArr CPtr 3),
     Fld ''hooks_bridge'' (CArr CPtr 5),
     Fld ''defrag_ipv4_users'' (CInt False 4),
     Fld ''defrag_ipv6_users'' (CInt False 4)]"

lemma layout_struct_netns_nf_amd64 [layout]:
  "sizeof struct_netns_nf_amd64 = 264" "alignof struct_netns_nf_amd64 = 8"
  "wf_ctype struct_netns_nf_amd64" "unpacked struct_netns_nf_amd64"
  by (simp_all add: struct_netns_nf_amd64_def layout)

definition struct_nf_generic_net_amd64 :: ctype where
  "struct_nf_generic_net_amd64 =
   CStruct
    [Fld ''timeout'' (CInt False 4)]"

lemma layout_struct_nf_generic_net_amd64 [layout]:
  "sizeof struct_nf_generic_net_amd64 = 4" "alignof struct_nf_generic_net_amd64 = 4"
  "wf_ctype struct_nf_generic_net_amd64" "unpacked struct_nf_generic_net_amd64"
  by (simp_all add: struct_nf_generic_net_amd64_def layout)

definition struct_nf_tcp_net_amd64 :: ctype where
  "struct_nf_tcp_net_amd64 =
   CStruct
    [Fld ''timeouts'' (CArr (CInt False 4) 14),
     Fld ''tcp_loose'' typedef_u8_amd64,
     Fld ''tcp_be_liberal'' typedef_u8_amd64,
     Fld ''tcp_max_retrans'' typedef_u8_amd64,
     Fld ''tcp_ignore_invalid_rst'' typedef_u8_amd64,
     Fld ''offload_timeout'' (CInt False 4)]"

lemma layout_struct_nf_tcp_net_amd64 [layout]:
  "sizeof struct_nf_tcp_net_amd64 = 64" "alignof struct_nf_tcp_net_amd64 = 4"
  "wf_ctype struct_nf_tcp_net_amd64" "unpacked struct_nf_tcp_net_amd64"
  by (simp_all add: struct_nf_tcp_net_amd64_def layout)

definition struct_nf_udp_net_amd64 :: ctype where
  "struct_nf_udp_net_amd64 =
   CStruct
    [Fld ''timeouts'' (CArr (CInt False 4) 2),
     Fld ''offload_timeout'' (CInt False 4)]"

lemma layout_struct_nf_udp_net_amd64 [layout]:
  "sizeof struct_nf_udp_net_amd64 = 12" "alignof struct_nf_udp_net_amd64 = 4"
  "wf_ctype struct_nf_udp_net_amd64" "unpacked struct_nf_udp_net_amd64"
  by (simp_all add: struct_nf_udp_net_amd64_def layout)

definition struct_nf_icmp_net_amd64 :: ctype where
  "struct_nf_icmp_net_amd64 =
   CStruct
    [Fld ''timeout'' (CInt False 4)]"

lemma layout_struct_nf_icmp_net_amd64 [layout]:
  "sizeof struct_nf_icmp_net_amd64 = 4" "alignof struct_nf_icmp_net_amd64 = 4"
  "wf_ctype struct_nf_icmp_net_amd64" "unpacked struct_nf_icmp_net_amd64"
  by (simp_all add: struct_nf_icmp_net_amd64_def layout)

definition struct_nf_dccp_net_amd64 :: ctype where
  "struct_nf_dccp_net_amd64 =
   CStruct
    [Fld ''dccp_loose'' typedef_u8_amd64,
     Fld ''dccp_timeout'' (CArr (CInt False 4) 10)]"

lemma layout_struct_nf_dccp_net_amd64 [layout]:
  "sizeof struct_nf_dccp_net_amd64 = 44" "alignof struct_nf_dccp_net_amd64 = 4"
  "wf_ctype struct_nf_dccp_net_amd64" "unpacked struct_nf_dccp_net_amd64"
  by (simp_all add: struct_nf_dccp_net_amd64_def layout)

definition struct_nf_sctp_net_amd64 :: ctype where
  "struct_nf_sctp_net_amd64 =
   CStruct
    [Fld ''timeouts'' (CArr (CInt False 4) 10)]"

lemma layout_struct_nf_sctp_net_amd64 [layout]:
  "sizeof struct_nf_sctp_net_amd64 = 40" "alignof struct_nf_sctp_net_amd64 = 4"
  "wf_ctype struct_nf_sctp_net_amd64" "unpacked struct_nf_sctp_net_amd64"
  by (simp_all add: struct_nf_sctp_net_amd64_def layout)

definition struct_nf_gre_net_amd64 :: ctype where
  "struct_nf_gre_net_amd64 =
   CStruct
    [Fld ''keymap_list'' struct_list_head_amd64,
     Fld ''timeouts'' (CArr (CInt False 4) 2)]"

lemma layout_struct_nf_gre_net_amd64 [layout]:
  "sizeof struct_nf_gre_net_amd64 = 24" "alignof struct_nf_gre_net_amd64 = 8"
  "wf_ctype struct_nf_gre_net_amd64" "unpacked struct_nf_gre_net_amd64"
  by (simp_all add: struct_nf_gre_net_amd64_def layout)

definition struct_nf_ip_net_amd64 :: ctype where
  "struct_nf_ip_net_amd64 =
   CStruct
    [Fld ''generic'' struct_nf_generic_net_amd64,
     Fld ''tcp'' struct_nf_tcp_net_amd64,
     Fld ''udp'' struct_nf_udp_net_amd64,
     Fld ''icmp'' struct_nf_icmp_net_amd64,
     Fld ''icmpv6'' struct_nf_icmp_net_amd64,
     Fld ''dccp'' struct_nf_dccp_net_amd64,
     Fld ''sctp'' struct_nf_sctp_net_amd64,
     Fld ''gre'' struct_nf_gre_net_amd64]"

lemma layout_struct_nf_ip_net_amd64 [layout]:
  "sizeof struct_nf_ip_net_amd64 = 200" "alignof struct_nf_ip_net_amd64 = 8"
  "wf_ctype struct_nf_ip_net_amd64" "unpacked struct_nf_ip_net_amd64"
  by (simp_all add: struct_nf_ip_net_amd64_def layout)

definition struct_netns_ct_amd64 :: ctype where
  "struct_netns_ct_amd64 =
   CStruct
    [Fld ''ecache_dwork_pending'' typedef_bool_amd64,
     Fld ''sysctl_log_invalid'' typedef_u8_amd64,
     Fld ''sysctl_events'' typedef_u8_amd64,
     Fld ''sysctl_acct'' typedef_u8_amd64,
     Fld ''sysctl_tstamp'' typedef_u8_amd64,
     Fld ''sysctl_checksum'' typedef_u8_amd64,
     Fld ''stat'' CPtr,
     Fld ''nf_conntrack_event_cb'' CPtr,
     Fld ''nf_ct_proto'' struct_nf_ip_net_amd64,
     Fld ''labels_used'' typedef_atomic_t_amd64]"

lemma layout_struct_netns_ct_amd64 [layout]:
  "sizeof struct_netns_ct_amd64 = 232" "alignof struct_netns_ct_amd64 = 8"
  "wf_ctype struct_netns_ct_amd64" "unpacked struct_netns_ct_amd64"
  by (simp_all add: struct_netns_ct_amd64_def layout)

definition struct_netns_nftables_amd64 :: ctype where
  "struct_netns_nftables_amd64 =
   CStruct
    [Fld ''base_seq'' (CInt False 4),
     Fld ''gencursor'' typedef_u8_amd64]"

lemma layout_struct_netns_nftables_amd64 [layout]:
  "sizeof struct_netns_nftables_amd64 = 8" "alignof struct_netns_nftables_amd64 = 4"
  "wf_ctype struct_netns_nftables_amd64" "unpacked struct_netns_nftables_amd64"
  by (simp_all add: struct_netns_nftables_amd64_def layout)

definition struct_netns_ft_amd64 :: ctype where
  "struct_netns_ft_amd64 =
   CStruct
    [Fld ''stat'' CPtr]"

lemma layout_struct_netns_ft_amd64 [layout]:
  "sizeof struct_netns_ft_amd64 = 8" "alignof struct_netns_ft_amd64 = 8"
  "wf_ctype struct_netns_ft_amd64" "unpacked struct_netns_ft_amd64"
  by (simp_all add: struct_netns_ft_amd64_def layout)

definition struct_netns_bpf_amd64 :: ctype where
  "struct_netns_bpf_amd64 =
   CStruct
    [Fld ''run_array'' (CArr CPtr 2),
     Fld ''progs'' (CArr CPtr 2),
     Fld ''links'' (CArr struct_list_head_amd64 2)]"

lemma layout_struct_netns_bpf_amd64 [layout]:
  "sizeof struct_netns_bpf_amd64 = 64" "alignof struct_netns_bpf_amd64 = 8"
  "wf_ctype struct_netns_bpf_amd64" "unpacked struct_netns_bpf_amd64"
  by (simp_all add: struct_netns_bpf_amd64_def layout)

definition struct_xfrm_policy_hash_amd64 :: ctype where
  "struct_xfrm_policy_hash_amd64 =
   CStruct
    [Fld ''table'' CPtr,
     Fld ''hmask'' (CInt False 4),
     Fld ''dbits4'' typedef_u8_amd64,
     Fld ''sbits4'' typedef_u8_amd64,
     Fld ''dbits6'' typedef_u8_amd64,
     Fld ''sbits6'' typedef_u8_amd64]"

lemma layout_struct_xfrm_policy_hash_amd64 [layout]:
  "sizeof struct_xfrm_policy_hash_amd64 = 16" "alignof struct_xfrm_policy_hash_amd64 = 8"
  "wf_ctype struct_xfrm_policy_hash_amd64" "unpacked struct_xfrm_policy_hash_amd64"
  by (simp_all add: struct_xfrm_policy_hash_amd64_def layout)

definition struct_xfrm_policy_hthresh_amd64 :: ctype where
  "struct_xfrm_policy_hthresh_amd64 =
   CStruct
    [Fld ''work'' struct_work_struct_amd64,
     Fld ''lock'' typedef_seqlock_t_amd64,
     Fld ''lbits4'' typedef_u8_amd64,
     Fld ''rbits4'' typedef_u8_amd64,
     Fld ''lbits6'' typedef_u8_amd64,
     Fld ''rbits6'' typedef_u8_amd64]"

lemma layout_struct_xfrm_policy_hthresh_amd64 [layout]:
  "sizeof struct_xfrm_policy_hthresh_amd64 = 48" "alignof struct_xfrm_policy_hthresh_amd64 = 8"
  "wf_ctype struct_xfrm_policy_hthresh_amd64" "unpacked struct_xfrm_policy_hthresh_amd64"
  by (simp_all add: struct_xfrm_policy_hthresh_amd64_def layout)

definition struct_netns_xfrm_amd64 :: ctype where
  "struct_netns_xfrm_amd64 =
   CStruct
    [Fld ''state_all'' struct_list_head_amd64,
     Fld ''state_bydst'' CPtr,
     Fld ''state_bysrc'' CPtr,
     Fld ''state_byspi'' CPtr,
     Fld ''state_byseq'' CPtr,
     Fld ''state_cache_input'' CPtr,
     Fld ''state_hmask'' (CInt False 4),
     Fld ''state_num'' (CInt False 4),
     Fld ''state_hash_work'' struct_work_struct_amd64,
     Fld ''policy_all'' struct_list_head_amd64,
     Fld ''policy_byidx'' CPtr,
     Fld ''policy_idx_hmask'' (CInt False 4),
     Fld ''idx_generator'' (CInt False 4),
     Fld ''policy_inexact'' (CArr struct_hlist_head_amd64 3),
     Fld ''policy_bydst'' (CArr struct_xfrm_policy_hash_amd64 3),
     Fld ''policy_count'' (CArr (CInt False 4) 6),
     Fld ''policy_hash_work'' struct_work_struct_amd64,
     Fld ''policy_hthresh'' struct_xfrm_policy_hthresh_amd64,
     Fld ''inexact_bins'' struct_list_head_amd64,
     Fld ''nlsk'' CPtr,
     Fld ''nlsk_stash'' CPtr,
     Fld ''sysctl_aevent_etime'' typedef_u32_amd64,
     Fld ''sysctl_aevent_rseqth'' typedef_u32_amd64,
     Fld ''sysctl_larval_drop'' (CInt True 4),
     Fld ''sysctl_acq_expires'' typedef_u32_amd64,
     Fld ''policy_default'' (CArr typedef_u8_amd64 3),
     Fld ''sysctl_hdr'' CPtr,
     Pad 8 64,
     Pad 8 64,
     Fld ''xfrm4_dst_ops'' struct_dst_ops_amd64,
     Fld ''xfrm6_dst_ops'' struct_dst_ops_amd64,
     Fld ''xfrm_state_lock'' typedef_spinlock_t_amd64,
     Fld ''xfrm_state_hash_generation'' typedef_seqcount_spinlock_t_amd64,
     Fld ''xfrm_policy_hash_generation'' typedef_seqcount_spinlock_t_amd64,
     Fld ''xfrm_policy_lock'' typedef_spinlock_t_amd64,
     Fld ''xfrm_cfg_mutex'' struct_mutex_amd64,
     Pad 8 64,
     Pad 8 64]"

lemma layout_struct_netns_xfrm_amd64 [layout]:
  "sizeof struct_netns_xfrm_amd64 = 832" "alignof struct_netns_xfrm_amd64 = 8"
  "wf_ctype struct_netns_xfrm_amd64" "unpacked struct_netns_xfrm_amd64"
  by (simp_all add: struct_netns_xfrm_amd64_def layout)

definition typedef___kernel_ulong_t_amd64 :: ctype where
  "typedef___kernel_ulong_t_amd64 =
   CInt False 8"

lemma layout_typedef___kernel_ulong_t_amd64 [layout]:
  "sizeof typedef___kernel_ulong_t_amd64 = 8" "alignof typedef___kernel_ulong_t_amd64 = 8"
  "wf_ctype typedef___kernel_ulong_t_amd64" "unpacked typedef___kernel_ulong_t_amd64"
  by (simp_all add: typedef___kernel_ulong_t_amd64_def layout)

definition typedef___kernel_size_t_amd64 :: ctype where
  "typedef___kernel_size_t_amd64 =
   typedef___kernel_ulong_t_amd64"

lemma layout_typedef___kernel_size_t_amd64 [layout]:
  "sizeof typedef___kernel_size_t_amd64 = 8" "alignof typedef___kernel_size_t_amd64 = 8"
  "wf_ctype typedef___kernel_size_t_amd64" "unpacked typedef___kernel_size_t_amd64"
  by (simp_all add: typedef___kernel_size_t_amd64_def layout)

definition typedef_size_t_amd64 :: ctype where
  "typedef_size_t_amd64 =
   typedef___kernel_size_t_amd64"

lemma layout_typedef_size_t_amd64 [layout]:
  "sizeof typedef_size_t_amd64 = 8" "alignof typedef_size_t_amd64 = 8"
  "wf_ctype typedef_size_t_amd64" "unpacked typedef_size_t_amd64"
  by (simp_all add: typedef_size_t_amd64_def layout)

definition struct_netns_mpls_amd64 :: ctype where
  "struct_netns_mpls_amd64 =
   CStruct
    [Fld ''ip_ttl_propagate'' (CInt True 4),
     Fld ''default_ttl'' (CInt True 4),
     Fld ''platform_labels'' typedef_size_t_amd64,
     Fld ''platform_label'' CPtr,
     Fld ''ctl'' CPtr]"

lemma layout_struct_netns_mpls_amd64 [layout]:
  "sizeof struct_netns_mpls_amd64 = 32" "alignof struct_netns_mpls_amd64 = 8"
  "wf_ctype struct_netns_mpls_amd64" "unpacked struct_netns_mpls_amd64"
  by (simp_all add: struct_netns_mpls_amd64_def layout)

definition struct_netns_can_amd64 :: ctype where
  "struct_netns_can_amd64 =
   CStruct
    [Fld ''proc_dir'' CPtr,
     Fld ''pde_stats'' CPtr,
     Fld ''pde_reset_stats'' CPtr,
     Fld ''pde_rcvlist_all'' CPtr,
     Fld ''pde_rcvlist_fil'' CPtr,
     Fld ''pde_rcvlist_inv'' CPtr,
     Fld ''pde_rcvlist_sff'' CPtr,
     Fld ''pde_rcvlist_eff'' CPtr,
     Fld ''pde_rcvlist_err'' CPtr,
     Fld ''bcmproc_dir'' CPtr,
     Fld ''rx_alldev_list'' CPtr,
     Fld ''rcvlists_lock'' typedef_spinlock_t_amd64,
     Fld ''stattimer'' struct_timer_list_amd64,
     Fld ''pkg_stats'' CPtr,
     Fld ''rcv_lists_stats'' CPtr,
     Fld ''cgw_list'' struct_hlist_head_amd64]"

lemma layout_struct_netns_can_amd64 [layout]:
  "sizeof struct_netns_can_amd64 = 160" "alignof struct_netns_can_amd64 = 8"
  "wf_ctype struct_netns_can_amd64" "unpacked struct_netns_can_amd64"
  by (simp_all add: struct_netns_can_amd64_def layout)

definition struct_netns_xdp_amd64 :: ctype where
  "struct_netns_xdp_amd64 =
   CStruct
    [Fld ''lock'' struct_mutex_amd64,
     Fld ''list'' struct_hlist_head_amd64]"

lemma layout_struct_netns_xdp_amd64 [layout]:
  "sizeof struct_netns_xdp_amd64 = 40" "alignof struct_netns_xdp_amd64 = 8"
  "wf_ctype struct_netns_xdp_amd64" "unpacked struct_netns_xdp_amd64"
  by (simp_all add: struct_netns_xdp_amd64_def layout)

definition struct_netns_mctp_amd64 :: ctype where
  "struct_netns_mctp_amd64 =
   CStruct
    [Fld ''routes'' struct_list_head_amd64,
     Fld ''bind_lock'' struct_mutex_amd64,
     Fld ''binds'' struct_hlist_head_amd64,
     Fld ''keys_lock'' typedef_spinlock_t_amd64,
     Fld ''keys'' struct_hlist_head_amd64,
     Fld ''default_net'' (CInt False 4),
     Fld ''neigh_lock'' struct_mutex_amd64,
     Fld ''neighbours'' struct_list_head_amd64]"

lemma layout_struct_netns_mctp_amd64 [layout]:
  "sizeof struct_netns_mctp_amd64 = 128" "alignof struct_netns_mctp_amd64 = 8"
  "wf_ctype struct_netns_mctp_amd64" "unpacked struct_netns_mctp_amd64"
  by (simp_all add: struct_netns_mctp_amd64_def layout)

definition struct_netns_smc_amd64 :: ctype where
  "struct_netns_smc_amd64 =
   CStruct
    [Fld ''smc_stats'' CPtr,
     Fld ''mutex_fback_rsn'' struct_mutex_amd64,
     Fld ''fback_rsn'' CPtr,
     Fld ''limit_smc_hs'' typedef_bool_amd64,
     Fld ''smc_hdr'' CPtr,
     Fld ''sysctl_autocorking_size'' (CInt False 4),
     Fld ''sysctl_smcr_buf_type'' (CInt False 4),
     Fld ''sysctl_smcr_testlink_time'' (CInt True 4),
     Fld ''sysctl_wmem'' (CInt True 4),
     Fld ''sysctl_rmem'' (CInt True 4),
     Fld ''sysctl_max_links_per_lgr'' (CInt True 4),
     Fld ''sysctl_max_conns_per_lgr'' (CInt True 4)]"

lemma layout_struct_netns_smc_amd64 [layout]:
  "sizeof struct_netns_smc_amd64 = 96" "alignof struct_netns_smc_amd64 = 8"
  "wf_ctype struct_netns_smc_amd64" "unpacked struct_netns_smc_amd64"
  by (simp_all add: struct_netns_smc_amd64_def layout)

definition struct_net_amd64 :: ctype where
  "struct_net_amd64 =
   CStruct
    [Fld ''passive'' typedef_refcount_t_amd64,
     Fld ''rules_mod_lock'' typedef_spinlock_t_amd64,
     Fld ''dev_unreg_count'' typedef_atomic_t_amd64,
     Fld ''dev_base_seq'' (CInt False 4),
     Fld ''ifindex'' typedef_u32_amd64,
     Fld ''nsid_lock'' typedef_spinlock_t_amd64,
     Fld ''fnhe_genid'' typedef_atomic_t_amd64,
     Fld ''list'' struct_list_head_amd64,
     Fld ''exit_list'' struct_list_head_amd64,
     Fld ''defer_free_list'' struct_llist_node_amd64,
     Fld ''cleanup_list'' struct_llist_node_amd64,
     Fld ''key_domain'' CPtr,
     Fld ''user_ns'' CPtr,
     Fld ''ucounts'' CPtr,
     Fld ''netns_ids'' struct_idr_amd64,
     Fld ''ns'' struct_ns_common_amd64,
     Fld ''refcnt_tracker'' struct_ref_tracker_dir_amd64,
     Fld ''notrefcnt_tracker'' struct_ref_tracker_dir_amd64,
     Fld ''dev_base_head'' struct_list_head_amd64,
     Fld ''proc_net'' CPtr,
     Fld ''proc_net_stat'' CPtr,
     Fld ''sysctls'' struct_ctl_table_set_amd64,
     Fld ''rtnl'' CPtr,
     Fld ''genl_sock'' CPtr,
     Fld ''uevent_sock'' CPtr,
     Fld ''dev_name_head'' CPtr,
     Fld ''dev_index_head'' CPtr,
     Fld ''dev_by_index'' struct_xarray_amd64,
     Fld ''netdev_chain'' struct_raw_notifier_head_amd64,
     Fld ''hash_mix'' typedef_u32_amd64,
     Fld ''loopback_dev'' CPtr,
     Fld ''rules_ops'' struct_list_head_amd64,
     Fld ''core'' struct_netns_core_amd64,
     Fld ''mib'' struct_netns_mib_amd64,
     Fld ''packet'' struct_netns_packet_amd64,
     Fld ''unx'' struct_netns_unix_amd64,
     Fld ''nexthop'' struct_netns_nexthop_amd64,
     Pad 8 64,
     Pad 8 64,
     Fld ''ipv4'' struct_netns_ipv4_amd64,
     Fld ''ipv6'' struct_netns_ipv6_amd64,
     Fld ''ieee802154_lowpan'' struct_netns_ieee802154_lowpan_amd64,
     Fld ''sctp'' struct_netns_sctp_amd64,
     Fld ''nf'' struct_netns_nf_amd64,
     Fld ''ct'' struct_netns_ct_amd64,
     Fld ''nft'' struct_netns_nftables_amd64,
     Fld ''ft'' struct_netns_ft_amd64,
     Fld ''wext_nlevents'' struct_sk_buff_head_amd64,
     Fld ''gen'' CPtr,
     Fld ''bpf'' struct_netns_bpf_amd64,
     Pad 8 64,
     Pad 8 64,
     Pad 8 64,
     Pad 8 64,
     Fld ''xfrm'' struct_netns_xfrm_amd64,
     Fld ''net_cookie'' typedef_u64_amd64,
     Fld ''ipvs'' CPtr,
     Fld ''mpls'' struct_netns_mpls_amd64,
     Fld ''can'' struct_netns_can_amd64,
     Fld ''xdp'' struct_netns_xdp_amd64,
     Fld ''mctp'' struct_netns_mctp_amd64,
     Fld ''crypto_nlsk'' CPtr,
     Fld ''diag_nlsk'' CPtr,
     Fld ''smc'' struct_netns_smc_amd64,
     Pad 8 64,
     Pad 8 64,
     Pad 8 64]"

lemma layout_struct_net_amd64 [layout]:
  "sizeof struct_net_amd64 = 4672" "alignof struct_net_amd64 = 8"
  "wf_ctype struct_net_amd64" "unpacked struct_net_amd64"
  by (simp_all add: struct_net_amd64_def layout)

end
