(* ===== verification/Bpf_Fentry.thy ===== *)
theory Bpf_Fentry
  imports Bpf_Runtime Vmlinux_Arm64 Vmlinux_Amd64
begin

text \<open>
  The fexit programs of \<^verbatim>\<open>src/procinfo/bpf/fentry/connect_fentry.c\<close>: one record per
  successful outbound TCP connect. A program is a function of the environment, the socket
  address, the return value of the traced function and the ring buffer; it returns its
  own return value and the ring buffer with what it submitted. The theory shows what the
  submitted record holds in terms of the socket's members in kernel memory, for every
  kernel whose \<open>struct sock\<close> has the members the program reads; both headers do.
\<close>

section \<open>The event as declared\<close>

definition struct_event_fentry :: ctype where
  "struct_event_fentry = CPacked
     [Fld ''timestamp_ns'' typedef___u64_arm64,
      Fld ''skaddr'' typedef___u64_arm64,
      Fld ''pid'' typedef___u32_arm64,
      Fld ''proto'' typedef___u8_arm64,
      Fld ''ip_ver'' typedef___u8_arm64,
      Fld ''local_port'' typedef___u16_arm64,
      Fld ''remote_port'' typedef___u16_arm64,
      Fld ''local_addr'' (CArr typedef___u8_arm64 16),
      Fld ''remote_addr'' (CArr typedef___u8_arm64 16),
      Fld ''new_state'' typedef___u32_arm64,
      Fld ''source'' typedef___u8_arm64]"

lemma layout_struct_event_fentry [layout]: "sizeof struct_event_fentry = 63"
  by (simp add: struct_event_fentry_def layout)

section \<open>The programs\<close>

definition SOURCE_CONNECT :: u8 where
  "SOURCE_CONNECT = 0"

definition fill_addrs_v4_fentry :: "event \<Rightarrow> u32 \<Rightarrow> u32 \<Rightarrow> event" where
  "fill_addrs_v4_fentry ev saddr daddr =
     (let ev = ev\<lparr>ev_ip_ver := 4\<rparr>;
          ev = ev\<lparr>ev_local_addr := memcpy (ev_local_addr ev) (le_bytes 4 saddr)\<rparr>;
          ev = ev\<lparr>ev_remote_addr := memcpy (ev_remote_addr ev) (le_bytes 4 daddr)\<rparr>
      in ev)"

definition fill_addrs_v6_fentry :: "bpf_env \<Rightarrow> event \<Rightarrow> u64 \<Rightarrow> event" where
  "fill_addrs_v6_fentry env ev sk =
     (let ev = ev\<lparr>ev_ip_ver := 6\<rparr>;
          ev = ev\<lparr>ev_local_addr := core_read env sk [''__sk_common'', ''skc_v6_rcv_saddr''] 16\<rparr>;
          ev = ev\<lparr>ev_remote_addr := core_read env sk [''__sk_common'', ''skc_v6_daddr''] 16\<rparr>
      in ev)"

definition emit_connect_event ::
    "bpf_env \<Rightarrow> u64 \<Rightarrow> 32 word \<Rightarrow> int \<Rightarrow> bytes list \<Rightarrow> int \<times> bytes list" where
  "emit_connect_event env sk ret ip_ver ring =
     (if ret \<noteq> 0 then (0, ring)
      else case ringbuf_reserve env of
        None \<Rightarrow> (0, ring)
      | Some ev \<Rightarrow>
          (let ev = ev\<lparr>ev_timestamp_ns := ktime_get_ns env\<rparr>;
               ev = ev\<lparr>ev_skaddr := le_word (probe_read_kernel env (Stack (le_bytes 8 sk)) 8)\<rparr>;
               ev = ev\<lparr>ev_pid := ucast (drop_bit 32 (get_current_pid_tgid env))\<rparr>;
               ev = ev\<lparr>ev_proto := 0\<rparr>;
               ev = ev\<lparr>ev_source := SOURCE_CONNECT\<rparr>;
               ev = ev\<lparr>ev_new_state :=
                      ucast (le_word (core_read env sk [''__sk_common'', ''skc_state''] 1) :: u8)\<rparr>;
               ev = ev\<lparr>ev_local_port := le_word (core_read env sk [''__sk_common'', ''skc_num''] 2)\<rparr>;
               ev = ev\<lparr>ev_remote_port :=
                      ntohs (le_word (core_read env sk [''__sk_common'', ''skc_dport''] 2))\<rparr>;
               ev = (if ip_ver = 4
                     then fill_addrs_v4_fentry ev
                            (le_word (core_read env sk [''__sk_common'', ''skc_rcv_saddr''] 4))
                            (le_word (core_read env sk [''__sk_common'', ''skc_daddr''] 4))
                     else fill_addrs_v6_fentry env ev sk)
           in (0, ring @ [event_bytes ev])))"

definition fexit_tcp_v4_connect ::
    "bpf_env \<Rightarrow> u64 \<Rightarrow> 32 word \<Rightarrow> bytes list \<Rightarrow> int \<times> bytes list" where
  "fexit_tcp_v4_connect env sk ret ring = emit_connect_event env sk ret 4 ring"

definition fexit_tcp_v6_connect ::
    "bpf_env \<Rightarrow> u64 \<Rightarrow> 32 word \<Rightarrow> bytes list \<Rightarrow> int \<times> bytes list" where
  "fexit_tcp_v6_connect env sk ret ring = emit_connect_event env sk ret 6 ring"

section \<open>The members the programs read\<close>

definition sock_members :: "(string list \<times> nat) list" where
  "sock_members =
     [([''__sk_common'', ''skc_state''], 1),
      ([''__sk_common'', ''skc_num''], 2),
      ([''__sk_common'', ''skc_dport''], 2),
      ([''__sk_common'', ''skc_rcv_saddr''], 4),
      ([''__sk_common'', ''skc_daddr''], 4),
      ([''__sk_common'', ''skc_v6_rcv_saddr''], 16),
      ([''__sk_common'', ''skc_v6_daddr''], 16)]"

lemma field_sock_common_arm64 [layout]:
  "field struct_sock_common_arm64 ''skc_daddr'' = Some (0, typedef___be32_arm64)"
  "field struct_sock_common_arm64 ''skc_rcv_saddr'' = Some (4, typedef___be32_arm64)"
  "field struct_sock_common_arm64 ''skc_dport'' = Some (12, typedef___be16_arm64)"
  "field struct_sock_common_arm64 ''skc_num'' = Some (14, typedef___u16_arm64)"
  "field struct_sock_common_arm64 ''skc_state'' = Some (18, CInt False 1)"
  "field struct_sock_common_arm64 ''skc_v6_daddr'' = Some (56, struct_in6_addr_arm64)"
  "field struct_sock_common_arm64 ''skc_v6_rcv_saddr'' = Some (72, struct_in6_addr_arm64)"
  by (simp_all add: struct_sock_common_arm64_def layout)

lemma field_sock_common_amd64 [layout]:
  "field struct_sock_common_amd64 ''skc_daddr'' = Some (0, typedef___be32_amd64)"
  "field struct_sock_common_amd64 ''skc_rcv_saddr'' = Some (4, typedef___be32_amd64)"
  "field struct_sock_common_amd64 ''skc_dport'' = Some (12, typedef___be16_amd64)"
  "field struct_sock_common_amd64 ''skc_num'' = Some (14, typedef___u16_amd64)"
  "field struct_sock_common_amd64 ''skc_state'' = Some (18, CInt False 1)"
  "field struct_sock_common_amd64 ''skc_v6_daddr'' = Some (56, struct_in6_addr_amd64)"
  "field struct_sock_common_amd64 ''skc_v6_rcv_saddr'' = Some (72, struct_in6_addr_amd64)"
  by (simp_all add: struct_sock_common_amd64_def layout)

lemma field_sock [layout]:
  "field struct_sock_arm64 ''__sk_common'' = Some (0, struct_sock_common_arm64)"
  "field struct_sock_amd64 ''__sk_common'' = Some (0, struct_sock_common_amd64)"
  by (simp_all add: struct_sock_arm64_def struct_sock_amd64_def layout)

lemma sock_arm64_members: "has_members struct_sock_arm64 sock_members"
  by (simp add: has_members_def sock_members_def layout)

lemma sock_amd64_members: "has_members struct_sock_amd64 sock_members"
  by (simp add: has_members_def sock_members_def layout)

section \<open>What a successful connect submits\<close>

text \<open>The event that describes a socket in kernel memory, independently of how it was built.\<close>

definition sock_addr :: "(u64 \<Rightarrow> u8) \<Rightarrow> ctype \<Rightarrow> u64 \<Rightarrow> string \<Rightarrow> bytes" where
  "sock_addr mem t sk f = member_bytes mem t sk [''__sk_common'', f]"

definition describes :: "(u64 \<Rightarrow> u8) \<Rightarrow> ctype \<Rightarrow> u64 \<Rightarrow> int \<Rightarrow> event \<Rightarrow> bool" where
  "describes mem t sk ip_ver ev \<longleftrightarrow>
     event_ok ev \<and> ev_skaddr ev = sk \<and> ev_proto ev = 0 \<and>
     ev_new_state ev = ucast (le_word (sock_addr mem t sk ''skc_state'') :: u8) \<and>
     le_bytes 2 (ev_local_port ev) = sock_addr mem t sk ''skc_num'' \<and>
     rev (le_bytes 2 (ev_remote_port ev)) = sock_addr mem t sk ''skc_dport'' \<and>
     (if ip_ver = 4
      then ev_ip_ver ev = 4 \<and>
           take 4 (ev_local_addr ev) = sock_addr mem t sk ''skc_rcv_saddr'' \<and>
           take 4 (ev_remote_addr ev) = sock_addr mem t sk ''skc_daddr''
      else ev_ip_ver ev = 6 \<and>
           ev_local_addr ev = sock_addr mem t sk ''skc_v6_rcv_saddr'' \<and>
           ev_remote_addr ev = sock_addr mem t sk ''skc_v6_daddr'')"

locale sock_kernel = relocated +
  assumes members: "has_members ktype sock_members"
begin

lemma sock_reads:
  "core_read env sk [''__sk_common'', ''skc_state''] (Suc 0) = sock_addr mem ktype sk ''skc_state''"
  "core_read env sk [''__sk_common'', ''skc_num''] 2 = sock_addr mem ktype sk ''skc_num''"
  "core_read env sk [''__sk_common'', ''skc_dport''] 2 = sock_addr mem ktype sk ''skc_dport''"
  "core_read env sk [''__sk_common'', ''skc_rcv_saddr''] 4 = sock_addr mem ktype sk ''skc_rcv_saddr''"
  "core_read env sk [''__sk_common'', ''skc_daddr''] 4 = sock_addr mem ktype sk ''skc_daddr''"
  "core_read env sk [''__sk_common'', ''skc_v6_rcv_saddr''] 16 =
     sock_addr mem ktype sk ''skc_v6_rcv_saddr''"
  "core_read env sk [''__sk_common'', ''skc_v6_daddr''] 16 = sock_addr mem ktype sk ''skc_v6_daddr''"
  unfolding sock_addr_def
  by (rule core_read_member_bytes(1) [OF members]; simp add: sock_members_def)+

lemma sock_lengths:
  "length (sock_addr mem ktype sk ''skc_state'') = 1"
  "length (sock_addr mem ktype sk ''skc_num'') = 2"
  "length (sock_addr mem ktype sk ''skc_dport'') = 2"
  "length (sock_addr mem ktype sk ''skc_rcv_saddr'') = 4"
  "length (sock_addr mem ktype sk ''skc_daddr'') = 4"
  "length (sock_addr mem ktype sk ''skc_v6_rcv_saddr'') = 16"
  "length (sock_addr mem ktype sk ''skc_v6_daddr'') = 16"
  unfolding sock_addr_def
  by (rule core_read_member_bytes(2) [OF members]; simp add: sock_members_def)+

lemma emit_connect_event_success:
  assumes "ringbuf_reserve env = Some g"
  shows "\<exists>ev. emit_connect_event env sk 0 ip_ver ring = (0, ring @ [event_bytes ev]) \<and>
    describes mem ktype sk ip_ver ev \<and> ev_source ev = SOURCE_CONNECT \<and>
    ev_pid ev = ucast (drop_bit 32 (get_current_pid_tgid env)) \<and>
    ev_timestamp_ns ev = ktime_get_ns env"
proof -
  have g: "length (ev_local_addr g) = 16" "length (ev_remote_addr g) = 16"
    using reserve_ok [OF assms] by (simp_all add: event_ok_def)
  show ?thesis
    unfolding emit_connect_event_def assms option.case Let_def fill_addrs_v4_fentry_def
      fill_addrs_v6_fentry_def
    by (cases "ip_ver = 4"; simp, intro exI conjI, rule refl)
      (simp_all add: sock_reads sock_lengths read_stack le_word_le_bytes describes_def event_ok_def
        le_bytes_ntohs le_bytes_le_word memcpy_def g)
qed

end

lemma emit_connect_event_silent:
  "ret \<noteq> 0 \<or> ringbuf_reserve env = None \<Longrightarrow> emit_connect_event env sk ret ip_ver ring = (0, ring)"
  by (auto simp: emit_connect_event_def)

text \<open>Both headers' \<open>struct sock\<close> is a kernel type the programs can be relocated against.\<close>

interpretation arm64: sock_kernel "kernel_env mem struct_sock_arm64 now pt res upd" mem struct_sock_arm64
  for mem now pt res upd
  by (intro sock_kernel.intro kernel_env_relocated sock_kernel_axioms.intro sock_arm64_members)
    (simp_all add: layout)

interpretation amd64: sock_kernel "kernel_env mem struct_sock_amd64 now pt res upd" mem struct_sock_amd64
  for mem now pt res upd
  by (intro sock_kernel.intro kernel_env_relocated sock_kernel_axioms.intro sock_amd64_members)
    (simp_all add: layout)

end
