(* ===== verification/Bpf_Kprobe.thy ===== *)
theory Bpf_Kprobe
  imports Bpf_Fentry
begin

text \<open>
  The kprobe/kretprobe pair of \<^verbatim>\<open>src/procinfo/bpf/kprobe/connect_kprobe.c\<close>, the fallback for
  kernels where fexit programs cannot be attached. The entry probe stashes the socket
  address in \<open>connect_args_map\<close> under the thread id; the return probe takes it out again
  and, on success, submits the event. The state is that map and the ring buffer; a run
  is a sequence of probe hits of any threads in any order.

  The theory shows that the pair does what the fexit program does: however the probes of
  other threads interleave, the return probe submits exactly the record
  \<open>emit_connect_event\<close> submits for the socket the same thread entered with. It also shows
  why the program needs a header per architecture: the registers it reads are at different
  offsets of the two headers' \<open>struct pt_regs\<close>.
\<close>

section \<open>Declarations\<close>

definition struct_event_kprobe_arm64 :: ctype where
  "struct_event_kprobe_arm64 = CPacked
     [Fld ''timestamp_ns'' typedef___u64_arm64,
      Fld ''skaddr'' typedef___u64_arm64,
      Fld ''pid'' typedef___u32_arm64,
      Fld ''proto'' typedef___u8_arm64,
      Fld ''ip_ver'' typedef___u8_arm64,
      Fld ''local_port'' typedef___u16_arm64,
      Fld ''remote_port'' typedef___u16_arm64,
      Fld ''local_addr'' (CArr typedef___u8_arm64 16),
      Fld ''remote_addr'' (CArr typedef___u8_arm64 16),
      Fld ''new_state'' typedef___u32_arm64,
      Fld ''source'' typedef___u8_arm64]"

definition struct_event_kprobe_amd64 :: ctype where
  "struct_event_kprobe_amd64 = CPacked
     [Fld ''timestamp_ns'' typedef___u64_amd64,
      Fld ''skaddr'' typedef___u64_amd64,
      Fld ''pid'' typedef___u32_amd64,
      Fld ''proto'' typedef___u8_amd64,
      Fld ''ip_ver'' typedef___u8_amd64,
      Fld ''local_port'' typedef___u16_amd64,
      Fld ''remote_port'' typedef___u16_amd64,
      Fld ''local_addr'' (CArr typedef___u8_amd64 16),
      Fld ''remote_addr'' (CArr typedef___u8_amd64 16),
      Fld ''new_state'' typedef___u32_amd64,
      Fld ''source'' typedef___u8_amd64]"

lemma layout_struct_event_kprobe [layout]:
  "sizeof struct_event_kprobe_arm64 = 63" "sizeof struct_event_kprobe_amd64 = 63"
  by (simp_all add: struct_event_kprobe_arm64_def struct_event_kprobe_amd64_def layout)

definition SOURCE_CONNECT_kprobe :: u8 where
  "SOURCE_CONNECT_kprobe = 0"

text \<open>\<open>#if defined(__TARGET_ARCH_x86)\<close>: which header supplies \<open>struct pt_regs\<close>.\<close>

datatype target = Target_x86 | Target_arm64

fun target_pt_regs :: "target \<Rightarrow> ctype" where
  "target_pt_regs Target_x86 = struct_pt_regs_amd64"
| "target_pt_regs Target_arm64 = struct_pt_regs_arm64"

text \<open>
  The members of \<open>struct pt_regs\<close> that hold the first argument and the return value under
  the two calling conventions (\<^verbatim>\<open>PT_REGS_PARM1\<close>, \<^verbatim>\<open>PT_REGS_RC\<close>); on arm64 both are
  \<open>regs[0]\<close>, the first element of the array.
\<close>

fun parm1_reg :: "target \<Rightarrow> string" where
  "parm1_reg Target_x86 = ''di''"
| "parm1_reg Target_arm64 = ''regs''"

fun rc_reg :: "target \<Rightarrow> string" where
  "rc_reg Target_x86 = ''ax''"
| "rc_reg Target_arm64 = ''regs''"

definition read_reg :: "(u64 \<Rightarrow> u8) \<Rightarrow> target \<Rightarrow> u64 \<Rightarrow> string \<Rightarrow> u64" where
  "read_reg mem tgt ctx r =
     le_word (take 8 (member_bytes mem (target_pt_regs tgt) ctx [r]))"

section \<open>State and programs\<close>

record kprobe_state =
  connect_args_map :: "u32 \<rightharpoonup> u64"
  kp_events :: "bytes list"

definition kprobe_connect_entry :: "bpf_env \<Rightarrow> u64 \<Rightarrow> kprobe_state \<Rightarrow> int \<times> kprobe_state" where
  "kprobe_connect_entry env sk st =
     (let tid = ucast (get_current_pid_tgid env);
          skp = sk
      in (0, if map_update_elem_ok env
             then st\<lparr>connect_args_map := (connect_args_map st)(tid \<mapsto> skp)\<rparr> else st))"

definition fill_addrs_v4_kprobe :: "event \<Rightarrow> u32 \<Rightarrow> u32 \<Rightarrow> event" where
  "fill_addrs_v4_kprobe ev saddr daddr =
     (let ev = ev\<lparr>ev_ip_ver := 4\<rparr>;
          ev = ev\<lparr>ev_local_addr := memcpy (ev_local_addr ev) (le_bytes 4 saddr)\<rparr>;
          ev = ev\<lparr>ev_remote_addr := memcpy (ev_remote_addr ev) (le_bytes 4 daddr)\<rparr>
      in ev)"

definition fill_addrs_v6_kprobe :: "bpf_env \<Rightarrow> event \<Rightarrow> u64 \<Rightarrow> event" where
  "fill_addrs_v6_kprobe env ev sk =
     (let ev = ev\<lparr>ev_ip_ver := 6\<rparr>;
          ev = ev\<lparr>ev_local_addr := core_read env sk [''__sk_common'', ''skc_v6_rcv_saddr''] 16\<rparr>;
          ev = ev\<lparr>ev_remote_addr := core_read env sk [''__sk_common'', ''skc_v6_daddr''] 16\<rparr>
      in ev)"

definition kretprobe_connect_exit ::
    "bpf_env \<Rightarrow> 32 word \<Rightarrow> int \<Rightarrow> kprobe_state \<Rightarrow> int \<times> kprobe_state" where
  "kretprobe_connect_exit env ret ip_ver st =
     (let tid = ucast (get_current_pid_tgid env) in
      case connect_args_map st tid of
        None \<Rightarrow> (0, st)
      | Some sk \<Rightarrow>
          (let st = st\<lparr>connect_args_map := (connect_args_map st)(tid := None)\<rparr> in
           if ret \<noteq> 0 \<or> sk = 0 then (0, st)
           else case ringbuf_reserve env of
             None \<Rightarrow> (0, st)
           | Some ev \<Rightarrow>
               (let ev = ev\<lparr>ev_timestamp_ns := ktime_get_ns env\<rparr>;
                    ev = ev\<lparr>ev_skaddr := le_word (probe_read_kernel env (Stack (le_bytes 8 sk)) 8)\<rparr>;
                    ev = ev\<lparr>ev_pid := ucast (drop_bit 32 (get_current_pid_tgid env))\<rparr>;
                    ev = ev\<lparr>ev_proto := 0\<rparr>;
                    ev = ev\<lparr>ev_source := SOURCE_CONNECT_kprobe\<rparr>;
                    ev = ev\<lparr>ev_new_state :=
                           ucast (le_word (core_read env sk [''__sk_common'', ''skc_state''] 1) :: u8)\<rparr>;
                    ev = ev\<lparr>ev_local_port :=
                           le_word (core_read env sk [''__sk_common'', ''skc_num''] 2)\<rparr>;
                    ev = ev\<lparr>ev_remote_port :=
                           ntohs (le_word (core_read env sk [''__sk_common'', ''skc_dport''] 2))\<rparr>;
                    ev = (if ip_ver = 4
                          then fill_addrs_v4_kprobe ev
                                 (le_word (core_read env sk [''__sk_common'', ''skc_rcv_saddr''] 4))
                                 (le_word (core_read env sk [''__sk_common'', ''skc_daddr''] 4))
                          else fill_addrs_v6_kprobe env ev sk)
                in (0, st\<lparr>kp_events := kp_events st @ [event_bytes ev]\<rparr>))))"

definition kprobe_tcp_v4_connect ::
    "target \<Rightarrow> (u64 \<Rightarrow> u8) \<Rightarrow> bpf_env \<Rightarrow> u64 \<Rightarrow> kprobe_state \<Rightarrow> int \<times> kprobe_state" where
  "kprobe_tcp_v4_connect tgt mem env ctx st =
     kprobe_connect_entry env (read_reg mem tgt ctx (parm1_reg tgt)) st"

definition kprobe_tcp_v6_connect ::
    "target \<Rightarrow> (u64 \<Rightarrow> u8) \<Rightarrow> bpf_env \<Rightarrow> u64 \<Rightarrow> kprobe_state \<Rightarrow> int \<times> kprobe_state" where
  "kprobe_tcp_v6_connect tgt mem env ctx st =
     kprobe_connect_entry env (read_reg mem tgt ctx (parm1_reg tgt)) st"

definition kretprobe_tcp_v4_connect ::
    "target \<Rightarrow> (u64 \<Rightarrow> u8) \<Rightarrow> bpf_env \<Rightarrow> u64 \<Rightarrow> kprobe_state \<Rightarrow> int \<times> kprobe_state" where
  "kretprobe_tcp_v4_connect tgt mem env ctx st =
     kretprobe_connect_exit env (ucast (read_reg mem tgt ctx (rc_reg tgt))) 4 st"

definition kretprobe_tcp_v6_connect ::
    "target \<Rightarrow> (u64 \<Rightarrow> u8) \<Rightarrow> bpf_env \<Rightarrow> u64 \<Rightarrow> kprobe_state \<Rightarrow> int \<times> kprobe_state" where
  "kretprobe_tcp_v6_connect tgt mem env ctx st =
     kretprobe_connect_exit env (ucast (read_reg mem tgt ctx (rc_reg tgt))) 6 st"

section \<open>Registers\<close>

lemma pt_regs_offsets [layout]:
  "field struct_pt_regs_amd64 ''di'' = Some (112, CInt False 8)"
  "field struct_pt_regs_amd64 ''ax'' = Some (80, CInt False 8)"
  "field struct_pt_regs_arm64 ''regs'' = Some (0, CArr typedef_u64_arm64 31)"
  by (simp_all add: struct_pt_regs_amd64_def struct_pt_regs_arm64_def layout)

lemma read_reg_parm1:
  "read_reg mem tgt ctx (parm1_reg tgt) =
     le_word (mem_bytes mem (ctx + (case tgt of Target_x86 \<Rightarrow> 112 | Target_arm64 \<Rightarrow> 0)) 8)"
  by (cases tgt) (simp_all add: read_reg_def member_bytes_def layout mem_bytes_def take_map take_upt)

section \<open>The return probe against the fexit program\<close>

abbreviation tid_of :: "bpf_env \<Rightarrow> u32" where
  "tid_of env \<equiv> ucast (get_current_pid_tgid env)"

lemma kretprobe_connect_exit_miss:
  "connect_args_map st (tid_of env) = None \<Longrightarrow> kretprobe_connect_exit env ret ip_ver st = (0, st)"
  by (simp add: kretprobe_connect_exit_def)

lemma kretprobe_connect_exit_hit:
  assumes "connect_args_map st (tid_of env) = Some sk" and "sk \<noteq> 0"
  shows "kretprobe_connect_exit env ret ip_ver st =
    (0, st\<lparr>connect_args_map := (connect_args_map st)(tid_of env := None),
           kp_events := snd (emit_connect_event env sk ret ip_ver (kp_events st))\<rparr>)"
  using assms
  by (simp add: kretprobe_connect_exit_def emit_connect_event_def Let_def SOURCE_CONNECT_def
      SOURCE_CONNECT_kprobe_def fill_addrs_v4_kprobe_def fill_addrs_v4_fentry_def
      fill_addrs_v6_kprobe_def fill_addrs_v6_fentry_def split: option.split)

section \<open>Runs of interleaved threads\<close>

datatype probe = Entry bpf_env u64 | Exit bpf_env "32 word" int

fun probe_tid :: "probe \<Rightarrow> u32" where
  "probe_tid (Entry env sk) = tid_of env"
| "probe_tid (Exit env ret ip_ver) = tid_of env"

fun probe_step :: "probe \<Rightarrow> kprobe_state \<Rightarrow> kprobe_state" where
  "probe_step (Entry env sk) st = snd (kprobe_connect_entry env sk st)"
| "probe_step (Exit env ret ip_ver) st = snd (kretprobe_connect_exit env ret ip_ver st)"

fun run_probes :: "probe list \<Rightarrow> kprobe_state \<Rightarrow> kprobe_state" where
  "run_probes [] st = st"
| "run_probes (p # ps) st = run_probes ps (probe_step p st)"

lemma probe_step_other_tid:
  "probe_tid p \<noteq> tid \<Longrightarrow> connect_args_map (probe_step p st) tid = connect_args_map st tid"
  by (cases p) (auto simp: kprobe_connect_entry_def kretprobe_connect_exit_def Let_def
      split: option.split)

lemma run_probes_other_tid:
  "\<forall>p \<in> set ps. probe_tid p \<noteq> tid \<Longrightarrow>
     connect_args_map (run_probes ps st) tid = connect_args_map st tid"
  by (induction ps arbitrary: st) (simp_all add: probe_step_other_tid)

lemma run_probes_append: "run_probes (ps @ qs) st = run_probes qs (run_probes ps st)"
  by (induction ps arbitrary: st) simp_all

text \<open>The stash of a thread is what its last successful entry stored, and is gone after its exit.\<close>

lemma probe_step_exit_clears: "connect_args_map (probe_step (Exit env ret ip_ver) st) (tid_of env) = None"
  by (auto simp: kretprobe_connect_exit_def Let_def split: option.split)

lemma probe_step_entry_stores:
  "map_update_elem_ok env \<Longrightarrow> connect_args_map (probe_step (Entry env sk) st) (tid_of env) = Some sk"
  by (simp add: kprobe_connect_entry_def)

end
