(* ===== verification/Bpf_Sockstate.thy ===== *)
theory Bpf_Sockstate
  imports Bpf_Fentry
begin

text \<open>
  The tracepoint program of \<^verbatim>\<open>src/procinfo/bpf/sockstate/sockstate_tracepoint.c\<close>: one record
  per TCP state transition of any socket, inbound or outbound. Its context is a
  \<^verbatim>\<open>struct trace_event_raw_inet_sock_set_state\<close> in memory; scalar members are loaded from
  it directly, the IPv6 addresses through the read helper.
\<close>

section \<open>Declarations\<close>

definition struct_event_sockstate :: ctype where
  "struct_event_sockstate = CPacked
     [Fld ''timestamp_ns'' typedef___u64_arm64,
      Fld ''skaddr'' typedef___u64_arm64,
      Fld ''pid'' typedef___u32_arm64,
      Fld ''proto'' typedef___u8_arm64,
      Fld ''ip_ver'' typedef___u8_arm64,
      Fld ''local_port'' typedef___u16_arm64,
      Fld ''remote_port'' typedef___u16_arm64,
      Fld ''local_addr'' (CArr typedef___u8_arm64 16),
      Fld ''remote_addr'' (CArr typedef___u8_arm64 16),
      Fld ''new_state'' typedef___u32_arm64,
      Fld ''source'' typedef___u8_arm64]"

lemma layout_struct_event_sockstate [layout]: "sizeof struct_event_sockstate = 63"
  by (simp add: struct_event_sockstate_def layout)

definition AF_INET :: u16 where "AF_INET = 2"

definition AF_INET6 :: u16 where "AF_INET6 = 10"

definition SOURCE_STATE_CHANGE :: u8 where "SOURCE_STATE_CHANGE = 1"

text \<open>The enumerator the program compares with, taken from the header it includes.\<close>

definition IPPROTO_TCP :: u16 where
  "IPPROTO_TCP = of_int (the (map_of enum_ipproto_arm64 ''IPPROTO_TCP''))"

lemma IPPROTO_TCP_val: "IPPROTO_TCP = 6"
  by (simp add: IPPROTO_TCP_def enum_ipproto_arm64_def)

section \<open>The program\<close>

text \<open>\<open>ctx->f\<close>: the \<open>n\<close> bytes of a member of the context, at its relocated offset.\<close>

definition ctx_addr :: "bpf_env \<Rightarrow> u64 \<Rightarrow> string \<Rightarrow> u64" where
  "ctx_addr env ctx f = ctx + of_nat (core_off env [f])"

definition ctx_load :: "(u64 \<Rightarrow> u8) \<Rightarrow> bpf_env \<Rightarrow> u64 \<Rightarrow> string \<Rightarrow> nat \<Rightarrow> 'a::len word" where
  "ctx_load mem env ctx f n = le_word (mem_bytes mem (ctx_addr env ctx f) n)"

definition fill_addrs_v4_sockstate :: "event \<Rightarrow> u32 \<Rightarrow> u32 \<Rightarrow> event" where
  "fill_addrs_v4_sockstate ev saddr daddr =
     (let ev = ev\<lparr>ev_ip_ver := 4\<rparr>;
          ev = ev\<lparr>ev_local_addr := memcpy (ev_local_addr ev) (le_bytes 4 saddr)\<rparr>;
          ev = ev\<lparr>ev_remote_addr := memcpy (ev_remote_addr ev) (le_bytes 4 daddr)\<rparr>
      in ev)"

definition tracepoint_inet_sock_set_state ::
    "(u64 \<Rightarrow> u8) \<Rightarrow> bpf_env \<Rightarrow> u64 \<Rightarrow> bytes list \<Rightarrow> int \<times> bytes list" where
  "tracepoint_inet_sock_set_state mem env ctx ring =
     (if ctx_load mem env ctx ''protocol'' 2 \<noteq> IPPROTO_TCP then (0, ring)
      else case ringbuf_reserve env of
        None \<Rightarrow> (0, ring)
      | Some ev \<Rightarrow>
          (let ev = ev\<lparr>ev_timestamp_ns := ktime_get_ns env\<rparr>;
               skaddr = (ctx_load mem env ctx ''skaddr'' 8 :: u64);
               ev = ev\<lparr>ev_skaddr := le_word (probe_read_kernel env (Stack (le_bytes 8 skaddr)) 8)\<rparr>;
               ev = ev\<lparr>ev_pid := ucast (drop_bit 32 (get_current_pid_tgid env))\<rparr>;
               ev = ev\<lparr>ev_proto := 0\<rparr>;
               ev = ev\<lparr>ev_source := SOURCE_STATE_CHANGE\<rparr>;
               ev = ev\<lparr>ev_new_state := ctx_load mem env ctx ''newstate'' 4\<rparr>;
               ev = ev\<lparr>ev_local_port := ctx_load mem env ctx ''sport'' 2\<rparr>;
               ev = ev\<lparr>ev_remote_port := ctx_load mem env ctx ''dport'' 2\<rparr>;
               ev = (if ctx_load mem env ctx ''family'' 2 = AF_INET
                     then fill_addrs_v4_sockstate ev (ctx_load mem env ctx ''saddr'' 4)
                            (ctx_load mem env ctx ''daddr'' 4)
                     else (let ev = ev\<lparr>ev_ip_ver := 6\<rparr>;
                               ev = ev\<lparr>ev_local_addr :=
                                      probe_read_kernel env (Kernel (ctx_addr env ctx ''saddr_v6'')) 16\<rparr>;
                               ev = ev\<lparr>ev_remote_addr :=
                                      probe_read_kernel env (Kernel (ctx_addr env ctx ''daddr_v6'')) 16\<rparr>
                           in ev))
           in (0, ring @ [event_bytes ev])))"

section \<open>What a transition submits\<close>

definition trace_members :: "(string list \<times> nat) list" where
  "trace_members =
     [([''skaddr''], 8), ([''newstate''], 4), ([''sport''], 2), ([''dport''], 2),
      ([''family''], 2), ([''protocol''], 2), ([''saddr''], 4), ([''daddr''], 4),
      ([''saddr_v6''], 16), ([''daddr_v6''], 16)]"

lemma trace_arm64_members: "has_members struct_trace_event_raw_inet_sock_set_state_arm64 trace_members"
  by (simp add: has_members_def trace_members_def
      struct_trace_event_raw_inet_sock_set_state_arm64_def layout)

lemma trace_amd64_members: "has_members struct_trace_event_raw_inet_sock_set_state_amd64 trace_members"
  by (simp add: has_members_def trace_members_def
      struct_trace_event_raw_inet_sock_set_state_amd64_def layout)

definition ctx_field :: "(u64 \<Rightarrow> u8) \<Rightarrow> ctype \<Rightarrow> u64 \<Rightarrow> string \<Rightarrow> bytes" where
  "ctx_field mem t ctx f = member_bytes mem t ctx [f]"

definition describes_transition :: "(u64 \<Rightarrow> u8) \<Rightarrow> ctype \<Rightarrow> u64 \<Rightarrow> event \<Rightarrow> bool" where
  "describes_transition mem t ctx ev \<longleftrightarrow>
     event_ok ev \<and> ev_proto ev = 0 \<and>
     le_bytes 8 (ev_skaddr ev) = ctx_field mem t ctx ''skaddr'' \<and>
     le_bytes 4 (ev_new_state ev) = ctx_field mem t ctx ''newstate'' \<and>
     le_bytes 2 (ev_local_port ev) = ctx_field mem t ctx ''sport'' \<and>
     le_bytes 2 (ev_remote_port ev) = ctx_field mem t ctx ''dport'' \<and>
     (if ctx_field mem t ctx ''family'' = le_bytes 2 AF_INET
      then ev_ip_ver ev = 4 \<and>
           take 4 (ev_local_addr ev) = ctx_field mem t ctx ''saddr'' \<and>
           take 4 (ev_remote_addr ev) = ctx_field mem t ctx ''daddr''
      else ev_ip_ver ev = 6 \<and>
           ev_local_addr ev = ctx_field mem t ctx ''saddr_v6'' \<and>
           ev_remote_addr ev = ctx_field mem t ctx ''daddr_v6'')"

locale trace_kernel = relocated +
  assumes ctx_members: "has_members ktype trace_members"
begin

lemma ctx_bytes:
  assumes "([f], n) \<in> set trace_members"
  shows "mem_bytes mem (ctx_addr env ctx f) n = ctx_field mem ktype ctx f"
    and "length (ctx_field mem ktype ctx f) = n"
  using core_read_member_bytes [OF ctx_members assms, of ctx]
  by (simp_all add: ctx_field_def ctx_addr_def core_read_def read_kernel)

lemma ctx_bytes_all:
  "mem_bytes mem (ctx_addr env ctx ''skaddr'') 8 = ctx_field mem ktype ctx ''skaddr''"
  "mem_bytes mem (ctx_addr env ctx ''newstate'') 4 = ctx_field mem ktype ctx ''newstate''"
  "mem_bytes mem (ctx_addr env ctx ''sport'') 2 = ctx_field mem ktype ctx ''sport''"
  "mem_bytes mem (ctx_addr env ctx ''dport'') 2 = ctx_field mem ktype ctx ''dport''"
  "mem_bytes mem (ctx_addr env ctx ''family'') 2 = ctx_field mem ktype ctx ''family''"
  "mem_bytes mem (ctx_addr env ctx ''protocol'') 2 = ctx_field mem ktype ctx ''protocol''"
  "mem_bytes mem (ctx_addr env ctx ''saddr'') 4 = ctx_field mem ktype ctx ''saddr''"
  "mem_bytes mem (ctx_addr env ctx ''daddr'') 4 = ctx_field mem ktype ctx ''daddr''"
  "mem_bytes mem (ctx_addr env ctx ''saddr_v6'') 16 = ctx_field mem ktype ctx ''saddr_v6''"
  "mem_bytes mem (ctx_addr env ctx ''daddr_v6'') 16 = ctx_field mem ktype ctx ''daddr_v6''"
  by (rule ctx_bytes(1); simp add: trace_members_def)+

lemma ctx_lengths:
  "length (ctx_field mem ktype ctx ''skaddr'') = 8"
  "length (ctx_field mem ktype ctx ''newstate'') = 4"
  "length (ctx_field mem ktype ctx ''sport'') = 2"
  "length (ctx_field mem ktype ctx ''dport'') = 2"
  "length (ctx_field mem ktype ctx ''family'') = 2"
  "length (ctx_field mem ktype ctx ''protocol'') = 2"
  "length (ctx_field mem ktype ctx ''saddr'') = 4"
  "length (ctx_field mem ktype ctx ''daddr'') = 4"
  "length (ctx_field mem ktype ctx ''saddr_v6'') = 16"
  "length (ctx_field mem ktype ctx ''daddr_v6'') = 16"
  by (rule ctx_bytes(2); simp add: trace_members_def)+

lemma transition_submitted:
  assumes "ringbuf_reserve env = Some g"
    and tcp: "ctx_field mem ktype ctx ''protocol'' = le_bytes 2 (6 :: u16)"
  shows "\<exists>ev. tracepoint_inet_sock_set_state mem env ctx ring = (0, ring @ [event_bytes ev]) \<and>
    describes_transition mem ktype ctx ev \<and> ev_source ev = SOURCE_STATE_CHANGE \<and>
    ev_pid ev = ucast (drop_bit 32 (get_current_pid_tgid env)) \<and>
    ev_timestamp_ns ev = ktime_get_ns env"
proof -
  have g: "length (ev_local_addr g) = 16" "length (ev_remote_addr g) = 16"
    using reserve_ok [OF assms(1)] by (simp_all add: event_ok_def)
  have proto: "ctx_load mem env ctx ''protocol'' 2 = IPPROTO_TCP"
    by (simp add: ctx_load_def ctx_bytes_all tcp IPPROTO_TCP_val le_word_le_bytes)
  have family: "(ctx_load mem env ctx ''family'' 2 = AF_INET) =
      (ctx_field mem ktype ctx ''family'' = le_bytes 2 AF_INET)"
    by (simp add: ctx_load_def ctx_bytes_all le_word_eq_iff ctx_lengths)
  show ?thesis
    unfolding tracepoint_inet_sock_set_state_def proto family assms(1) option.case Let_def
      fill_addrs_v4_sockstate_def
    by (cases "ctx_field mem ktype ctx ''family'' = le_bytes 2 AF_INET"; simp only: if_True if_False
          simp_thms, intro exI conjI, rule refl)
      (simp_all add: ctx_load_def ctx_bytes_all ctx_lengths read_stack read_kernel le_word_le_bytes
        le_bytes_le_word describes_transition_def event_ok_def memcpy_def g)
qed

lemma other_protocol_ignored:
  assumes "ctx_field mem ktype ctx ''protocol'' \<noteq> le_bytes 2 (6 :: u16)"
  shows "tracepoint_inet_sock_set_state mem env ctx ring = (0, ring)"
proof -
  have "ctx_load mem env ctx ''protocol'' 2 \<noteq> IPPROTO_TCP"
    using assms by (simp add: ctx_load_def ctx_bytes_all IPPROTO_TCP_val le_word_eq_iff ctx_lengths)
  then show ?thesis
    by (simp add: tracepoint_inet_sock_set_state_def)
qed

end

lemma tracepoint_no_space:
  "ringbuf_reserve env = None \<Longrightarrow> tracepoint_inet_sock_set_state mem env ctx ring = (0, ring)"
  by (simp add: tracepoint_inet_sock_set_state_def)

interpretation trace_arm64: trace_kernel
  "kernel_env mem struct_trace_event_raw_inet_sock_set_state_arm64 now pt res upd" mem
  struct_trace_event_raw_inet_sock_set_state_arm64
  for mem now pt res upd
  by (intro trace_kernel.intro kernel_env_relocated trace_kernel_axioms.intro trace_arm64_members)
    (simp add: layout)

interpretation trace_amd64: trace_kernel
  "kernel_env mem struct_trace_event_raw_inet_sock_set_state_amd64 now pt res upd" mem
  struct_trace_event_raw_inet_sock_set_state_amd64
  for mem now pt res upd
  by (intro trace_kernel.intro kernel_env_relocated trace_kernel_axioms.intro trace_amd64_members)
    (simp add: layout)

end
