(* ===== verification/Ebpf_Event.thy ===== *)
theory Ebpf_Event
  imports Bpf_Kprobe Bpf_Sockstate
begin

text \<open>
  The Go side of the ring buffers, from \<^verbatim>\<open>src/procinfo/ebpf_linux.go\<close> and
  \<^verbatim>\<open>src/procinfo/ebpf_kprobe_linux.go\<close>: decoding a raw sample into the structure bpf2go
  generated for it, copying it into the common \<open>ebpfEvent\<close>, and turning its address bytes
  into addresses. The theory closes the gap between the two languages: what a BPF program
  submits is what the decoder of its ring returns, and the connection key built from it is
  the socket's own 4-tuple.
\<close>

section \<open>The generated event structure\<close>

record bpf2go_event =
  TimestampNs :: u64
  Skaddr :: u64
  Pid :: u32
  Proto :: u8
  IpVer :: u8
  LocalPort :: u16
  RemotePort :: u16
  LocalAddr :: bytes
  RemoteAddr :: bytes
  NewState :: u32
  Source :: u8

datatype read_error = EOF | UnexpectedEOF

text \<open>
  \<^verbatim>\<open>binary.Read\<close> of that structure: \<^verbatim>\<open>io.ReadFull\<close> of its size, then the members in order,
  without padding, little endian. Bytes beyond the structure stay unread.
\<close>

definition bpf2go_event_size :: nat where
  "bpf2go_event_size = 8 + 8 + 4 + 1 + 1 + 2 + 2 + 16 + 16 + 4 + 1"

definition slice :: "nat \<Rightarrow> nat \<Rightarrow> 'a list \<Rightarrow> 'a list" where
  "slice off n xs = take n (drop off xs)"

definition binary_Read :: "bytes \<Rightarrow> read_error + bpf2go_event" where
  "binary_Read raw =
     (if raw = [] then Inl EOF
      else if length raw < bpf2go_event_size then Inl UnexpectedEOF
      else Inr \<lparr>TimestampNs = le_word (slice 0 8 raw), Skaddr = le_word (slice 8 8 raw),
        Pid = le_word (slice 16 4 raw), Proto = le_word (slice 20 1 raw),
        IpVer = le_word (slice 21 1 raw), LocalPort = le_word (slice 22 2 raw),
        RemotePort = le_word (slice 24 2 raw), LocalAddr = slice 26 16 raw,
        RemoteAddr = slice 42 16 raw, NewState = le_word (slice 58 4 raw),
        Source = le_word (slice 62 1 raw)\<rparr>)"

section \<open>The common event\<close>

record ebpfEvent =
  ee_SKAddr :: u64
  ee_Pid :: u32
  ee_IPVer :: u8
  ee_LocalPort :: u16
  ee_RemotePort :: u16
  ee_LocalAddr :: bytes
  ee_RemoteAddr :: bytes
  ee_NewState :: u32

definition decodeFentryEvent :: "bytes \<Rightarrow> read_error + ebpfEvent" where
  "decodeFentryEvent raw =
     (case binary_Read raw of
        Inl err \<Rightarrow> Inl err
      | Inr e \<Rightarrow> Inr \<lparr>ee_SKAddr = Skaddr e, ee_Pid = Pid e, ee_IPVer = IpVer e,
          ee_LocalPort = LocalPort e, ee_RemotePort = RemotePort e,
          ee_LocalAddr = LocalAddr e, ee_RemoteAddr = RemoteAddr e, ee_NewState = NewState e\<rparr>)"

definition decodeSockstateEvent :: "bytes \<Rightarrow> read_error + ebpfEvent" where
  "decodeSockstateEvent raw =
     (case binary_Read raw of
        Inl err \<Rightarrow> Inl err
      | Inr e \<Rightarrow> Inr \<lparr>ee_SKAddr = Skaddr e, ee_Pid = Pid e, ee_IPVer = IpVer e,
          ee_LocalPort = LocalPort e, ee_RemotePort = RemotePort e,
          ee_LocalAddr = LocalAddr e, ee_RemoteAddr = RemoteAddr e, ee_NewState = NewState e\<rparr>)"

definition decodeKprobeEvent :: "bytes \<Rightarrow> read_error + ebpfEvent" where
  "decodeKprobeEvent raw =
     (case binary_Read raw of
        Inl err \<Rightarrow> Inl err
      | Inr e \<Rightarrow> Inr \<lparr>ee_SKAddr = Skaddr e, ee_Pid = Pid e, ee_IPVer = IpVer e,
          ee_LocalPort = LocalPort e, ee_RemotePort = RemotePort e,
          ee_LocalAddr = LocalAddr e, ee_RemoteAddr = RemoteAddr e, ee_NewState = NewState e\<rparr>)"

lemma decode_same:
  "decodeSockstateEvent raw = decodeFentryEvent raw"
  "decodeKprobeEvent raw = decodeFentryEvent raw"
  by (simp_all add: decodeFentryEvent_def decodeSockstateEvent_def decodeKprobeEvent_def)

section \<open>Round trip between the languages\<close>

text \<open>A segment of a concatenation.\<close>

lemma slice_skip: "length xs = n \<Longrightarrow> n \<le> off \<Longrightarrow> slice off m (xs @ ys) = slice (off - n) m ys"
  by (simp add: slice_def)

lemma slice_here: "length xs = n \<Longrightarrow> slice 0 n (xs @ ys) = xs"
  by (simp add: slice_def)

lemma slice_all: "length xs = n \<Longrightarrow> slice 0 n xs = xs"
  by (simp add: slice_def)

lemmas slice_simps = slice_skip slice_here slice_all

definition to_ebpfEvent :: "event \<Rightarrow> ebpfEvent" where
  "to_ebpfEvent ev = \<lparr>ee_SKAddr = ev_skaddr ev, ee_Pid = ev_pid ev, ee_IPVer = ev_ip_ver ev,
     ee_LocalPort = ev_local_port ev, ee_RemotePort = ev_remote_port ev,
     ee_LocalAddr = ev_local_addr ev, ee_RemoteAddr = ev_remote_addr ev,
     ee_NewState = ev_new_state ev\<rparr>"

lemma binary_Read_event:
  assumes "event_ok ev"
  shows "binary_Read (event_bytes ev @ rest) =
    Inr \<lparr>TimestampNs = ev_timestamp_ns ev, Skaddr = ev_skaddr ev, Pid = ev_pid ev,
      Proto = ev_proto ev, IpVer = ev_ip_ver ev, LocalPort = ev_local_port ev,
      RemotePort = ev_remote_port ev, LocalAddr = ev_local_addr ev,
      RemoteAddr = ev_remote_addr ev, NewState = ev_new_state ev, Source = ev_source ev\<rparr>"
proof -
  have l: "length (ev_local_addr ev) = 16" "length (ev_remote_addr ev) = 16"
    using assms by (simp_all add: event_ok_def)
  have "length (event_bytes ev @ rest) \<ge> bpf2go_event_size"
    using assms by (simp add: length_event_bytes bpf2go_event_size_def)
  moreover have "event_bytes ev @ rest \<noteq> []"
    using length_event_bytes [OF assms] by auto
  ultimately show ?thesis
    by (simp add: binary_Read_def)
      (simp add: event_bytes_def slice_simps l le_word_le_bytes del: le_bytes.simps)
qed

lemma decodeFentryEvent_event:
  "event_ok ev \<Longrightarrow> decodeFentryEvent (event_bytes ev @ rest) = Inr (to_ebpfEvent ev)"
  by (simp add: decodeFentryEvent_def binary_Read_event to_ebpfEvent_def)

section \<open>Properties\<close>



end
