(* ===== verification/Go_Strings.thy ===== *)
theory Go_Strings
  imports Wire
begin

text \<open>
  The parts of Go's standard library the engine's text handling rests on: \<^verbatim>\<open>strings.Cut\<close>,
  \<^verbatim>\<open>CutPrefix\<close>, \<^verbatim>\<open>TrimSuffix\<close> and \<^verbatim>\<open>Fields\<close>, \<^verbatim>\<open>strconv.ParseInt\<close>, \<^verbatim>\<open>ParseUint\<close> and
  \<^verbatim>\<open>Itoa\<close>, \<^verbatim>\<open>hex.DecodeString\<close> and \<^verbatim>\<open>filepath.Base\<close>. A Go string is a sequence of bytes,
  here a list of \<open>char\<close>.
\<close>

section \<open>Cutting strings\<close>

text \<open>\<^verbatim>\<open>strings.Cut\<close> at a one-byte separator: the text before and after its first occurrence.\<close>

fun Cut :: "char \<Rightarrow> string \<Rightarrow> string \<times> string \<times> bool" where
  "Cut c [] = ([], [], False)"
| "Cut c (x # xs) =
     (if x = c then ([], xs, True)
      else case Cut c xs of (b, a, found) \<Rightarrow> (x # b, a, found))"

lemma Cut_append: "c \<notin> set xs \<Longrightarrow> Cut c (xs @ c # ys) = (xs, ys, True)"
  by (induction xs) auto

lemma Cut_none: "c \<notin> set xs \<Longrightarrow> Cut c xs = (xs, [], False)"
  by (induction xs) auto

definition CutPrefix :: "string \<Rightarrow> string \<Rightarrow> string \<times> bool" where
  "CutPrefix s p = (if take (length p) s = p then (drop (length p) s, True) else (s, False))"

definition TrimSuffix :: "string \<Rightarrow> string \<Rightarrow> string" where
  "TrimSuffix s x =
     (if length x \<le> length s \<and> drop (length s - length x) s = x
      then take (length s - length x) s else s)"

definition is_space :: "char \<Rightarrow> bool" where
  "is_space c \<longleftrightarrow> c \<in> {CHR '' '', CHR 0x09, CHR 0x0A, CHR 0x0B, CHR 0x0C, CHR 0x0D}"

text \<open>\<^verbatim>\<open>strings.Fields\<close> on ASCII text: the maximal runs of non-space characters.\<close>

fun Fields_acc :: "string \<Rightarrow> string \<Rightarrow> string list" where
  "Fields_acc acc [] = (if acc = [] then [] else [rev acc])"
| "Fields_acc acc (c # cs) =
     (if is_space c then (if acc = [] then Fields_acc [] cs else rev acc # Fields_acc [] cs)
      else Fields_acc (c # acc) cs)"

definition Fields :: "string \<Rightarrow> string list" where
  "Fields s = Fields_acc [] s"

section \<open>Numbers\<close>

definition digit_val :: "char \<Rightarrow> nat option" where
  "digit_val c =
     (let n = of_char c :: nat in
      if 48 \<le> n \<and> n \<le> 57 then Some (n - 48)
      else if 97 \<le> n \<and> n \<le> 102 then Some (n - 97 + 10)
      else if 65 \<le> n \<and> n \<le> 70 then Some (n - 65 + 10)
      else None)"

fun digits_val :: "nat \<Rightarrow> nat \<Rightarrow> string \<Rightarrow> nat option" where
  "digits_val base acc [] = Some acc"
| "digits_val base acc (c # cs) =
     (case digit_val c of
        None \<Rightarrow> None
      | Some d \<Rightarrow> if d < base then digits_val base (acc * base + d) cs else None)"

text \<open>
  \<^verbatim>\<open>strconv.ParseUint(s, base, bits)\<close>, base 10 or 16: a syntax or range error is \<open>None\<close>.
\<close>

definition ParseUint :: "string \<Rightarrow> nat \<Rightarrow> nat \<Rightarrow> nat option" where
  "ParseUint s base bits =
     (if s = [] then None
      else case digits_val base 0 s of
        None \<Rightarrow> None
      | Some v \<Rightarrow> if v < 2 ^ bits then Some v else None)"

text \<open>\<^verbatim>\<open>strconv.ParseInt(s, 10, bits)\<close>: an optional sign, then \<^verbatim>\<open>ParseUint\<close> and the signed range.\<close>

definition ParseInt :: "string \<Rightarrow> nat \<Rightarrow> int option" where
  "ParseInt s bits =
     (let (neg, s') = (case s of
                [] \<Rightarrow> (False, [])
              | c # cs \<Rightarrow> if c = CHR ''+'' then (False, cs)
                         else if c = CHR ''-'' then (True, cs) else (False, s))
      in if s' = [] then None
         else case digits_val 10 0 s' of
           None \<Rightarrow> None
         | Some v \<Rightarrow>
             if \<not> neg \<and> v < 2 ^ (bits - 1) then Some (int v)
             else if neg \<and> v \<le> 2 ^ (bits - 1) then Some (- int v)
             else None)"

text \<open>\<^verbatim>\<open>hex.DecodeString\<close>: two digits per byte; an odd length or another character is an error.\<close>

fun DecodeHex :: "string \<Rightarrow> bytes option" where
  "DecodeHex [] = Some []"
| "DecodeHex [c] = None"
| "DecodeHex (a # b # cs) =
     (case (digit_val a, digit_val b) of
        (Some x, Some y) \<Rightarrow>
          (case DecodeHex cs of None \<Rightarrow> None | Some bs \<Rightarrow> Some (of_nat (16 * x + y) # bs))
      | _ \<Rightarrow> None)"

text \<open>Decimal text of a natural number, as \<^verbatim>\<open>strconv.Itoa\<close> prints it.\<close>

fun dec_digits :: "nat \<Rightarrow> string" where
  "dec_digits n = (if n < 10 then [char_of (48 + n)] else dec_digits (n div 10) @ [char_of (48 + n mod 10)])"

declare dec_digits.simps [simp del]

definition Itoa :: "int \<Rightarrow> string" where
  "Itoa i = (if i < 0 then CHR ''-'' # dec_digits (nat (- i)) else dec_digits (nat i))"

section \<open>Printing and parsing hexadecimal\<close>

definition hex_char :: "nat \<Rightarrow> char" where
  "hex_char d = char_of (if d < 10 then 48 + d else 55 + d)"

definition hex_byte :: "u8 \<Rightarrow> string" where
  "hex_byte b = [hex_char (unat b div 16), hex_char (unat b mod 16)]"

lemma digit_val_hex_char: "d < 16 \<Longrightarrow> digit_val (hex_char d) = Some d"
  by (auto simp: digit_val_def hex_char_def Let_def)

lemma byte_nibbles: "unat (b :: u8) div 16 < 16" "unat b mod 16 < 16"
  using unsigned_less [where ?'a = nat, of b] by (simp_all add: less_mult_imp_div_less)

lemma DecodeHex_hex_bytes: "DecodeHex (concat (map hex_byte bs)) = Some bs"
proof (induction bs)
  case (Cons b bs)
  have d: "digit_val (hex_char (unat b div 16)) = Some (unat b div 16)"
    "digit_val (hex_char (unat b mod 16)) = Some (unat b mod 16)"
    by (simp_all add: digit_val_hex_char byte_nibbles)
  have "of_nat (16 * (unat b div 16) + unat b mod 16) = b"
    by simp
  with Cons d show ?case by (simp add: hex_byte_def)
qed simp

section \<open>Decimal numbers\<close>

lemma dec_digits_ne [simp]: "dec_digits n \<noteq> []"
  by (subst dec_digits.simps) simp

lemma dec_digits_set: "c \<in> set (dec_digits n) \<Longrightarrow> \<exists>d<10. c = char_of (48 + d :: nat)"
proof (induction n rule: dec_digits.induct)
  case (1 n)
  show ?case
  proof (cases "n < 10")
    case True
    with 1 show ?thesis by (auto simp: dec_digits.simps [of n])
  next
    case False
    with 1 show ?thesis
      by (auto simp: dec_digits.simps [of n] intro: exI [of _ "n mod 10"])
  qed
qed

lemma digit_val_dec: "d < 10 \<Longrightarrow> digit_val (char_of (48 + d)) = Some d"
  by (simp add: digit_val_def Let_def)

lemma digits_val_append:
  "digits_val base acc (xs @ ys) =
     (case digits_val base acc xs of None \<Rightarrow> None | Some v \<Rightarrow> digits_val base v ys)"
  by (induction xs arbitrary: acc) (auto split: option.splits)

lemma digits_val_dec_digits: "digits_val 10 0 (dec_digits n) = Some n"
proof (induction n rule: dec_digits.induct)
  case (1 n)
  show ?case
  proof (cases "n < 10")
    case True
    then show ?thesis by (simp add: dec_digits.simps [of n] digit_val_dec)
  next
    case False
    with 1 show ?thesis
      by (simp add: dec_digits.simps [of n] digits_val_append digit_val_dec)
  qed
qed

lemma dec_digits_inj: "dec_digits m = dec_digits n \<Longrightarrow> m = n"
  by (metis digits_val_dec_digits option.inject)

end
