(* ===== verification/Proc_Linux.thy ===== *)
theory Proc_Linux
  imports Go_Strings
begin

text \<open>
  Socket enumeration on Linux, \<^verbatim>\<open>src/procinfo/libproc_linux.go\<close>: which processes there are,
  what a process is called, and which TCP and UDP sockets it holds, by joining the inodes
  of its descriptors with the rows of \<^verbatim>\<open>/proc/net/{tcp,tcp6,udp,udp6}\<close>. The contents of
  \<^verbatim>\<open>/proc\<close> are arguments. The theory shows that the address column is read back exactly as the
  kernel prints it, and what the enumeration returns.
\<close>

type_synonym i32 = "32 word"

section \<open>Processes\<close>

definition procNameBufSize :: nat where "procNameBufSize = 64"

text \<open>The names of a directory listing that are positive 32-bit decimal numbers.\<close>

fun pids_of_entries :: "string list \<Rightarrow> i32 list" where
  "pids_of_entries [] = []"
| "pids_of_entries (e # es) =
     (case ParseInt e 32 of
        None \<Rightarrow> pids_of_entries es
      | Some pid \<Rightarrow> if pid \<le> 0 then pids_of_entries es
                     else word_of_int pid # pids_of_entries es)"

definition ListPIDs :: "string list option \<Rightarrow> i32 list option" where
  "ListPIDs proc_dir = map_option pids_of_entries proc_dir"

text \<open>\<^verbatim>\<open>filepath.Base\<close> of a slash-separated path.\<close>

definition Base :: "string \<Rightarrow> string" where
  "Base p =
     (if p = [] then ''.''
      else let q = rev (dropWhile (\<lambda>c. c = CHR ''/'') (rev p)) in
           if q = [] then ''/'' else rev (takeWhile (\<lambda>c. c \<noteq> CHR ''/'') (rev q)))"

definition argv0 :: "string option \<Rightarrow> string option" where
  "argv0 cmdline =
     (case cmdline of
        None \<Rightarrow> None
      | Some buf \<Rightarrow>
          if buf = [] then None
          else let (fld, _, _) = Cut (CHR 0x00) buf in if fld = [] then None else Some fld)"

definition ProcessName :: "string option \<Rightarrow> string option \<Rightarrow> string option" where
  "ProcessName cmdline comm =
     (case argv0 cmdline of
        Some name \<Rightarrow> Some (Base name)
      | None \<Rightarrow>
          (case comm of
             None \<Rightarrow> None
           | Some buf \<Rightarrow>
               let name = TrimSuffix buf [CHR 0x0A] in
               if name = [] then None
               else Some (if procNameBufSize < length name then take procNameBufSize name else name)))"

section \<open>Rows of \<^verbatim>\<open>/proc/net\<close>\<close>

fun tcpStateName :: "int \<Rightarrow> string" where
  "tcpStateName st =
     (if st = 0x01 then ''ESTABLISHED''
      else if st = 0x02 then ''SYN_SENT''
      else if st = 0x03 then ''SYN_RECV''
      else if st = 0x04 then ''FIN_WAIT1''
      else if st = 0x05 then ''FIN_WAIT2''
      else if st = 0x06 then ''TIME_WAIT''
      else if st = 0x07 then ''CLOSE''
      else if st = 0x08 then ''CLOSE_WAIT''
      else if st = 0x09 then ''LAST_ACK''
      else if st = 0x0A then ''LISTEN''
      else if st = 0x0B then ''CLOSING''
      else '''')"

declare tcpStateName.simps [simp del]

record Socket =
  so_PID :: i32
  so_LocalPort :: u16
  so_RemotePort :: u16
  so_LocalAddr :: addr
  so_RemoteAddr :: addr
  so_Proto :: string
  so_State :: string

record procNetEntry =
  pn_localAddr :: addr
  pn_remoteAddr :: addr
  pn_localPort :: u16
  pn_remotePort :: u16
  pn_proto :: string
  pn_state :: string

datatype parse_error = Malformed | BadPort | BadAddress | BadLength nat

text \<open>Each 4-byte group of an address is printed as a native-order word.\<close>

fun rev_words :: "'a list \<Rightarrow> 'a list" where
  "rev_words (a # b # c # d # xs) = d # c # b # a # rev_words xs"
| "rev_words xs = xs"

definition parseHexAddrPort :: "string \<Rightarrow> parse_error + addr \<times> u16" where
  "parseHexAddrPort s =
     (let (addrHex, portHex, ok) = Cut (CHR '':'') s in
      if \<not> ok then Inl Malformed
      else case ParseUint portHex 16 16 of
        None \<Rightarrow> Inl BadPort
      | Some port \<Rightarrow>
          (case DecodeHex addrHex of
             None \<Rightarrow> Inl BadAddress
           | Some raw \<Rightarrow>
               if length raw = 4 then Inr (AddrV4 (rev_words raw), of_nat port)
               else if length raw = 16 then Inr (Unmap (AddrV6 (rev_words raw)), of_nat port)
               else Inl (BadLength (length raw))))"

definition parseProcNetLine :: "string \<Rightarrow> string \<Rightarrow> (nat \<times> procNetEntry) option" where
  "parseProcNetLine proto line =
     (let fields = Fields line in
      if length fields < 10 then None
      else case parseHexAddrPort (fields ! 1) of
        Inl _ \<Rightarrow> None
      | Inr (localAddr, localPort) \<Rightarrow>
          (case parseHexAddrPort (fields ! 2) of
             Inl _ \<Rightarrow> None
           | Inr (remoteAddr, remotePort) \<Rightarrow>
               (case ParseUint (fields ! 9) 10 64 of
                  None \<Rightarrow> None
                | Some inode \<Rightarrow>
                    if inode = 0 then None
                    else if proto = ''tcp''
                    then (case ParseUint (fields ! 3) 16 8 of
                            None \<Rightarrow> None
                          | Some st \<Rightarrow>
                              Some (inode, \<lparr>pn_localAddr = localAddr, pn_remoteAddr = remoteAddr,
                                pn_localPort = localPort, pn_remotePort = remotePort,
                                pn_proto = proto, pn_state = tcpStateName (int st)\<rparr>))
                    else Some (inode, \<lparr>pn_localAddr = localAddr, pn_remoteAddr = remoteAddr,
                                pn_localPort = localPort, pn_remotePort = remotePort,
                                pn_proto = proto, pn_state = ''''\<rparr>))))"

text \<open>
  Opening one of the files: missing, unreadable, or its lines together with whether the
  scanner stopped with an error. \<open>None\<close> is an error of the whole call.
\<close>

datatype proc_file = NotExist | OpenError | Lines "string list" bool

fun add_rows :: "string \<Rightarrow> string list \<Rightarrow> (nat \<rightharpoonup> procNetEntry) \<Rightarrow> (nat \<rightharpoonup> procNetEntry)" where
  "add_rows proto [] out = out"
| "add_rows proto (l # ls) out =
     add_rows proto ls
       (case parseProcNetLine proto l of None \<Rightarrow> out | Some (inode, e) \<Rightarrow> out(inode \<mapsto> e))"

fun parseProcNetFile ::
    "proc_file \<Rightarrow> string \<Rightarrow> (nat \<rightharpoonup> procNetEntry) \<Rightarrow> (nat \<rightharpoonup> procNetEntry) option" where
  "parseProcNetFile NotExist proto out = Some out"
| "parseProcNetFile OpenError proto out = None"
| "parseProcNetFile (Lines ls err) proto out =
     (if err then None else Some (add_rows proto (drop 1 ls) out))"

record proc_net =
  net_tcp :: proc_file
  net_tcp6 :: proc_file
  net_udp :: proc_file
  net_udp6 :: proc_file

definition readProcNet :: "proc_net \<Rightarrow> (nat \<rightharpoonup> procNetEntry) option" where
  "readProcNet n =
     (case parseProcNetFile (net_tcp n) ''tcp'' Map.empty of
        None \<Rightarrow> None
      | Some m1 \<Rightarrow>
          (case parseProcNetFile (net_tcp6 n) ''tcp'' m1 of
             None \<Rightarrow> None
           | Some m2 \<Rightarrow>
               (case parseProcNetFile (net_udp n) ''udp'' m2 of
                  None \<Rightarrow> None
                | Some m3 \<Rightarrow> parseProcNetFile (net_udp6 n) ''udp'' m3)))"

section \<open>Sockets of a process\<close>

text \<open>The links of \<^verbatim>\<open>/proc/<pid>/fd\<close>: \<open>None\<close> where reading a link failed.\<close>

definition inode_of_link :: "string \<Rightarrow> nat option" where
  "inode_of_link target =
     (let (inodeStr, ok) = CutPrefix target ''socket:['' in
      if \<not> ok then None else ParseUint (TrimSuffix inodeStr '']'') 10 64)"

fun sockets_of_links :: "i32 \<Rightarrow> (nat \<rightharpoonup> procNetEntry) \<Rightarrow> string option list \<Rightarrow> Socket list" where
  "sockets_of_links pid byInode [] = []"
| "sockets_of_links pid byInode (l # ls) =
     (case Option.bind l inode_of_link of
        None \<Rightarrow> sockets_of_links pid byInode ls
      | Some inode \<Rightarrow>
          (case byInode inode of
             None \<Rightarrow> sockets_of_links pid byInode ls
           | Some e \<Rightarrow>
               if pn_localPort e = 0 then sockets_of_links pid byInode ls
               else \<lparr>so_PID = pid, so_LocalPort = pn_localPort e, so_RemotePort = pn_remotePort e,
                      so_LocalAddr = pn_localAddr e, so_RemoteAddr = pn_remoteAddr e,
                      so_Proto = pn_proto e, so_State = pn_state e\<rparr>
                    # sockets_of_links pid byInode ls))"

definition SocketsForPID :: "proc_net \<Rightarrow> i32 \<Rightarrow> string option list option \<Rightarrow> Socket list option" where
  "SocketsForPID n pid fd_dir =
     (case readProcNet n of
        None \<Rightarrow> None
      | Some byInode \<Rightarrow>
          (case fd_dir of None \<Rightarrow> None | Some ls \<Rightarrow> Some (sockets_of_links pid byInode ls)))"

section \<open>The address column\<close>

text \<open>
  How the kernel prints an address and port in these files: every 32-bit group of the address
  as a native word in hexadecimal, a colon, and the port as four hexadecimal digits.
\<close>

definition print_addr_port :: "bytes \<Rightarrow> u16 \<Rightarrow> string" where
  "print_addr_port b port =
     concat (map hex_byte (rev_words b)) @ CHR '':'' # concat (map hex_byte (rev (le_bytes 2 port)))"

lemma rev_words_rev_words: "rev_words (rev_words xs) = xs"
  by (induction xs rule: rev_words.induct) simp_all

lemma length_rev_words [simp]: "length (rev_words xs) = length xs"
  by (induction xs rule: rev_words.induct) simp_all

lemma hex_char_not_colon: "d < 16 \<Longrightarrow> hex_char d \<noteq> CHR '':''"
proof
  assume "d < 16" and "hex_char d = CHR '':''"
  then have "digit_val (CHR '':'') = Some d"
    using digit_val_hex_char by metis
  then show False by (simp add: digit_val_def)
qed

lemma hex_byte_no_colon: "CHR '':'' \<notin> set (concat (map hex_byte bs))"
proof -
  have "CHR '':'' \<notin> set (hex_byte b)" for b
    using hex_char_not_colon [OF byte_nibbles(1), of b] hex_char_not_colon [OF byte_nibbles(2), of b]
    by (auto simp: hex_byte_def)
  then show ?thesis by auto
qed

lemma digits_val_hex_bytes:
  "digits_val 16 acc (concat (map hex_byte bs)) = Some (foldl (\<lambda>a b. unat b + 256 * a) acc bs)"
proof (induction bs arbitrary: acc)
  case (Cons b bs)
  then show ?case
    by (simp add: hex_byte_def digit_val_hex_char byte_nibbles)
qed simp

lemma ParseUint_port:
  "ParseUint (concat (map hex_byte (rev (le_bytes 2 port)))) 16 16 = Some (unat (port :: u16))"
proof -
  have p: "unat port < 65536"
    using unsigned_less [where ?'a = nat, of port] by simp
  have le: "le_bytes 2 port = [ucast port, ucast (drop_bit 8 port)]"
    by (simp add: numeral_2_eq_2)
  have "unat (ucast port :: u8) = unat port mod 256"
    by (simp add: unsigned_ucast_eq take_bit_eq_mod)
  moreover have "unat (ucast (drop_bit 8 port) :: u8) = unat port div 256"
  proof -
    have "unat (drop_bit 8 port) = unat port div 256"
      using unat_div_distrib [of port 256] by (simp add: drop_bit_eq_div)
    with p show ?thesis
      by (simp only: unsigned_ucast_eq take_bit_eq_mod) simp
  qed
  ultimately have v: "foldl (\<lambda>a b. unat b + 256 * a) 0 (rev (le_bytes 2 port)) = unat port"
    by (simp add: le)
  have "concat (map hex_byte (rev (le_bytes 2 port))) \<noteq> []"
    by (simp add: le hex_byte_def)
  with p v show ?thesis
    by (simp add: ParseUint_def digits_val_hex_bytes)
qed

lemma parse_printed:
  assumes "length b = 4 \<or> length b = 16"
  shows "parseHexAddrPort (print_addr_port b port) =
    Inr (Unmap (if length b = 4 then AddrV4 b else AddrV6 b), port)"
  using assms
  by (auto simp: parseHexAddrPort_def print_addr_port_def Cut_append [OF hex_byte_no_colon] ParseUint_port
      DecodeHex_hex_bytes rev_words_rev_words)

section \<open>What an enumeration returns\<close>

text \<open>Rows the parser produces: a TCP row has a state name, a UDP row has none.\<close>

definition row_ok :: "procNetEntry \<Rightarrow> bool" where
  "row_ok e \<longleftrightarrow> (pn_proto e = ''tcp'' \<and> (\<exists>st<256. pn_state e = tcpStateName st)) \<or>
     (pn_proto e = ''udp'' \<and> pn_state e = [])"

lemma ParseUint_bound: "ParseUint s base bits = Some v \<Longrightarrow> v < 2 ^ bits"
  by (auto simp: ParseUint_def split: if_splits option.splits)

lemma parseProcNetLine_ok:
  assumes "parseProcNetLine proto l = Some (inode, e)" and "proto = ''tcp'' \<or> proto = ''udp''"
  shows "row_ok e \<and> inode \<noteq> 0"
proof -
  have st: "\<exists>st<256. tcpStateName (int n) = tcpStateName st"
    if "ParseUint (Fields l ! 3) 16 8 = Some n" for n
    using ParseUint_bound [OF that] by (intro exI [of _ "int n"]) simp
  show ?thesis
    using assms st
    by (auto simp: parseProcNetLine_def row_ok_def Let_def
        split: if_splits sum.splits prod.splits option.splits)
qed

definition rows_ok :: "(nat \<rightharpoonup> procNetEntry) \<Rightarrow> bool" where
  "rows_ok m \<longleftrightarrow> (\<forall>inode e. m inode = Some e \<longrightarrow> row_ok e \<and> inode \<noteq> 0)"

lemma rows_okD: "m inode = Some e \<Longrightarrow> rows_ok m \<Longrightarrow> row_ok e"
  by (simp add: rows_ok_def)

lemma add_rows_ok: "rows_ok m \<Longrightarrow> proto = ''tcp'' \<or> proto = ''udp'' \<Longrightarrow> rows_ok (add_rows proto ls m)"
proof (induction ls arbitrary: m)
  case (Cons l ls)
  have "rows_ok (case parseProcNetLine proto l of None \<Rightarrow> m | Some (inode, e) \<Rightarrow> m(inode \<mapsto> e))"
    using Cons.prems parseProcNetLine_ok [of proto l]
    by (auto simp: rows_ok_def split: option.splits)
  with Cons show ?case by simp
qed simp

lemma parseProcNetFile_ok:
  "parseProcNetFile f proto m = Some m' \<Longrightarrow> rows_ok m \<Longrightarrow> proto = ''tcp'' \<or> proto = ''udp'' \<Longrightarrow> rows_ok m'"
  by (cases f) (auto simp: add_rows_ok split: if_splits)

lemma readProcNet_ok: "readProcNet n = Some m \<Longrightarrow> rows_ok m"
  by (auto simp: readProcNet_def rows_ok_def [of Map.empty] split: option.splits
      dest!: parseProcNetFile_ok)

definition socket_ok :: "i32 \<Rightarrow> Socket \<Rightarrow> bool" where
  "socket_ok pid s \<longleftrightarrow> so_PID s = pid \<and> so_LocalPort s \<noteq> 0 \<and>
     ((so_Proto s = ''tcp'' \<and> (\<exists>st<256. so_State s = tcpStateName st)) \<or>
      (so_Proto s = ''udp'' \<and> so_State s = []))"

lemma sockets_of_links_ok:
  "rows_ok m \<Longrightarrow> s \<in> set (sockets_of_links pid m ls) \<Longrightarrow> socket_ok pid s"
proof (induction ls)
  case (Cons l ls)
  then show ?case
    by (auto simp: socket_ok_def row_ok_def dest!: rows_okD split: option.splits if_splits)
qed simp

lemma SocketsForPID_ok:
  "SocketsForPID n pid fd = Some ss \<Longrightarrow> s \<in> set ss \<Longrightarrow> socket_ok pid s"
  by (auto simp: SocketsForPID_def split: option.splits dest: readProcNet_ok sockets_of_links_ok)

section \<open>Properties\<close>



text \<open>
  C11: every socket reported for a process carries that process's id and a bound local
  port; a TCP socket has the name of a state below 256, a UDP socket has none.
\<close>

theorem SocketsForPID_sockets_ok:
  assumes "SocketsForPID n pid fd = Some ss"
  shows "list_all (socket_ok pid) ss"
  using SocketsForPID_ok [OF assms] by (simp add: list_all_iff)

text \<open>A listener on 127.0.0.1:8080 and a process that holds its inode among other descriptors.\<close>

definition sample_net :: proc_net where
  "sample_net = \<lparr>net_tcp = Lines [''sl local_address rem_address st'',
       ''0: 0100007F:1F90 00000000:0000 0A 0:0 00:0 0 0 0 12345 1''] False,
     net_tcp6 = NotExist, net_udp = NotExist, net_udp6 = NotExist\<rparr>"

lemma sample_row:
  "parseProcNetLine ''tcp'' ''0: 0100007F:1F90 00000000:0000 0A 0:0 00:0 0 0 0 12345 1'' =
     Some (12345, \<lparr>pn_localAddr = AddrV4 [127, 0, 0, 1], pn_remoteAddr = AddrV4 [0, 0, 0, 0],
       pn_localPort = 8080, pn_remotePort = 0, pn_proto = ''tcp'', pn_state = ''LISTEN''\<rparr>)"
proof -
  have "Fields ''0: 0100007F:1F90 00000000:0000 0A 0:0 00:0 0 0 0 12345 1'' =
      [''0:'', ''0100007F:1F90'', ''00000000:0000'', ''0A'', ''0:0'', ''00:0'', ''0'', ''0'', ''0'', ''12345'', ''1'']"
    by (simp add: Fields_def is_space_def)
  moreover have "parseHexAddrPort ''0100007F:1F90'' = Inr (AddrV4 [127, 0, 0, 1], 8080)"
    and "parseHexAddrPort ''00000000:0000'' = Inr (AddrV4 [0, 0, 0, 0], 0)"
    by (simp_all add: parseHexAddrPort_def ParseUint_def digit_val_def)
  ultimately show ?thesis
    by (simp add: parseProcNetLine_def ParseUint_def digit_val_def tcpStateName.simps)
qed

lemma sample_links:
  "inode_of_link ''socket:[12345]'' = Some 12345" "inode_of_link ''/dev/null'' = None"
  by (simp_all add: inode_of_link_def CutPrefix_def TrimSuffix_def ParseUint_def digit_val_def)

lemma sample_net_sockets:
  "SocketsForPID sample_net 42 (Some [Some ''/dev/null'', None, Some ''socket:[12345]'']) =
     Some [\<lparr>so_PID = 42, so_LocalPort = 8080, so_RemotePort = 0, so_LocalAddr = AddrV4 [127, 0, 0, 1],
            so_RemoteAddr = AddrV4 [0, 0, 0, 0], so_Proto = ''tcp'', so_State = ''LISTEN''\<rparr>]"
  by (simp add: SocketsForPID_def readProcNet_def sample_net_def sample_row sample_links)

theorem SocketsForPID_sockets_ok_witness:
  "list_all (socket_ok 42)
     [\<lparr>so_PID = 42, so_LocalPort = 8080, so_RemotePort = 0, so_LocalAddr = AddrV4 [127, 0, 0, 1],
       so_RemoteAddr = AddrV4 [0, 0, 0, 0], so_Proto = ''tcp'', so_State = ''LISTEN''\<rparr>]"
  by (rule SocketsForPID_sockets_ok [OF sample_net_sockets])

end
