(* ===== verification/Poller.thy ===== *)
theory Poller
  imports Proc_Linux
begin

text \<open>
  The procfs poller, \<^verbatim>\<open>src/procinfo/poller.go\<close>: one poll walks every process, rebuilds the
  port map, the process-name cache and the connection list from scratch and swaps them in.
  The enumeration functions are arguments of the walk. The theory shows that the port map
  always names the last owner walked of a (port, protocol) pair, that the name cache holds
  resolved names of walked processes only, and that a failed listing changes nothing.
\<close>

section \<open>Types\<close>

record Process =
  pr_PID :: i32
  pr_Name :: string

type_synonym portKey = "u16 \<times> string"

record Connection =
  c_PID :: i32
  c_ProcessName :: string
  c_LocalAddr :: addr
  c_LocalPort :: u16
  c_RemoteAddr :: addr
  c_RemotePort :: u16
  c_Proto :: string
  c_State :: string

record Poller =
  po_ports :: "portKey \<rightharpoonup> Process"
  po_names :: "i32 \<rightharpoonup> string"
  po_conns :: "Connection list"

definition NewPoller :: Poller where
  "NewPoller = \<lparr>po_ports = Map.empty, po_names = Map.empty, po_conns = []\<rparr>"

section \<open>One poll\<close>

definition conn_of_socket :: "i32 \<Rightarrow> string \<Rightarrow> Socket \<Rightarrow> Connection" where
  "conn_of_socket pid name s =
     \<lparr>c_PID = pid, c_ProcessName = name, c_LocalAddr = so_LocalAddr s, c_LocalPort = so_LocalPort s,
      c_RemoteAddr = so_RemoteAddr s, c_RemotePort = so_RemotePort s, c_Proto = so_Proto s,
      c_State = so_State s\<rparr>"

fun poll_socks :: "i32 \<Rightarrow> string \<Rightarrow> Socket list \<Rightarrow> Poller \<Rightarrow> Poller" where
  "poll_socks pid name [] p = p"
| "poll_socks pid name (s # ss) p =
     poll_socks pid name ss
       (p\<lparr>po_ports := (po_ports p)((so_LocalPort s, so_Proto s) \<mapsto> \<lparr>pr_PID = pid, pr_Name = name\<rparr>),
          po_conns := po_conns p @ [conn_of_socket pid name s]\<rparr>)"

text \<open>The name a walk uses for a process: the cached one, a fresh lookup, or \<open>?\<close>.\<close>

definition poll_name :: "(i32 \<rightharpoonup> string) \<Rightarrow> (i32 \<Rightarrow> string option) \<Rightarrow> i32 \<Rightarrow> string" where
  "poll_name oldNames name_of pid =
     (case oldNames pid of
        Some n \<Rightarrow> n
      | None \<Rightarrow> (case name_of pid of Some n \<Rightarrow> n | None \<Rightarrow> ''?''))"

fun poll_pids ::
    "(i32 \<rightharpoonup> string) \<Rightarrow> (i32 \<Rightarrow> Socket list option) \<Rightarrow> (i32 \<Rightarrow> string option) \<Rightarrow> i32 list \<Rightarrow> Poller \<Rightarrow> Poller"
where
  "poll_pids oldNames socks_of name_of [] p = p"
| "poll_pids oldNames socks_of name_of (pid # pids) p =
     (case socks_of pid of
        None \<Rightarrow> poll_pids oldNames socks_of name_of pids p
      | Some socks \<Rightarrow>
          if socks = [] then poll_pids oldNames socks_of name_of pids p
          else
            (let name = poll_name oldNames name_of pid;
                 p = (if name \<noteq> ''?'' then p\<lparr>po_names := (po_names p)(pid \<mapsto> name)\<rparr> else p)
             in poll_pids oldNames socks_of name_of pids (poll_socks pid name socks p)))"

text \<open>\<open>poll\<close> returns the error flag and the new state.\<close>

definition poll ::
    "i32 list option \<Rightarrow> (i32 \<Rightarrow> Socket list option) \<Rightarrow> (i32 \<Rightarrow> string option) \<Rightarrow> Poller \<Rightarrow> bool \<times> Poller"
where
  "poll pids socks_of name_of p =
     (case pids of
        None \<Rightarrow> (False, p)
      | Some ps \<Rightarrow> (True, poll_pids (po_names p) socks_of name_of ps NewPoller))"

definition Lookup :: "Poller \<Rightarrow> u16 \<Rightarrow> string \<Rightarrow> Process option" where
  "Lookup p localPort proto = po_ports p (localPort, proto)"

definition Connections :: "Poller \<Rightarrow> Connection list" where
  "Connections p = po_conns p"

text \<open>\<open>Snapshot\<close> keeps one process for each port; the walk over the port map is in the order \<open>order\<close>.\<close>

definition Poller_Snapshot :: "portKey list \<Rightarrow> Poller \<Rightarrow> u16 \<rightharpoonup> Process" where
  "Poller_Snapshot order p =
     fold (\<lambda>k out. case po_ports p k of None \<Rightarrow> out | Some v \<Rightarrow> out(fst k \<mapsto> v)) order Map.empty"

text \<open>
  \<open>Run\<close> polls once before each wait; a wait ends with the next tick or the end of the context.
  Each element of the list has what one poll finds and whether the context ends after it;
  the result is whether \<open>Run\<close> has returned, and with a failed poll or not.
\<close>

fun Poller_Run ::
    "(i32 list option \<times> (i32 \<Rightarrow> Socket list option) \<times> (i32 \<Rightarrow> string option) \<times> bool) list \<Rightarrow> Poller \<Rightarrow> bool option \<times> Poller"
where
  "Poller_Run [] p = (None, p)"
| "Poller_Run ((pids, socks_of, name_of, cancelled) # xs) p =
     (case poll pids socks_of name_of p of
        (ok, p') \<Rightarrow> if \<not> ok then (Some False, p') else if cancelled then (Some True, p') else Poller_Run xs p')"

section \<open>What a poll establishes\<close>

definition conn_port :: "Connection \<Rightarrow> portKey \<times> Process" where
  "conn_port c = ((c_LocalPort c, c_Proto c), \<lparr>pr_PID = c_PID c, pr_Name = c_ProcessName c\<rparr>)"

text \<open>The port map is the connection list read from its end.\<close>

definition ports_current :: "Poller \<Rightarrow> bool" where
  "ports_current p \<longleftrightarrow> po_ports p = map_of (rev (map conn_port (po_conns p)))"

lemma poll_socks_current: "ports_current p \<Longrightarrow> ports_current (poll_socks pid name ss p)"
proof (induction ss arbitrary: p)
  case (Cons s ss)
  have "ports_current (p\<lparr>po_ports := (po_ports p)((so_LocalPort s, so_Proto s) \<mapsto>
          \<lparr>pr_PID = pid, pr_Name = name\<rparr>), po_conns := po_conns p @ [conn_of_socket pid name s]\<rparr>)"
    using Cons.prems by (simp add: ports_current_def conn_port_def conn_of_socket_def)
  with Cons.IH show ?case by simp
qed simp

lemma ports_current_names [simp]: "ports_current (p\<lparr>po_names := n\<rparr>) = ports_current p"
  by (simp add: ports_current_def)

lemma poll_pids_current:
  "ports_current p \<Longrightarrow> ports_current (poll_pids old socks_of name_of pids p)"
  by (induction pids arbitrary: p) (auto simp: Let_def poll_socks_current split: option.split)

lemma NewPoller_current: "ports_current NewPoller"
  by (simp add: ports_current_def NewPoller_def)

lemma poll_ports_current:
  "poll pids socks_of name_of p = (True, p') \<Longrightarrow> ports_current p'"
  by (auto simp: poll_def poll_pids_current NewPoller_current split: option.splits)

text \<open>The connection list, independently of the loop.\<close>

definition walk_conns ::
    "(i32 \<rightharpoonup> string) \<Rightarrow> (i32 \<Rightarrow> Socket list option) \<Rightarrow> (i32 \<Rightarrow> string option) \<Rightarrow> i32 list \<Rightarrow> Connection list"
where
  "walk_conns old socks_of name_of pids =
     concat (map (\<lambda>pid. map (conn_of_socket pid (poll_name old name_of pid))
                    (case socks_of pid of None \<Rightarrow> [] | Some ss \<Rightarrow> ss)) pids)"

lemma poll_socks_conns: "po_conns (poll_socks pid name ss p) = po_conns p @ map (conn_of_socket pid name) ss"
  by (induction ss arbitrary: p) auto

lemma poll_socks_names [simp]: "po_names (poll_socks pid name ss p) = po_names p"
  by (induction ss arbitrary: p) auto

lemma poll_pids_conns:
  "po_conns (poll_pids old socks_of name_of pids p) = po_conns p @ walk_conns old socks_of name_of pids"
  by (induction pids arbitrary: p)
    (auto simp: walk_conns_def Let_def poll_socks_conns split: option.split)

lemma poll_conns:
  "poll (Some pids) socks_of name_of p = (True, p') \<Longrightarrow>
     Connections p' = walk_conns (po_names p) socks_of name_of pids"
  by (auto simp: poll_def Connections_def poll_pids_conns NewPoller_def)

text \<open>Only resolved names are cached, and only for processes of this walk.\<close>

definition names_fresh ::
    "(i32 \<rightharpoonup> string) \<Rightarrow> (i32 \<Rightarrow> string option) \<Rightarrow> i32 list \<Rightarrow> (i32 \<rightharpoonup> string) \<Rightarrow> bool" where
  "names_fresh old name_of pids names \<longleftrightarrow>
     (\<forall>pid n. names pid = Some n \<longrightarrow>
        n \<noteq> ''?'' \<and> pid \<in> set pids \<and> (old pid = Some n \<or> old pid = None \<and> name_of pid = Some n))"

lemma poll_pids_names:
  "names_fresh old name_of ps (po_names p) \<Longrightarrow> set pids \<subseteq> set ps \<Longrightarrow>
     names_fresh old name_of ps (po_names (poll_pids old socks_of name_of pids p))"
proof (induction pids arbitrary: p)
  case (Cons pid pids)
  have "names_fresh old name_of ps ((po_names p)(pid \<mapsto> poll_name old name_of pid))"
    if "poll_name old name_of pid \<noteq> ''?''"
    using that Cons.prems
    by (auto simp: names_fresh_def poll_name_def split: option.splits if_splits)
  with Cons.prems show ?case
    by (auto simp: Let_def fun_upd_def intro!: Cons.IH split: option.split)
qed simp

lemma poll_names_fresh:
  assumes "poll (Some pids) socks_of name_of p = (True, p')"
  shows "names_fresh (po_names p) name_of pids (po_names p')"
proof -
  have "names_fresh (po_names p) name_of pids (po_names NewPoller)"
    by (simp add: names_fresh_def NewPoller_def)
  with assms poll_pids_names [of _ _ pids NewPoller pids] show ?thesis
    by (auto simp: poll_def)
qed

section \<open>Properties\<close>

text \<open>
  C12: a poll that can list the processes reports, process by process, every socket it
  could enumerate; a lookup answers with the last owner walked of the (port, protocol)
  pair; and only resolved names of processes of this walk are carried to the next one. A
  poll that cannot list them changes nothing.
\<close>

theorem poll_result:
  "let p' = snd (poll (Some pids) socks_of name_of p) in
     Connections p' = walk_conns (po_names p) socks_of name_of pids \<and>
     Lookup p' port proto = map_of (rev (map conn_port (Connections p'))) (port, proto) \<and>
     names_fresh (po_names p) name_of pids (po_names p') \<and>
     poll None socks_of name_of p = (False, p)"
proof -
  have "poll (Some pids) socks_of name_of p = (True, snd (poll (Some pids) socks_of name_of p))"
    by (simp add: poll_def)
  from poll_conns [OF this] poll_ports_current [OF this] poll_names_fresh [OF this]
  show ?thesis
    by (simp add: Let_def Lookup_def ports_current_def Connections_def) (simp add: poll_def)
qed

text \<open>A snapshot names, for each port, the owner of that port on some protocol.\<close>

lemma Poller_Snapshot_owner:
  assumes "Poller_Snapshot order p port = Some v"
  shows "\<exists>proto. Lookup p port proto = Some v"
proof -
  have "\<exists>proto. Lookup p port proto = Some v"
    if "fold (\<lambda>k out. case po_ports p k of None \<Rightarrow> out | Some v \<Rightarrow> out(fst k \<mapsto> v)) order m port = Some v"
      and "m port = Some v \<Longrightarrow> \<exists>proto. Lookup p port proto = Some v" for m
    using that
  proof (induction order arbitrary: m)
    case (Cons k ks)
    define m' where "m' = (case po_ports p k of None \<Rightarrow> m | Some v \<Rightarrow> m(fst k \<mapsto> v))"
    have "m' port = Some v \<Longrightarrow> \<exists>proto. Lookup p port proto = Some v"
      using Cons.prems(2) by (cases k) (auto simp: m'_def Lookup_def split: option.splits if_splits)
    with Cons.IH [of m'] Cons.prems(1) show ?case by (simp add: m'_def)
  qed simp
  from this [of Map.empty] assms show ?thesis by (simp add: Poller_Snapshot_def)
qed

text \<open>The port map is current at every moment of a run.\<close>

lemma Poller_Run_current: "ports_current p \<Longrightarrow> ports_current (snd (Poller_Run xs p))"
proof (induction xs p rule: Poller_Run.induct)
  case (2 pids socks_of name_of cancelled xs p)
  obtain ok p' where r: "poll pids socks_of name_of p = (ok, p')" by fastforce
  have "ports_current p'"
    using 2(2) r poll_ports_current [of pids socks_of name_of p p']
    by (cases ok) (auto simp: poll_def split: option.splits)
  with 2(1) [OF r [symmetric]] r show ?case by auto
qed simp

end
