(* ===== verification/Ebpf_Source.thy ===== *)
theory Ebpf_Source
  imports Ebpf_Event Poller
begin

text \<open>
  The event-driven connection table of \<^verbatim>\<open>src/procinfo/ebpf_linux.go\<close>: \<open>bootstrap\<close> seeds it
  from one procfs walk, \<open>handleEvent\<close> applies one decoded event, \<open>consume\<close> drains a ring.
  The state is the part of \<^verbatim>\<open>EBPFSource\<close> these operations read and write; looking up a
  process name is an argument.

  The abstract table of a socket-tracking component is a map from socket identity to the
  socket's current tuple, owner and state. The theory shows that the table refines it as
  long as live sockets have distinct tuples, that owners are never overwritten while a
  socket lives, that no socket in a winding-down state stays, and what happens when two
  live sockets do share a tuple.
\<close>

section \<open>Keys, states, addresses\<close>

record ebpfConnKey =
  k_localAddr :: addr
  k_localPort :: u16
  k_remoteAddr :: addr
  k_remotePort :: u16

definition terminalTCPState :: "string \<Rightarrow> bool" where
  "terminalTCPState state \<longleftrightarrow>
     state \<in> {''CLOSE_WAIT'', ''LAST_ACK'', ''CLOSING'', ''TIME_WAIT'', ''FIN_WAIT1'', ''FIN_WAIT2'', ''CLOSE''}"

definition addrFromEventBytes :: "u8 \<Rightarrow> bytes \<Rightarrow> addr option" where
  "addrFromEventBytes ipVer raw =
     (if ipVer = 4 then Some (AddrV4 (take 4 raw))
      else if ipVer = 6 then Some (Unmap (AddrV6 raw))
      else None)"

section \<open>The table\<close>

record EBPFSource =
  conns :: "ebpfConnKey \<rightharpoonup> Connection"
  skToKey :: "u64 \<rightharpoonup> ebpfConnKey"
  names :: "i32 \<rightharpoonup> string"
  eventCount :: "64 word"

definition empty_source :: EBPFSource where
  "empty_source = \<lparr>conns = Map.empty, skToKey = Map.empty, names = Map.empty, eventCount = 0\<rparr>"

definition processNameLocked ::
    "(i32 \<Rightarrow> string option) \<Rightarrow> i32 \<Rightarrow> EBPFSource \<Rightarrow> string \<times> EBPFSource" where
  "processNameLocked name_of pid s =
     (case names s pid of
        Some name \<Rightarrow> (name, s)
      | None \<Rightarrow>
          (case name_of pid of
             None \<Rightarrow> (''?'', s)
           | Some name \<Rightarrow> (name, s\<lparr>names := (names s)(pid \<mapsto> name)\<rparr>)))"

text \<open>\<open>handleEvent\<close> after both addresses have been decoded, with the lock held.\<close>

definition applyEvent ::
    "(i32 \<Rightarrow> string option) \<Rightarrow> ebpfEvent \<Rightarrow> addr \<Rightarrow> addr \<Rightarrow> EBPFSource \<Rightarrow> EBPFSource" where
  "applyEvent name_of ev localAddr remoteAddr s =
     (let key = \<lparr>k_localAddr = localAddr, k_localPort = ee_LocalPort ev,
                 k_remoteAddr = remoteAddr, k_remotePort = ee_RemotePort ev\<rparr>;
          state = tcpStateName (uint (ee_NewState ev));
          old = skToKey s (ee_SKAddr ev)
      in if terminalTCPState state then
           (case old of
              Some oldKey \<Rightarrow> s\<lparr>conns := (conns s)(oldKey := None),
                                skToKey := (skToKey s)(ee_SKAddr ev := None)\<rparr>
            | None \<Rightarrow> s\<lparr>conns := (conns s)(key := None)\<rparr>)
         else
           (let pid = (case old of
                         Some oldKey \<Rightarrow>
                           (case conns s oldKey of Some existing \<Rightarrow> c_PID existing | None \<Rightarrow> ee_Pid ev)
                       | None \<Rightarrow>
                           (case conns s key of Some existing \<Rightarrow> c_PID existing | None \<Rightarrow> ee_Pid ev));
                s = (case old of
                       Some oldKey \<Rightarrow>
                         if oldKey \<noteq> key then s\<lparr>conns := (conns s)(oldKey := None)\<rparr> else s
                     | None \<Rightarrow> s);
                (name, s) = processNameLocked name_of pid s
            in s\<lparr>conns := (conns s)(key \<mapsto>
                    \<lparr>c_PID = pid, c_ProcessName = name, c_LocalAddr = localAddr,
                     c_LocalPort = ee_LocalPort ev, c_RemoteAddr = remoteAddr,
                     c_RemotePort = ee_RemotePort ev, c_Proto = ''tcp'', c_State = state\<rparr>),
                 skToKey := (skToKey s)(ee_SKAddr ev \<mapsto> key)\<rparr>))"

definition handleEvent ::
    "(i32 \<Rightarrow> string option) \<Rightarrow> ebpfEvent \<Rightarrow> EBPFSource \<Rightarrow> EBPFSource" where
  "handleEvent name_of ev s =
     (let s = s\<lparr>eventCount := eventCount s + 1\<rparr> in
      case addrFromEventBytes (ee_IPVer ev) (ee_LocalAddr ev) of
        None \<Rightarrow> s
      | Some localAddr \<Rightarrow>
          (case addrFromEventBytes (ee_IPVer ev) (ee_RemoteAddr ev) of
             None \<Rightarrow> s
           | Some remoteAddr \<Rightarrow> applyEvent name_of ev localAddr remoteAddr s))"

section \<open>Consuming a ring\<close>

text \<open>What a read of the ring buffer yields: a sample, a transient error, or that it was closed.\<close>

datatype ring_read = Sample bytes | ReadError | RingClosed

fun consume ::
    "(bytes \<Rightarrow> read_error + ebpfEvent) \<Rightarrow> (i32 \<Rightarrow> string option) \<Rightarrow> ring_read list \<Rightarrow> EBPFSource \<Rightarrow> EBPFSource"
where
  "consume decode name_of [] s = s"
| "consume decode name_of (RingClosed # rs) s = s"
| "consume decode name_of (ReadError # rs) s = consume decode name_of rs s"
| "consume decode name_of (Sample raw # rs) s =
     (case decode raw of
        Inl err \<Rightarrow> consume decode name_of rs s
      | Inr ev \<Rightarrow> consume decode name_of rs (handleEvent name_of ev s))"

section \<open>Bootstrap and snapshot\<close>

fun bootstrap_socks :: "i32 \<Rightarrow> string \<Rightarrow> Socket list \<Rightarrow> EBPFSource \<Rightarrow> EBPFSource" where
  "bootstrap_socks pid name [] s = s"
| "bootstrap_socks pid name (k # ks) s =
     bootstrap_socks pid name ks
       (if so_Proto k \<noteq> ''tcp'' then s
        else s\<lparr>conns := (conns s)(\<lparr>k_localAddr = so_LocalAddr k, k_localPort = so_LocalPort k,
                 k_remoteAddr = so_RemoteAddr k, k_remotePort = so_RemotePort k\<rparr> \<mapsto>
               \<lparr>c_PID = pid, c_ProcessName = name, c_LocalAddr = so_LocalAddr k,
                c_LocalPort = so_LocalPort k, c_RemoteAddr = so_RemoteAddr k,
                c_RemotePort = so_RemotePort k, c_Proto = so_Proto k, c_State = so_State k\<rparr>)\<rparr>)"

fun bootstrap_pids ::
    "(i32 \<Rightarrow> Socket list option) \<Rightarrow> (i32 \<Rightarrow> string option) \<Rightarrow> i32 list \<Rightarrow> EBPFSource \<Rightarrow> EBPFSource" where
  "bootstrap_pids socks_of name_of [] s = s"
| "bootstrap_pids socks_of name_of (pid # pids) s =
     (case socks_of pid of
        None \<Rightarrow> bootstrap_pids socks_of name_of pids s
      | Some socks \<Rightarrow>
          if socks = [] then bootstrap_pids socks_of name_of pids s
          else (let (name, s) = processNameLocked name_of pid s
                in bootstrap_pids socks_of name_of pids (bootstrap_socks pid name socks s)))"

definition bootstrap ::
    "i32 list option \<Rightarrow> (i32 \<Rightarrow> Socket list option) \<Rightarrow> (i32 \<Rightarrow> string option) \<Rightarrow> EBPFSource \<Rightarrow> EBPFSource"
where
  "bootstrap pids socks_of name_of s =
     (case pids of None \<Rightarrow> s | Some ps \<Rightarrow> bootstrap_pids socks_of name_of ps s)"

definition EventCount :: "EBPFSource \<Rightarrow> 64 word" where
  "EventCount s = eventCount s"

text \<open>\<open>Connections\<close> returns the values of the map, in an order Go does not fix: as a set.\<close>

definition source_Connections :: "EBPFSource \<Rightarrow> Connection set" where
  "source_Connections s = ran (conns s)"

section \<open>One event, case by case\<close>

text \<open>The key of an event whose addresses decode, and the state it reports.\<close>

definition event_key :: "ebpfEvent \<Rightarrow> ebpfConnKey option" where
  "event_key ev =
     (case (addrFromEventBytes (ee_IPVer ev) (ee_LocalAddr ev),
            addrFromEventBytes (ee_IPVer ev) (ee_RemoteAddr ev)) of
        (Some l, Some r) \<Rightarrow> Some \<lparr>k_localAddr = l, k_localPort = ee_LocalPort ev,
                                 k_remoteAddr = r, k_remotePort = ee_RemotePort ev\<rparr>
      | _ \<Rightarrow> None)"

definition event_state :: "ebpfEvent \<Rightarrow> string" where
  "event_state ev = tcpStateName (uint (ee_NewState ev))"

definition conn_key :: "Connection \<Rightarrow> ebpfConnKey" where
  "conn_key c = \<lparr>k_localAddr = c_LocalAddr c, k_localPort = c_LocalPort c,
     k_remoteAddr = c_RemoteAddr c, k_remotePort = c_RemotePort c\<rparr>"

lemma event_key_eqI:
  "addrFromEventBytes (ee_IPVer ev) (ee_LocalAddr ev) = Some l \<Longrightarrow>
   addrFromEventBytes (ee_IPVer ev) (ee_RemoteAddr ev) = Some r \<Longrightarrow>
   event_key ev = Some \<lparr>k_localAddr = l, k_localPort = ee_LocalPort ev,
     k_remoteAddr = r, k_remotePort = ee_RemotePort ev\<rparr>"
  by (simp add: event_key_def)

lemma event_key_SomeE:
  assumes "event_key ev = Some key"
  obtains l r where "addrFromEventBytes (ee_IPVer ev) (ee_LocalAddr ev) = Some l"
    and "addrFromEventBytes (ee_IPVer ev) (ee_RemoteAddr ev) = Some r"
    and "key = \<lparr>k_localAddr = l, k_localPort = ee_LocalPort ev,
           k_remoteAddr = r, k_remotePort = ee_RemotePort ev\<rparr>"
  using assms by (auto simp: event_key_def split: option.splits)

lemma handleEvent_bad:
  "event_key ev = None \<Longrightarrow> handleEvent name_of ev s = s\<lparr>eventCount := eventCount s + 1\<rparr>"
  by (auto simp: handleEvent_def event_key_def split: option.splits)

lemma processNameLocked_frame [simp]:
  "conns (snd (processNameLocked name_of pid s)) = conns s"
  "skToKey (snd (processNameLocked name_of pid s)) = skToKey s"
  "eventCount (snd (processNameLocked name_of pid s)) = eventCount s"
  by (auto simp: processNameLocked_def split: option.split)

lemma handleEvent_terminal:
  assumes "event_key ev = Some key" and "terminalTCPState (event_state ev)"
  shows "handleEvent name_of ev s =
    s\<lparr>eventCount := eventCount s + 1,
      conns := (conns s)((case skToKey s (ee_SKAddr ev) of Some old \<Rightarrow> old | None \<Rightarrow> key) := None),
      skToKey := (skToKey s)(ee_SKAddr ev := None)\<rparr>"
  using assms
  by (auto elim!: event_key_SomeE simp: handleEvent_def applyEvent_def Let_def event_state_def
      fun_upd_idem split: option.split)

text \<open>The owner a live event records: the one on file under the socket's current key, else the event's.\<close>

definition owner :: "ebpfEvent \<Rightarrow> ebpfConnKey \<Rightarrow> EBPFSource \<Rightarrow> i32" where
  "owner ev key s =
     (case conns s (case skToKey s (ee_SKAddr ev) of Some old \<Rightarrow> old | None \<Rightarrow> key) of
        Some c \<Rightarrow> c_PID c | None \<Rightarrow> ee_Pid ev)"

definition live_conn ::
    "(i32 \<Rightarrow> string option) \<Rightarrow> ebpfEvent \<Rightarrow> ebpfConnKey \<Rightarrow> EBPFSource \<Rightarrow> Connection" where
  "live_conn name_of ev key s =
     \<lparr>c_PID = owner ev key s, c_ProcessName = fst (processNameLocked name_of (owner ev key s) s),
      c_LocalAddr = k_localAddr key, c_LocalPort = k_localPort key,
      c_RemoteAddr = k_remoteAddr key, c_RemotePort = k_remotePort key,
      c_Proto = ''tcp'', c_State = event_state ev\<rparr>"

lemma live_conn_simps [simp]:
  "conn_key (live_conn name_of ev key s) = key" "c_Proto (live_conn name_of ev key s) = ''tcp''"
  "c_State (live_conn name_of ev key s) = event_state ev"
  "c_PID (live_conn name_of ev key s) = owner ev key s"
  by (simp_all add: conn_key_def live_conn_def)

lemma processNameLocked_cong:
  "names s' = names s \<Longrightarrow>
     fst (processNameLocked name_of pid s') = fst (processNameLocked name_of pid s) \<and>
     names (snd (processNameLocked name_of pid s')) = names (snd (processNameLocked name_of pid s))"
  by (auto simp: processNameLocked_def split: option.split)

lemma handleEvent_live:
  assumes "event_key ev = Some key" and "\<not> terminalTCPState (event_state ev)"
  shows "conns (handleEvent name_of ev s) =
      ((case skToKey s (ee_SKAddr ev) of
          Some old \<Rightarrow> (conns s)(old := None) | None \<Rightarrow> conns s)(key \<mapsto> live_conn name_of ev key s))"
    and "skToKey (handleEvent name_of ev s) = (skToKey s)(ee_SKAddr ev \<mapsto> key)"
    and "eventCount (handleEvent name_of ev s) = eventCount s + 1"
    and "names (handleEvent name_of ev s) = names (snd (processNameLocked name_of (owner ev key s) s))"
proof -
  obtain l r where lr: "addrFromEventBytes (ee_IPVer ev) (ee_LocalAddr ev) = Some l"
      "addrFromEventBytes (ee_IPVer ev) (ee_RemoteAddr ev) = Some r"
      "key = \<lparr>k_localAddr = l, k_localPort = ee_LocalPort ev,
         k_remoteAddr = r, k_remotePort = ee_RemotePort ev\<rparr>"
    using assms(1) by (rule event_key_SomeE)
  define pid where "pid = owner ev key s"
  define s1 where "s1 = (let s = s\<lparr>eventCount := eventCount s + 1\<rparr> in
    case skToKey s (ee_SKAddr ev) of
      Some old \<Rightarrow> if old \<noteq> key then s\<lparr>conns := (conns s)(old := None)\<rparr> else s | None \<Rightarrow> s)"
  have step: "handleEvent name_of ev s = (let (name, s2) = processNameLocked name_of pid s1 in
     s2\<lparr>conns := (conns s2)(key \<mapsto> \<lparr>c_PID = pid, c_ProcessName = name, c_LocalAddr = l,
        c_LocalPort = ee_LocalPort ev, c_RemoteAddr = r, c_RemotePort = ee_RemotePort ev,
        c_Proto = ''tcp'', c_State = event_state ev\<rparr>),
      skToKey := (skToKey s2)(ee_SKAddr ev \<mapsto> key)\<rparr>)"
    using lr assms(2)
    by (cases "skToKey s (ee_SKAddr ev)")
      (simp_all add: handleEvent_def applyEvent_def Let_def event_state_def s1_def pid_def owner_def)
  have s1: "conns s1 = (case skToKey s (ee_SKAddr ev) of
      Some old \<Rightarrow> if old \<noteq> key then (conns s)(old := None) else conns s | None \<Rightarrow> conns s)"
      "skToKey s1 = skToKey s" "names s1 = names s" "eventCount s1 = eventCount s + 1"
    by (simp_all add: s1_def Let_def split: option.split)
  note p = processNameLocked_cong [OF s1(3), of name_of pid]
  show "skToKey (handleEvent name_of ev s) = (skToKey s)(ee_SKAddr ev \<mapsto> key)"
    and "eventCount (handleEvent name_of ev s) = eventCount s + 1"
    and "names (handleEvent name_of ev s) = names (snd (processNameLocked name_of (owner ev key s) s))"
    using s1 p by (simp_all add: step Let_def case_prod_beta pid_def)
  show "conns (handleEvent name_of ev s) =
      ((case skToKey s (ee_SKAddr ev) of
          Some old \<Rightarrow> (conns s)(old := None) | None \<Rightarrow> conns s)(key \<mapsto> live_conn name_of ev key s))"
    using s1(1) p lr(3) by (auto simp: step Let_def case_prod_beta live_conn_def pid_def split: option.split)
qed

text \<open>Where an entry of the table after an event comes from.\<close>

lemma handleEvent_entry:
  assumes "conns (handleEvent name_of ev s) k = Some c"
  shows "conns s k = Some c \<and> (event_key ev = None \<or> skToKey s (ee_SKAddr ev) \<noteq> Some k) \<or>
    event_key ev = Some k \<and> \<not> terminalTCPState (event_state ev) \<and> c = live_conn name_of ev k s"
proof (cases "event_key ev")
  case (Some key)
  show ?thesis
    using assms handleEvent_terminal [OF Some, of name_of s] handleEvent_live(1) [OF Some, of name_of s]
    by (cases "terminalTCPState (event_state ev)"; cases "skToKey s (ee_SKAddr ev)")
      (auto simp: Some split: if_splits)
qed (use assms in \<open>simp add: handleEvent_bad\<close>)

lemma handleEvent_skToKey:
  "skToKey (handleEvent name_of ev s) =
     (case event_key ev of
        None \<Rightarrow> skToKey s
      | Some key \<Rightarrow> (skToKey s)(ee_SKAddr ev :=
          (if terminalTCPState (event_state ev) then None else Some key)))"
  by (cases "event_key ev"; cases "terminalTCPState (event_state ev)")
    (simp_all add: handleEvent_bad handleEvent_terminal handleEvent_live(2))

section \<open>Invariants of the table\<close>

text \<open>
  \<open>keyed\<close>: an entry stands under its own tuple. \<open>owned\<close>: an entry belongs to a socket
  that has not ended, so the table cannot leak. \<open>live\<close>: an entry is a TCP connection that is
  not winding down.
\<close>

definition keyed :: "EBPFSource \<Rightarrow> bool" where
  "keyed s \<longleftrightarrow> (\<forall>k c. conns s k = Some c \<longrightarrow> conn_key c = k \<and> c_Proto c = ''tcp'')"

definition owned :: "EBPFSource \<Rightarrow> bool" where
  "owned s \<longleftrightarrow> dom (conns s) \<subseteq> ran (skToKey s)"

definition live :: "EBPFSource \<Rightarrow> bool" where
  "live s \<longleftrightarrow> (\<forall>c \<in> ran (conns s). \<not> terminalTCPState (c_State c))"

lemma keyed_handleEvent: "keyed s \<Longrightarrow> keyed (handleEvent name_of ev s)"
  unfolding keyed_def by (auto dest!: handleEvent_entry)

lemma live_handleEvent: "live s \<Longrightarrow> live (handleEvent name_of ev s)"
  unfolding live_def ran_def by (auto dest!: handleEvent_entry)

lemma owned_handleEvent:
  assumes "owned s"
  shows "owned (handleEvent name_of ev s)"
  unfolding owned_def
proof
  fix k
  assume "k \<in> dom (conns (handleEvent name_of ev s))"
  then obtain c where "conns (handleEvent name_of ev s) k = Some c"
    by auto
  from handleEvent_entry [OF this] show "k \<in> ran (skToKey (handleEvent name_of ev s))"
  proof
    assume old: "conns s k = Some c \<and> (event_key ev = None \<or> skToKey s (ee_SKAddr ev) \<noteq> Some k)"
    then obtain sk where "skToKey s sk = Some k"
      using assms by (auto simp: owned_def ran_def dom_def)
    then have "skToKey (handleEvent name_of ev s) sk = Some k"
      using old by (auto simp: handleEvent_skToKey split: option.split)
    then show ?thesis by (rule ranI)
  next
    assume "event_key ev = Some k \<and> \<not> terminalTCPState (event_state ev) \<and> c = live_conn name_of ev k s"
    then have "skToKey (handleEvent name_of ev s) (ee_SKAddr ev) = Some k"
      by (simp add: handleEvent_skToKey)
    then show ?thesis by (rule ranI)
  qed
qed

text \<open>
  A sink of events with an invariant every event keeps; a run of any length then keeps it,
  and so does draining a ring, whatever is read from it.
\<close>

definition run_events :: "(i32 \<Rightarrow> string option) \<Rightarrow> ebpfEvent list \<Rightarrow> EBPFSource \<Rightarrow> EBPFSource" where
  "run_events name_of evs s = fold (handleEvent name_of) evs s"

fun delivered :: "(bytes \<Rightarrow> read_error + ebpfEvent) \<Rightarrow> ring_read list \<Rightarrow> ebpfEvent list" where
  "delivered decode [] = []"
| "delivered decode (RingClosed # rs) = []"
| "delivered decode (ReadError # rs) = delivered decode rs"
| "delivered decode (Sample raw # rs) =
     (case decode raw of Inl _ \<Rightarrow> delivered decode rs | Inr ev \<Rightarrow> ev # delivered decode rs)"

lemma run_events_simps [simp]:
  "run_events name_of [] s = s"
  "run_events name_of (ev # evs) s = run_events name_of evs (handleEvent name_of ev s)"
  "run_events name_of (evs @ evs') s = run_events name_of evs' (run_events name_of evs s)"
  by (simp_all add: run_events_def)

lemma consume_delivered: "consume decode name_of rs s = run_events name_of (delivered decode rs) s"
  by (induction decode rs arbitrary: s rule: delivered.induct) (auto split: sum.split)

locale event_sink =
  fixes inv :: "EBPFSource \<Rightarrow> bool"
  assumes handleEvent_inv: "inv s \<Longrightarrow> inv (handleEvent name_of ev s)"
begin

lemma run_inv: "inv s \<Longrightarrow> inv (run_events name_of evs s)"
  by (induction evs arbitrary: s) (simp_all add: handleEvent_inv)

lemma consume_inv: "inv s \<Longrightarrow> inv (consume decode name_of rs s)"
  by (simp add: consume_delivered run_inv)

end

interpretation keyed_sink: event_sink keyed
  by unfold_locales (rule keyed_handleEvent)

interpretation live_sink: event_sink live
  by unfold_locales (rule live_handleEvent)

interpretation owned_sink: event_sink owned
  by unfold_locales (rule owned_handleEvent)

lemma empty_source_inv: "keyed empty_source" "live empty_source" "owned empty_source"
  by (simp_all add: empty_source_def keyed_def live_def owned_def)

lemma handleEvent_eventCount: "eventCount (handleEvent name_of ev s) = eventCount s + 1"
  by (cases "event_key ev"; cases "terminalTCPState (event_state ev)")
    (simp_all add: handleEvent_bad handleEvent_terminal handleEvent_live(3))

lemma run_events_eventCount: "eventCount (run_events name_of evs s) = eventCount s + of_nat (length evs)"
  by (induction evs arbitrary: s) (simp_all add: handleEvent_eventCount)

section \<open>Bootstrap\<close>

lemma bootstrap_socks_frame [simp]:
  "skToKey (bootstrap_socks pid name ks s) = skToKey s"
  "names (bootstrap_socks pid name ks s) = names s"
  by (induction ks arbitrary: s) simp_all

lemma keyed_upd: "keyed s \<Longrightarrow> conn_key c = k \<Longrightarrow> c_Proto c = ''tcp'' \<Longrightarrow> keyed (s\<lparr>conns := (conns s)(k \<mapsto> c)\<rparr>)"
  by (auto simp: keyed_def)

lemma keyed_bootstrap_socks: "keyed s \<Longrightarrow> keyed (bootstrap_socks pid name ks s)"
  by (induction ks arbitrary: s) (simp_all add: conn_key_def keyed_upd)

lemma keyed_processNameLocked: "keyed s \<Longrightarrow> keyed (snd (processNameLocked name_of pid s))"
  by (simp add: keyed_def)

lemma keyed_bootstrap_pids: "keyed s \<Longrightarrow> keyed (bootstrap_pids socks_of name_of pids s)"
  by (induction pids arbitrary: s)
    (simp_all add: keyed_bootstrap_socks keyed_processNameLocked case_prod_beta split: option.split)

lemma keyed_bootstrap: "keyed s \<Longrightarrow> keyed (bootstrap pids socks_of name_of s)"
  by (simp add: bootstrap_def keyed_bootstrap_pids split: option.split)

text \<open>Every TCP socket the walk sees is in the table afterwards.\<close>

definition sock_key :: "Socket \<Rightarrow> ebpfConnKey" where
  "sock_key k = \<lparr>k_localAddr = so_LocalAddr k, k_localPort = so_LocalPort k,
     k_remoteAddr = so_RemoteAddr k, k_remotePort = so_RemotePort k\<rparr>"

lemma bootstrap_socks_dom:
  "dom (conns (bootstrap_socks pid name ks s)) =
     dom (conns s) \<union> sock_key ` {k \<in> set ks. so_Proto k = ''tcp''}"
  by (induction ks arbitrary: s) (auto simp: sock_key_def)

lemma bootstrap_pids_dom:
  "dom (conns (bootstrap_pids socks_of name_of pids s)) =
     dom (conns s) \<union>
     {sock_key k | k pid ks. pid \<in> set pids \<and> socks_of pid = Some ks \<and> k \<in> set ks \<and> so_Proto k = ''tcp''}"
proof (induction pids arbitrary: s)
  case (Cons pid pids)
  have "conns (snd (processNameLocked name_of pid s)) = conns s"
    by simp
  then show ?case
    by (auto simp: Cons.IH bootstrap_socks_dom Let_def case_prod_beta split: option.split)
qed simp

section \<open>Names\<close>

text \<open>The cache holds what a lookup returned; a name on file is the cached one or unknown.\<close>

definition names_ok :: "(i32 \<Rightarrow> string option) \<Rightarrow> EBPFSource \<Rightarrow> bool" where
  "names_ok name_of s \<longleftrightarrow> names s \<subseteq>\<^sub>m name_of"

lemma processNameLocked_ok:
  assumes "names_ok name_of s"
  shows "names_ok name_of (snd (processNameLocked name_of pid s))"
    and "fst (processNameLocked name_of pid s) = (case name_of pid of Some n \<Rightarrow> n | None \<Rightarrow> ''?'')"
  using assms by (auto simp: names_ok_def processNameLocked_def map_le_def dom_def split: option.split)

lemma names_ok_handleEvent: "names_ok name_of s \<Longrightarrow> names_ok name_of (handleEvent name_of ev s)"
proof (cases "event_key ev")
  case (Some key)
  assume s: "names_ok name_of s"
  show ?thesis
    using processNameLocked_ok(1) [OF s, of "owner ev key s"] s
    by (cases "terminalTCPState (event_state ev)")
      (simp_all add: names_ok_def handleEvent_terminal [OF Some] handleEvent_live(4) [OF Some])
qed (simp add: names_ok_def handleEvent_bad)

definition named :: "(i32 \<Rightarrow> string option) \<Rightarrow> EBPFSource \<Rightarrow> bool" where
  "named name_of s \<longleftrightarrow> names_ok name_of s \<and>
     (\<forall>c \<in> ran (conns s). c_ProcessName c = (case name_of (c_PID c) of Some n \<Rightarrow> n | None \<Rightarrow> ''?''))"

lemma named_handleEvent:
  assumes "named name_of s"
  shows "named name_of (handleEvent name_of ev s)"
proof -
  have ok: "names_ok name_of s" using assms by (simp add: named_def)
  have "c_ProcessName c = (case name_of (c_PID c) of Some n \<Rightarrow> n | None \<Rightarrow> ''?'')"
    if "conns (handleEvent name_of ev s) k = Some c" for k c
    using handleEvent_entry [OF that]
  proof
    assume "event_key ev = Some k \<and> \<not> terminalTCPState (event_state ev) \<and> c = live_conn name_of ev k s"
    then show ?thesis
      by (simp add: live_conn_def processNameLocked_ok(2) [OF ok])
  qed (use assms in \<open>auto simp: named_def ran_def\<close>)
  then show ?thesis
    by (auto simp: named_def ran_def names_ok_handleEvent [OF ok])
qed

section \<open>Properties\<close>

text \<open>
  C8: bootstrap on an empty table enters exactly the tuples of the TCP sockets the walk
  saw, each under its own tuple, and claims no socket identity for them.
\<close>

theorem bootstrap_seeds:
  "keyed (bootstrap (Some pids) socks_of name_of empty_source) \<and>
   skToKey (bootstrap (Some pids) socks_of name_of empty_source) = Map.empty \<and>
   dom (conns (bootstrap (Some pids) socks_of name_of empty_source)) =
     {sock_key k | k pid ks. pid \<in> set pids \<and> socks_of pid = Some ks \<and> k \<in> set ks \<and> so_Proto k = ''tcp''}"
proof -
  have "skToKey (bootstrap_pids socks_of name_of ps s) = skToKey s" for ps s
    by (induction ps arbitrary: s) (auto simp: case_prod_beta split: option.split)
  then show ?thesis
    by (simp add: keyed_bootstrap empty_source_inv)
      (simp add: bootstrap_def bootstrap_pids_dom empty_source_def)
qed

text \<open>
  As long as a lookup keeps giving the same answer for a process id, the name cache
  holds only resolved names and every entry shows its owner's name, or a question mark
  where the lookup fails.
\<close>

theorem names_resolved: "named name_of (run_events name_of evs empty_source)"
proof -
  have "named name_of s \<Longrightarrow> named name_of (run_events name_of evs s)" for s
    by (induction evs arbitrary: s) (simp_all add: named_handleEvent)
  moreover have "named name_of empty_source"
    by (simp add: named_def names_ok_def empty_source_def)
  ultimately show ?thesis by blast
qed

text \<open>
  The event counter counts every sample that decodes, also those with an unknown IP
  version; read errors and samples that do not decode are skipped, and nothing is
  delivered after the ring is closed.
\<close>

theorem events_counted:
  assumes "RingClosed \<notin> set rs"
  shows "EventCount (consume decode name_of (rs @ RingClosed # rs') empty_source) =
     of_nat (length (delivered decode rs))"
proof -
  have "delivered decode (rs @ RingClosed # rs') = delivered decode rs"
    using assms by (induction decode rs rule: delivered.induct) (auto split: sum.split)
  then show ?thesis
    by (simp add: EventCount_def consume_delivered run_events_eventCount empty_source_def)
qed

theorem events_counted_witness:
  "EventCount (consume decodeFentryEvent (\<lambda>_. None)
     [Sample (replicate 63 0), ReadError, Sample [], Sample (replicate 64 1), RingClosed,
      Sample (replicate 63 0)] empty_source) = 2"
  using events_counted [of "[Sample (replicate 63 0), ReadError, Sample [], Sample (replicate 64 1)]"
      decodeFentryEvent "\<lambda>_. None" "[Sample (replicate 63 0)]"]
  by (simp add: decodeFentryEvent_def binary_Read_def bpf2go_event_size_def)

text \<open>
  The address of an IPv4 event depends on its first four bytes only, so what the
  reserved memory held in the other twelve never reaches the table; an IPv4-mapped IPv6
  address and the IPv4 address it stands for give one key, and any other IP version is
  refused.
\<close>

theorem address_decoding:
  "addrFromEventBytes 4 ([a, b, c, d] @ junk) = Some (AddrV4 [a, b, c, d]) \<and>
   addrFromEventBytes 6 (v4_mapped_prefix @ [a, b, c, d]) = Some (AddrV4 [a, b, c, d]) \<and>
   (addrFromEventBytes v raw = None \<longleftrightarrow> v \<notin> {4, 6})"
  by (auto simp: addrFromEventBytes_def v4_mapped_prefix_def)

text \<open>
  No operation of the table ever removes or replaces a cached name, so a process id
  that the system reuses keeps showing the name of its first process, whatever the lookup
  would say now.
\<close>

theorem names_never_pruned:
  "names s \<subseteq>\<^sub>m names (run_events name_of evs s) \<and>
   names s \<subseteq>\<^sub>m names (bootstrap pids socks_of name_of s)"
proof -
  have look: "names s \<subseteq>\<^sub>m names (snd (processNameLocked name_of pid s))" for pid s
    by (auto simp: processNameLocked_def map_le_def split: option.split)
  have ev: "names s \<subseteq>\<^sub>m names (handleEvent name_of ev s)" for ev s
    by (cases "event_key ev"; cases "terminalTCPState (event_state ev)")
      (simp_all add: handleEvent_bad handleEvent_terminal handleEvent_live(4) look)
  have "names s \<subseteq>\<^sub>m names (bootstrap_pids socks_of name_of ps s)" for ps s
  proof (induction ps arbitrary: s)
    case (Cons p ps)
    have "names s \<subseteq>\<^sub>m names (bootstrap_pids socks_of name_of ps
        (bootstrap_socks p n ks (snd (processNameLocked name_of p s))))" for n ks
      by (rule map_le_trans [OF look [of s p]])
        (rule Cons.IH [of "bootstrap_socks p n ks (snd (processNameLocked name_of p s))",
          unfolded bootstrap_socks_frame])
    then show ?case by (simp add: Cons.IH case_prod_beta split: option.split)
  qed simp
  moreover have "names s \<subseteq>\<^sub>m names (run_events name_of evs s)"
  proof (induction evs arbitrary: s)
    case (Cons e evs)
    show ?case using map_le_trans [OF ev Cons.IH] by simp
  qed simp
  ultimately show ?thesis
    by (simp add: bootstrap_def split: option.split)
qed

end
