(* ===== verification/Socket_Tracker.thy ===== *)
theory Socket_Tracker
  imports Ebpf_Source
begin

text \<open>
  What the connection table of \<^verbatim>\<open>src/procinfo/ebpf_linux.go\<close> promises. The specification tracks
  sockets by identity: a live event records the socket's newest tuple and state and keeps
  the owner of its first event, a terminal event forgets the socket. The table of the code
  is keyed by tuple instead. It implements the specification as long as no two live sockets
  have the same tuple (\<open>distinct_run\<close>), and then what it shows does not depend on how the
  events of different sockets are interleaved by the two ring readers. Without that
  condition it does not: two listeners sharing an address through SO_REUSEPORT lose their
  common entry when either is closed.
\<close>

section \<open>The specification\<close>

record tracked =
  t_key :: ebpfConnKey
  t_pid :: i32
  t_state :: string

type_synonym tracker = "u64 \<rightharpoonup> tracked"

definition track :: "ebpfEvent \<Rightarrow> tracker \<Rightarrow> tracker" where
  "track ev m =
     (case event_key ev of
        None \<Rightarrow> m
      | Some key \<Rightarrow>
          if terminalTCPState (event_state ev) then m(ee_SKAddr ev := None)
          else m(ee_SKAddr ev \<mapsto>
                 \<lparr>t_key = key,
                  t_pid = (case m (ee_SKAddr ev) of Some t \<Rightarrow> t_pid t | None \<Rightarrow> ee_Pid ev),
                  t_state = event_state ev\<rparr>))"

text \<open>The part of a connection that the specification speaks of.\<close>

definition tracked_of :: "Connection \<Rightarrow> tracked" where
  "tracked_of c = \<lparr>t_key = conn_key c, t_pid = c_PID c, t_state = c_State c\<rparr>"

text \<open>No other live socket has the tuple of the event.\<close>

definition own_tuple :: "ebpfEvent \<Rightarrow> tracker \<Rightarrow> bool" where
  "own_tuple ev m \<longleftrightarrow>
     (\<forall>sk t. sk \<noteq> ee_SKAddr ev \<longrightarrow> m sk = Some t \<longrightarrow> event_key ev \<noteq> Some (t_key t))"

fun distinct_run :: "ebpfEvent list \<Rightarrow> tracker \<Rightarrow> bool" where
  "distinct_run [] m \<longleftrightarrow> True"
| "distinct_run (ev # evs) m \<longleftrightarrow> own_tuple ev m \<and> distinct_run evs (track ev m)"

section \<open>Refinement\<close>

text \<open>
  The table represents a tracker: the index gives each socket's key, each socket's entry
  shows what is tracked of it, every entry is some socket's, and no two sockets share one.
\<close>

definition represents :: "EBPFSource \<Rightarrow> tracker \<Rightarrow> bool" where
  "represents s m \<longleftrightarrow>
     (\<forall>sk. skToKey s sk = map_option t_key (m sk)) \<and>
     (\<forall>sk t. m sk = Some t \<longrightarrow> map_option tracked_of (conns s (t_key t)) = Some t) \<and>
     dom (conns s) = t_key ` ran m \<and>
     (\<forall>sk sk' t t'. m sk = Some t \<longrightarrow> m sk' = Some t' \<longrightarrow> t_key t = t_key t' \<longrightarrow> sk = sk')"

lemma representsI:
  assumes "\<And>sk. skToKey s sk = map_option t_key (m sk)"
    and "\<And>sk t. m sk = Some t \<Longrightarrow> map_option tracked_of (conns s (t_key t)) = Some t"
    and "\<And>k c. conns s k = Some c \<Longrightarrow> \<exists>sk t. m sk = Some t \<and> t_key t = k"
    and "\<And>sk sk' t t'. m sk = Some t \<Longrightarrow> m sk' = Some t' \<Longrightarrow> t_key t = t_key t' \<Longrightarrow> sk = sk'"
  shows "represents s m"
proof -
  have "dom (conns s) = t_key ` ran m"
  proof (intro equalityI subsetI)
    fix k assume "k \<in> dom (conns s)"
    then obtain c where "conns s k = Some c" by blast
    then obtain sk t where "m sk = Some t" "t_key t = k" using assms(3) by blast
    then show "k \<in> t_key ` ran m" by (blast intro: ranI)
  next
    fix k assume "k \<in> t_key ` ran m"
    then obtain sk t where t: "m sk = Some t" "k = t_key t" by (auto simp: ran_def)
    show "k \<in> dom (conns s)" using assms(2) [OF t(1)] t(2) by auto
  qed
  with assms(1,2,4) show ?thesis unfolding represents_def by (intro conjI allI impI)
qed

lemma representsD:
  assumes "represents s m"
  shows "skToKey s sk = map_option t_key (m sk)"
    and "m sk = Some t \<Longrightarrow> \<exists>c. conns s (t_key t) = Some c \<and> tracked_of c = t"
    and "conns s k = Some c \<Longrightarrow> \<exists>sk t. m sk = Some t \<and> t_key t = k"
    and "m sk = Some t \<Longrightarrow> m sk' = Some t' \<Longrightarrow> t_key t = t_key t' \<Longrightarrow> sk = sk'"
proof -
  note rep = assms [unfolded represents_def]
  show "skToKey s sk = map_option t_key (m sk)"
    using rep by (elim conjE) (erule allE)
  show "m sk = Some t \<Longrightarrow> m sk' = Some t' \<Longrightarrow> t_key t = t_key t' \<Longrightarrow> sk = sk'"
    using conjunct2 [OF conjunct2 [OF conjunct2 [OF rep]]] by blast
  show "\<exists>c. conns s (t_key t) = Some c \<and> tracked_of c = t" if "m sk = Some t"
    using conjunct1 [OF conjunct2 [OF rep]] that by auto
  show "\<exists>sk t. m sk = Some t \<and> t_key t = k" if "conns s k = Some c"
  proof -
    have "k \<in> t_key ` ran m"
      using conjunct1 [OF conjunct2 [OF conjunct2 [OF rep]]] that by blast
    then show ?thesis by (auto simp: ran_def)
  qed
qed

text \<open>With a table that represents the tracker, the owner found is the tracked one.\<close>

lemma owner_tracked:
  assumes "represents s m" and "own_tuple ev m" and "event_key ev = Some key"
  shows "owner ev key s = (case m (ee_SKAddr ev) of Some t \<Rightarrow> t_pid t | None \<Rightarrow> ee_Pid ev)"
proof (cases "m (ee_SKAddr ev)")
  case None
  have "conns s key = None"
  proof (rule ccontr)
    assume "conns s key \<noteq> None"
    then obtain sk t where "m sk = Some t" "t_key t = key"
      using representsD(3) [OF assms(1)] by blast
    then show False using assms(2,3) None by (cases "sk = ee_SKAddr ev") (auto simp: own_tuple_def)
  qed
  then show ?thesis by (simp add: owner_def representsD(1) [OF assms(1)] None)
next
  case (Some t)
  then obtain c where "conns s (t_key t) = Some c" "tracked_of c = t"
    using representsD(2) [OF assms(1)] by blast
  then show ?thesis
    by (auto simp: owner_def representsD(1) [OF assms(1)] Some tracked_of_def)
qed

lemma represents_terminal:
  assumes rep: "represents s m" and own: "own_tuple ev m"
    and key: "event_key ev = Some key" and fin: "terminalTCPState (event_state ev)"
  shows "represents (handleEvent name_of ev s) (track ev m)"
proof -
  let ?k = "case skToKey s (ee_SKAddr ev) of Some old \<Rightarrow> old | None \<Rightarrow> key"
  have other: "t_key t \<noteq> ?k" if "sk \<noteq> ee_SKAddr ev" "m sk = Some t" for sk t
    using that own key representsD(4) [OF rep]
    by (cases "m (ee_SKAddr ev)") (auto simp: representsD(1) [OF rep] own_tuple_def)
  have tr: "track ev m = m(ee_SKAddr ev := None)"
    by (simp add: track_def key fin)
  show ?thesis
    unfolding tr
  proof (rule representsI)
    fix k c
    assume "conns (handleEvent name_of ev s) k = Some c"
    then have k: "conns s k = Some c" "k \<noteq> ?k"
      by (auto simp: handleEvent_terminal [OF key fin] split: if_splits)
    then obtain sk t where t: "m sk = Some t" "t_key t = k"
      using representsD(3) [OF rep] by blast
    moreover have "sk \<noteq> ee_SKAddr ev"
      using k(2) t by (auto simp: representsD(1) [OF rep])
    ultimately show "\<exists>sk t. (m(ee_SKAddr ev := None)) sk = Some t \<and> t_key t = k"
      by (intro exI [of _ sk] exI [of _ t]) simp
  next
    fix sk t
    assume "(m(ee_SKAddr ev := None)) sk = Some t"
    then have t: "sk \<noteq> ee_SKAddr ev" "m sk = Some t" by (simp_all split: if_splits)
    show "map_option tracked_of (conns (handleEvent name_of ev s) (t_key t)) = Some t"
      using representsD(2) [OF rep t(2)] other [OF t] by (auto simp: handleEvent_terminal [OF key fin])
  next
    fix sk
    show "skToKey (handleEvent name_of ev s) sk = map_option t_key ((m(ee_SKAddr ev := None)) sk)"
      by (simp add: handleEvent_terminal [OF key fin] representsD(1) [OF rep])
  next
    fix sk sk' t t'
    assume "(m(ee_SKAddr ev := None)) sk = Some t" "(m(ee_SKAddr ev := None)) sk' = Some t'"
      and "t_key t = t_key t'"
    then show "sk = sk'"
      using representsD(4) [OF rep, of sk t sk' t'] by (simp split: if_splits)
  qed
qed

lemma represents_live:
  assumes rep: "represents s m" and own: "own_tuple ev m"
    and key: "event_key ev = Some key" and live: "\<not> terminalTCPState (event_state ev)"
  shows "represents (handleEvent name_of ev s) (track ev m)"
proof -
  define t0 where "t0 = \<lparr>t_key = key, t_pid = owner ev key s, t_state = event_state ev\<rparr>"
  have tr: "track ev m = m(ee_SKAddr ev \<mapsto> t0)"
    by (simp add: track_def key live t0_def owner_tracked [OF rep own key])
  have new: "tracked_of (live_conn name_of ev key s) = t0" "t_key t0 = key"
    by (simp_all add: tracked_of_def t0_def)
  have not_key: "t_key t \<noteq> key" if "sk \<noteq> ee_SKAddr ev" "m sk = Some t" for sk t
    using that own key by (auto simp: own_tuple_def)
  have kept: "conns (handleEvent name_of ev s) (t_key t) = conns s (t_key t)"
    if "sk \<noteq> ee_SKAddr ev" "m sk = Some t" for sk t
  proof (cases "m (ee_SKAddr ev)")
    case (Some old)
    then have "t_key t \<noteq> t_key old" using representsD(4) [OF rep that(2) Some] that(1) by blast
    then show ?thesis
      using not_key [OF that] Some
      by (simp add: handleEvent_live(1) [OF key live] representsD(1) [OF rep])
  qed (use not_key [OF that] in
      \<open>simp add: handleEvent_live(1) [OF key live] representsD(1) [OF rep]\<close>)
  show ?thesis
    unfolding tr
  proof (rule representsI)
    fix k c
    assume "conns (handleEvent name_of ev s) k = Some c"
    from handleEvent_entry [OF this]
    consider "k = key" | "conns s k = Some c" "skToKey s (ee_SKAddr ev) \<noteq> Some k"
      by (auto simp: key)
    then show "\<exists>sk t. (m(ee_SKAddr ev \<mapsto> t0)) sk = Some t \<and> t_key t = k"
    proof cases
      case 2
      then obtain sk t where t: "m sk = Some t" "t_key t = k"
        using representsD(3) [OF rep] by blast
      with 2 have "sk \<noteq> ee_SKAddr ev"
        by (auto simp: representsD(1) [OF rep])
      with t show ?thesis by (intro exI [of _ sk] exI [of _ t]) simp
    qed (intro exI [of _ "ee_SKAddr ev"] exI [of _ t0], simp add: new(2))
  next
    fix sk t
    assume t: "(m(ee_SKAddr ev \<mapsto> t0)) sk = Some t"
    show "map_option tracked_of (conns (handleEvent name_of ev s) (t_key t)) = Some t"
    proof (cases "sk = ee_SKAddr ev")
      case True
      with t have "t = t0" by simp
      then show ?thesis by (simp add: new handleEvent_live(1) [OF key live])
    next
      case False
      with t have t: "m sk = Some t" by simp
      show ?thesis using representsD(2) [OF rep t] kept [OF False t] by auto
    qed
  next
    fix sk
    show "skToKey (handleEvent name_of ev s) sk = map_option t_key ((m(ee_SKAddr ev \<mapsto> t0)) sk)"
      by (simp add: handleEvent_live(2) [OF key live] new(2) representsD(1) [OF rep])
  next
    fix sk sk' t t'
    assume "(m(ee_SKAddr ev \<mapsto> t0)) sk = Some t" "(m(ee_SKAddr ev \<mapsto> t0)) sk' = Some t'"
      and "t_key t = t_key t'"
    then show "sk = sk'"
      using not_key [of sk t] not_key [of sk' t'] new(2) representsD(4) [OF rep, of sk t sk' t']
      by (cases "sk = ee_SKAddr ev"; cases "sk' = ee_SKAddr ev") simp_all
  qed
qed

lemma represents_handleEvent:
  assumes "represents s m" and "own_tuple ev m"
  shows "represents (handleEvent name_of ev s) (track ev m)"
proof (cases "event_key ev")
  case None
  with assms(1) show ?thesis
    by (simp add: handleEvent_bad track_def represents_def)
qed (use assms represents_terminal represents_live in blast)

lemma represents_run:
  "represents s m \<Longrightarrow> distinct_run evs m \<Longrightarrow> represents (run_events name_of evs s) (fold track evs m)"
  by (induction evs arbitrary: s m) (simp_all add: represents_handleEvent)

lemma represents_empty: "represents empty_source Map.empty"
  by (simp add: represents_def empty_source_def)

text \<open>What the snapshot shows is what is tracked.\<close>

lemma represents_snapshot: "represents s m \<Longrightarrow> tracked_of ` source_Connections s = ran m"
proof (intro equalityI subsetI)
  fix t
  assume rep: "represents s m"
  { assume "t \<in> tracked_of ` source_Connections s"
    then obtain k c where "conns s k = Some c" "t = tracked_of c"
      by (auto simp: source_Connections_def ran_def)
    moreover from this obtain sk t' where "m sk = Some t'" "t_key t' = k"
      using representsD(3) [OF rep] by blast
    ultimately show "t \<in> ran m"
      using representsD(2) [OF rep, of sk t'] by (auto intro: ranI) }
  { assume "t \<in> ran m"
    then obtain sk where "m sk = Some t" by (auto simp: ran_def)
    then show "t \<in> tracked_of ` source_Connections s"
      using representsD(2) [OF rep, of sk t] by (auto simp: source_Connections_def intro: ranI) }
qed

section \<open>Interleaving\<close>

text \<open>What is tracked of a socket depends on the events of that socket alone.\<close>

lemma track_other: "ee_SKAddr ev \<noteq> sk \<Longrightarrow> track ev m sk = m sk"
  by (simp add: track_def split: option.split)

lemma track_local: "m sk = m' sk \<Longrightarrow> track ev m sk = track ev m' sk"
  by (cases "ee_SKAddr ev = sk") (simp_all add: track_def split: option.split)

lemma fold_track_local: "m sk = m' sk \<Longrightarrow> fold track evs m sk = fold track evs m' sk"
proof (induction evs arbitrary: m m')
  case (Cons ev evs)
  have "track ev m sk = track ev m' sk" using Cons.prems by (rule track_local)
  then have "fold track evs (track ev m) sk = fold track evs (track ev m') sk" by (rule Cons.IH)
  then show ?case by simp
qed simp

lemma fold_track_own:
  "fold track evs m sk = fold track (filter (\<lambda>ev. ee_SKAddr ev = sk) evs) m sk"
proof (induction evs arbitrary: m)
  case (Cons ev evs)
  show ?case
    using Cons.IH [of "track ev m"] Cons.IH [of m]
      fold_track_local [of "track ev m" sk m evs] track_other [of ev sk m]
    by (cases "ee_SKAddr ev = sk") simp_all
qed simp

lemma fold_track_interleaving:
  assumes "\<And>sk. filter (\<lambda>ev. ee_SKAddr ev = sk) evs = filter (\<lambda>ev. ee_SKAddr ev = sk) evs'"
  shows "fold track evs m = fold track evs' m"
proof (rule ext)
  fix sk
  show "fold track evs m sk = fold track evs' m sk"
    using fold_track_own [of evs m sk] fold_track_own [of evs' m sk] by (simp only: assms [of sk])
qed

section \<open>What is tracked of one socket\<close>

lemma track_pid_kept:
  assumes "m sk = Some t" and "track ev m sk = Some t'"
  shows "t_pid t' = t_pid t"
  using assms by (cases "ee_SKAddr ev = sk") (auto simp: track_def split: option.splits if_splits)

text \<open>While a socket is tracked without interruption its owner is the one it started with.\<close>

lemma fold_track_pid_kept:
  assumes "m sk = Some t" and "\<And>ev. ev \<in> set evs \<Longrightarrow> ee_SKAddr ev = sk \<Longrightarrow> \<not> terminalTCPState (event_state ev)"
  shows "\<exists>t'. fold track evs m sk = Some t' \<and> t_pid t' = t_pid t"
  using assms
proof (induction evs arbitrary: m t)
  case (Cons ev evs)
  have live: "ee_SKAddr ev = sk \<Longrightarrow> \<not> terminalTCPState (event_state ev)"
    by (rule Cons.prems(2)) simp_all
  have "\<exists>t1. track ev m sk = Some t1"
    using Cons.prems(1) live
    by (cases "ee_SKAddr ev = sk") (simp_all add: track_def split: option.split)
  then obtain t1 where t1: "track ev m sk = Some t1" ..
  have "t_pid t1 = t_pid t" by (rule track_pid_kept [OF Cons.prems(1) t1])
  with Cons.IH [of "track ev m" t1] t1 Cons.prems(2) show ?case by simp
qed simp

section \<open>Properties\<close>

text \<open>Two sample events: a socket connects, then is established under the same tuple.\<close>

definition sample_event :: "u64 \<Rightarrow> u32 \<Rightarrow> u16 \<Rightarrow> u32 \<Rightarrow> ebpfEvent" where
  "sample_event sk pid port st =
     \<lparr>ee_SKAddr = sk, ee_Pid = pid, ee_IPVer = 4, ee_LocalPort = port, ee_RemotePort = 443,
      ee_LocalAddr = [10, 0, 0, 1] @ replicate 12 0, ee_RemoteAddr = [1, 1, 1, 1] @ replicate 12 0,
      ee_NewState = st\<rparr>"

definition sample_key :: "u16 \<Rightarrow> ebpfConnKey" where
  "sample_key port = \<lparr>k_localAddr = AddrV4 [10, 0, 0, 1], k_localPort = port,
     k_remoteAddr = AddrV4 [1, 1, 1, 1], k_remotePort = 443\<rparr>"

lemma sample_event_simps [simp]:
  "event_key (sample_event sk pid port st) = Some (sample_key port)"
  "ee_SKAddr (sample_event sk pid port st) = sk" "ee_Pid (sample_event sk pid port st) = pid"
  "event_state (sample_event sk pid port st) = tcpStateName (uint st)"
  "sample_key port = sample_key port' \<longleftrightarrow> port = port'"
  by (simp_all add: event_key_def event_state_def sample_event_def addrFromEventBytes_def sample_key_def)

lemma sample_states [simp]:
  "\<not> terminalTCPState (tcpStateName 2)" "\<not> terminalTCPState (tcpStateName 1)"
  "\<not> terminalTCPState (tcpStateName 10)" "terminalTCPState (tcpStateName 7)"
  by (simp_all add: terminalTCPState_def tcpStateName.simps)

lemma sample_distinct: "distinct_run [sample_event 7 42 5000 2, sample_event 8 43 5001 2, sample_event 7 0 5000 1] Map.empty"
  by (simp add: own_tuple_def track_def)

text \<open>
  C4: as long as no event carries the tuple of another live socket, the connection table
  implements the socket tracker: after any events its entries show exactly the tracked
  sockets, each with its newest tuple and state and the owner recorded first.
\<close>

theorem table_refines_tracker:
  assumes "distinct_run evs Map.empty"
  shows "represents (run_events name_of evs empty_source) (fold track evs Map.empty) \<and>
    tracked_of ` source_Connections (run_events name_of evs empty_source) = ran (fold track evs Map.empty)"
  using represents_run [OF represents_empty assms] represents_snapshot by blast

theorem table_refines_tracker_witness:
  "tracked_of ` source_Connections (run_events (\<lambda>_. None)
     [sample_event 7 42 5000 2, sample_event 7 0 5000 1] empty_source) =
   {\<lparr>t_key = sample_key 5000, t_pid = 42, t_state = ''ESTABLISHED''\<rparr>}"
proof -
  have "distinct_run [sample_event 7 42 5000 2, sample_event 7 0 5000 1] Map.empty"
    by (simp add: own_tuple_def track_def)
  moreover have "fold track [sample_event 7 42 5000 2, sample_event 7 0 5000 1] Map.empty =
      [7 \<mapsto> \<lparr>t_key = sample_key 5000, t_pid = 42, t_state = ''ESTABLISHED''\<rparr>]"
    by (simp add: track_def tcpStateName.simps terminalTCPState_def)
  ultimately show ?thesis
    using conjunct2 [OF table_refines_tracker, of _ "\<lambda>_. None"] by (metis ran_empty ran_map_upd insert_is_Un Un_empty_right)
qed






text \<open>
  The 4-tuple alone does not identify a socket. Two sockets that listen on one address
  (SO_REUSEPORT) share an entry, and when either closes the entry is gone although the
  other one still listens and is still tracked.
\<close>

theorem shared_listener_lost:
  "let evs = [sample_event 7 42 5000 10, sample_event 8 43 5000 10, sample_event 7 42 5000 7];
       s = run_events (\<lambda>_. None) evs empty_source
   in source_Connections s = {} \<and> skToKey s 8 = Some (sample_key 5000) \<and>
      fold track evs Map.empty 8 = Some \<lparr>t_key = sample_key 5000, t_pid = 43, t_state = ''LISTEN''\<rparr>"
  by (simp add: Let_def source_Connections_def handleEvent_terminal [OF sample_event_simps(1)]
      handleEvent_live [OF sample_event_simps(1)] empty_source_def track_def fun_upd_twist
      tcpStateName.simps terminalTCPState_def)

text \<open>
  The order of a socket's own events does matter, and the table relies on the readers
  to keep it: when the connect event of a socket, read from its own ring, is handled after
  the terminal event that the other ring delivered, the ended connection is entered again
  and stays.
\<close>

theorem late_connect_resurrects:
  assumes "event_key ev = Some key" and "\<not> terminalTCPState (event_state ev)"
    and "event_key fin \<noteq> None" and "terminalTCPState (event_state fin)"
    and "ee_SKAddr fin = ee_SKAddr ev"
  shows "conns (run_events name_of [fin, ev] s) key \<noteq> None \<and>
    skToKey (run_events name_of [ev, fin] s) (ee_SKAddr ev) = None \<and>
    conns (run_events name_of [ev, fin] s) key = None"
proof -
  obtain k where k: "event_key fin = Some k" using assms(3) by blast
  show ?thesis
    by (simp add: handleEvent_live [OF assms(1,2)] handleEvent_terminal [OF k assms(4)] assms(5))
qed

theorem late_connect_resurrects_witness:
  "conns (run_events (\<lambda>_. None) [sample_event 7 42 5000 7, sample_event 7 42 5000 2] empty_source)
     (sample_key 5000) \<noteq> None"
  using late_connect_resurrects [of "sample_event 7 42 5000 2" "sample_key 5000"
      "sample_event 7 42 5000 7" "\<lambda>_. None" empty_source] by simp

end
