(* ===== verification/Ebpf_Path.thy ===== *)
theory Ebpf_Path
  imports Socket_Tracker
begin

text \<open>
  The whole path of an event, from the socket in kernel memory through a BPF program, its
  ring buffer and the Go decoder to the key in the connection table. \<open>sock_tuple\<close> and
  \<open>ctx_tuple\<close> say what the key must be in terms of the bytes of the kernel's own objects;
  the lemmas show that each of the three programs gets it there.
\<close>

section \<open>The tuple of a socket in memory\<close>

definition sock_tuple :: "(u64 \<Rightarrow> u8) \<Rightarrow> ctype \<Rightarrow> u64 \<Rightarrow> int \<Rightarrow> ebpfConnKey" where
  "sock_tuple mem t sk ip_ver =
     \<lparr>k_localAddr = (if ip_ver = 4 then AddrV4 (sock_addr mem t sk ''skc_rcv_saddr'')
                     else Unmap (AddrV6 (sock_addr mem t sk ''skc_v6_rcv_saddr''))),
      k_localPort = le_word (sock_addr mem t sk ''skc_num''),
      k_remoteAddr = (if ip_ver = 4 then AddrV4 (sock_addr mem t sk ''skc_daddr'')
                      else Unmap (AddrV6 (sock_addr mem t sk ''skc_v6_daddr''))),
      k_remotePort = le_word (rev (sock_addr mem t sk ''skc_dport''))\<rparr>"

definition ctx_tuple :: "(u64 \<Rightarrow> u8) \<Rightarrow> ctype \<Rightarrow> u64 \<Rightarrow> ebpfConnKey" where
  "ctx_tuple mem t ctx =
     (let v4 = (ctx_field mem t ctx ''family'' = le_bytes 2 AF_INET) in
      \<lparr>k_localAddr = (if v4 then AddrV4 (ctx_field mem t ctx ''saddr'')
                      else Unmap (AddrV6 (ctx_field mem t ctx ''saddr_v6''))),
       k_localPort = le_word (ctx_field mem t ctx ''sport''),
       k_remoteAddr = (if v4 then AddrV4 (ctx_field mem t ctx ''daddr'')
                       else Unmap (AddrV6 (ctx_field mem t ctx ''daddr_v6''))),
       k_remotePort = le_word (ctx_field mem t ctx ''dport'')\<rparr>)"

lemma port_of_bytes: "le_bytes 2 (p :: u16) = bs \<Longrightarrow> p = le_word bs"
  using le_word_le_bytes [of 2 p] by simp

lemma event_key_describes:
  assumes "describes mem t sk ip_ver ev"
  shows "event_key (to_ebpfEvent ev) = Some (sock_tuple mem t sk ip_ver)"
proof -
  have "ev_local_port ev = le_word (sock_addr mem t sk ''skc_num'')"
    using assms by (intro port_of_bytes) (simp add: describes_def)
  moreover have "ev_remote_port ev = le_word (rev (sock_addr mem t sk ''skc_dport''))"
    using assms by (intro port_of_bytes) (simp add: describes_def rev_swap)
  ultimately show ?thesis
    using assms by (cases "ip_ver = 4")
      (simp_all add: describes_def event_key_def to_ebpfEvent_def addrFromEventBytes_def sock_tuple_def)
qed

lemma event_key_describes_transition:
  assumes "describes_transition mem t ctx ev"
  shows "event_key (to_ebpfEvent ev) = Some (ctx_tuple mem t ctx)"
proof -
  have "ev_local_port ev = le_word (ctx_field mem t ctx ''sport'')"
      and "ev_remote_port ev = le_word (ctx_field mem t ctx ''dport'')"
    using assms by (auto intro!: port_of_bytes simp: describes_transition_def)
  then show ?thesis
    using assms by (cases "ctx_field mem t ctx ''family'' = le_bytes 2 AF_INET")
      (simp_all add: describes_transition_def event_key_def to_ebpfEvent_def addrFromEventBytes_def
        ctx_tuple_def)
qed

section \<open>From the program to the table's key\<close>

text \<open>What a submitted record means to the consumer of the ring.\<close>

definition reports :: "bytes \<Rightarrow> u64 \<Rightarrow> i32 \<Rightarrow> ebpfConnKey \<Rightarrow> u32 \<Rightarrow> bool" where
  "reports raw sk pid key st \<longleftrightarrow>
     (\<exists>ev. decodeFentryEvent raw = Inr ev \<and> ee_SKAddr ev = sk \<and> ee_Pid ev = pid \<and>
        event_key ev = Some key \<and> ee_NewState ev = st)"

abbreviation tgid_of :: "bpf_env \<Rightarrow> i32" where
  "tgid_of env \<equiv> ucast (drop_bit 32 (get_current_pid_tgid env))"

lemma decode_event: "event_ok ev \<Longrightarrow> decodeFentryEvent (event_bytes ev) = Inr (to_ebpfEvent ev)"
  using decodeFentryEvent_event [of ev "[]"] by simp

lemma reports_describes:
  assumes "describes mem t sk ip_ver ev"
  shows "reports (event_bytes ev) sk (ev_pid ev) (sock_tuple mem t sk ip_ver)
    (ucast (le_word (sock_addr mem t sk ''skc_state'') :: u8))"
  unfolding reports_def
  using assms event_key_describes [OF assms]
  by (intro exI [of _ "to_ebpfEvent ev"]) (simp add: describes_def decode_event to_ebpfEvent_def)

lemma emit_connect_event_reports:
  assumes "sock_kernel env mem t" and "ringbuf_reserve env = Some g"
  shows "\<exists>raw. emit_connect_event env sk 0 ip_ver ring = (0, ring @ [raw]) \<and>
    reports raw sk (tgid_of env) (sock_tuple mem t sk ip_ver)
      (ucast (le_word (sock_addr mem t sk ''skc_state'') :: u8))"
proof -
  obtain ev where ev: "emit_connect_event env sk 0 ip_ver ring = (0, ring @ [event_bytes ev])"
      "describes mem t sk ip_ver ev" "ev_pid ev = tgid_of env"
    using sock_kernel.emit_connect_event_success [OF assms] by blast
  show ?thesis
    using ev(1) reports_describes [OF ev(2)] unfolding ev(3) by blast
qed

lemma tracepoint_reports:
  assumes "trace_kernel env mem t" and "ringbuf_reserve env = Some g"
    and "ctx_field mem t ctx ''protocol'' = le_bytes 2 (6 :: u16)"
  shows "\<exists>raw. tracepoint_inet_sock_set_state mem env ctx ring = (0, ring @ [raw]) \<and>
    reports raw (le_word (ctx_field mem t ctx ''skaddr'')) (tgid_of env) (ctx_tuple mem t ctx)
      (le_word (ctx_field mem t ctx ''newstate''))"
proof -
  obtain ev where ev: "tracepoint_inet_sock_set_state mem env ctx ring = (0, ring @ [event_bytes ev])"
      "describes_transition mem t ctx ev" "ev_pid ev = tgid_of env"
    using trace_kernel.transition_submitted [OF assms] by blast
  have "ev_skaddr ev = le_word (ctx_field mem t ctx ''skaddr'')"
    using ev(2) le_word_le_bytes [of 8 "ev_skaddr ev"] by (simp add: describes_transition_def)
  moreover have "ev_new_state ev = le_word (ctx_field mem t ctx ''newstate'')"
    using ev(2) le_word_le_bytes [of 4 "ev_new_state ev"] by (simp add: describes_transition_def)
  ultimately have "reports (event_bytes ev) (le_word (ctx_field mem t ctx ''skaddr'')) (ev_pid ev)
      (ctx_tuple mem t ctx) (le_word (ctx_field mem t ctx ''newstate''))"
    unfolding reports_def
    using ev(2) event_key_describes_transition [OF ev(2)]
    by (intro exI [of _ "to_ebpfEvent ev"])
      (simp add: describes_transition_def decode_event to_ebpfEvent_def)
  then show ?thesis using ev(1) unfolding ev(3) by blast
qed

section \<open>Kprobe pair\<close>

text \<open>
  Thread \<open>tid\<close> enters with \<open>sk\<close>, any probes of other threads fire, then its return probe does.
\<close>

lemma kprobe_pair_runs:
  assumes "map_update_elem_ok env0" and "tid_of env0 = tid_of env1" and "sk \<noteq> 0"
    and "\<forall>p \<in> set ps. probe_tid p \<noteq> tid_of env1"
  shows "kp_events (run_probes (Entry env0 sk # ps @ [Exit env1 ret ip_ver]) st) =
    snd (emit_connect_event env1 sk ret ip_ver (kp_events (run_probes (Entry env0 sk # ps) st)))"
    and "connect_args_map (run_probes (Entry env0 sk # ps @ [Exit env1 ret ip_ver]) st) (tid_of env1) = None"
proof -
  let ?st = "run_probes ps (probe_step (Entry env0 sk) st)"
  have "connect_args_map ?st (tid_of env1) = Some sk"
    using run_probes_other_tid [OF assms(4)] probe_step_entry_stores [OF assms(1)] assms(2) by simp
  from kretprobe_connect_exit_hit [OF this assms(3), of ret ip_ver]
  show "kp_events (run_probes (Entry env0 sk # ps @ [Exit env1 ret ip_ver]) st) =
      snd (emit_connect_event env1 sk ret ip_ver (kp_events (run_probes (Entry env0 sk # ps) st)))"
    and "connect_args_map (run_probes (Entry env0 sk # ps @ [Exit env1 ret ip_ver]) st) (tid_of env1) = None"
    by (simp_all add: run_probes_append)
qed

end
