(* ===== verification/Ebpf_Attach.thy ===== *)
theory Ebpf_Attach
  imports Ebpf_Source "HOL-Library.Multiset"
begin

text \<open>
  Attaching the programs, from \<^verbatim>\<open>src/procinfo/ebpf_linux.go\<close>, \<^verbatim>\<open>ebpf_kprobe_linux.go\<close>,
  \<^verbatim>\<open>ebpf_kprobe_other_linux.go\<close> and \<^verbatim>\<open>source_linux.go\<close>: the probe order, the fallback, and which kernel
  resources are held on every path. Whether loading, linking and opening a ring buffer
  succeed is the kernel's and the cilium/ebpf library's decision and therefore a parameter;
  a resource is held from the call that returned it until its \<^verbatim>\<open>Close\<close>.

  Each attach function is all or nothing: when it fails it has closed what it opened. A
  running source releases everything when it stops. The theory also shows the one path on
  which something stays open: when the connect programs attach and the tracepoint does not,
  the ring reader opened first is never closed.
\<close>

section \<open>Resources\<close>

datatype variant = VFentry | VKprobe | VSockstate

datatype resource = Objects variant | Link string | Reader variant

datatype attach_error =
    LoadError variant | LinkError string | ReaderError variant | NoKprobeArch
  | BothFailed attach_error attach_error | KprobeFailed attach_error | SockstateFailed attach_error
  | MemlockError

record attach_env =
  memlock_ok :: bool
  btfAvailable :: bool
  kprobe_arch :: bool            \<comment> \<open>built for amd64 or arm64\<close>
  load_ok :: "variant \<Rightarrow> bool"
  link_ok :: "string \<Rightarrow> bool"
  reader_ok :: "variant \<Rightarrow> bool"

datatype ebpfAttachMode = ModeNone | ebpfModeFentry | ebpfModeKprobe

record attach_state =
  at_mode :: ebpfAttachMode
  rings :: "variant list"
  closers :: "resource list"
  held :: "resource list"        \<comment> \<open>what is open, newest first\<close>

definition hold :: "resource \<Rightarrow> attach_state \<Rightarrow> attach_state" where
  "hold r s = s\<lparr>held := r # held s\<rparr>"

definition close :: "resource \<Rightarrow> attach_state \<Rightarrow> attach_state" where
  "close r s = s\<lparr>held := remove1 r (held s)\<rparr>"

definition close_list :: "resource list \<Rightarrow> attach_state \<Rightarrow> attach_state" where
  "close_list rs s = fold close rs s"

section \<open>Attaching\<close>

definition attachFentry :: "attach_env \<Rightarrow> attach_state \<Rightarrow> (attach_error + unit) \<times> attach_state" where
  "attachFentry env s =
     (if \<not> load_ok env VFentry then (Inl (LoadError VFentry), s)
      else let s = hold (Objects VFentry) s in
      if \<not> link_ok env ''fexit_tcp_v4_connect'' then
        (Inl (LinkError ''fexit_tcp_v4_connect''), close (Objects VFentry) s)
      else let s = hold (Link ''fexit_tcp_v4_connect'') s in
      if \<not> link_ok env ''fexit_tcp_v6_connect'' then
        (Inl (LinkError ''fexit_tcp_v6_connect''),
         close_list [Link ''fexit_tcp_v4_connect'', Objects VFentry] s)
      else let s = hold (Link ''fexit_tcp_v6_connect'') s in
      if \<not> reader_ok env VFentry then
        (Inl (ReaderError VFentry),
         close_list [Link ''fexit_tcp_v4_connect'', Link ''fexit_tcp_v6_connect'', Objects VFentry] s)
      else let s = hold (Reader VFentry) s in
        (Inr (), s\<lparr>closers := closers s @ [Link ''fexit_tcp_v4_connect'', Link ''fexit_tcp_v6_connect'', Objects VFentry],
                   rings := rings s @ [VFentry]\<rparr>))"

definition kprobe_probes :: "string list" where
  "kprobe_probes = [''kprobe_tcp_v4_connect'', ''kprobe_tcp_v6_connect'',
     ''kretprobe_tcp_v4_connect'', ''kretprobe_tcp_v6_connect'']"

text \<open>The loop over the probes: the links made so far are closed in order when one fails.\<close>

fun attach_probes ::
    "attach_env \<Rightarrow> string list \<Rightarrow> resource list \<Rightarrow> attach_state \<Rightarrow> (attach_error + resource list) \<times> attach_state"
where
  "attach_probes env [] links s = (Inr links, s)"
| "attach_probes env (p # ps) links s =
     (if \<not> link_ok env p then (Inl (LinkError p), close_list (links @ [Objects VKprobe]) s)
      else attach_probes env ps (links @ [Link p]) (hold (Link p) s))"

definition attachKprobeConnect :: "attach_env \<Rightarrow> attach_state \<Rightarrow> (attach_error + unit) \<times> attach_state" where
  "attachKprobeConnect env s =
     (if \<not> kprobe_arch env then (Inl NoKprobeArch, s)
      else if \<not> load_ok env VKprobe then (Inl (LoadError VKprobe), s)
      else case attach_probes env kprobe_probes [] (hold (Objects VKprobe) s) of
        (Inl err, s) \<Rightarrow> (Inl err, s)
      | (Inr links, s) \<Rightarrow>
          if \<not> reader_ok env VKprobe then (Inl (ReaderError VKprobe), close_list (links @ [Objects VKprobe]) s)
          else let s = hold (Reader VKprobe) s in
            (Inr (), s\<lparr>closers := closers s @ links @ [Objects VKprobe], rings := rings s @ [VKprobe]\<rparr>))"

definition attachSockstate :: "attach_env \<Rightarrow> attach_state \<Rightarrow> (attach_error + unit) \<times> attach_state" where
  "attachSockstate env s =
     (if \<not> load_ok env VSockstate then (Inl (LoadError VSockstate), s)
      else let s = hold (Objects VSockstate) s in
      if \<not> link_ok env ''inet_sock_set_state'' then
        (Inl (LinkError ''inet_sock_set_state''), close (Objects VSockstate) s)
      else let s = hold (Link ''inet_sock_set_state'') s in
      if \<not> reader_ok env VSockstate then
        (Inl (ReaderError VSockstate), close_list [Link ''inet_sock_set_state'', Objects VSockstate] s)
      else let s = hold (Reader VSockstate) s in
        (Inr (), s\<lparr>closers := closers s @ [Link ''inet_sock_set_state'', Objects VSockstate],
                   rings := rings s @ [VSockstate]\<rparr>))"

text \<open>The connect hooks of \<open>attach\<close>: fexit when BTF is there and it works, else kprobes.\<close>

definition attachConnect :: "attach_env \<Rightarrow> attach_state \<Rightarrow> (attach_error + unit) \<times> attach_state" where
  "attachConnect env s =
     (let (fentryErr, s) =
        (if btfAvailable env
         then (case attachFentry env s of
                 (Inl err, s) \<Rightarrow> (Some err, s)
               | (Inr _, s) \<Rightarrow> (None, s\<lparr>at_mode := ebpfModeFentry\<rparr>))
         else (None, s))
      in if at_mode s = ModeNone then
           (case attachKprobeConnect env s of
              (Inl err, s) \<Rightarrow>
                (Inl (case fentryErr of Some e \<Rightarrow> BothFailed e err | None \<Rightarrow> KprobeFailed err), s)
            | (Inr _, s) \<Rightarrow> (Inr (), s\<lparr>at_mode := ebpfModeKprobe\<rparr>))
         else (Inr (), s))"

definition attach :: "attach_env \<Rightarrow> attach_state \<Rightarrow> (attach_error + unit) \<times> attach_state" where
  "attach env s =
     (case attachConnect env s of
        (Inl err, s) \<Rightarrow> (Inl err, s)
      | (Inr _, s) \<Rightarrow>
          (case attachSockstate env s of
             (Inl err, s) \<Rightarrow> (Inl (SockstateFailed err), s)
           | (Inr _, s) \<Rightarrow> (Inr (), s)))"

definition closeAll :: "attach_state \<Rightarrow> attach_state" where
  "closeAll s = close_list (rev (closers s)) s"

definition new_state :: attach_state where
  "new_state = \<lparr>at_mode = ModeNone, rings = [], closers = [], held = []\<rparr>"

text \<open>
  \<open>NewEBPFSource\<close>: attach, clean up on failure, else seed the table from one procfs walk; what
  the walk finds are arguments. The result is the table, or the error.
\<close>

definition NewEBPFSource ::
    "attach_env \<Rightarrow> i32 list option \<Rightarrow> (i32 \<Rightarrow> Socket list option) \<Rightarrow> (i32 \<Rightarrow> string option) \<Rightarrow>
     (attach_error + EBPFSource) \<times> attach_state" where
  "NewEBPFSource env pids socks_of name_of =
     (if \<not> memlock_ok env then (Inl MemlockError, new_state)
      else case attach env new_state of
        (Inl err, s) \<Rightarrow> (Inl err, closeAll s)
      | (Inr _, s) \<Rightarrow> (Inr (bootstrap pids socks_of name_of empty_source), s))"

text \<open>The end of \<open>Run\<close>: after cancellation the readers are closed, then everything else.\<close>

definition Run_cleanup :: "attach_state \<Rightarrow> attach_state" where
  "Run_cleanup s = closeAll (close_list (map Reader (rings s)) s)"

text \<open>\<open>NewBestSource\<close>: the event source when it can be had, else the poller.\<close>

datatype source = EBPF EBPFSource | ProcPoller Poller

definition NewBestSource ::
    "attach_env \<Rightarrow> i32 list option \<Rightarrow> (i32 \<Rightarrow> Socket list option) \<Rightarrow> (i32 \<Rightarrow> string option) \<Rightarrow> source \<times> attach_state" where
  "NewBestSource env pids socks_of name_of =
     (case NewEBPFSource env pids socks_of name_of of
        (Inl err, s) \<Rightarrow> (ProcPoller NewPoller, s)
      | (Inr src, s) \<Rightarrow> (EBPF src, s))"

section \<open>What is held\<close>

lemma close_list_simps [simp]:
  "close_list [] s = s" "close_list (r # rs) s = close_list rs (close r s)"
  "close_list (rs @ rs') s = close_list rs' (close_list rs s)"
  by (simp_all add: close_list_def)

lemma hold_close_simps [simp]:
  "held (hold r s) = r # held s" "closers (hold r s) = closers s" "rings (hold r s) = rings s"
  "at_mode (hold r s) = at_mode s"
  "held (close r s) = remove1 r (held s)" "closers (close r s) = closers s" "rings (close r s) = rings s"
  "at_mode (close r s) = at_mode s"
  by (simp_all add: hold_def close_def)

lemma close_list_frame [simp]:
  "closers (close_list rs s) = closers s" "rings (close_list rs s) = rings s"
  "at_mode (close_list rs s) = at_mode s" "held (close_list rs s) = fold remove1 rs (held s)"
  by (induction rs arbitrary: s) simp_all

lemma mset_fold_remove1: "mset (fold remove1 rs xs) = mset xs - mset rs"
  by (induction rs arbitrary: xs) simp_all

text \<open>Everything held is a reader of a ring or will be closed by \<open>closeAll\<close>.\<close>

definition accounted :: "attach_state \<Rightarrow> bool" where
  "accounted s \<longleftrightarrow> mset (held s) = mset (map Reader (rings s)) + mset (closers s)"

text \<open>
  An attach function is all or nothing: on an error the state is as before; on success it
  holds one more reader and what its new closers close.
\<close>

locale attach_step =
  fixes step :: "attach_env \<Rightarrow> attach_state \<Rightarrow> (attach_error + unit) \<times> attach_state"
    and ring :: variant and parts :: "resource list"
  assumes step_error: "step env s = (Inl err, s') \<Longrightarrow> s' = s"
    and step_ok: "step env s = (Inr u, s') \<Longrightarrow>
      rings s' = rings s @ [ring] \<and> closers s' = closers s @ parts \<and> at_mode s' = at_mode s \<and>
      mset (held s') = mset (held s) + mset (Reader ring # parts)"
begin

lemma step_accounted: "accounted s \<Longrightarrow> step env s = (r, s') \<Longrightarrow> accounted s'"
  by (cases r) (auto simp: accounted_def dest: step_error step_ok)

end

interpretation fentry_step: attach_step attachFentry VFentry
  "[Link ''fexit_tcp_v4_connect'', Link ''fexit_tcp_v6_connect'', Objects VFentry]"
  by unfold_locales (auto simp: attachFentry_def Let_def hold_def close_def split: if_splits)

interpretation sockstate_step: attach_step attachSockstate VSockstate
  "[Link ''inet_sock_set_state'', Objects VSockstate]"
  by unfold_locales (auto simp: attachSockstate_def Let_def hold_def close_def split: if_splits)

interpretation kprobe_step: attach_step attachKprobeConnect VKprobe "map Link kprobe_probes @ [Objects VKprobe]"
  by unfold_locales
    (auto simp: attachKprobeConnect_def kprobe_probes_def Let_def hold_def close_def split: if_splits)

section \<open>The whole attach\<close>

lemma attachConnect_cases:
  assumes "attachConnect env s = (r, s')" and "at_mode s = ModeNone"
  shows "(\<exists>err. r = Inl err \<and> s' = s) \<or>
    (\<exists>s1. (attachFentry env s = (Inr (), s1) \<and> s' = s1\<lparr>at_mode := ebpfModeFentry\<rparr> \<or>
           attachKprobeConnect env s = (Inr (), s1) \<and> s' = s1\<lparr>at_mode := ebpfModeKprobe\<rparr>) \<and> r = Inr ())"
proof (cases "attachFentry env s"; cases "attachKprobeConnect env s")
  fix r1 s1 r2 s2
  assume *: "attachFentry env s = (r1, s1)" "attachKprobeConnect env s = (r2, s2)"
  show ?thesis
    using assms * fentry_step.step_error [of env s _ s1] kprobe_step.step_error [of env s _ s2]
    by (cases r1; cases r2) (auto simp: attachConnect_def split: if_splits)
qed

lemma accounted_mode [simp]: "accounted (s\<lparr>at_mode := m\<rparr>) = accounted s"
  by (simp add: accounted_def)

lemma attachConnect_accounted:
  assumes "attachConnect env s = (r, s')" and "at_mode s = ModeNone" and "accounted s"
  shows "accounted s'"
  using attachConnect_cases [OF assms(1,2)] assms(3) fentry_step.step_accounted [OF assms(3)]
    kprobe_step.step_accounted [OF assms(3)] by auto

lemma new_state_accounted [simp]: "accounted new_state" "at_mode new_state = ModeNone"
  by (simp_all add: accounted_def new_state_def)

lemma attach_accounted:
  assumes "attach env new_state = (r, s')"
  shows "accounted s'"
proof (cases "attachConnect env new_state")
  case (Pair r1 s1)
  have "accounted s1" by (rule attachConnect_accounted [OF Pair]) simp_all
  with assms Pair show ?thesis
    by (auto simp: attach_def split: sum.splits prod.splits dest: sockstate_step.step_accounted)
qed

lemma closeAll_held: "accounted s \<Longrightarrow> mset (held (closeAll s)) = mset (map Reader (rings s))"
  by (simp add: closeAll_def accounted_def mset_fold_remove1)

lemma Run_cleanup_held: "accounted s \<Longrightarrow> held (Run_cleanup s) = []"
  by (simp add: Run_cleanup_def closeAll_def accounted_def mset_fold_remove1 flip: mset_zero_iff)

section \<open>Properties\<close>

lemma attach_error_state:
  assumes "attach env new_state = (Inl err, s)"
  shows "s = new_state \<and> (\<nexists>e. err = SockstateFailed e) \<or>
    (\<exists>e v. err = SockstateFailed e \<and> rings s = [v])"
proof (cases "attachConnect env new_state")
  case (Pair r1 s1)
  from attachConnect_cases [OF Pair new_state_accounted(2)] show ?thesis
  proof
    assume "\<exists>e. r1 = Inl e \<and> s1 = new_state"
    moreover from this have "\<nexists>e. r1 = Inl (SockstateFailed e)"
      using Pair by (auto simp: attachConnect_def Let_def split: if_splits sum.splits prod.splits option.splits)
    ultimately show ?thesis
      using assms Pair by (auto simp: attach_def)
  next
    assume "\<exists>s2. (attachFentry env new_state = (Inr (), s2) \<and> s1 = s2\<lparr>at_mode := ebpfModeFentry\<rparr> \<or>
      attachKprobeConnect env new_state = (Inr (), s2) \<and> s1 = s2\<lparr>at_mode := ebpfModeKprobe\<rparr>) \<and> r1 = Inr ()"
    then have r: "r1 = Inr ()" and v: "\<exists>v. rings s1 = [v]"
      using fentry_step.step_ok [of env new_state "()"] kprobe_step.step_ok [of env new_state "()"]
      by (auto simp: new_state_def)
    obtain e where "attachSockstate env s1 = (Inl e, s)" "err = SockstateFailed e"
      using assms Pair r by (auto simp: attach_def split: sum.splits prod.splits)
    with sockstate_step.step_error [of env s1 e s] v show ?thesis by blast
  qed
qed

text \<open>
  A source that could be created has exactly one connect ring, of the mode it reports,
  and the tracepoint's ring, and its table starts as the procfs walk left it; everything it
  opened is closed when \<open>Run\<close> ends.
\<close>

theorem attached_source:
  assumes "NewEBPFSource env pids socks_of name_of = (Inr src, s)"
  shows "(at_mode s = ebpfModeFentry \<and> rings s = [VFentry, VSockstate] \<and> btfAvailable env \<or>
     at_mode s = ebpfModeKprobe \<and> rings s = [VKprobe, VSockstate] \<and> kprobe_arch env) \<and>
    held (Run_cleanup s) = [] \<and> src = bootstrap pids socks_of name_of empty_source"
proof -
  have att: "attach env new_state = (Inr (), s)" and src: "src = bootstrap pids socks_of name_of empty_source"
    using assms by (auto simp: NewEBPFSource_def split: if_splits sum.splits prod.splits)
  obtain r1 s1 where c: "attachConnect env new_state = (r1, s1)" by fastforce
  with att have r1: "r1 = Inr ()" and ss: "attachSockstate env s1 = (Inr (), s)"
    by (auto simp: attach_def split: sum.splits prod.splits)
  have "at_mode s1 = ebpfModeFentry \<and> rings s1 = [VFentry] \<and> btfAvailable env \<or>
      at_mode s1 = ebpfModeKprobe \<and> rings s1 = [VKprobe] \<and> kprobe_arch env"
  proof (cases "btfAvailable env \<and> (\<exists>s2. attachFentry env new_state = (Inr (), s2))")
    case True
    then obtain s2 where "attachFentry env new_state = (Inr (), s2)" by blast
    with c True fentry_step.step_ok [OF this] show ?thesis
      by (auto simp: attachConnect_def new_state_def)
  next
    case False
    then have "\<exists>s2. attachKprobeConnect env new_state = (Inr (), s2) \<and> s1 = s2\<lparr>at_mode := ebpfModeKprobe\<rparr>"
      using c r1 fentry_step.step_error [of env new_state]
      by (auto simp: attachConnect_def Let_def split: if_splits sum.splits prod.splits)
    then obtain s2 where k: "attachKprobeConnect env new_state = (Inr (), s2)"
      "s1 = s2\<lparr>at_mode := ebpfModeKprobe\<rparr>" by blast
    have "kprobe_arch env" using k(1) by (auto simp: attachKprobeConnect_def split: if_splits)
    with k kprobe_step.step_ok [OF k(1)] show ?thesis by (simp add: new_state_def)
  qed
  then show ?thesis
    using sockstate_step.step_ok [OF ss] Run_cleanup_held [OF attach_accounted [OF att]] src by auto
qed

definition demo_kernel :: "bool \<Rightarrow> (variant \<Rightarrow> bool) \<Rightarrow> attach_env" where
  "demo_kernel btf load = \<lparr>memlock_ok = True, btfAvailable = btf, kprobe_arch = True, load_ok = load,
     link_ok = (\<lambda>_. True), reader_ok = (\<lambda>_. True)\<rparr>"

lemmas attach_defs = NewEBPFSource_def attach_def attachConnect_def attachFentry_def attachKprobeConnect_def
  attachSockstate_def demo_kernel_def new_state_def kprobe_probes_def hold_def close_def closeAll_def

theorem attached_source_witness:
  "rings (snd (NewEBPFSource (demo_kernel False (\<lambda>_. True)) None (\<lambda>_. None) (\<lambda>_. None))) = [VKprobe, VSockstate]"
proof -
  have "NewEBPFSource (demo_kernel False (\<lambda>_. True)) None (\<lambda>_. None) (\<lambda>_. None) =
      (Inr (bootstrap None (\<lambda>_. None) (\<lambda>_. None) empty_source), snd (NewEBPFSource (demo_kernel False (\<lambda>_. True)) None (\<lambda>_. None) (\<lambda>_. None)))"
    by (simp add: attach_defs)
  from attached_source [OF this] show ?thesis by (simp add: demo_kernel_def)
qed

text \<open>
  C16: when no source can be created, what stays open is exactly the reader of a connect
  ring that was attached before the tracepoint failed; on every other failing path nothing
  stays open.
\<close>

theorem failed_attach_leaves_reader:
  assumes "NewEBPFSource env pids socks_of name_of = (Inl err, s)"
  shows "held s = [] \<and> (\<nexists>e. err = SockstateFailed e) \<or>
    (\<exists>e v. err = SockstateFailed e \<and> held s = [Reader v])"
proof (cases "memlock_ok env")
  case True
  then obtain s1 where att: "attach env new_state = (Inl err, s1)" and s: "s = closeAll s1"
    using assms by (auto simp: NewEBPFSource_def split: sum.splits prod.splits)
  have m: "mset (held s) = mset (map Reader (rings s1))"
    using closeAll_held [OF attach_accounted [OF att]] s by simp
  have "held s = [Reader v]" if "rings s1 = [v]" for v
    using m that by simp
  with m attach_error_state [OF att] show ?thesis by (auto simp: new_state_def)
qed (use assms in \<open>auto simp: NewEBPFSource_def new_state_def\<close>)

theorem failed_attach_leaves_reader_witness:
  "held (snd (NewEBPFSource (demo_kernel True (\<lambda>v. v \<noteq> VSockstate)) None (\<lambda>_. None) (\<lambda>_. None))) = [Reader VFentry]"
proof -
  have "NewEBPFSource (demo_kernel True (\<lambda>v. v \<noteq> VSockstate)) None (\<lambda>_. None) (\<lambda>_. None) =
      (Inl (SockstateFailed (LoadError VSockstate)), snd (NewEBPFSource (demo_kernel True (\<lambda>v. v \<noteq> VSockstate)) None (\<lambda>_. None) (\<lambda>_. None)))"
    by (simp add: attach_defs)
  from failed_attach_leaves_reader [OF this] show ?thesis
    by (simp add: attach_defs)
qed

end
