(* ===== verification/Go_Time.thy ===== *)
theory Go_Time
  imports Prelude
begin

text \<open>
  Times and durations as the engine uses them. A \<^verbatim>\<open>time.Time\<close> is the number of nanoseconds
  since Go's zero time, so the zero time is 0 and \<^verbatim>\<open>Truncate\<close>, which Go defines relative to the
  zero time, is a division. A \<^verbatim>\<open>time.Duration\<close> is an integer of nanoseconds; \<^verbatim>\<open>Sub\<close> saturates at the
  64-bit range as the library does.
\<close>

type_synonym time = int
type_synonym duration = int

definition second :: duration where
  "second = 1000000000"

definition IsZero :: "time \<Rightarrow> bool" where
  "IsZero t \<longleftrightarrow> t = 0"

definition Truncate :: "time \<Rightarrow> duration \<Rightarrow> time" where
  "Truncate t d = t - t mod d"

definition time_Sub :: "time \<Rightarrow> time \<Rightarrow> duration" where
  "time_Sub t u = max (- (2 ^ 63)) (min (2 ^ 63 - 1) (t - u))"

text \<open>Go's integer division rounds towards zero.\<close>

definition quot :: "int \<Rightarrow> int \<Rightarrow> int" where
  "quot a b = sgn a * sgn b * (\<bar>a\<bar> div \<bar>b\<bar>)"

lemma second_pos [simp]: "0 < second"
  by (simp add: second_def)

text \<open>The whole second a time lies in.\<close>

definition sec_of :: "time \<Rightarrow> int" where
  "sec_of t = t div second"

lemma Truncate_second: "Truncate t second = sec_of t * second"
  by (simp add: Truncate_def sec_of_def minus_mod_eq_div_mult)

text \<open>The number of whole seconds between two truncated times, as the code computes it.\<close>

lemma quot_Sub_second:
  defines "steps s u \<equiv> quot (time_Sub (s * second) (u * second)) second"
  shows "s \<le> u \<Longrightarrow> steps s u \<le> 0"
    and "u < s \<Longrightarrow> s - u < 5 \<Longrightarrow> steps s u = s - u"
    and "u < s \<Longrightarrow> 5 \<le> s - u \<Longrightarrow> 5 \<le> steps s u"
proof -
  have d: "s * second - u * second = (s - u) * second"
    by (simp add: left_diff_distrib)
  show "s \<le> u \<Longrightarrow> steps s u \<le> 0"
  proof -
    assume "s \<le> u"
    then have "(s - u) * second \<le> 0" by (simp add: mult_nonpos_nonneg less_imp_le)
    then have "time_Sub (s * second) (u * second) \<le> 0"
      by (simp add: time_Sub_def d)
    then show ?thesis
      by (cases "time_Sub (s * second) (u * second) = 0")
        (simp_all add: steps_def quot_def second_def pos_imp_zdiv_nonneg_iff)
  qed
  show "u < s \<Longrightarrow> s - u < 5 \<Longrightarrow> steps s u = s - u"
  proof -
    assume "u < s" "s - u < 5"
    then have "time_Sub (s * second) (u * second) = (s - u) * second"
      by (simp add: time_Sub_def d second_def)
    with \<open>u < s\<close> show ?thesis
      by (simp add: steps_def quot_def sgn_mult abs_mult second_def)
  qed
  show "u < s \<Longrightarrow> 5 \<le> s - u \<Longrightarrow> 5 \<le> steps s u"
  proof -
    assume "5 \<le> s - u"
    then have "5 * second \<le> (s - u) * second" by (simp add: second_def)
    then have "5 * second \<le> time_Sub (s * second) (u * second)"
      by (simp add: time_Sub_def d second_def)
    moreover from this have "0 < time_Sub (s * second) (u * second)"
      by (simp add: second_def)
    ultimately show ?thesis
      using zdiv_mono1 [of "5 * second" _ second] by (simp add: steps_def quot_def second_def)
  qed
qed

end
