(* ===== verification/Hello_Assembler.thy ===== *)
theory Hello_Assembler
  imports Wire
begin

text \<open>
  The ClientHello reassembler, \<^verbatim>\<open>src/dpi/reassemble.go\<close>: it joins the payloads of consecutive
  TCP segments until they hold one complete TLS record, and gives up at a sequence gap,
  at a first byte that is not a handshake record, and at fixed bounds on bytes and segments.

  The theory shows that however a record is cut into segments within the bounds, feeding
  the segments in order returns exactly the record, that the buffer is bounded, and that a
  segment out of order never changes what was collected.
\<close>

definition maxHelloBufferBytes :: nat where "maxHelloBufferBytes = 8192"
definition maxHelloSegments :: nat where "maxHelloSegments = 8"
definition tlsHandshakeRecordType :: u8 where "tlsHandshakeRecordType = 0x16"
definition tlsRecordHeaderLen :: nat where "tlsRecordHeaderLen = 5"

record HelloAssembler =
  h_buf :: bytes
  h_nextSeq :: u32
  h_haveSeq :: bool
  h_segs :: nat

definition NewHelloAssembler :: HelloAssembler where
  "NewHelloAssembler = \<lparr>h_buf = [], h_nextSeq = 0, h_haveSeq = False, h_segs = 0\<rparr>"

text \<open>The length of the record whose header starts the buffer.\<close>

definition record_total :: "bytes \<Rightarrow> nat" where
  "record_total buf = tlsRecordHeaderLen + (unat (buf ! 3) * 256 + unat (buf ! 4))"

text \<open>\<open>Feed\<close> returns \<open>ready\<close> (\<open>None\<close> for nil), \<open>done\<close> and the new state.\<close>

definition Feed :: "u32 \<Rightarrow> bytes \<Rightarrow> HelloAssembler \<Rightarrow> bytes option \<times> bool \<times> HelloAssembler" where
  "Feed seq payload h =
     (if payload = [] then (None, False, h)
      else let h = (if \<not> h_haveSeq h then h\<lparr>h_nextSeq := seq, h_haveSeq := True\<rparr> else h) in
      if seq \<noteq> h_nextSeq h then (None, True, h)
      else let h = h\<lparr>h_buf := h_buf h @ payload,
                     h_nextSeq := h_nextSeq h + of_nat (length payload),
                     h_segs := h_segs h + 1\<rparr> in
      if h_buf h ! 0 \<noteq> tlsHandshakeRecordType then (None, True, h)
      else if maxHelloBufferBytes < length (h_buf h) \<or> maxHelloSegments < h_segs h then (None, True, h)
      else if length (h_buf h) < tlsRecordHeaderLen then (None, False, h)
      else let total = record_total (h_buf h) in
      if length (h_buf h) < total then (None, False, h)
      else (Some (take total (h_buf h)), True, h))"

text \<open>Feeding the consecutive segments of one stream until \<open>done\<close>.\<close>

fun feed_all :: "u32 \<Rightarrow> bytes list \<Rightarrow> HelloAssembler \<Rightarrow> bytes option \<times> bool \<times> HelloAssembler" where
  "feed_all seq [] h = (None, False, h)"
| "feed_all seq (p # ps) h =
     (case Feed seq p h of
        (ready, done, h') \<Rightarrow>
          if done then (ready, True, h') else feed_all (seq + of_nat (length p)) ps h')"

section \<open>Records\<close>

text \<open>A complete handshake record of at most the buffer's size.\<close>

definition hello_record :: "bytes \<Rightarrow> bool" where
  "hello_record r \<longleftrightarrow> tlsRecordHeaderLen \<le> length r \<and> r ! 0 = tlsHandshakeRecordType \<and>
     length r = record_total r"

lemma record_total_append: "tlsRecordHeaderLen \<le> length xs \<Longrightarrow> record_total (xs @ ys) = record_total xs"
  by (simp add: record_total_def nth_append tlsRecordHeaderLen_def)

lemma record_total_prefix:
  assumes "tlsRecordHeaderLen \<le> length xs" and "xs @ ys = r @ zs" and "hello_record r"
  shows "record_total xs = length r"
proof -
  have "record_total xs = record_total (r @ zs)"
    using record_total_append [OF assms(1), of ys] assms(2) by simp
  also have "\<dots> = length r"
    using assms(3) by (simp add: hello_record_def record_total_append)
  finally show ?thesis .
qed

text \<open>What the assembler holds after some segments of a stream that began at \<open>seq0\<close>.\<close>

definition collected :: "u32 \<Rightarrow> bytes list \<Rightarrow> HelloAssembler \<Rightarrow> bool" where
  "collected seq0 ps h \<longleftrightarrow> h_buf h = concat ps \<and> h_segs h = length ps \<and>
     (if ps = [] then \<not> h_haveSeq h else h_haveSeq h \<and> h_nextSeq h = seq0 + of_nat (length (concat ps)))"

lemma collected_new: "collected seq0 [] NewHelloAssembler"
  by (simp add: collected_def NewHelloAssembler_def)

text \<open>One segment in order, within the bounds, of a stream that starts with a record.\<close>

lemma Feed_in_order:
  assumes col: "collected seq0 ps h" and ne: "p \<noteq> []" and rec: "hello_record r"
    and stream: "concat (ps @ [p]) @ rest = r @ zs"
    and bounds: "length (concat (ps @ [p])) \<le> maxHelloBufferBytes" "length ps < maxHelloSegments"
  shows "\<exists>h'. Feed (seq0 + of_nat (length (concat ps))) p h =
      (if length r \<le> length (concat (ps @ [p])) then Some r else None,
       length r \<le> length (concat (ps @ [p])), h') \<and> collected seq0 (ps @ [p]) h'"
proof -
  define buf where "buf = concat ps @ p"
  have stream': "buf @ rest = r @ zs" using stream by (simp add: buf_def)
  have len: "tlsRecordHeaderLen \<le> length r" and r0: "r ! 0 = tlsHandshakeRecordType"
    using rec by (simp_all add: hello_record_def)
  have bne: "buf \<noteq> []" using ne by (simp add: buf_def)
  have b0: "buf ! 0 = tlsHandshakeRecordType"
  proof -
    have "buf ! 0 = (buf @ rest) ! 0" using bne by (simp add: nth_append)
    also have "\<dots> = r ! 0" using len by (auto simp: stream' nth_append tlsRecordHeaderLen_def)
    finally show ?thesis using r0 by simp
  qed
  have tot: "tlsRecordHeaderLen \<le> length buf \<Longrightarrow> record_total buf = length r"
    using record_total_prefix [OF _ stream' rec] .
  have r: "length r \<le> length buf \<Longrightarrow> take (length r) buf = r"
    using arg_cong [OF stream', of "take (length r)"] by simp
  define h1 where "h1 = \<lparr>h_buf = buf, h_nextSeq = seq0 + of_nat (length buf), h_haveSeq = True,
    h_segs = Suc (length ps)\<rparr>"
  have h1: "collected seq0 (ps @ [p]) h1"
    by (simp add: collected_def h1_def buf_def)
  have "Feed (seq0 + of_nat (length (concat ps))) p h =
      (if length r \<le> length buf then Some r else None, length r \<le> length buf, h1)"
  proof (cases h)
    case (fields b n hv sg)
    have h: "b = concat ps" "sg = length ps" "if ps = [] then \<not> hv else hv \<and> n = seq0 + of_nat (length (concat ps))"
      using col unfolding collected_def fields by (auto split: if_splits)
    show ?thesis
      using ne b0 bounds tot r len h
      by (cases "ps = []") (auto simp: Feed_def Let_def fields h1_def buf_def add.assoc)
  qed
  then show ?thesis using h1 by (auto simp: buf_def)
qed

lemma feed_all_collects:
  assumes "collected seq0 qs h" and "hello_record r" and "concat (qs @ ps) = r @ zs"
    and "\<forall>p \<in> set ps. p \<noteq> []" and "length (concat qs) < length r"
    and "length (concat (qs @ ps)) \<le> maxHelloBufferBytes" and "length (qs @ ps) \<le> maxHelloSegments"
  shows "\<exists>h'. feed_all (seq0 + of_nat (length (concat qs))) ps h = (Some r, True, h')"
  using assms
proof (induction ps arbitrary: qs h)
  case Nil
  then have "length (concat qs) = length r + length zs"
    using arg_cong [OF Nil.prems(3), of length] by simp
  with Nil.prems(5) show ?case by simp
next
  case (Cons p ps)
  have "length (concat (qs @ [p])) \<le> maxHelloBufferBytes" using Cons.prems(6) by simp
  then obtain h' where f: "Feed (seq0 + of_nat (length (concat qs))) p h =
      (if length r \<le> length (concat (qs @ [p])) then Some r else None,
       length r \<le> length (concat (qs @ [p])), h')" and col: "collected seq0 (qs @ [p]) h'"
    using Feed_in_order [OF Cons.prems(1) _ Cons.prems(2), of p "concat ps" zs] Cons.prems by auto
  show ?case
  proof (cases "length r \<le> length (concat (qs @ [p]))")
    case True
    then show ?thesis using f by simp
  next
    case False
    have "\<exists>h''. feed_all (seq0 + of_nat (length (concat (qs @ [p])))) ps h' = (Some r, True, h'')"
      by (rule Cons.IH [OF col Cons.prems(2)]) (use Cons.prems False in auto)
    then show ?thesis using f False by (simp add: add.assoc)
  qed
qed

section \<open>Properties\<close>

text \<open>
  However the bytes of one TLS record are cut into consecutive non-empty segments, as
  long as there are at most 8 of them and at most 8192 bytes, feeding them in order from
  any sequence number returns exactly the record, also when the last segment carries more.
\<close>

theorem record_reassembled:
  assumes "hello_record r" and "concat ps = r @ zs" and "\<forall>p \<in> set ps. p \<noteq> []"
    and "length (concat ps) \<le> maxHelloBufferBytes" and "length ps \<le> maxHelloSegments"
  shows "\<exists>h'. feed_all seq ps NewHelloAssembler = (Some r, True, h')"
proof -
  have "0 < length r" using assms(1) by (auto simp: hello_record_def tlsRecordHeaderLen_def)
  then show ?thesis
    using feed_all_collects [OF collected_new assms(1), of ps zs seq] assms by simp
qed

theorem record_reassembled_witness:
  "\<exists>h'. feed_all 0xFFFFFFFE [[0x16, 3], [1, 0, 2, 7], [8, 9]] NewHelloAssembler =
     (Some [0x16, 3, 1, 0, 2, 7, 8], True, h')"
  by (rule record_reassembled [of _ _ "[9]"])
    (simp_all add: hello_record_def record_total_def tlsRecordHeaderLen_def tlsHandshakeRecordType_def
      maxHelloBufferBytes_def maxHelloSegments_def)

text \<open>
  Memory is bounded and a gap is final: an assembler that asks for more never holds more
  than 8192 bytes from 8 segments, whatever it was fed, and a segment that is not the next
  one ends the attempt without touching what was collected.
\<close>

theorem assembler_bounded:
  assumes "length (h_buf h) \<le> maxHelloBufferBytes \<and> h_segs h \<le> maxHelloSegments"
    and "Feed seq payload h = (ready, False, h')"
  shows "length (h_buf h') \<le> maxHelloBufferBytes \<and> h_segs h' \<le> maxHelloSegments \<and> ready = None \<and>
    (h_haveSeq h \<and> seq' \<noteq> h_nextSeq h \<longrightarrow> Feed seq' (b # bs) h = (None, True, h))"
  using assms by (auto simp: Feed_def Let_def split: if_splits)

theorem assembler_bounded_witness:
  "length (h_buf (snd (snd (Feed 7 [0x16, 3, 1] NewHelloAssembler)))) \<le> maxHelloBufferBytes"
proof -
  have "Feed 7 [0x16, 3, 1] NewHelloAssembler = (None, False, snd (snd (Feed 7 [0x16, 3, 1] NewHelloAssembler)))"
    by (simp add: Feed_def NewHelloAssembler_def tlsHandshakeRecordType_def maxHelloBufferBytes_def
        maxHelloSegments_def tlsRecordHeaderLen_def)
  from assembler_bounded [OF _ this, of 0 0 "[]"] show ?thesis by (simp add: NewHelloAssembler_def)
qed

end
