(* ===== verification/Byte_Counter.thy ===== *)
theory Byte_Counter
  imports Complex_Main Go_Time Hello_Assembler
begin

text \<open>
  The per-flow counter of \<^verbatim>\<open>src/capture/flow.go\<close>: 64-bit totals in each direction, a ring of five
  one-second buckets for the rate, the time of the last packet, and the flow's hostname
  detection state.

  The abstract counter is the list of packets seen, each with the second it was credited
  to. The theory shows that the totals are the sums over all packets modulo \<open>2 ^ 64\<close> and
  that the ring always holds the sums of the last five seconds, so the rate is the traffic
  of the window ending at the time it is asked for, however long the flow was idle. Rates
  are 64-bit floats in the code; here they are the exact quotients.
\<close>

definition rateBuckets :: nat where "rateBuckets = 5"

record ByteCounter =
  bytesIn :: u64
  bytesOut :: u64
  b_in :: "u64 list"
  b_out :: "u64 list"
  b_head :: nat
  bucketStart :: time
  lastSeen :: time
  hostname :: string
  hostnameAttempted :: bool
  assembler :: "HelloAssembler option"
  helloInspector :: string

definition NewByteCounter :: ByteCounter where
  "NewByteCounter = \<lparr>bytesIn = 0, bytesOut = 0, b_in = replicate rateBuckets 0,
     b_out = replicate rateBuckets 0, b_head = 0, bucketStart = 0, lastSeen = 0, hostname = '''',
     hostnameAttempted = False, assembler = None, helloInspector = ''''\<rparr>"

section \<open>Operations\<close>

text \<open>The loop body of \<open>advance\<close>, and the loop.\<close>

definition roll :: "ByteCounter \<Rightarrow> ByteCounter" where
  "roll c =
     (let h = (b_head c + 1) mod rateBuckets
      in c\<lparr>b_head := h, b_in := (b_in c)[h := 0], b_out := (b_out c)[h := 0]\<rparr>)"

definition advance :: "time \<Rightarrow> ByteCounter \<Rightarrow> ByteCounter" where
  "advance now c =
     (let sec = Truncate now second in
      if IsZero (bucketStart c) then c\<lparr>bucketStart := sec\<rparr>
      else let steps = quot (time_Sub sec (bucketStart c)) second in
      if steps \<le> 0 then c
      else let c = (if int rateBuckets \<le> steps
                    then c\<lparr>b_in := replicate rateBuckets 0, b_out := replicate rateBuckets 0\<rparr>
                    else (roll ^^ nat steps) c)
           in c\<lparr>bucketStart := sec\<rparr>)"

definition Add :: "time \<Rightarrow> u64 \<Rightarrow> bool \<Rightarrow> ByteCounter \<Rightarrow> ByteCounter" where
  "Add now n inbound c =
     (let c = advance now c;
          c = (if inbound
               then c\<lparr>bytesIn := bytesIn c + n, b_in := (b_in c)[b_head c := b_in c ! b_head c + n]\<rparr>
               else c\<lparr>bytesOut := bytesOut c + n, b_out := (b_out c)[b_head c := b_out c ! b_head c + n]\<rparr>)
      in if lastSeen c < now then c\<lparr>lastSeen := now\<rparr> else c)"

definition Totals :: "ByteCounter \<Rightarrow> u64 \<times> u64" where
  "Totals c = (bytesIn c, bytesOut c)"

text \<open>The sums a rate is made of, and the rate: the counter changes as its buckets expire.\<close>

definition Rates :: "time \<Rightarrow> ByteCounter \<Rightarrow> (real \<times> real) \<times> ByteCounter" where
  "Rates now c =
     (let c = advance now c
      in ((real (unat (sum_list (b_in c))) / 5, real (unat (sum_list (b_out c))) / 5), c))"

definition LastSeen :: "ByteCounter \<Rightarrow> time" where
  "LastSeen c = lastSeen c"

definition Hostname :: "ByteCounter \<Rightarrow> string" where
  "Hostname c = hostname c"

definition SetHostname :: "string \<Rightarrow> ByteCounter \<Rightarrow> ByteCounter" where
  "SetHostname host c = (if hostname c = '''' then c\<lparr>hostname := host\<rparr> else c)"

definition NeedsHostnameInspection :: "ByteCounter \<Rightarrow> bool" where
  "NeedsHostnameInspection c \<longleftrightarrow> hostname c = '''' \<and> \<not> hostnameAttempted c"

definition MarkHostnameAttempted :: "ByteCounter \<Rightarrow> ByteCounter" where
  "MarkHostnameAttempted c = c\<lparr>hostnameAttempted := True\<rparr>"

definition HelloInProgress :: "ByteCounter \<Rightarrow> bool" where
  "HelloInProgress c \<longleftrightarrow> assembler c \<noteq> None"

definition AddHelloSegment ::
    "string \<Rightarrow> u32 \<Rightarrow> bytes \<Rightarrow> ByteCounter \<Rightarrow> bytes option \<times> bool \<times> ByteCounter" where
  "AddHelloSegment inspectorName seq payload c =
     (let c = (case assembler c of
                 None \<Rightarrow> c\<lparr>assembler := Some NewHelloAssembler, helloInspector := inspectorName\<rparr>
               | Some _ \<Rightarrow> c);
          (ready, done, h) = Feed seq payload (the (assembler c))
      in (ready, done, c\<lparr>assembler := Some h\<rparr>))"

definition HelloInspector :: "ByteCounter \<Rightarrow> string" where
  "HelloInspector c = helloInspector c"

section \<open>The ring as a window\<close>

text \<open>The buckets newest first.\<close>

definition window :: "nat \<Rightarrow> 'a list \<Rightarrow> 'a list" where
  "window h xs = map (\<lambda>j. xs ! ((h + 5 - j) mod 5)) [0..<5]"

lemma below_five: "h < 5 \<Longrightarrow> h = 0 \<or> h = Suc 0 \<or> h = 2 \<or> h = 3 \<or> h = (4::nat)"
  by linarith

lemma length_five:
  assumes "length xs = (5::nat)"
  obtains a b c d e where "xs = [a, b, c, d, e]"
  using assms by (auto simp: eval_nat_numeral length_Suc_conv)

lemma window_five [simp]:
  "window 0 [a, b, c, d, e] = [a, e, d, c, b]" "window (Suc 0) [a, b, c, d, e] = [b, a, e, d, c]"
  "window 2 [a, b, c, d, e] = [c, b, a, e, d]" "window 3 [a, b, c, d, e] = [d, c, b, a, e]"
  "window 4 [a, b, c, d, e] = [e, d, c, b, a]" "window (Suc (Suc 0)) [a, b, c, d, e] = [c, b, a, e, d]"
  by (simp_all add: window_def upt_rec)

lemma replicate_five: "replicate 5 x = [x, x, x, x, x]"
  by (simp add: numeral_eq_Suc)

lemma window_roll:
  assumes "h < 5" and "length xs = 5"
  shows "window ((h + 1) mod 5) (xs[(h + 1) mod 5 := x]) = x # butlast (window h xs)"
proof -
  obtain a b c d e where "xs = [a, b, c, d, e]" using assms(2) by (rule length_five)
  then show ?thesis using below_five [OF assms(1)] by (elim disjE) simp_all
qed

lemma window_add:
  assumes "h < 5" and "length xs = 5"
  shows "window h (xs[h := x]) = x # tl (window h xs)"
proof -
  obtain a b c d e where "xs = [a, b, c, d, e]" using assms(2) by (rule length_five)
  then show ?thesis using below_five [OF assms(1)] by (elim disjE) simp_all
qed

lemma window_sum:
  assumes "h < 5" and "length xs = 5"
  shows "sum_list (window h xs) = sum_list (xs :: 'a::comm_monoid_add list)"
proof -
  obtain a b c d e where "xs = [a, b, c, d, e]" using assms(2) by (rule length_five)
  then show ?thesis using below_five [OF assms(1)] by (elim disjE) (simp_all add: ac_simps)
qed

section \<open>The packets behind a counter\<close>

text \<open>A packet: the second it is credited to, its size, and whether it was inbound.\<close>

type_synonym packet = "int \<times> u64 \<times> bool"

definition credit :: "bool \<Rightarrow> packet list \<Rightarrow> int \<Rightarrow> u64" where
  "credit d pk s = (\<Sum>p\<leftarrow>pk. if fst p = s \<and> snd (snd p) = d then fst (snd p) else 0)"

definition traffic :: "bool \<Rightarrow> packet list \<Rightarrow> u64" where
  "traffic d pk = (\<Sum>p\<leftarrow>pk. if snd (snd p) = d then fst (snd p) else 0)"

definition last_five :: "bool \<Rightarrow> packet list \<Rightarrow> int \<Rightarrow> u64 list" where
  "last_five d pk s = map (\<lambda>j. credit d pk (s - int j)) [0..<5]"

definition ring_ok :: "int \<Rightarrow> packet list \<Rightarrow> ByteCounter \<Rightarrow> bool" where
  "ring_ok s pk c \<longleftrightarrow> b_head c < 5 \<and> length (b_in c) = 5 \<and> length (b_out c) = 5 \<and>
     (\<forall>p \<in> set pk. fst p \<le> s) \<and>
     window (b_head c) (b_in c) = last_five True pk s \<and>
     window (b_head c) (b_out c) = last_five False pk s"

lemma credit_simps [simp]:
  "credit d [] s = 0"
  "credit d (p # pk) s = (if fst p = s \<and> snd (snd p) = d then fst (snd p) else 0) + credit d pk s"
  by (simp_all add: credit_def)

lemma credit_later: "\<forall>p \<in> set pk. fst p \<le> s \<Longrightarrow> s < s' \<Longrightarrow> credit d pk s' = 0"
  by (induction pk) auto

lemma last_five_eq:
  "last_five d pk s = [credit d pk s, credit d pk (s - 1), credit d pk (s - 2), credit d pk (s - 3),
     credit d pk (s - 4)]"
  by (simp add: last_five_def upt_rec)

lemma last_five_step:
  "\<forall>p \<in> set pk. fst p \<le> s \<Longrightarrow> last_five d pk (s + 1) = 0 # butlast (last_five d pk s)"
  by (simp add: last_five_eq credit_later [of pk s "s + 1"])

lemma last_five_idle:
  "\<forall>p \<in> set pk. fst p \<le> s \<Longrightarrow> s + 5 \<le> s' \<Longrightarrow> last_five d pk s' = replicate 5 0"
  by (simp add: last_five_eq credit_later [of pk s] replicate_five)

lemma window_zero [simp]: "h < 5 \<Longrightarrow> window h (replicate 5 x) = replicate 5 x"
  unfolding replicate_five by (drule below_five) auto

lemma ring_ok_roll: "ring_ok s pk c \<Longrightarrow> ring_ok (s + 1) pk (roll c)"
  using window_roll [of "b_head c" "b_in c" 0] window_roll [of "b_head c" "b_out c" 0]
  by (auto simp: ring_ok_def roll_def rateBuckets_def Let_def last_five_step)

lemma ring_ok_rolls: "ring_ok s pk c \<Longrightarrow> ring_ok (s + int k) pk ((roll ^^ k) c)"
  by (induction k) (auto dest: ring_ok_roll simp: ac_simps)

lemma ring_ok_idle:
  "ring_ok s pk c \<Longrightarrow> s + 5 \<le> s' \<Longrightarrow>
     ring_ok s' pk (c\<lparr>b_in := replicate rateBuckets 0, b_out := replicate rateBuckets 0\<rparr>)"
  by (auto simp: ring_ok_def rateBuckets_def last_five_idle [of pk s])

lemma roll_frame [simp]:
  "bytesIn ((roll ^^ k) c) = bytesIn c" "bytesOut ((roll ^^ k) c) = bytesOut c"
  "lastSeen ((roll ^^ k) c) = lastSeen c"
  by (induction k) (simp_all add: roll_def Let_def)

lemma ring_ok_start [simp]: "ring_ok s pk (c\<lparr>bucketStart := t\<rparr>) = ring_ok s pk c"
  by (simp add: ring_ok_def)

text \<open>
  What a counter has counted: the packets of the list, each credited to the latest second
  the counter had reached when it arrived.
\<close>

definition counts :: "ByteCounter \<Rightarrow> packet list \<Rightarrow> bool" where
  "counts c pk \<longleftrightarrow> bytesIn c = traffic True pk \<and> bytesOut c = traffic False pk \<and>
     ring_ok (sec_of (bucketStart c)) pk c \<and>
     bucketStart c = sec_of (bucketStart c) * second \<and> 0 \<le> bucketStart c \<and>
     (bucketStart c = 0 \<longrightarrow> pk = [])"

lemma counts_new: "counts NewByteCounter []"
  by (simp add: counts_def NewByteCounter_def traffic_def ring_ok_def rateBuckets_def sec_of_def
      last_five_eq replicate_five)

text \<open>The second a packet at \<open>now\<close> is credited to.\<close>

definition credited :: "time \<Rightarrow> ByteCounter \<Rightarrow> int" where
  "credited now c = max (sec_of (bucketStart c)) (sec_of now)"

lemma sec_of_mult [simp]: "sec_of (s * second) = s"
  by (simp add: sec_of_def second_def)

lemma second_simps [simp]: "second \<noteq> 0" "0 \<le> s * second \<longleftrightarrow> 0 \<le> s"
  by (simp_all add: second_def)

lemma ring_ok_nil: "ring_ok s [] c = ring_ok s' [] c"
  by (simp add: ring_ok_def last_five_eq)

lemma sec_of_pos: "second \<le> t \<Longrightarrow> 0 < sec_of t"
  by (simp add: sec_of_def second_def pos_imp_zdiv_pos_iff)

lemma counts_advance:
  assumes c: "counts c pk" and now: "second \<le> now"
  shows "counts (advance now c) pk" and "bucketStart (advance now c) = credited now c * second"
proof -
  let ?s = "sec_of (bucketStart c)" and ?n = "sec_of now"
  note pos = sec_of_pos [OF now]
  have start: "bucketStart c = ?s * second" and ring: "ring_ok ?s pk c" and ge: "0 \<le> bucketStart c"
    using c unfolding counts_def by blast+
  define k where "k = quot (time_Sub (Truncate now second) (bucketStart c)) second"
  have k: "k = quot (time_Sub (?n * second) (?s * second)) second"
    using start by (simp add: k_def Truncate_second)
  have adv: "advance now c =
      (if bucketStart c = 0 then c\<lparr>bucketStart := ?n * second\<rparr> else if k \<le> 0 then c
       else (if 5 \<le> k then c\<lparr>b_in := replicate rateBuckets 0, b_out := replicate rateBuckets 0\<rparr>
             else (roll ^^ nat k) c)\<lparr>bucketStart := ?n * second\<rparr>)"
    by (simp add: advance_def IsZero_def Let_def rateBuckets_def k_def Truncate_second)
  consider "bucketStart c = 0" | "bucketStart c \<noteq> 0" "?n \<le> ?s" | "bucketStart c \<noteq> 0" "?s < ?n" "?n - ?s < 5"
    | "bucketStart c \<noteq> 0" "?s < ?n" "5 \<le> ?n - ?s" by linarith
  then have "counts (advance now c) pk \<and> bucketStart (advance now c) = credited now c * second"
  proof cases
    case 1
    have "?s = 0" using 1 by (simp add: sec_of_def)
    moreover have "ring_ok ?n pk c" using c 1 ring ring_ok_nil [of ?n c ?s] by (auto simp: counts_def)
    ultimately show ?thesis
      using 1 c pos by (simp add: adv counts_def credited_def)
  next
    case 2
    have "k \<le> 0" unfolding k using 2 by (intro quot_Sub_second(1))
    then have "advance now c = c" using 2 by (simp add: adv)
    then show ?thesis using c 2 start by (simp add: credited_def max_absorb1)
  next
    case 3
    have "k = ?n - ?s" unfolding k using 3 by (intro quot_Sub_second(2))
    then have "advance now c = ((roll ^^ nat (?n - ?s)) c)\<lparr>bucketStart := ?n * second\<rparr>"
      using 3 by (simp add: adv)
    moreover have "ring_ok ?n pk ((roll ^^ nat (?n - ?s)) c)"
      using ring_ok_rolls [OF ring, of "nat (?n - ?s)"] 3 by simp
    ultimately show ?thesis using 3 c pos by (simp add: counts_def credited_def)
  next
    case 4
    have "5 \<le> k" unfolding k using 4 by (intro quot_Sub_second(3))
    then have "advance now c = c\<lparr>b_in := replicate rateBuckets 0, b_out := replicate rateBuckets 0,
        bucketStart := ?n * second\<rparr>"
      using 4 by (simp add: adv)
    moreover have "ring_ok ?n pk (c\<lparr>b_in := replicate rateBuckets 0, b_out := replicate rateBuckets 0\<rparr>)"
      using ring_ok_idle [OF ring] 4 by simp
    ultimately show ?thesis using 4 c pos by (simp add: counts_def credited_def)
  qed
  then show "counts (advance now c) pk" and "bucketStart (advance now c) = credited now c * second"
    by blast+
qed

text \<open>Adding to the newest bucket.\<close>

lemma last_five_add:
  "\<forall>p \<in> set pk. fst p \<le> s \<Longrightarrow>
     last_five d ((s, n, e) # pk) s = (if d = e then (hd (last_five d pk s) + n) # tl (last_five d pk s) else last_five d pk s)"
  by (auto simp: last_five_eq)

lemma window_hd: "h < 5 \<Longrightarrow> length xs = 5 \<Longrightarrow> hd (window h xs) = xs ! h"
  by (elim length_five) (drule below_five, auto)

lemma ring_ok_add:
  assumes "ring_ok s pk c"
  shows "ring_ok s ((s, n, True) # pk) (c\<lparr>b_in := (b_in c)[b_head c := b_in c ! b_head c + n]\<rparr>)"
    and "ring_ok s ((s, n, False) # pk) (c\<lparr>b_out := (b_out c)[b_head c := b_out c ! b_head c + n]\<rparr>)"
proof -
  have c: "b_head c < 5" "length (b_in c) = 5" "length (b_out c) = 5" "\<forall>p \<in> set pk. fst p \<le> s"
      and w: "window (b_head c) (b_in c) = last_five True pk s" "window (b_head c) (b_out c) = last_five False pk s"
    using assms by (simp_all add: ring_ok_def)
  show "ring_ok s ((s, n, True) # pk) (c\<lparr>b_in := (b_in c)[b_head c := b_in c ! b_head c + n]\<rparr>)"
    and "ring_ok s ((s, n, False) # pk) (c\<lparr>b_out := (b_out c)[b_head c := b_out c ! b_head c + n]\<rparr>)"
    using c w window_hd [OF c(1,2)] window_hd [OF c(1,3)]
    by (simp_all add: ring_ok_def window_add last_five_add)
qed

lemma traffic_Cons [simp]: "traffic d ((s, n, e) # pk) = (if e = d then n else 0) + traffic d pk"
  by (simp add: traffic_def)

lemma counts_Add:
  assumes "counts c pk" and "second \<le> now"
  shows "counts (Add now n inbound c) ((credited now c, n, inbound) # pk)"
    and "bucketStart (Add now n inbound c) = credited now c * second"
proof -
  define c1 where "c1 = advance now c"
  note adv = counts_advance [OF assms]
  have c1: "counts c1 pk" "bucketStart c1 = credited now c * second"
    using adv by (simp_all add: c1_def)
  have pos: "0 < credited now c" using sec_of_pos [OF assms(2)] by (simp add: credited_def)
  have ring: "ring_ok (credited now c) pk c1" using c1 by (simp add: counts_def)
  have seen: "ring_ok s l (x\<lparr>lastSeen := t\<rparr>) = ring_ok s l x" for s l x t
    by (simp add: ring_ok_def)
  have frame: "ring_ok s l (x\<lparr>bytesIn := t\<rparr>) = ring_ok s l x" "ring_ok s l (x\<lparr>bytesOut := t\<rparr>) = ring_ok s l x"
    for s l x t by (simp_all add: ring_ok_def)
  show "bucketStart (Add now n inbound c) = credited now c * second"
    using c1(2) by (simp add: Add_def Let_def c1_def [symmetric])
  show "counts (Add now n inbound c) ((credited now c, n, inbound) # pk)"
    using c1 pos ring_ok_add [OF ring, of n]
    by (cases inbound)
      (auto simp: Add_def Let_def c1_def [symmetric] counts_def seen frame add.commute
        intro!: ring_ok_def [THEN iffD2] dest!: ring_ok_def [THEN iffD1])
qed

section \<open>Runs\<close>

type_synonym add = "time \<times> u64 \<times> bool"

definition run_adds :: "add list \<Rightarrow> ByteCounter \<Rightarrow> ByteCounter" where
  "run_adds adds c = fold (\<lambda>(t, n, d). Add t n d) adds c"

text \<open>Each packet credited to the latest second seen so far.\<close>

fun credit_list :: "int \<Rightarrow> add list \<Rightarrow> packet list" where
  "credit_list s [] = []"
| "credit_list s ((t, n, d) # adds) =
     (let s' = max s (sec_of t) in (s', n, d) # credit_list s' adds)"

lemma counts_run:
  assumes "counts c pk" and "\<forall>a \<in> set adds. second \<le> fst a"
  shows "counts (run_adds adds c) (rev (credit_list (sec_of (bucketStart c)) adds) @ pk) \<and>
    sec_of (bucketStart (run_adds adds c)) = foldl max (sec_of (bucketStart c)) (map (sec_of \<circ> fst) adds)"
  using assms
proof (induction adds arbitrary: c pk)
  case (Cons a adds)
  obtain t n d where a: "a = (t, n, d)" by (cases a)
  have t: "second \<le> t" using Cons.prems(2) a by simp
  let ?c = "Add t n d c"
  have b: "sec_of (bucketStart ?c) = max (sec_of (bucketStart c)) (sec_of t)"
    by (simp add: counts_Add(2) [OF Cons.prems(1) t] credited_def)
  show ?case
    using Cons.IH [OF counts_Add(1) [OF Cons.prems(1) t], of n d] Cons.prems(2)
    by (simp add: a run_adds_def b Let_def credited_def)
qed (simp add: run_adds_def)

lemma credit_all: "(\<Sum>j\<leftarrow>[0..<5]. credit d pk (s - int j)) =
    (\<Sum>p\<leftarrow>pk. if s - 5 < fst p \<and> fst p \<le> s \<and> snd (snd p) = d then fst (snd p) else 0)"
proof (induction pk)
  case (Cons p pk)
  have "(\<Sum>j\<leftarrow>[0..<5]. if fst p = s - int j \<and> snd (snd p) = d then fst (snd p) else 0) =
      (if s - 5 < fst p \<and> fst p \<le> s \<and> snd (snd p) = d then fst (snd p) else 0)"
    by (auto simp: upt_rec)
  with Cons show ?case by (simp add: sum_list_addf)
qed (simp add: upt_rec)

text \<open>The traffic of the five seconds that end with second \<open>s\<close>.\<close>

definition window_traffic :: "bool \<Rightarrow> packet list \<Rightarrow> int \<Rightarrow> u64" where
  "window_traffic d pk s =
     (\<Sum>p\<leftarrow>pk. if s - 5 < fst p \<and> fst p \<le> s \<and> snd (snd p) = d then fst (snd p) else 0)"

lemma window_traffic_rev [simp]: "window_traffic d (rev pk) s = window_traffic d pk s"
  unfolding window_traffic_def by (simp only: rev_map [symmetric] sum_list_rev)

lemma ring_sums:
  assumes "ring_ok s pk c"
  shows "sum_list (b_in c) = window_traffic True pk s" "sum_list (b_out c) = window_traffic False pk s"
proof -
  have h: "b_head c < 5" "length (b_in c) = 5" "length (b_out c) = 5"
      and w: "window (b_head c) (b_in c) = last_five True pk s" "window (b_head c) (b_out c) = last_five False pk s"
    using assms by (simp_all add: ring_ok_def)
  show "sum_list (b_in c) = window_traffic True pk s" "sum_list (b_out c) = window_traffic False pk s"
    using window_sum [OF h(1,2)] window_sum [OF h(1,3)]
    by (simp_all add: w last_five_def credit_all window_traffic_def)
qed

section \<open>Properties\<close>

lemma advance_totals [simp]:
  "bytesIn (advance now c) = bytesIn c" "bytesOut (advance now c) = bytesOut c"
  by (simp_all add: advance_def Let_def)

text \<open>
  The totals of a flow are the sums of its packets' sizes in each direction, modulo
  \<open>2 ^ 64\<close>, in whatever order the packets arrive.
\<close>

theorem totals_are_sums:
  "Totals (run_adds adds NewByteCounter) =
     ((\<Sum>a\<leftarrow>adds. if snd (snd a) then fst (snd a) else 0), (\<Sum>a\<leftarrow>adds. if snd (snd a) then 0 else fst (snd a)))"
proof -
  have "bytesIn (run_adds adds c) = bytesIn c + (\<Sum>a\<leftarrow>adds. if snd (snd a) then fst (snd a) else 0) \<and>
      bytesOut (run_adds adds c) = bytesOut c + (\<Sum>a\<leftarrow>adds. if snd (snd a) then 0 else fst (snd a))" for c
  proof (induction adds arbitrary: c)
    case (Cons a adds)
    obtain t n d where "a = (t, n, d)" by (cases a)
    with Cons [of "Add t n d c"] show ?case by (simp add: run_adds_def Add_def Let_def)
  qed (simp add: run_adds_def)
  then show ?thesis by (simp add: Totals_def NewByteCounter_def)
qed

text \<open>
  C17: the rate of a flow is the traffic of the five seconds that end with the current one,
  divided by five; a packet that arrives late is counted in the newest second the flow had
  reached. It holds after any packets and any idle time, with packet times from the first
  second on and not after the current second.
\<close>

theorem rates_are_window_sums:
  assumes "\<forall>a \<in> set adds. second \<le> fst a \<and> sec_of (fst a) \<le> sec_of now" and "second \<le> now"
  shows "fst (Rates now (run_adds adds NewByteCounter)) =
    (real (unat (window_traffic True (credit_list 0 adds) (sec_of now))) / 5,
     real (unat (window_traffic False (credit_list 0 adds) (sec_of now))) / 5)"
proof -
  define c where "c = run_adds adds NewByteCounter"
  have zero: "sec_of (bucketStart NewByteCounter) = 0"
    by (simp add: NewByteCounter_def sec_of_def)
  have c: "counts c (rev (credit_list 0 adds))" "sec_of (bucketStart c) = foldl max 0 (map (sec_of \<circ> fst) adds)"
    using counts_run [OF counts_new, of adds] assms(1) by (simp_all add: zero c_def)
  have pos: "0 < sec_of now" by (rule sec_of_pos [OF assms(2)])
  have le: "foldl max x xs \<le> y" if "x \<le> y" "\<forall>z \<in> set xs. z \<le> y" for x y :: int and xs
    using that by (induction xs arbitrary: x) auto
  have "sec_of (bucketStart c) \<le> sec_of now"
    unfolding c(2) using assms(1) pos by (intro le) auto
  then have "credited now c = sec_of now" by (simp add: credited_def)
  then have "ring_ok (sec_of now) (rev (credit_list 0 adds)) (advance now c)"
    using counts_advance [OF c(1) assms(2)] by (simp add: counts_def)
  then show ?thesis
    unfolding c_def [symmetric] by (simp add: Rates_def Let_def ring_sums)
qed

theorem rates_are_window_sums_witness:
  "fst (Rates (12 * second) (run_adds [(2 * second, 100, True), (9 * second, 70, True), (8 * second, 30, False)] NewByteCounter))
     = (14, 6)"
proof -
  have "sec_of (12 * second) = 12" "sec_of (2 * second) = 2" "sec_of (9 * second) = 9" "sec_of (8 * second) = 8"
    by (simp_all add: sec_of_def second_def)
  with rates_are_window_sums [of "[(2 * second, 100, True), (9 * second, 70, True), (8 * second, 30, False)]" "12 * second"]
  show ?thesis
    by (simp add: second_def window_traffic_def Let_def)
qed

end
