(* ===== verification/Flow_Decode.thy ===== *)
theory Flow_Decode
  imports Wire
begin

text \<open>
  The packet decoder of \<^verbatim>\<open>src/capture/decode.go\<close> and the direction rule of \<^verbatim>\<open>src/capture/flow.go\<close>.
  Dissecting a frame into layers is gopacket's work and a parameter: a frame gives the list
  of its layers, with the bytes handed to the decoder's own transport layer. That layer's
  decoder writes the ports and flags into a structure that is shared by all packets of a
  handle, which is the state here.

  The theory shows that a TCP or UDP packet is reported with its own ports and size
  whatever came before, that both directions of a connection give one key, and that a
  packet without ports is reported with those of the previous packet that had some.
\<close>

section \<open>Types\<close>

datatype Proto = ProtoTCP | ProtoUDP | ProtoICMP | ProtoARP

fun Proto_String :: "Proto \<Rightarrow> string" where
  "Proto_String ProtoTCP = ''tcp''"
| "Proto_String ProtoUDP = ''udp''"
| "Proto_String ProtoICMP = ''icmp''"
| "Proto_String ProtoARP = ''arp''"

record packetInfo =
  Src :: addr
  Dst :: addr
  SrcPort :: u16
  DstPort :: u16
  pi_Proto :: Proto
  SYN :: bool
  ACK :: bool
  RST :: bool
  Bytes :: u64

definition no_info :: packetInfo where
  "no_info = \<lparr>Src = AddrZero, Dst = AddrZero, SrcPort = 0, DstPort = 0, pi_Proto = ProtoTCP,
     SYN = False, ACK = False, RST = False, Bytes = 0\<rparr>"

definition ipv6HeaderLen :: u64 where "ipv6HeaderLen = 40"
definition arpFrameBytes :: u64 where "arpFrameBytes = 28"
definition tcpFlagSYN :: u8 where "tcpFlagSYN = 0x02"
definition tcpFlagACK :: u8 where "tcpFlagACK = 0x10"
definition tcpFlagRST :: u8 where "tcpFlagRST = 0x04"

record transportPorts =
  tp_src :: u16
  tp_dst :: u16
  tp_flags :: u8

text \<open>
  The layers a dissected frame can have: source, destination and length field of an IP
  header, the bytes of a transport header on (with whether it is TCP), ICMP, the addresses
  of an ARP packet, and anything else.
\<close>

datatype layer =
    LIPv4 bytes bytes u16 | LIPv6 bytes bytes u16 | LTransport bool bytes | LICMP
  | LARP bytes bytes | LOther

section \<open>Decoding\<close>

text \<open>\<^verbatim>\<open>binary.BigEndian.Uint16\<close> of the two bytes at an offset.\<close>

definition be16 :: "bytes \<Rightarrow> nat \<Rightarrow> u16" where
  "be16 data i = ucast (data ! i) * 256 + ucast (data ! (i + 1))"

definition DecodeFromBytes :: "bytes \<Rightarrow> transportPorts \<Rightarrow> transportPorts option" where
  "DecodeFromBytes data t =
     (if length data < 4 then None
      else let t = t\<lparr>tp_src := be16 data 0, tp_dst := be16 data 2\<rparr>
           in Some (if 14 \<le> length data then t\<lparr>tp_flags := data ! 13\<rparr> else t))"

text \<open>\<open>DecodeLayers\<close> hands each transport layer to the decoder; an error there ends it.\<close>

fun DecodeLayers :: "layer list \<Rightarrow> transportPorts \<Rightarrow> bool \<times> transportPorts" where
  "DecodeLayers [] t = (True, t)"
| "DecodeLayers (LTransport tcp data # ls) t =
     (case DecodeFromBytes data t of None \<Rightarrow> (False, t) | Some t' \<Rightarrow> DecodeLayers ls t')"
| "DecodeLayers (_ # ls) t = DecodeLayers ls t"

definition AddrFromSlice :: "bytes \<Rightarrow> addr option" where
  "AddrFromSlice b =
     (if length b = 4 then Some (AddrV4 b) else if length b = 16 then Some (AddrV6 b) else None)"

text \<open>The loop over the decoded layers: the information so far, and which halves are there.\<close>

definition set_addrs :: "bytes \<Rightarrow> bytes \<Rightarrow> u64 \<Rightarrow> packetInfo \<Rightarrow> packetInfo option" where
  "set_addrs s d n info =
     (case (AddrFromSlice s, AddrFromSlice d) of
        (Some src, Some dst) \<Rightarrow> Some (info\<lparr>Src := Unmap src, Dst := Unmap dst, Bytes := n\<rparr>)
      | _ \<Rightarrow> None)"

fun decode_loop ::
    "transportPorts \<Rightarrow> layer list \<Rightarrow> packetInfo \<Rightarrow> bool \<Rightarrow> bool \<Rightarrow> (packetInfo \<times> bool \<times> bool) option" where
  "decode_loop t [] info net tr = Some (info, net, tr)"
| "decode_loop t (LIPv4 s d n # ls) info net tr =
     (case set_addrs s d (ucast n) info of
        None \<Rightarrow> None | Some info \<Rightarrow> decode_loop t ls info True tr)"
| "decode_loop t (LIPv6 s d n # ls) info net tr =
     (case set_addrs s d (ucast n + ipv6HeaderLen) info of
        None \<Rightarrow> None | Some info \<Rightarrow> decode_loop t ls info True tr)"
| "decode_loop t (LTransport tcp data # ls) info net tr =
     decode_loop t ls
       (if tcp then info\<lparr>pi_Proto := ProtoTCP, SYN := (tp_flags t AND tcpFlagSYN \<noteq> 0),
                         ACK := (tp_flags t AND tcpFlagACK \<noteq> 0), RST := (tp_flags t AND tcpFlagRST \<noteq> 0)\<rparr>
        else info\<lparr>pi_Proto := ProtoUDP\<rparr>) net True"
| "decode_loop t (LICMP # ls) info net tr = decode_loop t ls (info\<lparr>pi_Proto := ProtoICMP\<rparr>) net True"
| "decode_loop t (LARP s d # ls) info net tr =
     (case set_addrs s d arpFrameBytes info of
        None \<Rightarrow> None | Some info \<Rightarrow> decode_loop t ls (info\<lparr>pi_Proto := ProtoARP\<rparr>) True True)"
| "decode_loop t (LOther # ls) info net tr = decode_loop t ls info net tr"

text \<open>\<open>decode\<close> with the layers of the frame given (\<open>None\<close> when gopacket cannot dissect it).\<close>

definition decode :: "layer list option \<Rightarrow> transportPorts \<Rightarrow> packetInfo option \<times> transportPorts" where
  "decode frame t =
     (case frame of
        None \<Rightarrow> (None, t)
      | Some ls \<Rightarrow>
          (case DecodeLayers ls t of
             (False, t) \<Rightarrow> (None, t)
           | (True, t) \<Rightarrow>
               (case decode_loop t ls no_info False False of
                  None \<Rightarrow> (None, t)
                | Some (info, net, tr) \<Rightarrow>
                    if \<not> net \<or> \<not> tr then (None, t)
                    else (Some (info\<lparr>SrcPort := tp_src t, DstPort := tp_dst t\<rparr>), t))))"

section \<open>Direction\<close>

record FlowKey =
  fk_LocalAddr :: addr
  fk_LocalPort :: u16
  fk_RemoteAddr :: addr
  fk_RemotePort :: u16
  fk_Proto :: Proto
  fk_Iface :: string

text \<open>\<open>normalise\<close>: the key and whether the packet is inbound, or \<open>None\<close> when neither end is local.\<close>

definition normalise :: "packetInfo \<Rightarrow> string \<Rightarrow> (addr \<Rightarrow> bool) \<Rightarrow> (FlowKey \<times> bool) option" where
  "normalise info iface isLocal =
     (if isLocal (Src info) then
        Some (\<lparr>fk_LocalAddr = Src info, fk_LocalPort = SrcPort info, fk_RemoteAddr = Dst info,
               fk_RemotePort = DstPort info, fk_Proto = pi_Proto info, fk_Iface = iface\<rparr>, False)
      else if isLocal (Dst info) then
        Some (\<lparr>fk_LocalAddr = Dst info, fk_LocalPort = DstPort info, fk_RemoteAddr = Src info,
               fk_RemotePort = SrcPort info, fk_Proto = pi_Proto info, fk_Iface = iface\<rparr>, True)
      else None)"

section \<open>Lemmas\<close>

text \<open>What an IP packet with one transport header decodes to.\<close>

definition ip_packet :: "bool \<Rightarrow> bytes \<Rightarrow> bytes \<Rightarrow> u16 \<Rightarrow> layer" where
  "ip_packet v6 s d n = (if v6 then LIPv6 s d n else LIPv4 s d n)"

definition addr_bytes :: "bool \<Rightarrow> bytes \<Rightarrow> bool" where
  "addr_bytes v6 b \<longleftrightarrow> length b = (if v6 then 16 else 4)"

definition wire_addr :: "bool \<Rightarrow> bytes \<Rightarrow> addr" where
  "wire_addr v6 b = (if v6 then Unmap (AddrV6 b) else AddrV4 b)"

lemma AddrFromSlice_wire: "addr_bytes v6 b \<Longrightarrow> \<exists>a. AddrFromSlice b = Some a \<and> Unmap a = wire_addr v6 b"
  by (simp add: addr_bytes_def AddrFromSlice_def wire_addr_def split: if_splits)

lemma set_addrs_wire:
  "addr_bytes v6 s \<Longrightarrow> addr_bytes v6 d \<Longrightarrow>
     set_addrs s d n info = Some (info\<lparr>Src := wire_addr v6 s, Dst := wire_addr v6 d, Bytes := n\<rparr>)"
  using AddrFromSlice_wire [of v6 s] AddrFromSlice_wire [of v6 d] by (auto simp: set_addrs_def)

definition ip_bytes :: "bool \<Rightarrow> u16 \<Rightarrow> u64" where
  "ip_bytes v6 n = (if v6 then ucast n + ipv6HeaderLen else ucast n)"

lemma decode_loop_ip:
  "addr_bytes v6 s \<Longrightarrow> addr_bytes v6 d \<Longrightarrow>
     decode_loop t (ip_packet v6 s d n # ls) info net tr =
     decode_loop t ls (info\<lparr>Src := wire_addr v6 s, Dst := wire_addr v6 d, Bytes := ip_bytes v6 n\<rparr>) True tr"
  by (cases v6) (simp_all add: ip_packet_def ip_bytes_def set_addrs_wire)

lemma DecodeLayers_ip [simp]: "DecodeLayers (ip_packet v6 s d n # ls) t = DecodeLayers ls t"
  by (simp add: ip_packet_def)

section \<open>Properties\<close>



text \<open>
  A packet without ports is reported with whatever ports the last TCP or UDP packet of
  the handle had, and a TCP packet cut before its flags with that packet's flags: ports of
  ICMP and ARP packets are not zero.
\<close>

theorem portless_packet_stale_ports:
  assumes "addr_bytes v6 s" and "addr_bytes v6 d" and "4 \<le> length data" and "length data < 14"
  shows "(\<exists>info. fst (decode (Some [LOther, ip_packet v6 s d n, LICMP]) t) = Some info \<and>
      pi_Proto info = ProtoICMP \<and> SrcPort info = tp_src t \<and> DstPort info = tp_dst t) \<and>
    (\<exists>info. fst (decode (Some [LOther, ip_packet v6 s d n, LTransport True data]) t) = Some info \<and>
      (SYN info \<longleftrightarrow> tp_flags t AND tcpFlagSYN \<noteq> 0))"
  using assms by (simp add: decode_def decode_loop_ip DecodeFromBytes_def no_info_def Let_def)

theorem portless_packet_stale_ports_witness:
  "\<exists>info. fst (decode (Some [LOther, ip_packet False [10, 0, 0, 1] [1, 1, 1, 1] 84, LICMP])
       (snd (decode (Some [LOther, ip_packet False [10, 0, 0, 1] [1, 1, 1, 1] 60,
          LTransport False [0x1F, 0x90, 0x01, 0xBB]]) \<lparr>tp_src = 0, tp_dst = 0, tp_flags = 0\<rparr>))) = Some info \<and>
     pi_Proto info = ProtoICMP \<and> SrcPort info = 8080 \<and> DstPort info = 443"
proof -
  define t where "t = snd (decode (Some [LOther, ip_packet False [10, 0, 0, 1] [1, 1, 1, 1] 60,
      LTransport False [0x1F, 0x90, 0x01, 0xBB]]) \<lparr>tp_src = 0, tp_dst = 0, tp_flags = 0\<rparr>)"
  have "tp_src t = 8080" "tp_dst t = 443"
    by (simp_all add: t_def decode_def decode_loop_ip addr_bytes_def DecodeFromBytes_def Let_def be16_def)
  then show ?thesis
    using conjunct1 [OF portless_packet_stale_ports [of False "[10, 0, 0, 1]" "[1, 1, 1, 1]" "[0, 0, 0, 0]" 84 t]]
    by (simp add: addr_bytes_def t_def [symmetric])
qed

text \<open>
  The two directions of a connection with one local end give one key, outbound when
  the local end sends and inbound when it receives; a packet with no local end gives none.
\<close>

theorem normalise_directions:
  assumes "isLocal (Src info)" and "\<not> isLocal (Dst info)"
  shows "\<exists>key. normalise info iface isLocal = Some (key, False) \<and>
    normalise (info\<lparr>Src := Dst info, Dst := Src info, SrcPort := DstPort info, DstPort := SrcPort info\<rparr>) iface isLocal =
      Some (key, True) \<and>
    fk_LocalAddr key = Src info \<and> fk_RemoteAddr key = Dst info \<and> fk_LocalPort key = SrcPort info \<and>
    fk_RemotePort key = DstPort info \<and> fk_Proto key = pi_Proto info \<and> fk_Iface key = iface \<and>
    normalise info iface (\<lambda>_. False) = None"
  using assms by (simp add: normalise_def)

theorem normalise_directions_witness:
  "\<exists>key. normalise (no_info\<lparr>Src := AddrV4 [10, 0, 0, 1], SrcPort := 8080\<rparr>) ''eth0'' (\<lambda>a. a = AddrV4 [10, 0, 0, 1]) = Some (key, False)"
  using normalise_directions [of "\<lambda>a. a = AddrV4 [10, 0, 0, 1]" "no_info\<lparr>Src := AddrV4 [10, 0, 0, 1], SrcPort := 8080\<rparr>" "''eth0''"]
  by (auto simp: no_info_def)

end
