(* ===== verification/Event_Rings.thy ===== *)
theory Event_Rings
  imports Go_Time Wire
begin

text \<open>
  The bounded event buffers between the packet loop and its consumers: the five rings of
  \<^verbatim>\<open>src/capture/synevents.go\<close>, \<^verbatim>\<open>rstevents.go\<close>, \<^verbatim>\<open>dns_queries.go\<close>, \<^verbatim>\<open>dns_errors.go\<close> and \<^verbatim>\<open>dns_answers.go\<close>,
  which drop the oldest event when full, and the log feed of \<^verbatim>\<open>logfeed.go\<close>, which drops the newest
  and counts it. The rings share one contract, the locale \<open>drop_oldest\<close>: after any pushes a
  ring holds the latest events, as many as fit. The findings of the DNS inspectors are
  values of any type here.
\<close>

section \<open>Rings\<close>

text \<open>Go's \<^verbatim>\<open>copy(dst, src)\<close>: as many elements as both have, at the start of \<open>dst\<close>.\<close>

definition go_copy :: "'a list \<Rightarrow> 'a list \<Rightarrow> 'a list" where
  "go_copy dst src = take (length dst) src @ drop (length src) dst"

definition synEventRingCapacity :: nat where "synEventRingCapacity = 4096"
definition rstEventRingCapacity :: nat where "rstEventRingCapacity = 4096"
definition dnsQueryRingCapacity :: nat where "dnsQueryRingCapacity = 4096"
definition dnsErrorRingCapacity :: nat where "dnsErrorRingCapacity = 4096"
definition dnsAnswerRingCapacity :: nat where "dnsAnswerRingCapacity = 4096"

record SYNEvent =
  se_Iface :: string
  se_LocalAddr :: addr
  se_LocalPort :: u16
  se_RemoteAddr :: addr
  se_RemotePort :: u16
  se_At :: time

record RSTEvent =
  re_Iface :: string
  re_LocalAddr :: addr
  re_LocalPort :: u16
  re_RemoteAddr :: addr
  re_RemotePort :: u16
  re_At :: time

definition synEventRing_push :: "SYNEvent \<Rightarrow> SYNEvent list \<Rightarrow> SYNEvent list" where
  "synEventRing_push e items =
     (let items = (if synEventRingCapacity \<le> length items
                   then take (length items - 1) (go_copy items (drop 1 items)) else items)
      in items @ [e])"

definition rstEventRing_push :: "RSTEvent \<Rightarrow> RSTEvent list \<Rightarrow> RSTEvent list" where
  "rstEventRing_push e items =
     (let items = (if rstEventRingCapacity \<le> length items
                   then take (length items - 1) (go_copy items (drop 1 items)) else items)
      in items @ [e])"

definition dnsQueryRing_push :: "'f \<Rightarrow> 'f list \<Rightarrow> 'f list" where
  "dnsQueryRing_push f items =
     (let items = (if dnsQueryRingCapacity \<le> length items
                   then take (length items - 1) (go_copy items (drop 1 items)) else items)
      in items @ [f])"

definition dnsErrorRing_push :: "'f \<Rightarrow> 'f list \<Rightarrow> 'f list" where
  "dnsErrorRing_push f items =
     (let items = (if dnsErrorRingCapacity \<le> length items
                   then take (length items - 1) (go_copy items (drop 1 items)) else items)
      in items @ [f])"

definition dnsAnswerRing_push :: "'f \<Rightarrow> 'f list \<Rightarrow> 'f list" where
  "dnsAnswerRing_push f items =
     (let items = (if dnsAnswerRingCapacity \<le> length items
                   then take (length items - 1) (go_copy items (drop 1 items)) else items)
      in items @ [f])"

text \<open>\<open>drain\<close>: everything queued, and an empty ring.\<close>

definition synEventRing_drain :: "SYNEvent list \<Rightarrow> SYNEvent list \<times> SYNEvent list" where
  "synEventRing_drain items = (items, [])"

definition rstEventRing_drain :: "RSTEvent list \<Rightarrow> RSTEvent list \<times> RSTEvent list" where
  "rstEventRing_drain items = (items, [])"

definition dnsRing_drain :: "'f list \<Rightarrow> 'f list \<times> 'f list" where
  "dnsRing_drain items = (items, [])"

section \<open>The contract\<close>

definition latest :: "nat \<Rightarrow> 'a list \<Rightarrow> 'a list" where
  "latest n xs = drop (length xs - n) xs"

lemma latest_length [simp]: "length (latest n xs) = min n (length xs)"
  by (simp add: latest_def)

lemma latest_snoc: "0 < n \<Longrightarrow> latest n (latest n xs @ [x]) = latest n (xs @ [x])"
  by (cases "n \<le> length xs") (simp_all add: latest_def Suc_diff_le)

lemma shift_out:
  assumes "items \<noteq> []"
  shows "take (length items - 1) (go_copy items (drop 1 items)) = drop 1 items"
  using assms by (cases items) (simp_all add: go_copy_def)

locale drop_oldest =
  fixes push :: "'e \<Rightarrow> 'e list \<Rightarrow> 'e list" and capacity :: nat
  assumes capacity_pos: "0 < capacity"
    and push_latest: "length items \<le> capacity \<Longrightarrow> push e items = latest capacity (items @ [e])"
begin

lemma push_bounded: "length items \<le> capacity \<Longrightarrow> length (push e items) \<le> capacity"
  by (simp add: push_latest)

lemma pushes_latest: "fold push es (latest capacity xs) = latest capacity (xs @ es)"
proof (induction es arbitrary: xs)
  case (Cons e es)
  have "push e (latest capacity xs) = latest capacity (xs @ [e])"
    by (simp add: push_latest latest_snoc capacity_pos)
  then show ?case using Cons.IH [of "xs @ [e]"] by simp
qed simp

lemma pushes: "fold push es [] = latest capacity es"
  using pushes_latest [of es "[]"] by (simp add: latest_def)

end

lemma push_is_latest:
  assumes "length items \<le> cap" and "0 < cap"
  shows "(if cap \<le> length items then take (length items - 1) (go_copy items (drop 1 items)) else items) @ [e] =
    latest cap (items @ [e])"
proof (cases "cap \<le> length items")
  case True
  with assms have "items \<noteq> []" and "length items = cap" by auto
  with True assms(2) shift_out [of items] show ?thesis
    by (simp add: latest_def Suc_diff_le)
qed (use assms in \<open>simp add: latest_def\<close>)

interpretation syn_ring: drop_oldest synEventRing_push synEventRingCapacity
proof unfold_locales
  show "0 < synEventRingCapacity" by (simp add: synEventRingCapacity_def)
  then show "length items \<le> synEventRingCapacity \<Longrightarrow> synEventRing_push e items = latest synEventRingCapacity (items @ [e])" for items e
    unfolding synEventRing_push_def Let_def by (rule push_is_latest [rotated])
qed

interpretation rst_ring: drop_oldest rstEventRing_push rstEventRingCapacity
proof unfold_locales
  show "0 < rstEventRingCapacity" by (simp add: rstEventRingCapacity_def)
  then show "length items \<le> rstEventRingCapacity \<Longrightarrow> rstEventRing_push e items = latest rstEventRingCapacity (items @ [e])" for items e
    unfolding rstEventRing_push_def Let_def by (rule push_is_latest [rotated])
qed

interpretation query_ring: drop_oldest dnsQueryRing_push dnsQueryRingCapacity
proof unfold_locales
  show "0 < dnsQueryRingCapacity" by (simp add: dnsQueryRingCapacity_def)
  then show "length items \<le> dnsQueryRingCapacity \<Longrightarrow> dnsQueryRing_push e items = latest dnsQueryRingCapacity (items @ [e])" for items e
    unfolding dnsQueryRing_push_def Let_def by (rule push_is_latest [rotated])
qed

interpretation error_ring: drop_oldest dnsErrorRing_push dnsErrorRingCapacity
proof unfold_locales
  show "0 < dnsErrorRingCapacity" by (simp add: dnsErrorRingCapacity_def)
  then show "length items \<le> dnsErrorRingCapacity \<Longrightarrow> dnsErrorRing_push e items = latest dnsErrorRingCapacity (items @ [e])" for items e
    unfolding dnsErrorRing_push_def Let_def by (rule push_is_latest [rotated])
qed

interpretation answer_ring: drop_oldest dnsAnswerRing_push dnsAnswerRingCapacity
proof unfold_locales
  show "0 < dnsAnswerRingCapacity" by (simp add: dnsAnswerRingCapacity_def)
  then show "length items \<le> dnsAnswerRingCapacity \<Longrightarrow> dnsAnswerRing_push e items = latest dnsAnswerRingCapacity (items @ [e])" for items e
    unfolding dnsAnswerRing_push_def Let_def by (rule push_is_latest [rotated])
qed

section \<open>The log feed\<close>

definition logFeedCapacity :: nat where "logFeedCapacity = 1024"

record 'q logFeed =
  lf_syn :: "SYNEvent list"       \<comment> \<open>what is in the channel\<close>
  lf_dnsQuery :: "'q list"
  synOverflow :: u64
  dnsQueryOverflow :: u64

definition newLogFeed :: "'q logFeed" where
  "newLogFeed = \<lparr>lf_syn = [], lf_dnsQuery = [], synOverflow = 0, dnsQueryOverflow = 0\<rparr>"

definition sendSYN :: "SYNEvent \<Rightarrow> 'q logFeed \<Rightarrow> 'q logFeed" where
  "sendSYN e f =
     (if length (lf_syn f) < logFeedCapacity then f\<lparr>lf_syn := lf_syn f @ [e]\<rparr>
      else f\<lparr>synOverflow := synOverflow f + 1\<rparr>)"

definition sendDNSQuery :: "'q \<Rightarrow> 'q logFeed \<Rightarrow> 'q logFeed" where
  "sendDNSQuery q f =
     (if length (lf_dnsQuery f) < logFeedCapacity then f\<lparr>lf_dnsQuery := lf_dnsQuery f @ [q]\<rparr>
      else f\<lparr>dnsQueryOverflow := dnsQueryOverflow f + 1\<rparr>)"

definition overflow :: "'q logFeed \<Rightarrow> u64 \<times> u64" where
  "overflow f = (synOverflow f, dnsQueryOverflow f)"

lemma sendSYN_run:
  "length (lf_syn f) \<le> logFeedCapacity \<Longrightarrow>
     lf_syn (fold sendSYN es f) = lf_syn f @ take (logFeedCapacity - length (lf_syn f)) es \<and>
     synOverflow (fold sendSYN es f) =
       synOverflow f + of_nat (length es - (logFeedCapacity - length (lf_syn f)))"
proof (induction es arbitrary: f)
  case (Cons e es)
  show ?case
  proof (cases "length (lf_syn f) < logFeedCapacity")
    case True
    then obtain k where k: "logFeedCapacity = length (lf_syn f) + Suc k"
      using less_iff_Suc_add by auto
    have send: "sendSYN e f = f\<lparr>lf_syn := lf_syn f @ [e]\<rparr>"
      using True by (simp add: sendSYN_def)
    have room: "logFeedCapacity - length (lf_syn f) = Suc k" "logFeedCapacity - Suc (length (lf_syn f)) = k"
      using k by simp_all
    show ?thesis
      using Cons.IH [of "sendSYN e f"] True unfolding fold_Cons comp_def send by (simp add: room)
  next
    case False
    with Cons.prems Cons.IH [of "sendSYN e f"] show ?thesis
      by (simp add: sendSYN_def)
  qed
qed simp

section \<open>Properties\<close>

text \<open>
  A ring holds, in order, the latest of all events pushed since the last drain, all of
  them up to its 4096, and draining returns them and leaves it empty.
\<close>

theorem rings_keep_latest:
  "synEventRing_drain (fold synEventRing_push es []) = (latest 4096 es, []) \<and>
   rstEventRing_drain (fold rstEventRing_push rs []) = (latest 4096 rs, []) \<and>
   dnsRing_drain (fold dnsQueryRing_push qs []) = (latest 4096 qs, []) \<and>
   dnsRing_drain (fold dnsErrorRing_push qs []) = (latest 4096 qs, []) \<and>
   dnsRing_drain (fold dnsAnswerRing_push qs []) = (latest 4096 qs, [])"
  by (simp add: synEventRing_drain_def rstEventRing_drain_def dnsRing_drain_def syn_ring.pushes rst_ring.pushes
      query_ring.pushes error_ring.pushes answer_ring.pushes synEventRingCapacity_def rstEventRingCapacity_def
      dnsQueryRingCapacity_def dnsErrorRingCapacity_def dnsAnswerRingCapacity_def)

text \<open>
  An unread log feed holds the first 1024 events sent and counts every further one as
  overflow, so no event is lost without being counted.
\<close>

theorem log_feed_counts_drops:
  "lf_syn (fold sendSYN es (newLogFeed :: 'q logFeed)) = take 1024 es \<and>
   fst (overflow (fold sendSYN es (newLogFeed :: 'q logFeed))) = of_nat (length es - 1024)"
  using sendSYN_run [of "newLogFeed :: 'q logFeed" es] by (simp add: newLogFeed_def overflow_def logFeedCapacity_def)

end
