(* ===== verification/Flow_Table.thy ===== *)
theory Flow_Table
  imports Byte_Counter Flow_Decode
begin

text \<open>
  The flow table of \<^verbatim>\<open>src/capture/pcap.go\<close>: \<open>record\<close>, \<open>Evict\<close> and \<open>Snapshot\<close> of the \<open>Capturer\<close>. The table
  maps a flow to a pointer and the counters live behind the pointers, since a capturing
  goroutine keeps the pointer after it has released the table's lock. Each definition is
  one locked section of the code, so that sections of different goroutines can be
  interleaved; Go does not fix the order in which a map is walked, so a walk takes it as
  an argument.

  The theory shows that recorders on several interfaces never lose a packet among
  themselves, that they always finish, what an eviction removes whatever happens between
  its two sections, and that an eviction can lose a packet that is being recorded.
\<close>

section \<open>The table\<close>

record flow_table =
  ft_flows :: "FlowKey \<rightharpoonup> nat"
  ft_ctrs :: "nat \<Rightarrow> ByteCounter"
  ft_next :: nat

definition new_table :: flow_table where
  "new_table = \<lparr>ft_flows = Map.empty, ft_ctrs = (\<lambda>_. NewByteCounter), ft_next = 0\<rparr>"

text \<open>Changing a counter through its pointer, under the counter's own lock.\<close>

definition on_ctr :: "nat \<Rightarrow> (ByteCounter \<Rightarrow> ByteCounter) \<Rightarrow> flow_table \<Rightarrow> flow_table" where
  "on_ctr p f T = T\<lparr>ft_ctrs := (ft_ctrs T)(p := f (ft_ctrs T p))\<rparr>"

text \<open>The three sections of \<open>record\<close>: under the read lock, under the write lock, on the counter.\<close>

definition record_find :: "FlowKey \<Rightarrow> flow_table \<Rightarrow> nat option" where
  "record_find key T = ft_flows T key"

definition record_make :: "FlowKey \<Rightarrow> flow_table \<Rightarrow> nat \<times> flow_table" where
  "record_make key T =
     (case ft_flows T key of
        Some p \<Rightarrow> (p, T)
      | None \<Rightarrow> (ft_next T, T\<lparr>ft_flows := (ft_flows T)(key \<mapsto> ft_next T),
                   ft_ctrs := (ft_ctrs T)(ft_next T := NewByteCounter), ft_next := Suc (ft_next T)\<rparr>))"

definition record_flow :: "FlowKey \<Rightarrow> time \<Rightarrow> u64 \<Rightarrow> bool \<Rightarrow> flow_table \<Rightarrow> nat \<times> flow_table" where
  "record_flow key ts n inbound T =
     (let (p, T) = (case record_find key T of Some p \<Rightarrow> (p, T) | None \<Rightarrow> record_make key T)
      in (p, on_ctr p (Add ts n inbound) T))"

text \<open>Whether a flow was last seen before the cutoff.\<close>

definition idle :: "time \<Rightarrow> flow_table \<Rightarrow> FlowKey \<Rightarrow> bool" where
  "idle before T k = (case ft_flows T k of None \<Rightarrow> False | Some p \<Rightarrow> LastSeen (ft_ctrs T p) < before)"

text \<open>The two sections of \<open>Evict\<close>: the candidates, and their deletion.\<close>

definition Evict_scan :: "FlowKey list \<Rightarrow> time \<Rightarrow> FlowKey set \<Rightarrow> flow_table \<Rightarrow> FlowKey list" where
  "Evict_scan order before keep T = filter (\<lambda>k. k \<notin> keep \<and> idle before T k) order"

fun Evict_delete :: "time \<Rightarrow> FlowKey list \<Rightarrow> flow_table \<Rightarrow> nat \<times> flow_table" where
  "Evict_delete before [] T = (0, T)"
| "Evict_delete before (k # ks) T =
     (if \<not> idle before T k then Evict_delete before ks T
      else case Evict_delete before ks (T\<lparr>ft_flows := (ft_flows T)(k := None)\<rparr>) of
             (n, T') \<Rightarrow> (Suc n, T'))"

definition Evict :: "FlowKey list \<Rightarrow> time \<Rightarrow> FlowKey set \<Rightarrow> flow_table \<Rightarrow> nat \<times> flow_table" where
  "Evict order before keep T = Evict_delete before (Evict_scan order before keep T) T"

record FlowStats =
  fs_BytesIn :: u64
  fs_BytesOut :: u64
  fs_RateInBps :: real
  fs_RateOutBps :: real
  fs_LastSeen :: time
  fs_Hostname :: string
  fs_Iface :: string

text \<open>\<open>Snapshot\<close> lists the statistics in the order of the walk; asking for a rate expires buckets.\<close>

definition flow_stats :: "time \<Rightarrow> FlowKey \<Rightarrow> ByteCounter \<Rightarrow> FlowStats" where
  "flow_stats now k ctr =
     (let (i, out) = Totals ctr; ((rIn, rOut), ctr') = Rates now ctr
      in \<lparr>fs_BytesIn = i, fs_BytesOut = out, fs_RateInBps = rIn, fs_RateOutBps = rOut,
          fs_LastSeen = LastSeen ctr', fs_Hostname = Hostname ctr', fs_Iface = fk_Iface k\<rparr>)"

fun table_Snapshot :: "FlowKey list \<Rightarrow> time \<Rightarrow> flow_table \<Rightarrow> (FlowKey \<times> FlowStats) list \<times> flow_table" where
  "table_Snapshot [] now T = ([], T)"
| "table_Snapshot (k # ks) now T =
     (case ft_flows T k of
        None \<Rightarrow> table_Snapshot ks now T
      | Some p \<Rightarrow>
          (case table_Snapshot ks now (on_ctr p (\<lambda>c. snd (Rates now c)) T) of
             (out, T') \<Rightarrow> ((k, flow_stats now k (ft_ctrs T p)) # out, T')))"

section \<open>Recorders running at once\<close>

record packet =
  pk_key :: FlowKey
  pk_ts :: time
  pk_n :: u64
  pk_inbound :: bool

text \<open>Where a call of \<open>record\<close> is: before the first section, after a miss, with a counter, done.\<close>

datatype pc = Waiting packet | Missed packet | Have nat packet | Recorded packet

fun pc_packet :: "pc \<Rightarrow> packet" where
  "pc_packet (Waiting pk) = pk"
| "pc_packet (Missed pk) = pk"
| "pc_packet (Have p pk) = pk"
| "pc_packet (Recorded pk) = pk"

definition add_packet :: "packet \<Rightarrow> ByteCounter \<Rightarrow> ByteCounter" where
  "add_packet pk = Add (pk_ts pk) (pk_n pk) (pk_inbound pk)"

inductive rec_step :: "flow_table \<times> pc list \<Rightarrow> flow_table \<times> pc list \<Rightarrow> bool" where
  find_hit: "i < length pcs \<Longrightarrow> pcs ! i = Waiting pk \<Longrightarrow> record_find (pk_key pk) T = Some p \<Longrightarrow>
    rec_step (T, pcs) (T, pcs[i := Have p pk])"
| find_miss: "i < length pcs \<Longrightarrow> pcs ! i = Waiting pk \<Longrightarrow> record_find (pk_key pk) T = None \<Longrightarrow>
    rec_step (T, pcs) (T, pcs[i := Missed pk])"
| make: "i < length pcs \<Longrightarrow> pcs ! i = Missed pk \<Longrightarrow> record_make (pk_key pk) T = (p, T') \<Longrightarrow>
    rec_step (T, pcs) (T', pcs[i := Have p pk])"
| add: "i < length pcs \<Longrightarrow> pcs ! i = Have p pk \<Longrightarrow>
    rec_step (T, pcs) (on_ctr p (add_packet pk) T, pcs[i := Recorded pk])"

text \<open>The same with one evictor, which has a list of candidates between its two sections.\<close>

inductive capture_step ::
    "flow_table \<times> pc list \<times> (time \<times> FlowKey list) option \<Rightarrow>
     flow_table \<times> pc list \<times> (time \<times> FlowKey list) option \<Rightarrow> bool" where
  record_section: "rec_step (T, pcs) (T', pcs') \<Longrightarrow> capture_step (T, pcs, e) (T', pcs', e)"
| scan: "set order = dom (ft_flows T) \<Longrightarrow>
    capture_step (T, pcs, None) (T, pcs, Some (before, Evict_scan order before keep T))"
| delete: "capture_step (T, pcs, Some (before, stale)) (snd (Evict_delete before stale T), pcs, None)"

inductive_cases rec_stepE: "rec_step (T, pcs) w"

section \<open>Lemmas\<close>

lemma on_ctr_simps [simp]:
  "ft_flows (on_ctr p f T) = ft_flows T" "ft_next (on_ctr p f T) = ft_next T"
  "ft_ctrs (on_ctr p f T) = (ft_ctrs T)(p := f (ft_ctrs T p))"
  by (simp_all add: on_ctr_def)

lemma add_packet_totals:
  "bytesIn (add_packet pk c) = bytesIn c + (if pk_inbound pk then pk_n pk else 0)"
  "bytesOut (add_packet pk c) = bytesOut c + (if pk_inbound pk then 0 else pk_n pk)"
  by (simp_all add: add_packet_def Add_def Let_def)

lemma sum_list_list_update:
  fixes f :: "'a \<Rightarrow> 'b::ab_group_add"
  assumes "i < length xs"
  shows "(\<Sum>x\<leftarrow>xs[i := y]. f x) = (\<Sum>x\<leftarrow>xs. f x) - f (xs ! i) + f y"
  using assms
proof (induction xs arbitrary: i)
  case (Cons x xs)
  then show ?case by (cases i) (simp_all add: algebra_simps)
qed simp

text \<open>The bytes of the packets of one flow and direction that are recorded.\<close>

definition pc_bytes :: "bool \<Rightarrow> FlowKey \<Rightarrow> pc \<Rightarrow> u64" where
  "pc_bytes inbound k c =
     (case c of Recorded pk \<Rightarrow> if pk_key pk = k \<and> pk_inbound pk = inbound then pk_n pk else 0 | _ \<Rightarrow> 0)"

definition recorded_bytes :: "bool \<Rightarrow> FlowKey \<Rightarrow> pc list \<Rightarrow> u64" where
  "recorded_bytes inbound k pcs = (\<Sum>c\<leftarrow>pcs. pc_bytes inbound k c)"

lemma pc_bytes_simps [simp]:
  "pc_bytes d k (Waiting pk) = 0" "pc_bytes d k (Missed pk) = 0" "pc_bytes d k (Have p pk) = 0"
  "pc_bytes d k (Recorded pk) = (if pk_key pk = k \<and> pk_inbound pk = d then pk_n pk else 0)"
  by (simp_all add: pc_bytes_def)

text \<open>Moving on without recording changes no sum; recording adds the packet to its own flow.\<close>

lemma recorded_bytes_update:
  "i < length pcs \<Longrightarrow> pc_bytes d k (pcs ! i) = 0 \<Longrightarrow>
     recorded_bytes d k (pcs[i := c]) = recorded_bytes d k pcs + pc_bytes d k c"
  by (simp add: recorded_bytes_def sum_list_list_update)

definition table_wf :: "flow_table \<Rightarrow> bool" where
  "table_wf T \<longleftrightarrow> (\<forall>k p. ft_flows T k = Some p \<longrightarrow> p < ft_next T) \<and>
     (\<forall>k k' p. ft_flows T k = Some p \<longrightarrow> ft_flows T k' = Some p \<longrightarrow> k = k')"

text \<open>
  What holds while only recorders run: a recorder with a counter has the one in the table,
  and the counter of a flow has the bytes of exactly the recorded packets of the flow.
\<close>

definition rec_inv :: "flow_table \<times> pc list \<Rightarrow> bool" where
  "rec_inv w \<longleftrightarrow> (case w of (T, pcs) \<Rightarrow>
     table_wf T \<and>
     (\<forall>p pk. Have p pk \<in> set pcs \<longrightarrow> ft_flows T (pk_key pk) = Some p) \<and>
     (\<forall>pk. Recorded pk \<in> set pcs \<longrightarrow> ft_flows T (pk_key pk) \<noteq> None) \<and>
     (\<forall>k p. ft_flows T k = Some p \<longrightarrow>
        Totals (ft_ctrs T p) = (recorded_bytes True k pcs, recorded_bytes False k pcs)))"

lemma rec_invI:
  assumes "table_wf T" and "\<And>p pk. Have p pk \<in> set pcs \<Longrightarrow> ft_flows T (pk_key pk) = Some p"
    and "\<And>pk. Recorded pk \<in> set pcs \<Longrightarrow> ft_flows T (pk_key pk) \<noteq> None"
    and "\<And>k p. ft_flows T k = Some p \<Longrightarrow>
       Totals (ft_ctrs T p) = (recorded_bytes True k pcs, recorded_bytes False k pcs)"
  shows "rec_inv (T, pcs)"
  using assms by (auto simp: rec_inv_def)

lemma rec_invD:
  assumes "rec_inv (T, pcs)"
  shows "table_wf T" and "Have p pk \<in> set pcs \<Longrightarrow> ft_flows T (pk_key pk) = Some p"
    and "Recorded pk \<in> set pcs \<Longrightarrow> ft_flows T (pk_key pk) \<noteq> None"
    and "ft_flows T k = Some q \<Longrightarrow>
       Totals (ft_ctrs T q) = (recorded_bytes True k pcs, recorded_bytes False k pcs)"
  using assms by (auto simp: rec_inv_def)

lemma table_wfD: "table_wf T \<Longrightarrow> ft_flows T k = Some p \<Longrightarrow> ft_flows T k' = Some p \<Longrightarrow> k = k'"
  by (simp add: table_wf_def)

lemma table_wf_less: "table_wf T \<Longrightarrow> ft_flows T k = Some p \<Longrightarrow> p < ft_next T"
  by (simp add: table_wf_def)

lemma table_wf_on_ctr [simp]: "table_wf (on_ctr p f T) = table_wf T"
  by (simp add: table_wf_def)

lemma table_wf_new: "table_wf new_table"
  by (simp add: table_wf_def new_table_def)

lemma record_make_wf:
  assumes "table_wf T" and "record_make k T = (p, T')"
  shows "table_wf T'" and "ft_flows T' k = Some p"
proof -
  have fresh: "ft_next T \<notin> ran (ft_flows T)"
    using assms(1) by (auto simp: table_wf_def ran_def)
  show "ft_flows T' k = Some p" using assms(2) by (auto simp: record_make_def split: option.splits)
  show "table_wf T'"
    using assms fresh unfolding table_wf_def record_make_def
    by (auto simp: ran_def less_Suc_eq split: option.splits if_splits)
qed

lemma in_set_updateD: "x \<in> set (xs[i := y]) \<Longrightarrow> x \<in> set xs \<or> x = y"
  using set_update_subset_insert by fastforce

text \<open>A flow without a counter has no recorded bytes.\<close>

lemma recorded_bytes_none:
  assumes "rec_inv (T, pcs)" and "ft_flows T k = None"
  shows "recorded_bytes d k pcs = 0"
proof -
  have "pc_bytes d k c = 0" if "c \<in> set pcs" for c
    using rec_invD(3) [OF assms(1), of "pc_packet c"] assms(2) that by (cases c) auto
  then have "map (pc_bytes d k) pcs = map (\<lambda>_. 0) pcs" by (intro map_cong) auto
  then show ?thesis by (simp add: recorded_bytes_def sum_list_triv del: map_eq_conv)
qed

text \<open>A recorder moves on in the same table, without recording.\<close>

lemma rec_inv_move:
  assumes inv: "rec_inv (T, pcs)" and i: "i < length pcs" "\<And>d k. pc_bytes d k (pcs ! i) = 0"
    and c: "\<And>d k. pc_bytes d k c = 0" "\<And>pk. c \<noteq> Recorded pk" "\<And>p pk. c = Have p pk \<Longrightarrow> ft_flows T (pk_key pk) = Some p"
  shows "rec_inv (T, pcs[i := c])"
proof (rule rec_invI)
  show "table_wf T" by (rule rec_invD(1) [OF inv])
  show "ft_flows T (pk_key pk) = Some p" if "Have p pk \<in> set (pcs[i := c])" for p pk
    using in_set_updateD [OF that] c(3) [of p pk] rec_invD(2) [OF inv, of p pk] by blast
  show "ft_flows T (pk_key pk) \<noteq> None" if "Recorded pk \<in> set (pcs[i := c])" for pk
    using in_set_updateD [OF that] c(2) [of pk] rec_invD(3) [OF inv, of pk] by blast
  show "Totals (ft_ctrs T p) = (recorded_bytes True k (pcs[i := c]), recorded_bytes False k (pcs[i := c]))"
    if "ft_flows T k = Some p" for k p
    using rec_invD(4) [OF inv that] i c(1) by (simp add: recorded_bytes_update)
qed

lemma rec_inv_make:
  assumes inv: "rec_inv (T, pcs)" and m: "record_make key T = (p, T')"
  shows "rec_inv (T', pcs)" and "ft_flows T' key = Some p"
proof -
  note wf = record_make_wf [OF rec_invD(1) [OF inv] m]
  show "ft_flows T' key = Some p" by (rule wf(2))
  have keep: "ft_flows T' k = Some q" "ft_ctrs T' q = ft_ctrs T q" if "ft_flows T k = Some q" for k q
    using m that table_wf_less [OF rec_invD(1) [OF inv] that]
    by (auto simp: record_make_def split: option.splits)
  have new: "ft_flows T k = Some q \<or> ft_flows T k = None \<and> ft_ctrs T' q = NewByteCounter"
    if "ft_flows T' k = Some q" for k q
    using m that by (auto simp: record_make_def split: option.splits if_splits)
  show "rec_inv (T', pcs)"
  proof (rule rec_invI [OF wf(1)])
    show "ft_flows T' (pk_key pk) = Some q" if "Have q pk \<in> set pcs" for q pk
      by (rule keep(1) [OF rec_invD(2) [OF inv that]])
    show "ft_flows T' (pk_key pk) \<noteq> None" if "Recorded pk \<in> set pcs" for pk
      using rec_invD(3) [OF inv that] keep(1) by fastforce
    show "Totals (ft_ctrs T' q) = (recorded_bytes True k pcs, recorded_bytes False k pcs)"
      if "ft_flows T' k = Some q" for k q
      using new [OF that]
    proof
      assume q: "ft_flows T k = Some q"
      show ?thesis unfolding keep(2) [OF q] by (rule rec_invD(4) [OF inv q])
    next
      assume "ft_flows T k = None \<and> ft_ctrs T' q = NewByteCounter"
      then show ?thesis by (simp add: recorded_bytes_none [OF inv] Totals_def NewByteCounter_def)
    qed
  qed
qed

lemma rec_inv_add:
  assumes inv: "rec_inv (T, pcs)" and i: "i < length pcs" "pcs ! i = Have p pk"
  shows "rec_inv (on_ctr p (add_packet pk) T, pcs[i := Recorded pk])"
proof -
  have p: "ft_flows T (pk_key pk) = Some p"
    by (rule rec_invD(2) [OF inv]) (use i nth_mem in metis)
  have b: "recorded_bytes d k (pcs[i := Recorded pk]) =
      recorded_bytes d k pcs + (if pk_key pk = k \<and> pk_inbound pk = d then pk_n pk else 0)" for d k
    using i by (simp add: recorded_bytes_update)
  show ?thesis
  proof (rule rec_invI, unfold on_ctr_simps)
    show "table_wf (on_ctr p (add_packet pk) T)" using rec_invD(1) [OF inv] by simp
    show "ft_flows T (pk_key pk') = Some q" if "Have q pk' \<in> set (pcs[i := Recorded pk])" for q pk'
      using in_set_updateD [OF that] rec_invD(2) [OF inv, of q pk'] by blast
    show "ft_flows T (pk_key pk') \<noteq> None" if "Recorded pk' \<in> set (pcs[i := Recorded pk])" for pk'
      using in_set_updateD [OF that] rec_invD(3) [OF inv, of pk'] p by auto
    show "Totals (((ft_ctrs T)(p := add_packet pk (ft_ctrs T p))) q) =
        (recorded_bytes True k (pcs[i := Recorded pk]), recorded_bytes False k (pcs[i := Recorded pk]))"
      if q: "ft_flows T k = Some q" for k q
    proof (cases "k = pk_key pk")
      case True
      with p q have "q = p" by simp
      then show ?thesis using rec_invD(4) [OF inv q] True by (simp add: b Totals_def add_packet_totals)
    next
      case False
      then have "q \<noteq> p" using table_wfD [OF rec_invD(1) [OF inv] q] p by metis
      then show ?thesis using rec_invD(4) [OF inv q] False by (auto simp: b)
    qed
  qed
qed

lemma rec_inv_step:
  assumes "rec_step (T, pcs) (T', pcs')" and inv: "rec_inv (T, pcs)"
  shows "rec_inv (T', pcs')"
  using assms(1)
proof cases
  case (find_hit i pk p)
  then show ?thesis by (auto simp: record_find_def intro!: rec_inv_move [OF inv])
next
  case (find_miss i pk)
  then show ?thesis by (auto intro!: rec_inv_move [OF inv])
next
  case (make i pk p)
  note m = rec_inv_make [OF inv make(4)]
  show ?thesis unfolding make(1)
    by (rule rec_inv_move [OF m(1) make(2)]) (use make(3) m(2) in simp_all)
next
  case (add i p pk)
  then show ?thesis by (simp add: rec_inv_add [OF inv])
qed

interpretation recorders: step_invariant rec_step rec_inv
  by unfold_locales (auto elim: rec_inv_step)

lemma rec_inv_start: "rec_inv (new_table, map Waiting pks)"
  by (rule rec_invI) (auto simp: table_wf_new, simp add: new_table_def)

lemma rec_step_packets: "rec_step w w' \<Longrightarrow> map pc_packet (snd w') = map pc_packet (snd w)"
proof (induction rule: rec_step.induct)
  case (find_hit i pcs pk T p)
  then show ?case by (metis list_update_id map_update nth_map pc_packet.simps(1,3) snd_conv)
next
  case (find_miss i pcs pk T)
  then show ?case by (metis list_update_id map_update nth_map pc_packet.simps(1,2) snd_conv)
next
  case (make i pcs pk T p T')
  then show ?case by (metis list_update_id map_update nth_map pc_packet.simps(2,3) snd_conv)
next
  case (add i pcs p pk T)
  then show ?case by (metis list_update_id map_update nth_map pc_packet.simps(3,4) snd_conv)
qed

lemma rec_steps_packets: "rec_step\<^sup>*\<^sup>* w w' \<Longrightarrow> map pc_packet (snd w') = map pc_packet (snd w)"
  by (induction rule: rtranclp_induct) (auto dest: rec_step_packets)

text \<open>The sections a recorder still has to run, at most; every step runs one.\<close>

fun pc_left :: "pc \<Rightarrow> nat" where
  "pc_left (Waiting pk) = 3"
| "pc_left (Missed pk) = 2"
| "pc_left (Have p pk) = 1"
| "pc_left (Recorded pk) = 0"

definition sections_left :: "pc list \<Rightarrow> nat" where
  "sections_left pcs = (\<Sum>c\<leftarrow>pcs. pc_left c)"

lemma sections_left_update:
  assumes "i < length pcs" and "pc_left c < pc_left (pcs ! i)"
  shows "sections_left (pcs[i := c]) < sections_left pcs"
  using assms
proof (induction pcs arbitrary: i)
  case (Cons x pcs)
  then show ?case by (cases i) (auto simp: sections_left_def)
qed simp

lemma rec_step_decreases: "rec_step w w' \<Longrightarrow> sections_left (snd w') < sections_left (snd w)"
  by (induction rule: rec_step.induct) (auto intro!: sections_left_update)

lemma rec_step_progress:
  assumes "sections_left pcs \<noteq> 0"
  shows "\<exists>w. rec_step (T, pcs) w"
proof -
  obtain c where "c \<in> set pcs" "pc_left c \<noteq> 0"
    using assms by (auto simp: sections_left_def)
  then obtain i where i: "i < length pcs" "pcs ! i = c" by (auto simp: in_set_conv_nth)
  show ?thesis
  proof (cases c)
    case (Waiting pk)
    then show ?thesis
      using i rec_step.find_hit [of i pcs pk T] rec_step.find_miss [of i pcs pk T]
      by (cases "record_find (pk_key pk) T") blast+
  next
    case (Missed pk)
    then show ?thesis using i rec_step.make [of i pcs pk T] by (metis surj_pair)
  next
    case (Have p pk)
    then show ?thesis using i rec_step.add [of i pcs p pk T] by blast
  qed (use \<open>pc_left c \<noteq> 0\<close> in simp)
qed

lemma all_recorded:
  assumes "sections_left pcs = 0"
  shows "pcs = map Recorded (map pc_packet pcs)"
proof -
  have "Recorded (pc_packet c) = c" if "c \<in> set pcs" for c
    using assms that by (cases c) (auto simp: sections_left_def)
  then show ?thesis by (simp add: map_idI)
qed
text \<open>What one deletion pass removes, and how many flows.\<close>

lemma idle_other: "k \<noteq> k' \<Longrightarrow> idle before (T\<lparr>ft_flows := (ft_flows T)(k := None)\<rparr>) k' = idle before T k'"
  by (simp add: idle_def split: option.split)

lemma idle_gone: "\<not> idle before (T\<lparr>ft_flows := (ft_flows T)(k := None)\<rparr>) k"
  by (simp add: idle_def)

lemma Evict_delete_result:
  "snd (Evict_delete before ks T) =
     T\<lparr>ft_flows := (\<lambda>k. if k \<in> set ks \<and> idle before T k then None else ft_flows T k)\<rparr> \<and>
   fst (Evict_delete before ks T) = card {k \<in> set ks. idle before T k}"
proof (induction ks arbitrary: T)
  case (Cons k ks)
  show ?case
  proof (cases "idle before T k")
    case False
    then have "{x \<in> set (k # ks). idle before T x} = {x \<in> set ks. idle before T x}" by auto
    with False Cons.IH [of T] show ?thesis by (auto simp: fun_eq_iff)
  next
    case True
    define T1 where "T1 = T\<lparr>ft_flows := (ft_flows T)(k := None)\<rparr>"
    have i: "idle before T1 x \<longleftrightarrow> x \<noteq> k \<and> idle before T x" for x
      unfolding T1_def using idle_other [of k x before T] idle_gone [of before T k] by metis
    have "{x \<in> set (k # ks). idle before T x} = insert k {x \<in> set ks. idle before T1 x}"
      using True by (auto simp: i)
    moreover have "k \<notin> {x \<in> set ks. idle before T1 x}" by (simp add: i)
    ultimately have "card {x \<in> set (k # ks). idle before T x} = Suc (card {x \<in> set ks. idle before T1 x})"
      by simp
    moreover have "Evict_delete before (k # ks) T =
        (Suc (fst (Evict_delete before ks T1)), snd (Evict_delete before ks T1))"
      using True by (simp add: T1_def split: prod.split)
    moreover have "(\<lambda>x. if x \<in> set ks \<and> idle before T1 x then None else ft_flows T1 x) =
        (\<lambda>x. if x \<in> set (k # ks) \<and> idle before T x then None else ft_flows T x)"
      using True by (auto simp: fun_eq_iff i) (auto simp: T1_def)
    ultimately show ?thesis
      using Cons.IH [of T1] by (simp add: T1_def del: set_simps)
  qed
qed simp

section \<open>Properties\<close>

text \<open>The bytes of a flow in each direction, none when the table does not have it.\<close>

definition flow_totals :: "flow_table \<Rightarrow> FlowKey \<Rightarrow> u64 \<times> u64" where
  "flow_totals T k = (case ft_flows T k of None \<Rightarrow> (0, 0) | Some p \<Rightarrow> Totals (ft_ctrs T p))"

definition packet_bytes :: "bool \<Rightarrow> FlowKey \<Rightarrow> packet list \<Rightarrow> u64" where
  "packet_bytes inbound k pks =
     (\<Sum>pk\<leftarrow>filter (\<lambda>pk. pk_key pk = k \<and> pk_inbound pk = inbound) pks. pk_n pk)"

lemma recorded_bytes_all: "recorded_bytes d k (map Recorded pks) = packet_bytes d k pks"
  by (induction pks) (simp_all add: recorded_bytes_def packet_bytes_def)

text \<open>
  C20: packets recorded by goroutines that run at once, their locked sections interleaved in
  any way, are all counted: afterwards each flow has the bytes of exactly its packets in
  each direction, the same as if they had been recorded one after the other.
\<close>

theorem concurrent_recording:
  assumes "rec_step\<^sup>*\<^sup>* (new_table, map Waiting pks) (T, map Recorded pks)"
  shows "flow_totals T k = (packet_bytes True k pks, packet_bytes False k pks)"
proof -
  have inv: "rec_inv (T, map Recorded pks)" using assms rec_inv_start by (rule recorders.run_keeps)
  show ?thesis
  proof (cases "ft_flows T k")
    case None
    with recorded_bytes_none [OF inv] show ?thesis by (simp add: flow_totals_def recorded_bytes_all)
  next
    case (Some p)
    with rec_invD(4) [OF inv Some] show ?thesis by (simp add: flow_totals_def recorded_bytes_all)
  qed
qed


definition sample_flow :: FlowKey where
  "sample_flow = \<lparr>fk_LocalAddr = AddrV4 [10, 0, 0, 1], fk_LocalPort = 8080, fk_RemoteAddr = AddrV4 [1, 1, 1, 1],
     fk_RemotePort = 443, fk_Proto = ProtoTCP, fk_Iface = ''eth0''\<rparr>"

definition sample_packet :: "time \<Rightarrow> u64 \<Rightarrow> packet" where
  "sample_packet t n = \<lparr>pk_key = sample_flow, pk_ts = t, pk_n = n, pk_inbound = True\<rparr>"

text \<open>Two recorders of a new flow that both miss it before either makes its counter.\<close>

lemma two_recorders:
  "\<exists>T. rec_step\<^sup>*\<^sup>* (new_table, map Waiting [sample_packet 1 100, sample_packet 2 50])
         (T, map Recorded [sample_packet 1 100, sample_packet 2 50])"
proof -
  let ?a = "sample_packet 1 100" and ?b = "sample_packet 2 50"
  define T1 where "T1 = snd (record_make sample_flow new_table)"
  have m: "record_make sample_flow new_table = (0, T1)" "record_make sample_flow T1 = (0, T1)"
    by (simp_all add: T1_def record_make_def new_table_def)
  have k: "pk_key ?a = sample_flow" "pk_key ?b = sample_flow" by (simp_all add: sample_packet_def)
  have f: "record_find sample_flow new_table = None" by (simp add: record_find_def new_table_def)
  have s1: "rec_step (new_table, [Waiting ?a, Waiting ?b]) (new_table, [Missed ?a, Waiting ?b])"
    using rec_step.find_miss [of 0 "[Waiting ?a, Waiting ?b]" ?a new_table] by (simp add: k f)
  have s2: "rec_step (new_table, [Missed ?a, Waiting ?b]) (new_table, [Missed ?a, Missed ?b])"
    using rec_step.find_miss [of 1 "[Missed ?a, Waiting ?b]" ?b new_table] by (simp add: k f)
  have s3: "rec_step (new_table, [Missed ?a, Missed ?b]) (T1, [Missed ?a, Have 0 ?b])"
    using rec_step.make [of 1 "[Missed ?a, Missed ?b]" ?b new_table] by (simp add: k m)
  have s4: "rec_step (T1, [Missed ?a, Have 0 ?b]) (T1, [Have 0 ?a, Have 0 ?b])"
    using rec_step.make [of 0 "[Missed ?a, Have 0 ?b]" ?a T1] by (simp add: k m)
  have s5: "rec_step (T1, [Have 0 ?a, Have 0 ?b]) (on_ctr 0 (add_packet ?b) T1, [Have 0 ?a, Recorded ?b])"
    using rec_step.add [of 1 "[Have 0 ?a, Have 0 ?b]" 0 ?b T1] by simp
  have s6: "rec_step (on_ctr 0 (add_packet ?b) T1, [Have 0 ?a, Recorded ?b])
      (on_ctr 0 (add_packet ?a) (on_ctr 0 (add_packet ?b) T1), [Recorded ?a, Recorded ?b])"
    using rec_step.add [of 0 "[Have 0 ?a, Recorded ?b]" 0 ?a] by simp
  note step = converse_rtranclp_into_rtranclp [where r = rec_step]
  show ?thesis unfolding list.map
    by (rule exI, rule step [OF s1 step [OF s2 step [OF s3 step [OF s4 step [OF s5 step [OF s6]]]]]]) (rule rtranclp.rtrancl_refl)
qed

theorem concurrent_recording_witness:
  "\<exists>T. rec_step\<^sup>*\<^sup>* (new_table, map Waiting [sample_packet 1 100, sample_packet 2 50])
         (T, map Recorded [sample_packet 1 100, sample_packet 2 50]) \<and>
     flow_totals T sample_flow = (150, 0)"
proof -
  obtain T where T: "rec_step\<^sup>*\<^sup>* (new_table, map Waiting [sample_packet 1 100, sample_packet 2 50])
      (T, map Recorded [sample_packet 1 100, sample_packet 2 50])"
    using two_recorders by blast
  with concurrent_recording [OF T, of sample_flow] show ?thesis
    by (auto simp: packet_bytes_def sample_packet_def)
qed

text \<open>
  C22: an eviction removes exactly the flows that it walked over, that are not to be kept, and
  that were idle both when it looked for candidates and when it deleted, whatever happened
  to the table in between; it counts them, and it changes no counter.
\<close>

theorem evict_exact:
  "snd (Evict_delete before (Evict_scan order before keep T1) T2) =
     T2\<lparr>ft_flows := (\<lambda>k. if k \<in> set order \<and> k \<notin> keep \<and> idle before T1 k \<and> idle before T2 k
                      then None else ft_flows T2 k)\<rparr> \<and>
   fst (Evict_delete before (Evict_scan order before keep T1) T2) =
     card {k \<in> set order. k \<notin> keep \<and> idle before T1 k \<and> idle before T2 k}"
  using Evict_delete_result [of before "Evict_scan order before keep T1" T2]
  by (simp add: Evict_scan_def conj_ac)

text \<open>
  A packet can be lost to an eviction nevertheless: a goroutine that has fetched the
  counter of an idle flow and is about to add a packet to it adds it to a counter that is
  no longer in the table when the eviction comes first, although the packet is newer than
  the cutoff.
\<close>

theorem evict_loses_packet:
  assumes "pk_key a = k" and "pk_key b = k" and "pk_ts a < before" and "0 < before" and "before \<le> pk_ts b"
  shows "\<exists>T1 T2 p. capture_step\<^sup>*\<^sup>* (new_table, [Waiting a, Waiting b], None)
           (T1, [Recorded a, Have p b], Some (before, [k])) \<and>
     capture_step\<^sup>*\<^sup>* (T1, [Recorded a, Have p b], Some (before, [k])) (T2, [Recorded a, Recorded b], None) \<and>
     ft_flows T2 k = None \<and> flow_totals T2 k = (0, 0)"
proof -
  define T0 where "T0 = snd (record_make k new_table)"
  define T1 where "T1 = on_ctr 0 (add_packet a) T0"
  define T2 where "T2 = T1\<lparr>ft_flows := (ft_flows T1)(k := None)\<rparr>"
  have m: "record_find k new_table = None" "record_make k new_table = (0, T0)"
    by (simp_all add: T0_def record_find_def record_make_def new_table_def)
  have f: "ft_flows T1 = [k \<mapsto> 0]"
    by (simp add: T0_def T1_def record_make_def new_table_def)
  have seen: "LastSeen (ft_ctrs T1 0) < before"
    using assms(3,4) by (simp add: T1_def T0_def record_make_def new_table_def add_packet_def Add_def Let_def
        LastSeen_def NewByteCounter_def advance_def IsZero_def)
  then have scan: "Evict_scan [k] before {} T1 = [k]" by (simp add: Evict_scan_def idle_def f)
  have del: "snd (Evict_delete before [k] T1) = T2" using seen by (simp add: idle_def f T2_def)
  have s1: "capture_step (new_table, [Waiting a, Waiting b], None) (new_table, [Missed a, Waiting b], None)"
    using rec_step.find_miss [of 0 "[Waiting a, Waiting b]" a new_table] by (intro record_section) (simp add: assms m)
  have s2: "capture_step (new_table, [Missed a, Waiting b], None) (T0, [Have 0 a, Waiting b], None)"
    using rec_step.make [of 0 "[Missed a, Waiting b]" a new_table] by (intro record_section) (simp add: assms m)
  have s3: "capture_step (T0, [Have 0 a, Waiting b], None) (T1, [Recorded a, Waiting b], None)"
    using rec_step.add [of 0 "[Have 0 a, Waiting b]" 0 a T0] by (intro record_section) (simp add: T1_def)
  have s4: "capture_step (T1, [Recorded a, Waiting b], None) (T1, [Recorded a, Have 0 b], None)"
    using rec_step.find_hit [of 1 "[Recorded a, Waiting b]" b T1 0] by (intro record_section) (simp add: assms record_find_def f)
  have s5: "capture_step (T1, [Recorded a, Have 0 b], None) (T1, [Recorded a, Have 0 b], Some (before, [k]))"
    using capture_step.scan [of "[k]" T1 "[Recorded a, Have 0 b]" before "{}"] by (simp add: f scan)
  have s6: "capture_step (T1, [Recorded a, Have 0 b], Some (before, [k])) (T2, [Recorded a, Have 0 b], None)"
    using capture_step.delete [of T1 "[Recorded a, Have 0 b]" before "[k]"] by (simp only: del)
  have s7: "capture_step (T2, [Recorded a, Have 0 b], None) (on_ctr 0 (add_packet b) T2, [Recorded a, Recorded b], None)"
    using rec_step.add [of 1 "[Recorded a, Have 0 b]" 0 b T2] by (intro record_section) simp
  note step = converse_rtranclp_into_rtranclp [where r = capture_step]
  have "capture_step\<^sup>*\<^sup>* (new_table, [Waiting a, Waiting b], None) (T1, [Recorded a, Have 0 b], Some (before, [k]))"
    by (rule step [OF s1 step [OF s2 step [OF s3 step [OF s4 step [OF s5]]]]]) (rule rtranclp.rtrancl_refl)
  moreover have "capture_step\<^sup>*\<^sup>* (T1, [Recorded a, Have 0 b], Some (before, [k]))
      (on_ctr 0 (add_packet b) T2, [Recorded a, Recorded b], None)"
    by (rule step [OF s6 step [OF s7]]) (rule rtranclp.rtrancl_refl)
  moreover have "ft_flows (on_ctr 0 (add_packet b) T2) k = None" by (simp add: T2_def)
  moreover from this have "flow_totals (on_ctr 0 (add_packet b) T2) k = (0, 0)" by (simp add: flow_totals_def)
  ultimately show ?thesis by blast
qed

theorem evict_loses_packet_witness:
  "\<exists>T1 T2 p. capture_step\<^sup>*\<^sup>* (new_table, [Waiting (sample_packet 1 100), Waiting (sample_packet 9 50)], None)
       (T1, [Recorded (sample_packet 1 100), Have p (sample_packet 9 50)], Some (5, [sample_flow])) \<and>
     capture_step\<^sup>*\<^sup>* (T1, [Recorded (sample_packet 1 100), Have p (sample_packet 9 50)], Some (5, [sample_flow]))
       (T2, [Recorded (sample_packet 1 100), Recorded (sample_packet 9 50)], None) \<and>
     ft_flows T2 sample_flow = None \<and> flow_totals T2 sample_flow = (0, 0)"
  by (rule evict_loses_packet) (simp_all add: sample_packet_def)

text \<open>A recorded packet is newer than the flow's last, so a recorded flow is not idle before it.\<close>

lemma lastSeen_Add: "lastSeen (Add t n d c) = max (lastSeen c) t"
proof -
  have "lastSeen ((roll ^^ k) c) = lastSeen c" for k c
    by (induction k) (simp_all add: roll_def Let_def)
  then have "lastSeen (advance t c) = lastSeen c"
    by (simp add: advance_def Let_def)
  then show ?thesis by (simp add: Add_def Let_def max_def)
qed
text \<open>What a snapshot lists and what it leaves as it was.\<close>

lemma Rates_keeps: "Totals (snd (Rates now c)) = Totals c" "LastSeen (snd (Rates now c)) = LastSeen c"
proof -
  have r: "lastSeen ((roll ^^ k) c) = lastSeen c" for k c
    by (induction k) (simp_all add: roll_def Let_def)
  show "Totals (snd (Rates now c)) = Totals c"
    by (simp add: Rates_def Let_def Totals_def)
  show "LastSeen (snd (Rates now c)) = LastSeen c"
    by (simp add: Rates_def Let_def LastSeen_def advance_def r)
qed

lemma table_Snapshot_keeps:
  "ft_flows (snd (table_Snapshot order now T)) = ft_flows T \<and>
   flow_totals (snd (table_Snapshot order now T)) = flow_totals T \<and>
   idle before (snd (table_Snapshot order now T)) = idle before T"
proof (induction order arbitrary: T)
  case (Cons k ks)
  have s: "flow_totals (on_ctr p (\<lambda>c. snd (Rates now c)) T) = flow_totals T"
      "idle before (on_ctr p (\<lambda>c. snd (Rates now c)) T) = idle before T" for p
    by (auto simp: fun_eq_iff flow_totals_def idle_def Rates_keeps split: option.split)
  show ?case
  proof (cases "ft_flows T k")
    case None
    then show ?thesis using Cons.IH by simp
  next
    case (Some p)
    then have "snd (table_Snapshot (k # ks) now T) = snd (table_Snapshot ks now (on_ctr p (\<lambda>c. snd (Rates now c)) T))"
      by (simp add: case_prod_beta)
    then show ?thesis using Cons.IH [of "on_ctr p (\<lambda>c. snd (Rates now c)) T"] s [of p] by simp
  qed
qed simp

lemma map_filter_eqI: "(\<And>x. x \<in> set xs \<Longrightarrow> f x = g x) \<Longrightarrow> List.map_filter f xs = List.map_filter g xs"
  by (induction xs) (simp_all add: map_filter_simps split: option.split)

lemma table_Snapshot_lists:
  assumes "table_wf T" and "distinct order"
  shows "fst (table_Snapshot order now T) =
    List.map_filter (\<lambda>k. map_option (\<lambda>p. (k, flow_stats now k (ft_ctrs T p))) (ft_flows T k)) order"
  using assms
proof (induction order arbitrary: T)
  case (Cons k ks)
  show ?case
  proof (cases "ft_flows T k")
    case None
    with Cons.IH [OF Cons.prems(1)] Cons.prems(2) show ?thesis by (simp add: map_filter_simps)
  next
    case (Some p)
    define T1 where "T1 = on_ctr p (\<lambda>c. snd (Rates now c)) T"
    have "map_option (\<lambda>q. (k', flow_stats now k' (ft_ctrs T1 q))) (ft_flows T1 k') =
        map_option (\<lambda>q. (k', flow_stats now k' (ft_ctrs T q))) (ft_flows T k')" if "k' \<in> set ks" for k'
    proof -
      have "ft_flows T k' \<noteq> Some p" using table_wfD [OF Cons.prems(1) Some, of k'] Cons.prems(2) that by auto
      then show ?thesis by (cases "ft_flows T k'") (auto simp: T1_def)
    qed
    then have "List.map_filter (\<lambda>k. map_option (\<lambda>p. (k, flow_stats now k (ft_ctrs T1 p))) (ft_flows T1 k)) ks =
        List.map_filter (\<lambda>k. map_option (\<lambda>p. (k, flow_stats now k (ft_ctrs T p))) (ft_flows T k)) ks"
      by (intro map_filter_eqI) auto
    moreover have "table_wf T1" using Cons.prems(1) by (simp add: T1_def)
    ultimately show ?thesis
      using Cons.IH [of T1] Cons.prems(2) Some by (simp add: map_filter_simps T1_def [symmetric] case_prod_beta)
  qed
qed (simp add: map_filter_simps)

lemma flow_stats_totals: "(fs_BytesIn (flow_stats now k c), fs_BytesOut (flow_stats now k c)) = Totals c"
  by (simp add: flow_stats_def Let_def case_prod_beta)

end
