(* ===== verification/Hostname_Cache.thy ===== *)
theory Hostname_Cache
  imports Go_Time "HOL-Library.Multiset"
begin

text \<open>
  The per-address hostname cache of \<^verbatim>\<open>src/dpi/hostname_cache.go\<close>: a doubly linked list in order of
  use and an index from address to list element. A list element is an identity, as the
  pointers of \<^verbatim>\<open>container/list\<close> are, so that the list and the index are two structures that the
  operations have to keep in step; \<open>cache_ok\<close> says that they are.

  The abstract cache is the plain list of entries, most recently used first. The theory
  shows that \<open>Put\<close> and \<open>Get\<close> implement the least-recently-used policy on it with expiry, and
  that the capacity is never exceeded.
\<close>

section \<open>Lists of elements\<close>

record hostnameCacheEntry =
  e_ip :: string
  e_hostname :: string
  e_expires :: time

type_synonym element = nat

record HostnameCache =
  hc_capacity :: nat
  hc_ttl :: duration
  hc_ll :: "(element \<times> hostnameCacheEntry) list"
  hc_index :: "string \<rightharpoonup> element"
  hc_next :: element       \<comment> \<open>the next identity to hand out\<close>

definition DefaultHostnameCacheCapacity :: nat where "DefaultHostnameCacheCapacity = 2048"
definition DefaultHostnameCacheTTL :: duration where "DefaultHostnameCacheTTL = 10 * 60 * second"

definition NewHostnameCache :: "nat \<Rightarrow> duration \<Rightarrow> HostnameCache" where
  "NewHostnameCache capacity ttl =
     \<lparr>hc_capacity = capacity, hc_ttl = ttl, hc_ll = [], hc_index = Map.empty, hc_next = 0\<rparr>"

text \<open>\<^verbatim>\<open>MoveToFront\<close> and \<^verbatim>\<open>Remove\<close> of an element, and its value.\<close>

definition ll_value :: "element \<Rightarrow> (element \<times> 'v) list \<Rightarrow> 'v option" where
  "ll_value el l = map_of l el"

definition ll_remove :: "element \<Rightarrow> (element \<times> 'v) list \<Rightarrow> (element \<times> 'v) list" where
  "ll_remove el l = filter (\<lambda>(i, _). i \<noteq> el) l"

definition ll_to_front :: "element \<Rightarrow> (element \<times> 'v) list \<Rightarrow> (element \<times> 'v) list" where
  "ll_to_front el l = (case map_of l el of None \<Rightarrow> l | Some v \<Rightarrow> (el, v) # ll_remove el l)"

definition ll_update :: "element \<Rightarrow> ('v \<Rightarrow> 'v) \<Rightarrow> (element \<times> 'v) list \<Rightarrow> (element \<times> 'v) list" where
  "ll_update el f l = map (\<lambda>(i, v). if i = el then (i, f v) else (i, v)) l"

section \<open>Operations\<close>

definition Put :: "string \<Rightarrow> string \<Rightarrow> time \<Rightarrow> HostnameCache \<Rightarrow> HostnameCache" where
  "Put ip hostname now c =
     (case hc_index c ip of
        Some el \<Rightarrow>
          (let l = ll_to_front el (hc_ll c);
               l = ll_update el (\<lambda>e. e\<lparr>e_hostname := hostname, e_expires := now + hc_ttl c\<rparr>) l
           in c\<lparr>hc_ll := l\<rparr>)
      | None \<Rightarrow>
          (let el = hc_next c;
               l = (el, \<lparr>e_ip = ip, e_hostname = hostname, e_expires = now + hc_ttl c\<rparr>) # hc_ll c;
               c = c\<lparr>hc_ll := l, hc_index := (hc_index c)(ip \<mapsto> el), hc_next := Suc el\<rparr>
           in if hc_capacity c < length (hc_ll c)
              then (let (back, e) = last (hc_ll c)
                    in c\<lparr>hc_ll := ll_remove back (hc_ll c), hc_index := (hc_index c)(e_ip e := None)\<rparr>)
              else c))"

definition Get :: "string \<Rightarrow> time \<Rightarrow> HostnameCache \<Rightarrow> string option \<times> HostnameCache" where
  "Get ip now c =
     (case hc_index c ip of
        None \<Rightarrow> (None, c)
      | Some el \<Rightarrow>
          (case ll_value el (hc_ll c) of
             None \<Rightarrow> (None, c)
           | Some e \<Rightarrow>
               if e_expires e < now
               then (None, c\<lparr>hc_ll := ll_remove el (hc_ll c), hc_index := (hc_index c)(ip := None)\<rparr>)
               else (Some (e_hostname e), c\<lparr>hc_ll := ll_to_front el (hc_ll c)\<rparr>)))"

section \<open>List and index in step\<close>

text \<open>The elements with the addresses they stand for.\<close>

definition tags :: "(element \<times> hostnameCacheEntry) list \<Rightarrow> (element \<times> string) list" where
  "tags l = map (\<lambda>(i, e). (i, e_ip e)) l"

definition linked :: "HostnameCache \<Rightarrow> bool" where
  "linked c \<longleftrightarrow>
     distinct (map fst (tags (hc_ll c))) \<and> distinct (map snd (tags (hc_ll c))) \<and>
     (\<forall>ip el. hc_index c ip = Some el \<longleftrightarrow> (el, ip) \<in> set (tags (hc_ll c))) \<and>
     (\<forall>el \<in> fst ` set (tags (hc_ll c)). el < hc_next c)"

definition cache_ok :: "HostnameCache \<Rightarrow> bool" where
  "cache_ok c \<longleftrightarrow> linked c \<and> length (hc_ll c) \<le> hc_capacity c"

lemma map_fst_tags: "map fst (tags l) = map fst l" "map snd (tags l) = map (e_ip \<circ> snd) l"
  by (auto simp: tags_def)

lemma set_tags: "(el, ip) \<in> set (tags l) \<longleftrightarrow> (\<exists>e. (el, e) \<in> set l \<and> e_ip e = ip)"
  by (force simp: tags_def)

lemma linked_index:
  "linked c \<Longrightarrow> hc_index c ip = Some el \<longleftrightarrow> (\<exists>e. (el, e) \<in> set (hc_ll c) \<and> e_ip e = ip)"
  by (simp add: linked_def set_tags)

definition entries :: "HostnameCache \<Rightarrow> hostnameCacheEntry list" where
  "entries c = map snd (hc_ll c)"

definition drop_ip :: "string \<Rightarrow> hostnameCacheEntry list \<Rightarrow> hostnameCacheEntry list" where
  "drop_ip ip es = filter (\<lambda>e. e_ip e \<noteq> ip) es"

text \<open>Splitting the list at an element.\<close>

lemma ll_split:
  assumes "distinct (map fst l)" and "(el, v) \<in> set l"
  obtains l1 l2 where "l = l1 @ (el, v) # l2" and "el \<notin> fst ` set l1" and "el \<notin> fst ` set l2"
proof -
  obtain l1 l2 where l: "l = l1 @ (el, v) # l2" using assms(2) by (meson split_list)
  then have "el \<notin> fst ` set l1" "el \<notin> fst ` set l2" using assms(1) by auto
  then show thesis using l that by blast
qed

lemma ll_remove_fresh [simp]: "el \<notin> fst ` set l \<Longrightarrow> ll_remove el l = l"
  unfolding ll_remove_def by (rule filter_True) (auto simp: image_iff)

lemma ll_remove_append [simp]:
  "ll_remove el (l1 @ l2) = ll_remove el l1 @ ll_remove el l2"
  "ll_remove el ((i, v) # l) = (if i = el then ll_remove el l else (i, v) # ll_remove el l)"
  by (simp_all add: ll_remove_def)

lemma ll_update_fresh [simp]: "el \<notin> fst ` set l \<Longrightarrow> ll_update el f l = l"
  unfolding ll_update_def by (rule map_idI) (auto simp: image_iff)

lemma ll_update_append [simp]:
  "ll_update el f (l1 @ l2) = ll_update el f l1 @ ll_update el f l2"
  "ll_update el f ((i, v) # l) = (i, if i = el then f v else v) # ll_update el f l"
  by (simp_all add: ll_update_def)

text \<open>The element of an indexed address, and its place in the list.\<close>

lemma index_split:
  assumes "linked c" and "hc_index c ip = Some el"
  obtains e l1 l2 where "hc_ll c = l1 @ (el, e) # l2" and "e_ip e = ip"
    and "el \<notin> fst ` set (l1 @ l2)" and "ip \<notin> (e_ip \<circ> snd) ` set (l1 @ l2)"
    and "map_of (hc_ll c) el = Some e"
proof -
  obtain e where e: "(el, e) \<in> set (hc_ll c)" "e_ip e = ip"
    using assms linked_index by blast
  have d: "distinct (map fst (hc_ll c))" "distinct (map (e_ip \<circ> snd) (hc_ll c))"
    using assms(1) by (simp_all add: linked_def map_fst_tags)
  obtain l1 l2 where l: "hc_ll c = l1 @ (el, e) # l2" "el \<notin> fst ` set l1" "el \<notin> fst ` set l2"
    using d(1) e(1) ll_split [of "hc_ll c" el e] by blast
  have "ip \<notin> (e_ip \<circ> snd) ` set (l1 @ l2)"
    using d(2) e(2) l(1) by auto
  moreover have "map_of (hc_ll c) el = Some e"
    using d(1) e(1) by simp
  moreover have "el \<notin> fst ` set (l1 @ l2)" using l(2,3) by auto
  ultimately show thesis by (intro that [OF l(1) e(2)])
qed

lemma drop_ip_fresh: "ip \<notin> (e_ip \<circ> snd) ` set l \<Longrightarrow> drop_ip ip (map snd l) = map snd l"
  unfolding drop_ip_def by (rule filter_True) force

lemma drop_ip_split:
  "e_ip e = ip \<Longrightarrow> ip \<notin> (e_ip \<circ> snd) ` set (l1 @ l2) \<Longrightarrow>
     drop_ip ip (map snd (l1 @ (el, e) # l2)) = map snd (l1 @ l2)"
  using drop_ip_fresh [of ip l1] drop_ip_fresh [of ip l2] by (simp add: drop_ip_def image_Un)

lemma drop_ip_absent:
  assumes "linked c" and "hc_index c ip = None"
  shows "drop_ip ip (entries c) = entries c"
proof -
  have "e_ip e \<noteq> ip" if "(el, e) \<in> set (hc_ll c)" for el e
    using assms(2) linked_index [OF assms(1), of "e_ip e" el] that by auto
  then have "ip \<notin> (e_ip \<circ> snd) ` set (hc_ll c)" by force
  then show ?thesis by (simp add: entries_def drop_ip_fresh)
qed

section \<open>What each step keeps\<close>

lemma linked_perm:
  assumes "linked c" and "mset (tags l) = mset (tags (hc_ll c))"
  shows "linked (c\<lparr>hc_ll := l\<rparr>)"
proof -
  have "set (tags l) = set (tags (hc_ll c))" using assms(2) by (rule mset_eq_setD)
  moreover have "distinct (map fst (tags l)) = distinct (map fst (tags (hc_ll c)))"
      "distinct (map snd (tags l)) = distinct (map snd (tags (hc_ll c)))"
    using assms(2) by (intro mset_eq_imp_distinct_iff; simp)+
  ultimately show ?thesis using assms(1) by (simp add: linked_def)
qed

lemma linked_push:
  assumes "linked c" and "hc_index c ip = None" and "e_ip e = ip"
  shows "linked (c\<lparr>hc_ll := (hc_next c, e) # hc_ll c, hc_index := (hc_index c)(ip \<mapsto> hc_next c),
    hc_next := Suc (hc_next c)\<rparr>)"
proof -
  have new: "hc_next c \<notin> fst ` set (tags (hc_ll c))"
    using assms(1) by (auto simp: linked_def)
  have ip: "(el, ip) \<notin> set (tags (hc_ll c))" for el
    using assms(1,2) unfolding linked_def by (metis option.discI)
  have idx: "hc_index c x = Some el \<longleftrightarrow> (el, x) \<in> set (tags (hc_ll c))" for x el
    using assms(1) by (simp add: linked_def)
  have t: "tags ((hc_next c, e) # hc_ll c) = (hc_next c, ip) # tags (hc_ll c)"
    by (simp add: tags_def assms(3))
  have "((hc_index c)(ip \<mapsto> hc_next c)) x = Some el \<longleftrightarrow> (el, x) \<in> set ((hc_next c, ip) # tags (hc_ll c))" for x el
    using ip idx by auto
  moreover have "ip \<notin> snd ` set (tags (hc_ll c))" using ip by force
  ultimately show ?thesis
    using assms(1) new unfolding linked_def by (auto simp: t less_Suc_eq)
qed

lemma linked_remove:
  assumes "linked c" and "(el, e) \<in> set (hc_ll c)"
  shows "linked (c\<lparr>hc_ll := ll_remove el (hc_ll c), hc_index := (hc_index c)(e_ip e := None)\<rparr>)"
proof -
  have "hc_index c (e_ip e) = Some el" using assms linked_index by blast
  then obtain e' l1 l2 where l: "hc_ll c = l1 @ (el, e') # l2" "e_ip e' = e_ip e"
      "el \<notin> fst ` set (l1 @ l2)" "e_ip e \<notin> (e_ip \<circ> snd) ` set (l1 @ l2)"
    by (rule index_split [OF assms(1)])
  have r: "ll_remove el (hc_ll c) = l1 @ l2" using l(1,3) by (simp add: image_Un)
  have t: "tags (hc_ll c) = tags l1 @ (el, e_ip e) # tags l2" "tags (l1 @ l2) = tags l1 @ tags l2"
    by (simp_all add: l(1,2) tags_def)
  have idx: "hc_index c x = Some i \<longleftrightarrow> (i, x) \<in> set (tags (hc_ll c))" for x i
    using assms(1) by (simp add: linked_def)
  have fresh: "(i, e_ip e) \<notin> set (tags l1 @ tags l2)" for i
    using assms(1) unfolding linked_def t by (auto simp: rev_image_eqI)
  have "((hc_index c)(e_ip e := None)) x = Some i \<longleftrightarrow> (i, x) \<in> set (tags l1 @ tags l2)" for x i
    using fresh idx unfolding t by auto
  then show ?thesis
    using assms(1) unfolding linked_def by (auto simp: r t)
qed

lemma ll_to_front_split:
  assumes "map_of l el = Some e" and "l = l1 @ (el, e) # l2" and "el \<notin> fst ` set (l1 @ l2)"
  shows "ll_to_front el l = (el, e) # l1 @ l2"
  using assms by (simp add: ll_to_front_def image_Un)

section \<open>Refinement\<close>

lemma Put_refines:
  assumes "cache_ok c"
  shows "entries (Put ip hostname now c) =
      take (hc_capacity c) (\<lparr>e_ip = ip, e_hostname = hostname, e_expires = now + hc_ttl c\<rparr> # drop_ip ip (entries c))"
    and "cache_ok (Put ip hostname now c)"
proof -
  let ?e = "\<lparr>e_ip = ip, e_hostname = hostname, e_expires = now + hc_ttl c\<rparr>"
  have lk: "linked c" and len: "length (hc_ll c) \<le> hc_capacity c"
    using assms by (simp_all add: cache_ok_def)
  have "entries (Put ip hostname now c) = take (hc_capacity c) (?e # drop_ip ip (entries c)) \<and>
      cache_ok (Put ip hostname now c)"
  proof (cases "hc_index c ip")
    case (Some el)
    then obtain e l1 l2 where l: "hc_ll c = l1 @ (el, e) # l2" "e_ip e = ip"
        "el \<notin> fst ` set (l1 @ l2)" "ip \<notin> (e_ip \<circ> snd) ` set (l1 @ l2)" "map_of (hc_ll c) el = Some e"
      by (rule index_split [OF lk])
    have upd: "e\<lparr>e_hostname := hostname, e_expires := now + hc_ttl c\<rparr> = ?e"
      using l(2) by (cases e) simp
    have p: "Put ip hostname now c = c\<lparr>hc_ll := (el, ?e) # l1 @ l2\<rparr>"
      using l(3) upd by (simp add: Put_def Some ll_to_front_split [OF l(5,1,3)] image_Un)
    have "mset (tags ((el, ?e) # l1 @ l2)) = mset (tags (hc_ll c))"
      by (simp add: l(1,2) tags_def)
    then have "linked (Put ip hostname now c)" unfolding p by (rule linked_perm [OF lk])
    moreover have "drop_ip ip (entries c) = map snd (l1 @ l2)"
      unfolding entries_def l(1) by (rule drop_ip_split [OF l(2,4)])
    ultimately show ?thesis
      using len by (simp add: cache_ok_def p entries_def l(1))
  next
    case None
    define c1 where "c1 = c\<lparr>hc_ll := (hc_next c, ?e) # hc_ll c, hc_index := (hc_index c)(ip \<mapsto> hc_next c),
      hc_next := Suc (hc_next c)\<rparr>"
    have lk1: "linked c1" unfolding c1_def by (rule linked_push [OF lk None]) simp
    have ll1: "hc_ll c1 = (hc_next c, ?e) # hc_ll c" "hc_capacity c1 = hc_capacity c"
      by (simp_all add: c1_def)
    have d: "drop_ip ip (entries c) = entries c" by (rule drop_ip_absent [OF lk None])
    show ?thesis
    proof (cases "hc_capacity c < length (hc_ll c1)")
      case False
      then have "Put ip hostname now c = c1"
        by (simp add: Put_def None Let_def c1_def)
      with lk1 False show ?thesis by (simp add: cache_ok_def ll1 entries_def d [unfolded entries_def])
    next
      case True
      then have full: "length (hc_ll c) = hc_capacity c" using len ll1(1) by simp
      obtain b eb where b: "last (hc_ll c1) = (b, eb)" by fastforce
      have ne: "hc_ll c1 \<noteq> []" by (simp add: ll1)
      have bl: "hc_ll c1 = butlast (hc_ll c1) @ [(b, eb)]"
        using append_butlast_last_id [OF ne] b by simp
      have "distinct (map fst (hc_ll c1))" using lk1 by (simp add: linked_def map_fst_tags)
      then have "b \<notin> fst ` set (butlast (hc_ll c1))" by (subst (asm) bl) auto
      then have rm: "ll_remove b (hc_ll c1) = butlast (hc_ll c1)" by (subst bl) simp
      have p: "Put ip hostname now c = c1\<lparr>hc_ll := ll_remove b (hc_ll c1), hc_index := (hc_index c1)(e_ip eb := None)\<rparr>"
        using True b by (simp add: Put_def None Let_def c1_def)
      have "(b, eb) \<in> set (hc_ll c1)" using ne b last_in_set by metis
      from linked_remove [OF lk1 this] have "linked (Put ip hostname now c)" by (simp add: p)
      moreover have "entries (Put ip hostname now c) = map snd (butlast (hc_ll c1))"
          "length (hc_ll (Put ip hostname now c)) \<le> hc_capacity (Put ip hostname now c)"
        unfolding p rm by (simp_all add: entries_def ll1(2)) (simp add: ll1 full)
      moreover have "map snd (butlast (hc_ll c1)) = take (hc_capacity c) (?e # entries c)"
        by (simp add: ll1 butlast_conv_take entries_def full take_map [symmetric] take_Cons'
            map_tl [symmetric] flip: full)
      ultimately show ?thesis
        by (simp add: cache_ok_def d)
    qed
  qed
  then show "entries (Put ip hostname now c) = take (hc_capacity c) (?e # drop_ip ip (entries c))"
    and "cache_ok (Put ip hostname now c)" by blast+
qed

text \<open>The entry of an address, if the cache has one.\<close>

definition entry_of :: "string \<Rightarrow> hostnameCacheEntry list \<Rightarrow> hostnameCacheEntry option" where
  "entry_of ip es = find (\<lambda>e. e_ip e = ip) es"

lemma entry_of_absent: "linked c \<Longrightarrow> hc_index c ip = None \<Longrightarrow> entry_of ip (entries c) = None"
  using drop_ip_absent [of c ip] unfolding entry_of_def drop_ip_def
  by (auto simp: find_None_iff filter_id_conv)

lemma entry_of_split:
  assumes "hc_ll c = l1 @ (el, e) # l2" and "e_ip e = ip" and "ip \<notin> (e_ip \<circ> snd) ` set (l1 @ l2)"
  shows "entry_of ip (entries c) = Some e"
proof -
  have "find (\<lambda>x. e_ip x = ip) (map snd l1) = None" using assms(3) by (force simp: find_None_iff)
  moreover have "find P (xs @ y # ys) = Some y" if "find P xs = None" "P y" for P and xs ys :: "'x list" and y
    using that by (induction xs) (auto split: if_splits)
  ultimately show ?thesis unfolding entry_of_def entries_def assms(1) using assms(2) by simp
qed

lemma Get_refines:
  assumes "cache_ok c"
  shows "cache_ok (snd (Get ip now c)) \<and>
    (case entry_of ip (entries c) of
       None \<Rightarrow> fst (Get ip now c) = None \<and> entries (snd (Get ip now c)) = entries c
     | Some e \<Rightarrow>
         if e_expires e < now
         then fst (Get ip now c) = None \<and> entries (snd (Get ip now c)) = drop_ip ip (entries c)
         else fst (Get ip now c) = Some (e_hostname e) \<and>
              entries (snd (Get ip now c)) = e # drop_ip ip (entries c))"
proof -
  have lk: "linked c" and len: "length (hc_ll c) \<le> hc_capacity c"
    using assms by (simp_all add: cache_ok_def)
  show ?thesis
  proof (cases "hc_index c ip")
    case None
    then show ?thesis using assms by (simp add: Get_def entry_of_absent [OF lk])
  next
    case (Some el)
    then obtain e l1 l2 where l: "hc_ll c = l1 @ (el, e) # l2" "e_ip e = ip"
        "el \<notin> fst ` set (l1 @ l2)" "ip \<notin> (e_ip \<circ> snd) ` set (l1 @ l2)" "map_of (hc_ll c) el = Some e"
      by (rule index_split [OF lk])
    have d: "drop_ip ip (entries c) = map snd (l1 @ l2)"
      unfolding entries_def l(1) by (rule drop_ip_split [OF l(2,4)])
    have r: "ll_remove el (hc_ll c) = l1 @ l2" using l(1,3) by (simp add: image_Un)
    have f: "ll_to_front el (hc_ll c) = (el, e) # l1 @ l2" by (rule ll_to_front_split [OF l(5,1,3)])
    have in1: "(el, e) \<in> set (hc_ll c)" by (simp add: l(1))
    show ?thesis
    proof (cases "e_expires e < now")
      case True
      then have g: "Get ip now c = (None, c\<lparr>hc_ll := l1 @ l2, hc_index := (hc_index c)(ip := None)\<rparr>)"
        by (simp add: Get_def Some ll_value_def l(5) r)
      have "linked (snd (Get ip now c))" using linked_remove [OF lk in1] by (simp add: g r l(2))
      with True len show ?thesis
        by (simp add: cache_ok_def entry_of_split [OF l(1,2,4)] g d) (simp add: entries_def l(1))
    next
      case False
      then have g: "Get ip now c = (Some (e_hostname e), c\<lparr>hc_ll := (el, e) # l1 @ l2\<rparr>)"
        by (simp add: Get_def Some ll_value_def l(5) f)
      have "mset (tags ((el, e) # l1 @ l2)) = mset (tags (hc_ll c))" by (simp add: l(1) tags_def)
      then have "linked (snd (Get ip now c))" by (simp add: g linked_perm [OF lk])
      with False len show ?thesis
        by (simp add: cache_ok_def entry_of_split [OF l(1,2,4)] g d) (simp add: entries_def l(1))
    qed
  qed
qed

lemma NewHostnameCache_ok: "cache_ok (NewHostnameCache capacity ttl)"
  by (simp add: cache_ok_def linked_def NewHostnameCache_def tags_def)

section \<open>Properties\<close>

text \<open>
  C19: the linked list and its index implement a least-recently-used cache: storing a name
  puts the address first with a fresh deadline and forgets only what no longer fits,
  looking it up returns the newest name stored while its deadline has not passed and moves
  the address first, an expired entry is removed, and list and index stay in step.
\<close>

theorem hostname_cache_is_lru:
  assumes "cache_ok c"
  shows "cache_ok (Put ip hostname now c) \<and> cache_ok (snd (Get ip now c)) \<and>
    entries (Put ip hostname now c) =
      take (hc_capacity c) (\<lparr>e_ip = ip, e_hostname = hostname, e_expires = now + hc_ttl c\<rparr> # drop_ip ip (entries c)) \<and>
    (case entry_of ip (entries c) of
       None \<Rightarrow> fst (Get ip now c) = None \<and> entries (snd (Get ip now c)) = entries c
     | Some e \<Rightarrow>
         if e_expires e < now
         then fst (Get ip now c) = None \<and> entries (snd (Get ip now c)) = drop_ip ip (entries c)
         else fst (Get ip now c) = Some (e_hostname e) \<and>
              entries (snd (Get ip now c)) = e # drop_ip ip (entries c))"
  using Put_refines [OF assms, of ip hostname now] Get_refines [OF assms, of ip now] by blast

theorem hostname_cache_is_lru_witness:
  "fst (Get ''1.1.1.1'' 9 (Put ''1.1.1.1'' ''one.one'' 5 (NewHostnameCache 2 10))) = Some ''one.one''"
proof -
  have "cache_ok (Put ''1.1.1.1'' ''one.one'' 5 (NewHostnameCache 2 10))"
      "entries (Put ''1.1.1.1'' ''one.one'' 5 (NewHostnameCache 2 10)) =
        [\<lparr>e_ip = ''1.1.1.1'', e_hostname = ''one.one'', e_expires = 15\<rparr>]"
    using hostname_cache_is_lru [OF NewHostnameCache_ok, of "''1.1.1.1''" "''one.one''" 5 2 10]
    by (simp_all add: NewHostnameCache_def entries_def drop_ip_def)
  with hostname_cache_is_lru [OF this(1), of "''1.1.1.1''" "''''" 9] show ?thesis
    by (simp add: entry_of_def)
qed

end
