(* ===== verification/Go_Addr.thy ===== *)
theory Go_Addr
  imports Go_Strings
begin

text \<open>
  \<^verbatim>\<open>netip.Addr.String\<close>: dotted decimals for IPv4, colon-separated hexadecimal groups for IPv6 with
  the first longest run of two or more zero groups written as \<open>::\<close>.
\<close>

definition v6_group :: "bytes \<Rightarrow> nat \<Rightarrow> nat" where
  "v6_group b i = unat (b ! (2 * i)) * 256 + unat (b ! (2 * i + 1))"

text \<open>Lower-case hexadecimal without leading zeros.\<close>

definition hex_lower :: "nat \<Rightarrow> char" where
  "hex_lower d = char_of (if d < 10 then 48 + d else 87 + d)"

fun hex_digits :: "nat \<Rightarrow> string" where
  "hex_digits n = (if n < 16 then [hex_lower n] else hex_digits (n div 16) @ [hex_lower (n mod 16)])"

declare hex_digits.simps [simp del]

text \<open>Length of the run of zero groups at the start of a list.\<close>

definition zero_run :: "nat list \<Rightarrow> nat" where
  "zero_run gs = length (takeWhile (\<lambda>g. g = 0) gs)"

text \<open>The first longest run of at least two zero groups: where it starts and its length.\<close>

fun longest_zeros :: "nat \<Rightarrow> nat list \<Rightarrow> nat \<times> nat \<Rightarrow> nat \<times> nat" where
  "longest_zeros i [] best = best"
| "longest_zeros i (g # gs) best =
     (let l = zero_run (g # gs)
      in longest_zeros (Suc i) gs (if 2 \<le> l \<and> snd best < l then (i, l) else best))"

definition join_groups :: "nat list \<Rightarrow> string" where
  "join_groups gs = concat (map (\<lambda>(i, g). (if i = 0 then '''' else '':'') @ hex_digits g) (enumerate 0 gs))"

definition string6 :: "nat list \<Rightarrow> string" where
  "string6 gs =
     (let (s, l) = longest_zeros 0 gs (0, 0)
      in if l = 0 then join_groups gs
         else join_groups (take s gs) @ ''::'' @ join_groups (drop (s + l) gs))"

definition string4 :: "bytes \<Rightarrow> string" where
  "string4 b =
     concat (map (\<lambda>(i, x). (if i = 0 then '''' else ''.'') @ dec_digits (unat x)) (enumerate 0 b))"

fun addr_String :: "addr \<Rightarrow> string" where
  "addr_String AddrZero = ''invalid IP''"
| "addr_String (AddrV4 b) = string4 b"
| "addr_String (AddrV6 b) =
     (if take 12 b = v4_mapped_prefix then ''::ffff:'' @ string4 (drop 12 b)
      else string6 (map (v6_group b) [0..<8]))"

end
