(* ===== verification/Dpi.thy ===== *)
theory Dpi
  imports Go_Addr Go_Time
begin

text \<open>
  The inspectors of \<^verbatim>\<open>src/dpi\<close>: \<^verbatim>\<open>dpi.go\<close> (interfaces and findings), \<^verbatim>\<open>tls.go\<close>, \<^verbatim>\<open>quic.go\<close>,
  \<^verbatim>\<open>dns.go\<close> and \<^verbatim>\<open>dns_query.go\<close>. An interface value is a record of its methods. The parsers of
  TLS, QUIC and DNS messages are third-party packages and parameters: they give a message,
  an error, or a panic, which the deferred \<^verbatim>\<open>recoverPanic\<close> turns into empty results.

  The theory shows which packets the inspectors look at, that no two of the default ones
  look at the same packet, and how a DNS message is divided among the three kinds of
  findings.
\<close>

section \<open>Packets and findings\<close>

record CandidatePacket =
  IsTCP :: bool
  cp_SrcPort :: u16
  cp_DstPort :: u16
  Outbound :: bool
  DatagramLen :: int
  cp_Payload :: bytes

record HostnameFinding =
  hf_IP :: string
  hf_Hostname :: string

record QueryFinding =
  qf_Name :: string
  qf_QType :: string
  qf_ClientAddr :: string
  qf_ServerAddr :: string
  qf_At :: time

record DNSErrorFinding =
  ef_Name :: string
  ef_QType :: string
  ef_RCode :: string
  ef_ServerAddr :: string
  ef_At :: time

record DNSAnswerFinding =
  af_Name :: string
  af_QType :: string
  af_Answer :: string
  af_TTL :: u32
  af_ServerAddr :: string
  af_At :: time

record Inspector =
  i_Name :: string
  i_Candidate :: "CandidatePacket \<Rightarrow> bool"
  i_Inspect :: "bytes \<Rightarrow> string option"

text \<open>
  A passive inspector; the methods of the optional interfaces are there when the value
  implements them.
\<close>

record PassiveInspector =
  p_Name :: string
  p_Candidate :: "CandidatePacket \<Rightarrow> bool"
  p_Inspect :: "bytes \<Rightarrow> HostnameFinding list"
  p_InspectQuery :: "(bytes \<Rightarrow> string \<Rightarrow> string \<Rightarrow> time \<Rightarrow> QueryFinding list) option"
  p_InspectError :: "(bytes \<Rightarrow> string \<Rightarrow> time \<Rightarrow> DNSErrorFinding list) option"
  p_InspectAnswer :: "(bytes \<Rightarrow> string \<Rightarrow> time \<Rightarrow> DNSAnswerFinding list) option"

section \<open>Third-party parsers\<close>

datatype 'a parsed = Parsed 'a | ParseError | Panic

text \<open>\<^verbatim>\<open>defer recoverPanic()\<close>: a panic leaves the results at their zero value.\<close>

definition recoverPanic :: "'a parsed \<Rightarrow> 'a option" where
  "recoverPanic r = (case r of Parsed x \<Rightarrow> Some x | ParseError \<Rightarrow> None | Panic \<Rightarrow> None)"

text \<open>The part of gopacket's \<^verbatim>\<open>layers.DNS\<close> that the inspectors read.\<close>

record DNSQuestion =
  q_Name :: string
  q_Type :: u16

record DNSResourceRecord =
  rr_Name :: string
  rr_Type :: u16
  rr_TTL :: u32
  rr_IP :: "bytes option"

record DNS =
  QR :: bool
  ResponseCode :: nat
  Questions :: "DNSQuestion list"
  Answers :: "DNSResourceRecord list"

record parsers =
  unmarshal_hello :: "bytes \<Rightarrow> string parsed"      \<comment> \<open>\<^verbatim>\<open>tlsx\<close>: the SNI\<close>
  ReadClientHello :: "bytes \<Rightarrow> string parsed"      \<comment> \<open>\<^verbatim>\<open>quicsni\<close>: the server name\<close>
  decode_dns :: "bytes \<Rightarrow> DNS parsed"
  DNSType_String :: "u16 \<Rightarrow> string"
  RCode_String :: "nat \<Rightarrow> string"

definition DNSTypeA :: u16 where "DNSTypeA = 1"
definition DNSTypeAAAA :: u16 where "DNSTypeAAAA = 28"
definition DNSResponseCodeNoErr :: nat where "DNSResponseCodeNoErr = 0"

text \<open>\<^verbatim>\<open>net.IP.String\<close> of an address a DNS answer carries.\<close>

definition IP_String :: "bytes \<Rightarrow> string" where
  "IP_String b =
     (if b = [] then ''<nil>''
      else if length b = 4 then addr_String (AddrV4 b)
      else if length b = 16 then addr_String (Unmap (AddrV6 b))
      else ''?'' @ concat (map (\<lambda>x. [hex_lower (unat x div 16), hex_lower (unat x mod 16)]) b))"

section \<open>TLS and QUIC\<close>

definition looksLikeTLSClientHello :: "bytes \<Rightarrow> bool" where
  "looksLikeTLSClientHello b \<longleftrightarrow> 6 \<le> length b \<and> b ! 0 = 0x16 \<and> b ! 1 = 0x03 \<and> b ! 5 = 0x01"

definition TLS_Candidate :: "CandidatePacket \<Rightarrow> bool" where
  "TLS_Candidate p \<longleftrightarrow> IsTCP p \<and> Outbound p \<and> looksLikeTLSClientHello (cp_Payload p)"

definition TLS_Inspect :: "parsers \<Rightarrow> bytes \<Rightarrow> string option" where
  "TLS_Inspect ps payload =
     (case recoverPanic (unmarshal_hello ps payload) of
        None \<Rightarrow> None | Some sni \<Rightarrow> if sni = '''' then None else Some sni)"

definition NewTLSSNIInspector :: "parsers \<Rightarrow> Inspector" where
  "NewTLSSNIInspector ps = \<lparr>i_Name = ''tls-sni'', i_Candidate = TLS_Candidate, i_Inspect = TLS_Inspect ps\<rparr>"

definition minInitialDatagramLen :: int where "minInitialDatagramLen = 1200"

definition looksLikeQUICInitial :: "bytes \<Rightarrow> bool" where
  "looksLikeQUICInitial b \<longleftrightarrow>
     5 \<le> length b \<and> b ! 0 AND 0xF0 = 0xC0 \<and> (b ! 1 \<noteq> 0 \<or> b ! 2 \<noteq> 0 \<or> b ! 3 \<noteq> 0 \<or> b ! 4 \<noteq> 0)"

definition QUIC_Candidate :: "CandidatePacket \<Rightarrow> bool" where
  "QUIC_Candidate p \<longleftrightarrow>
     \<not> IsTCP p \<and> Outbound p \<and> minInitialDatagramLen \<le> DatagramLen p \<and> looksLikeQUICInitial (cp_Payload p)"

definition QUIC_Inspect :: "parsers \<Rightarrow> bytes \<Rightarrow> string option" where
  "QUIC_Inspect ps payload =
     (case recoverPanic (ReadClientHello ps payload) of
        None \<Rightarrow> None | Some name \<Rightarrow> if name = '''' then None else Some name)"

definition NewQUICSNIInspector :: "parsers \<Rightarrow> Inspector" where
  "NewQUICSNIInspector ps = \<lparr>i_Name = ''quic-sni'', i_Candidate = QUIC_Candidate, i_Inspect = QUIC_Inspect ps\<rparr>"

definition DefaultInspectors :: "parsers \<Rightarrow> Inspector list" where
  "DefaultInspectors ps = [NewTLSSNIInspector ps, NewQUICSNIInspector ps]"

section \<open>DNS\<close>

definition dnsPort :: u16 where "dnsPort = 53"

definition DNSAnswer_Candidate :: "CandidatePacket \<Rightarrow> bool" where
  "DNSAnswer_Candidate p \<longleftrightarrow> cp_SrcPort p = dnsPort"

text \<open>The records the answer loops keep, with their addresses.\<close>

definition address_records :: "DNSResourceRecord list \<Rightarrow> (DNSResourceRecord \<times> bytes) list" where
  "address_records as =
     concat (map (\<lambda>a. if rr_Type a \<noteq> DNSTypeA \<and> rr_Type a \<noteq> DNSTypeAAAA then []
                      else case rr_IP a of None \<Rightarrow> [] | Some ip \<Rightarrow> [(a, ip)]) as)"

definition DNSAnswer_Inspect :: "parsers \<Rightarrow> bytes \<Rightarrow> HostnameFinding list" where
  "DNSAnswer_Inspect ps payload =
     (case recoverPanic (decode_dns ps payload) of
        None \<Rightarrow> []
      | Some msg \<Rightarrow>
          if \<not> QR msg then []
          else map (\<lambda>(a, ip). \<lparr>hf_IP = IP_String ip, hf_Hostname = rr_Name a\<rparr>) (address_records (Answers msg)))"

definition InspectAnswer :: "parsers \<Rightarrow> bytes \<Rightarrow> string \<Rightarrow> time \<Rightarrow> DNSAnswerFinding list" where
  "InspectAnswer ps payload serverAddr at =
     (case recoverPanic (decode_dns ps payload) of
        None \<Rightarrow> []
      | Some msg \<Rightarrow>
          if \<not> QR msg \<or> ResponseCode msg \<noteq> DNSResponseCodeNoErr then []
          else map (\<lambda>(a, ip). \<lparr>af_Name = rr_Name a, af_QType = DNSType_String ps (rr_Type a),
                 af_Answer = IP_String ip, af_TTL = rr_TTL a, af_ServerAddr = serverAddr, af_At = at\<rparr>)
               (address_records (Answers msg)))"

definition InspectError :: "parsers \<Rightarrow> bytes \<Rightarrow> string \<Rightarrow> time \<Rightarrow> DNSErrorFinding list" where
  "InspectError ps payload serverAddr at =
     (case recoverPanic (decode_dns ps payload) of
        None \<Rightarrow> []
      | Some msg \<Rightarrow>
          if \<not> QR msg \<or> ResponseCode msg = DNSResponseCodeNoErr then []
          else map (\<lambda>q. \<lparr>ef_Name = q_Name q, ef_QType = DNSType_String ps (q_Type q),
                 ef_RCode = RCode_String ps (ResponseCode msg), ef_ServerAddr = serverAddr, ef_At = at\<rparr>)
               (Questions msg))"

definition NewDNSAnswerInspector :: "parsers \<Rightarrow> PassiveInspector" where
  "NewDNSAnswerInspector ps =
     \<lparr>p_Name = ''dns-answer'', p_Candidate = DNSAnswer_Candidate, p_Inspect = DNSAnswer_Inspect ps,
      p_InspectQuery = None, p_InspectError = Some (InspectError ps), p_InspectAnswer = Some (InspectAnswer ps)\<rparr>"

definition DNSQuery_Candidate :: "CandidatePacket \<Rightarrow> bool" where
  "DNSQuery_Candidate p \<longleftrightarrow> cp_DstPort p = dnsPort"

definition DNSQuery_Inspect :: "bytes \<Rightarrow> HostnameFinding list" where
  "DNSQuery_Inspect payload = []"

definition InspectQuery :: "parsers \<Rightarrow> bytes \<Rightarrow> string \<Rightarrow> string \<Rightarrow> time \<Rightarrow> QueryFinding list" where
  "InspectQuery ps payload clientAddr serverAddr at =
     (case recoverPanic (decode_dns ps payload) of
        None \<Rightarrow> []
      | Some msg \<Rightarrow>
          if QR msg then []
          else map (\<lambda>q. \<lparr>qf_Name = q_Name q, qf_QType = DNSType_String ps (q_Type q),
                 qf_ClientAddr = clientAddr, qf_ServerAddr = serverAddr, qf_At = at\<rparr>) (Questions msg))"

definition NewDNSQueryInspector :: "parsers \<Rightarrow> PassiveInspector" where
  "NewDNSQueryInspector ps =
     \<lparr>p_Name = ''dns-query'', p_Candidate = DNSQuery_Candidate, p_Inspect = DNSQuery_Inspect,
      p_InspectQuery = Some (InspectQuery ps), p_InspectError = None, p_InspectAnswer = None\<rparr>"

definition DefaultPassiveInspectors :: "parsers \<Rightarrow> PassiveInspector list" where
  "DefaultPassiveInspectors ps = [NewDNSAnswerInspector ps, NewDNSQueryInspector ps]"

lemmas candidate_defs = TLS_Candidate_def QUIC_Candidate_def DNSAnswer_Candidate_def DNSQuery_Candidate_def

end
