(* ===== verification/Capturer.thy ===== *)
theory Capturer
  imports Flow_Table Event_Rings Hostname_Cache Dpi
begin

text \<open>
  The capture engine, \<^verbatim>\<open>src/capture/pcap.go\<close> and \<^verbatim>\<open>dpi_dispatch.go\<close>: what one packet does to the flow
  table, the hostname cache and the event buffers, the read loop of one interface, and how
  \<open>Run\<close> combines the interfaces. gopacket's dissection of a frame and libpcap's answers are
  parameters.

  The theory shows that a packet changes the totals of its own flow only, that a flow is
  inspected for a hostname in one attempt at most, that the order of the default inspectors
  does not matter, how the read loop ends, and which errors \<open>Run\<close> reports.
\<close>

section \<open>Types\<close>

text \<open>gopacket on one link type: the layers of a frame, and its TCP and UDP payloads.\<close>

record dissector =
  dissect :: "bytes \<Rightarrow> layer list option"
  tcp_layer :: "bytes \<Rightarrow> (u32 \<times> bytes) option"
  udp_layer :: "bytes \<Rightarrow> bytes option"

record Config =
  cfg_Interface :: string
  SnapLen :: int
  cfg_Inspectors :: "Inspector list"
  cfg_PassiveInspectors :: "PassiveInspector list"
  EnableLogFeed :: bool

record PacketStats =
  Received :: int
  Dropped :: int
  IfDropped :: int

record Capturer =
  cap_cfg :: Config
  cap_table :: flow_table
  cap_hostnames :: HostnameCache
  cap_dnsQueries :: "QueryFinding list"
  cap_synEvents :: "SYNEvent list"
  cap_rstEvents :: "RSTEvent list"
  cap_dnsErrors :: "DNSErrorFinding list"
  cap_dnsAnswers :: "DNSAnswerFinding list"
  cap_logFeed :: "QueryFinding logFeed option"
  cap_packetStats :: "string \<rightharpoonup> PacketStats"

definition minPayloadDatagramLen :: int where "minPayloadDatagramLen = 120"
definition statsSampleInterval :: duration where "statsSampleInterval = second"
definition MaxInt32 :: int where "MaxInt32 = 2 ^ 31 - 1"

text \<open>The name that stands for every interface is defined in \<^verbatim>\<open>iface.go\<close>.\<close>

definition Any :: string where "Any = ''any''"

definition DefaultConfig :: "parsers \<Rightarrow> Config" where
  "DefaultConfig ps = \<lparr>cfg_Interface = Any, SnapLen = 1600, cfg_Inspectors = DefaultInspectors ps,
     cfg_PassiveInspectors = DefaultPassiveInspectors ps, EnableLogFeed = False\<rparr>"

definition New :: "Config \<Rightarrow> Capturer" where
  "New cfg = \<lparr>cap_cfg = cfg, cap_table = new_table,
     cap_hostnames = NewHostnameCache DefaultHostnameCacheCapacity DefaultHostnameCacheTTL,
     cap_dnsQueries = [], cap_synEvents = [], cap_rstEvents = [], cap_dnsErrors = [], cap_dnsAnswers = [],
     cap_logFeed = (if EnableLogFeed cfg then Some newLogFeed else None), cap_packetStats = Map.empty\<rparr>"

section \<open>Draining\<close>

definition DrainDNSQueries :: "Capturer \<Rightarrow> QueryFinding list \<times> Capturer" where
  "DrainDNSQueries c = (case dnsRing_drain (cap_dnsQueries c) of (out, r) \<Rightarrow> (out, c\<lparr>cap_dnsQueries := r\<rparr>))"

definition DrainSYNEvents :: "Capturer \<Rightarrow> SYNEvent list \<times> Capturer" where
  "DrainSYNEvents c = (case synEventRing_drain (cap_synEvents c) of (out, r) \<Rightarrow> (out, c\<lparr>cap_synEvents := r\<rparr>))"

definition DrainRSTEvents :: "Capturer \<Rightarrow> RSTEvent list \<times> Capturer" where
  "DrainRSTEvents c = (case rstEventRing_drain (cap_rstEvents c) of (out, r) \<Rightarrow> (out, c\<lparr>cap_rstEvents := r\<rparr>))"

definition DrainDNSErrors :: "Capturer \<Rightarrow> DNSErrorFinding list \<times> Capturer" where
  "DrainDNSErrors c = (case dnsRing_drain (cap_dnsErrors c) of (out, r) \<Rightarrow> (out, c\<lparr>cap_dnsErrors := r\<rparr>))"

definition DrainDNSAnswers :: "Capturer \<Rightarrow> DNSAnswerFinding list \<times> Capturer" where
  "DrainDNSAnswers c = (case dnsRing_drain (cap_dnsAnswers c) of (out, r) \<Rightarrow> (out, c\<lparr>cap_dnsAnswers := r\<rparr>))"

definition LogFeedOverflow :: "Capturer \<Rightarrow> u64 \<times> u64" where
  "LogFeedOverflow c = (case cap_logFeed c of None \<Rightarrow> (0, 0) | Some f \<Rightarrow> overflow f)"

section \<open>Inspection\<close>

record inspectInput =
  in_data :: bytes
  in_info :: packetInfo
  in_inbound :: bool
  in_ts :: time

definition extractPayload :: "dissector \<Rightarrow> bytes \<Rightarrow> bool \<Rightarrow> (u32 \<times> bytes) option" where
  "extractPayload d data isTCP =
     (if isTCP then tcp_layer d data
      else case udp_layer d data of None \<Rightarrow> None | Some payload \<Rightarrow> Some (0, payload))"

text \<open>An inspector's answer for a complete payload goes to the flow and to the cache.\<close>

definition report_host ::
    "Inspector \<Rightarrow> bytes \<Rightarrow> addr \<Rightarrow> time \<Rightarrow> ByteCounter \<times> HostnameCache \<Rightarrow> ByteCounter \<times> HostnameCache" where
  "report_host insp payload remote ts s =
     (let (ctr, hc) = s in
        case i_Inspect insp payload of
          None \<Rightarrow> (ctr, hc)
        | Some host \<Rightarrow> (SetHostname host ctr, Put (addr_String remote) host ts hc))"

text \<open>What the chosen inspector does with the packet.\<close>

definition inspect_with ::
    "Inspector \<Rightarrow> bool \<Rightarrow> u32 \<Rightarrow> bytes \<Rightarrow> addr \<Rightarrow> time \<Rightarrow> ByteCounter \<times> HostnameCache \<Rightarrow> ByteCounter \<times> HostnameCache"
where
  "inspect_with insp isTCP seq payload remote ts s =
     (let (ctr, hc) = s in
        if \<not> isTCP then report_host insp payload remote ts (MarkHostnameAttempted ctr, hc)
        else (case AddHelloSegment (i_Name insp) seq payload ctr of
          (ready, done, ctr) \<Rightarrow>
            (case (case ready of None \<Rightarrow> (ctr, hc) | Some r \<Rightarrow> report_host insp r remote ts (ctr, hc)) of
               (ctr, hc) \<Rightarrow> (if done then MarkHostnameAttempted ctr else ctr, hc))))"

definition inspect_ctr ::
    "Inspector list \<Rightarrow> dissector \<Rightarrow> inspectInput \<Rightarrow> addr \<Rightarrow> ByteCounter \<times> HostnameCache \<Rightarrow> ByteCounter \<times> HostnameCache"
where
  "inspect_ctr insps d i remote s =
     (let (ctr, hc) = s in
      if insps = [] \<or> \<not> NeedsHostnameInspection ctr then (ctr, hc)
      else
        let cand = \<lparr>IsTCP = (pi_Proto (in_info i) = ProtoTCP), cp_SrcPort = SrcPort (in_info i),
                    cp_DstPort = DstPort (in_info i), Outbound = (\<not> in_inbound i),
                    DatagramLen = sint (Bytes (in_info i)), cp_Payload = []\<rparr>;
            inProgress = (IsTCP cand \<and> HelloInProgress ctr);
            wantInspector = (if inProgress then HelloInspector ctr else '''')
        in if \<not> inProgress \<and> IsTCP cand \<and> DatagramLen cand \<le> minPayloadDatagramLen then (ctr, hc)
        else case extractPayload d (in_data i) (IsTCP cand) of
          None \<Rightarrow> (if inProgress then MarkHostnameAttempted ctr else ctr, hc)
        | Some (seq, payload) \<Rightarrow>
            let cand = cand\<lparr>cp_Payload := payload\<rparr> in
            (case find (\<lambda>insp. if inProgress then Outbound cand \<and> i_Name insp = wantInspector
                               else i_Candidate insp cand) insps of
               Some insp \<Rightarrow> inspect_with insp (IsTCP cand) seq payload remote (in_ts i) (ctr, hc)
             | None \<Rightarrow> (if \<not> inProgress then MarkHostnameAttempted ctr else ctr, hc)))"

definition inspect :: "dissector \<Rightarrow> inspectInput \<Rightarrow> addr \<Rightarrow> nat \<Rightarrow> Capturer \<Rightarrow> Capturer" where
  "inspect d i remote p c =
     (case inspect_ctr (cfg_Inspectors (cap_cfg c)) d i remote (ft_ctrs (cap_table c) p, cap_hostnames c) of
        (ctr, hc) \<Rightarrow> c\<lparr>cap_table := on_ctr p (\<lambda>_. ctr) (cap_table c), cap_hostnames := hc\<rparr>)"

text \<open>Passive inspection: what the findings of one inspector do, and the loop over them.\<close>

definition push_query :: "QueryFinding \<Rightarrow> Capturer \<Rightarrow> Capturer" where
  "push_query f c =
     c\<lparr>cap_dnsQueries := dnsQueryRing_push f (cap_dnsQueries c),
       cap_logFeed := map_option (sendDNSQuery f) (cap_logFeed c)\<rparr>"

definition passive_findings :: "packetInfo \<Rightarrow> time \<Rightarrow> bytes \<Rightarrow> PassiveInspector \<Rightarrow> Capturer \<Rightarrow> Capturer" where
  "passive_findings info ts payload insp c =
     (let src = addr_String (Src info); dst = addr_String (Dst info);
          c = c\<lparr>cap_hostnames := fold (\<lambda>f. Put (hf_IP f) (hf_Hostname f) ts) (p_Inspect insp payload) (cap_hostnames c)\<rparr>;
          c = (case p_InspectQuery insp of None \<Rightarrow> c | Some q \<Rightarrow> fold push_query (q payload src dst ts) c);
          c = (case p_InspectError insp of None \<Rightarrow> c
               | Some e \<Rightarrow> c\<lparr>cap_dnsErrors := fold dnsErrorRing_push (e payload src ts) (cap_dnsErrors c)\<rparr>)
      in case p_InspectAnswer insp of None \<Rightarrow> c
         | Some a \<Rightarrow> c\<lparr>cap_dnsAnswers := fold dnsAnswerRing_push (a payload src ts) (cap_dnsAnswers c)\<rparr>)"

definition inspectPassive :: "dissector \<Rightarrow> bytes \<Rightarrow> packetInfo \<Rightarrow> time \<Rightarrow> Capturer \<Rightarrow> Capturer" where
  "inspectPassive d data info ts c =
     (let cand = \<lparr>IsTCP = (pi_Proto info = ProtoTCP), cp_SrcPort = SrcPort info, cp_DstPort = DstPort info,
                  Outbound = False, DatagramLen = sint (Bytes info), cp_Payload = []\<rparr>
      in fold (\<lambda>insp c.
           if \<not> p_Candidate insp cand then c
           else case extractPayload d data (IsTCP cand) of
             None \<Rightarrow> c
           | Some (_, payload) \<Rightarrow>
               if IsTCP cand \<and> length payload < 2 then c
               else passive_findings info ts (if IsTCP cand then drop 2 payload else payload) insp c)
         (cfg_PassiveInspectors (cap_cfg c)) c)"

section \<open>One packet\<close>

definition push_syn :: "SYNEvent \<Rightarrow> Capturer \<Rightarrow> Capturer" where
  "push_syn ev c =
     c\<lparr>cap_synEvents := synEventRing_push ev (cap_synEvents c),
       cap_logFeed := map_option (sendSYN ev) (cap_logFeed c)\<rparr>"

text \<open>The part of \<open>handlePacket\<close> after a packet has been attributed to a flow.\<close>

definition attributed ::
    "dissector \<Rightarrow> string \<Rightarrow> bytes \<Rightarrow> packetInfo \<Rightarrow> FlowKey \<Rightarrow> bool \<Rightarrow> time \<Rightarrow> Capturer \<Rightarrow> Capturer" where
  "attributed d iface data info key inbound ts c =
     (case record_flow key ts (Bytes info) inbound (cap_table c) of
        (p, T) \<Rightarrow>
          let c = c\<lparr>cap_table := T\<rparr>;
              c = inspect d \<lparr>in_data = data, in_info = info, in_inbound = inbound, in_ts = ts\<rparr> (fk_RemoteAddr key) p c;
              c = inspectPassive d data info ts c;
              c = (if pi_Proto info = ProtoTCP \<and> SYN info \<and> \<not> ACK info
                   then push_syn \<lparr>se_Iface = iface, se_LocalAddr = fk_LocalAddr key, se_LocalPort = fk_LocalPort key,
                          se_RemoteAddr = fk_RemoteAddr key, se_RemotePort = fk_RemotePort key, se_At = ts\<rparr> c
                   else c)
          in if pi_Proto info = ProtoTCP \<and> RST info
             then c\<lparr>cap_rstEvents := rstEventRing_push
                      \<lparr>re_Iface = iface, re_LocalAddr = fk_LocalAddr key, re_LocalPort = fk_LocalPort key,
                       re_RemoteAddr = fk_RemoteAddr key, re_RemotePort = fk_RemotePort key, re_At = ts\<rparr> (cap_rstEvents c)\<rparr>
             else c)"

text \<open>\<open>handlePacket\<close> takes the decoder's state along; \<open>clock\<close> is \<^verbatim>\<open>time.Now\<close> for a packet without timestamp.\<close>

definition handlePacket ::
    "dissector \<Rightarrow> string \<Rightarrow> (addr \<Rightarrow> bool) \<Rightarrow> time \<Rightarrow> bytes \<Rightarrow> time \<Rightarrow> transportPorts \<times> Capturer \<Rightarrow> transportPorts \<times> Capturer"
where
  "handlePacket d iface isLocal clock data timestamp s =
     (let (t, c) = s in
      case decode (dissect d data) t of
        (None, t) \<Rightarrow> (t, c)
      | (Some info, t) \<Rightarrow>
          (case normalise info iface isLocal of
             None \<Rightarrow> (t, c)
           | Some (key, inbound) \<Rightarrow>
               (t, attributed d iface data info key inbound (if IsZero timestamp then clock else timestamp) c)))"

section \<open>The read loop\<close>

definition shouldSampleStats :: "time \<Rightarrow> time \<Rightarrow> duration \<Rightarrow> bool" where
  "shouldSampleStats prev now interval \<longleftrightarrow> IsZero prev \<or> interval \<le> time_Sub now prev"

definition maybeSampleStats ::
    "PacketStats option \<Rightarrow> string \<Rightarrow> time \<Rightarrow> time \<Rightarrow> Capturer \<Rightarrow> time \<times> Capturer" where
  "maybeSampleStats stats iface now prev c =
     (if \<not> shouldSampleStats prev now statsSampleInterval then (prev, c)
      else (now, case stats of None \<Rightarrow> c
                 | Some s \<Rightarrow> c\<lparr>cap_packetStats := (cap_packetStats c)(iface \<mapsto> s)\<rparr>))"

datatype read_result = RPacket bytes time | RTimeout | REOF | RError

datatype capture_error =
    ErrContext | ErrSnapLen | ErrInterfaces | ErrAddrs | ErrOpen string | ErrFilter string | ErrLinkType string
  | ErrEnded string | ErrRead string

text \<open>What one turn of the loop finds: the context's state, the clock, the statistics, the read.\<close>

record turn =
  t_cancelled :: bool
  t_now :: time
  t_stats :: "PacketStats option"
  t_read :: read_result
  t_clock :: time

text \<open>The loop of \<open>captureOn\<close> over the turns; \<open>None\<close> is a loop that is still running after them.\<close>

fun capture_loop ::
    "dissector \<Rightarrow> string \<Rightarrow> (addr \<Rightarrow> bool) \<Rightarrow> turn list \<Rightarrow> time \<Rightarrow> transportPorts \<times> Capturer \<Rightarrow> capture_error option \<times> Capturer"
where
  "capture_loop d iface isLocal [] prev (t, c) = (None, c)"
| "capture_loop d iface isLocal (u # us) prev (t, c) =
     (if t_cancelled u then (Some ErrContext, c)
      else case maybeSampleStats (t_stats u) iface (t_now u) prev c of
        (prev, c) \<Rightarrow>
          (case t_read u of
             RTimeout \<Rightarrow> capture_loop d iface isLocal us prev (t, c)
           | REOF \<Rightarrow> (Some (ErrEnded iface), c)
           | RError \<Rightarrow> (Some (ErrRead iface), c)
           | RPacket data ts \<Rightarrow> capture_loop d iface isLocal us prev (handlePacket d iface isLocal (t_clock u) data ts (t, c))))"

text \<open>Opening the handle, which fails in three ways, and the loop.\<close>

record handle_env =
  can_open :: bool
  filter_ok :: bool
  linktype_ok :: bool

definition captureOn ::
    "handle_env \<Rightarrow> dissector \<Rightarrow> string \<Rightarrow> (addr \<Rightarrow> bool) \<Rightarrow> turn list \<Rightarrow> Capturer \<Rightarrow> capture_error option \<times> Capturer"
where
  "captureOn env d iface isLocal us c =
     (if \<not> can_open env then (Some (ErrOpen iface), c)
      else if \<not> filter_ok env then (Some (ErrFilter iface), c)
      else if \<not> linktype_ok env then (Some (ErrLinkType iface), c)
      else capture_loop d iface isLocal us 0 (\<lparr>tp_src = 0, tp_dst = 0, tp_flags = 0\<rparr>, c))"

text \<open>
  \<open>Run\<close>: the checks before anything is opened, and then the result of the group of
  goroutines, the first error any of them returns; \<open>results\<close> has what \<open>captureOn\<close> returned on
  each interface, in the order they ended.
\<close>

definition Run :: "Config \<Rightarrow> string list option \<Rightarrow> addr set option \<Rightarrow> capture_error option list \<Rightarrow> capture_error option" where
  "Run cfg ifaces locals results =
     (if SnapLen cfg < 1 \<or> MaxInt32 < SnapLen cfg then Some ErrSnapLen
      else case ifaces of
        None \<Rightarrow> Some ErrInterfaces
      | Some is \<Rightarrow>
          (case locals of
             None \<Rightarrow> Some ErrAddrs
           | Some _ \<Rightarrow>
               let bestEffort = 1 < length is;
                   returned = map (\<lambda>r. if r \<noteq> None \<and> \<not> bestEffort then r else None) results
               in case find (\<lambda>r. r \<noteq> None) returned of Some r \<Rightarrow> r | None \<Rightarrow> None))"

section \<open>Lemmas\<close>

text \<open>Inspection leaves the counters of a flow alone, and keeps the cache well-formed.\<close>

definition same_counts :: "ByteCounter \<Rightarrow> ByteCounter \<Rightarrow> bool" where
  "same_counts c c' \<longleftrightarrow> Totals c' = Totals c \<and> LastSeen c' = LastSeen c"

lemma same_counts_simps [simp]:
  "same_counts c c" "same_counts c (MarkHostnameAttempted c') = same_counts c c'"
  "same_counts c (SetHostname h c') = same_counts c c'"
  by (simp_all add: same_counts_def MarkHostnameAttempted_def SetHostname_def Totals_def LastSeen_def)

lemma AddHelloSegment_counts:
  "AddHelloSegment name seq payload c = (ready, done, c') \<Longrightarrow> same_counts c c'"
  by (auto simp: AddHelloSegment_def Let_def same_counts_def Totals_def LastSeen_def
      split: prod.splits option.splits)

definition keeps :: "ByteCounter \<times> HostnameCache \<Rightarrow> ByteCounter \<times> HostnameCache \<Rightarrow> bool" where
  "keeps s s' \<longleftrightarrow> same_counts (fst s) (fst s') \<and> (cache_ok (snd s) \<longrightarrow> cache_ok (snd s'))"

lemma report_host_keeps:
  "same_counts c0 ctr \<Longrightarrow> keeps (c0, hc) (report_host insp payload remote ts (ctr, hc))"
  by (simp add: keeps_def report_host_def Put_refines split: option.split)

lemma same_counts_trans: "same_counts a b \<Longrightarrow> same_counts b c \<Longrightarrow> same_counts a c"
  by (simp add: same_counts_def)

lemma keeps_mark: "keeps s (ctr, hc) \<Longrightarrow> keeps s (MarkHostnameAttempted ctr, hc)"
  by (simp add: keeps_def)

lemma inspect_with_keeps: "keeps (ctr, hc) (inspect_with insp isTCP seq payload remote ts (ctr, hc))"
proof (cases isTCP)
  case False
  then show ?thesis by (simp add: inspect_with_def report_host_keeps)
next
  case True
  obtain ready don ctr1 where a: "AddHelloSegment (i_Name insp) seq payload ctr = (ready, don, ctr1)"
    by (metis prod_cases3)
  note c1 = AddHelloSegment_counts [OF a]
  define s2 where "s2 = (case ready of None \<Rightarrow> (ctr1, hc) | Some r \<Rightarrow> report_host insp r remote ts (ctr1, hc))"
  have "keeps (ctr, hc) s2"
    using c1 by (simp add: s2_def report_host_keeps split: option.split) (simp add: keeps_def)
  with True a keeps_mark [of "(ctr, hc)" "fst s2" "snd s2"] show ?thesis
    by (auto simp: inspect_with_def s2_def [symmetric] split: prod.split)
qed

lemma inspect_ctr_keeps: "keeps s (inspect_ctr insps d i remote s)"
proof -
  have r: "keeps (ctr, hc) (ctr, hc)" for ctr hc by (simp add: keeps_def)
  show ?thesis
    by (cases s) (simp add: inspect_ctr_def Let_def r keeps_mark inspect_with_keeps split: option.split prod.split)
qed

text \<open>What holds of the engine's state between packets.\<close>

definition cap_ok :: "Capturer \<Rightarrow> bool" where
  "cap_ok c \<longleftrightarrow> table_wf (cap_table c) \<and> cache_ok (cap_hostnames c) \<and>
     length (cap_synEvents c) \<le> synEventRingCapacity \<and> length (cap_rstEvents c) \<le> rstEventRingCapacity \<and>
     length (cap_dnsQueries c) \<le> dnsQueryRingCapacity \<and> length (cap_dnsErrors c) \<le> dnsErrorRingCapacity \<and>
     length (cap_dnsAnswers c) \<le> dnsAnswerRingCapacity"

lemma cap_okD:
  assumes "cap_ok c"
  shows "table_wf (cap_table c)" and "cache_ok (cap_hostnames c)"
  using assms by (simp_all add: cap_ok_def)

text \<open>Folding a ring's push or the cache's \<open>Put\<close>.\<close>

lemma fold_invariant: "P c \<Longrightarrow> (\<And>x c. x \<in> set xs \<Longrightarrow> P c \<Longrightarrow> P (f x c)) \<Longrightarrow> P (fold f xs c)"
  by (induction xs arbitrary: c) auto

lemma fold_Put_ok: "cache_ok hc \<Longrightarrow> cache_ok (fold (\<lambda>f. Put (ip f) (host f) ts) fs hc)"
  by (rule fold_invariant) (simp_all add: Put_refines)

lemmas fold_push_bounded =
  fold_invariant [where P = "\<lambda>r. length r \<le> dnsErrorRingCapacity", OF _ error_ring.push_bounded]
  fold_invariant [where P = "\<lambda>r. length r \<le> dnsAnswerRingCapacity", OF _ answer_ring.push_bounded]

text \<open>Passive inspection only touches the cache, the DNS buffers and the log feed.\<close>

definition passive_keeps :: "Capturer \<Rightarrow> Capturer \<Rightarrow> bool" where
  "passive_keeps c c' \<longleftrightarrow> cap_table c' = cap_table c \<and> cap_cfg c' = cap_cfg c \<and> (cap_ok c \<longrightarrow> cap_ok c')"

lemma passive_keeps_refl [simp]: "passive_keeps c c"
  by (simp add: passive_keeps_def)

lemma passive_keeps_trans: "passive_keeps a b \<Longrightarrow> passive_keeps b c \<Longrightarrow> passive_keeps a c"
  by (simp add: passive_keeps_def)

lemma passive_keeps_updates:
  "passive_keeps c (c\<lparr>cap_hostnames := fold (\<lambda>f. Put (ip f) (host f) ts) fs (cap_hostnames c)\<rparr>)"
  "passive_keeps c (push_query q c)"
  "passive_keeps c (c\<lparr>cap_dnsErrors := fold dnsErrorRing_push es (cap_dnsErrors c)\<rparr>)"
  "passive_keeps c (c\<lparr>cap_dnsAnswers := fold dnsAnswerRing_push as (cap_dnsAnswers c)\<rparr>)"
  by (auto simp: passive_keeps_def cap_ok_def fold_Put_ok push_query_def query_ring.push_bounded
      intro: fold_push_bounded)

lemma passive_keeps_queries: "passive_keeps c (fold push_query qs c)"
  by (rule fold_invariant) (auto intro: passive_keeps_trans passive_keeps_updates)

lemma passive_findings_keeps: "passive_keeps c (passive_findings info ts payload insp c)"
proof -
  note u = passive_keeps_updates(1,3,4) passive_keeps_queries
  define c1 where "c1 = c\<lparr>cap_hostnames := fold (\<lambda>f. Put (hf_IP f) (hf_Hostname f) ts) (p_Inspect insp payload) (cap_hostnames c)\<rparr>"
  define c2 where "c2 = (case p_InspectQuery insp of None \<Rightarrow> c1
      | Some q \<Rightarrow> fold push_query (q payload (addr_String (Src info)) (addr_String (Dst info)) ts) c1)"
  define c3 where "c3 = (case p_InspectError insp of None \<Rightarrow> c2
      | Some e \<Rightarrow> c2\<lparr>cap_dnsErrors := fold dnsErrorRing_push (e payload (addr_String (Src info)) ts) (cap_dnsErrors c2)\<rparr>)"
  have "passive_keeps c c1" unfolding c1_def by (rule u)
  moreover have "passive_keeps c1 c2" unfolding c2_def by (simp add: u split: option.split)
  moreover have "passive_keeps c2 c3" unfolding c3_def by (simp add: u split: option.split)
  moreover have "passive_keeps c3 (passive_findings info ts payload insp c)"
    unfolding passive_findings_def Let_def c1_def [symmetric] c2_def [symmetric] c3_def [symmetric]
    by (simp add: u split: option.split)
  ultimately show ?thesis by (meson passive_keeps_trans)
qed

lemma inspectPassive_keeps: "passive_keeps c (inspectPassive d data info ts c)"
  unfolding inspectPassive_def Let_def
  by (rule fold_invariant)
    (auto split: option.split intro: passive_keeps_trans passive_findings_keeps)

text \<open>Recording a packet, and what inspection does to the table.\<close>

lemma Add_totals:
  "Totals (Add ts n inbound c) =
     (fst (Totals c) + (if inbound then n else 0), snd (Totals c) + (if inbound then 0 else n))"
  by (simp add: Totals_def Add_def Let_def)

lemma record_flow_result:
  assumes "table_wf T" and "record_flow key ts n inbound T = (p, T')"
  shows "table_wf T'" and "ft_flows T' key = Some p"
    and "flow_totals T' k =
      (fst (flow_totals T k) + (if k = key \<and> inbound then n else 0),
       snd (flow_totals T k) + (if k = key \<and> \<not> inbound then n else 0))"
proof -
  obtain T1 where T1: "record_make key T = (p, T1)" and T': "T' = on_ctr p (Add ts n inbound) T1"
    using assms(2) by (auto simp: record_flow_def record_find_def record_make_def split: option.splits prod.splits)
  note wf = record_make_wf [OF assms(1) T1]
  show "table_wf T'" "ft_flows T' key = Some p" using wf by (simp_all add: T')
  have same: "flow_totals T1 k = flow_totals T k" for k
    using T1 table_wf_less [OF assms(1), of k]
    by (auto simp: record_make_def flow_totals_def Totals_def NewByteCounter_def split: option.splits if_splits)
  show "flow_totals T' k =
      (fst (flow_totals T k) + (if k = key \<and> inbound then n else 0),
       snd (flow_totals T k) + (if k = key \<and> \<not> inbound then n else 0))"
  proof (cases "k = key")
    case True
    then show ?thesis using wf(2) same [of key] by (simp add: flow_totals_def T' Add_totals)
  next
    case False
    have "ft_flows T1 k \<noteq> Some p" using False table_wfD [OF wf(1) wf(2)] by blast
    with False same [of k] show ?thesis
      by (auto simp: flow_totals_def T' split: option.splits)
  qed
qed

lemma inspect_result:
  assumes "cap_ok c"
  shows "cap_ok (inspect d i remote p c)"
    and "flow_totals (cap_table (inspect d i remote p c)) = flow_totals (cap_table c)"
proof -
  define s where "s = (ft_ctrs (cap_table c) p, cap_hostnames c)"
  obtain ctr hc where r: "inspect_ctr (cfg_Inspectors (cap_cfg c)) d i remote s = (ctr, hc)" by fastforce
  have "cache_ok (snd s)" using cap_okD(2) [OF assms] by (simp add: s_def)
  then have k: "same_counts (fst s) ctr" "cache_ok hc"
    using inspect_ctr_keeps [of s "cfg_Inspectors (cap_cfg c)" d i remote] by (simp_all add: r keeps_def)
  have i: "inspect d i remote p c = c\<lparr>cap_table := on_ctr p (\<lambda>_. ctr) (cap_table c), cap_hostnames := hc\<rparr>"
    using r by (simp add: inspect_def s_def)
  show "cap_ok (inspect d i remote p c)" using assms k(2) by (simp add: i cap_ok_def)
  show "flow_totals (cap_table (inspect d i remote p c)) = flow_totals (cap_table c)"
    using k(1) by (auto simp: i flow_totals_def fun_eq_iff same_counts_def s_def split: option.split)
qed

lemma attributed_result:
  assumes "cap_ok c"
  shows "cap_ok (attributed d iface data info key inbound ts c)"
    and "flow_totals (cap_table (attributed d iface data info key inbound ts c)) k =
      (fst (flow_totals (cap_table c) k) + (if k = key \<and> inbound then Bytes info else 0),
       snd (flow_totals (cap_table c) k) + (if k = key \<and> \<not> inbound then Bytes info else 0))"
proof -
  obtain p T where r: "record_flow key ts (Bytes info) inbound (cap_table c) = (p, T)" by fastforce
  note rec = record_flow_result [OF cap_okD(1) [OF assms] r]
  define c1 where "c1 = inspect d \<lparr>in_data = data, in_info = info, in_inbound = inbound, in_ts = ts\<rparr>
    (fk_RemoteAddr key) p (c\<lparr>cap_table := T\<rparr>)"
  have ok: "cap_ok (c\<lparr>cap_table := T\<rparr>)" using assms rec(1) by (simp add: cap_ok_def)
  define c2 where "c2 = inspectPassive d data info ts c1"
  have c2: "cap_ok c2" "flow_totals (cap_table c2) = flow_totals T"
    using inspectPassive_keeps [of c1 d data info ts] inspect_result [OF ok]
    by (simp_all add: c2_def c1_def passive_keeps_def)
  have push: "cap_ok (push_syn ev c)" "cap_table (push_syn ev c) = cap_table c" if "cap_ok c" for ev c
    using that by (simp_all add: push_syn_def cap_ok_def syn_ring.push_bounded)
  have rst: "cap_ok (c\<lparr>cap_rstEvents := rstEventRing_push ev (cap_rstEvents c)\<rparr>)" if "cap_ok c" for ev c
    using that by (simp add: cap_ok_def rst_ring.push_bounded)
  have "attributed d iface data info key inbound ts c =
      (let c = (if pi_Proto info = ProtoTCP \<and> SYN info \<and> \<not> ACK info
           then push_syn \<lparr>se_Iface = iface, se_LocalAddr = fk_LocalAddr key, se_LocalPort = fk_LocalPort key,
                  se_RemoteAddr = fk_RemoteAddr key, se_RemotePort = fk_RemotePort key, se_At = ts\<rparr> c2 else c2)
       in if pi_Proto info = ProtoTCP \<and> RST info
          then c\<lparr>cap_rstEvents := rstEventRing_push
                   \<lparr>re_Iface = iface, re_LocalAddr = fk_LocalAddr key, re_LocalPort = fk_LocalPort key,
                    re_RemoteAddr = fk_RemoteAddr key, re_RemotePort = fk_RemotePort key, re_At = ts\<rparr> (cap_rstEvents c)\<rparr>
          else c)"
    by (simp add: attributed_def r c1_def c2_def Let_def)
  then have "cap_ok (attributed d iface data info key inbound ts c) \<and>
      flow_totals (cap_table (attributed d iface data info key inbound ts c)) = flow_totals T"
    using c2 by (simp add: Let_def push rst)
  then show "cap_ok (attributed d iface data info key inbound ts c)"
    and "flow_totals (cap_table (attributed d iface data info key inbound ts c)) k =
      (fst (flow_totals (cap_table c) k) + (if k = key \<and> inbound then Bytes info else 0),
       snd (flow_totals (cap_table c) k) + (if k = key \<and> \<not> inbound then Bytes info else 0))"
    using rec(3) [of k] by simp_all
qed
text \<open>The packets of a run of the loop that are attributed to a flow, with direction and size.\<close>

fun seen_packets ::
    "dissector \<Rightarrow> string \<Rightarrow> (addr \<Rightarrow> bool) \<Rightarrow> turn list \<Rightarrow> transportPorts \<Rightarrow> (FlowKey \<times> bool \<times> u64) list" where
  "seen_packets d iface isLocal [] t = []"
| "seen_packets d iface isLocal (u # us) t =
     (if t_cancelled u then []
      else case t_read u of
        RTimeout \<Rightarrow> seen_packets d iface isLocal us t
      | RPacket data _ \<Rightarrow>
          (case decode (dissect d data) t of
             (None, t) \<Rightarrow> seen_packets d iface isLocal us t
           | (Some info, t) \<Rightarrow>
               (case normalise info iface isLocal of
                  None \<Rightarrow> seen_packets d iface isLocal us t
                | Some (key, inbound) \<Rightarrow> (key, inbound, Bytes info) # seen_packets d iface isLocal us t))
      | _ \<Rightarrow> [])"

definition seen_bytes :: "bool \<Rightarrow> FlowKey \<Rightarrow> (FlowKey \<times> bool \<times> u64) list \<Rightarrow> u64" where
  "seen_bytes inbound k ps = (\<Sum>(key, inb, n)\<leftarrow>ps. if key = k \<and> inb = inbound then n else 0)"

lemma seen_bytes_simps [simp]:
  "seen_bytes inbound k [] = 0"
  "seen_bytes inbound k ((key, inb, n) # ps) = (if key = k \<and> inb = inbound then n else 0) + seen_bytes inbound k ps"
  by (simp_all add: seen_bytes_def)

lemma maybeSampleStats_frame:
  "maybeSampleStats stats iface now prev c = (prev', c') \<Longrightarrow>
     cap_table c' = cap_table c \<and> (cap_ok c \<longrightarrow> cap_ok c')"
  by (auto simp: maybeSampleStats_def cap_ok_def split: if_splits option.splits)

lemma capture_loop_result:
  assumes "cap_ok c"
  shows "cap_ok (snd (capture_loop d iface isLocal us prev (t, c))) \<and>
    flow_totals (cap_table (snd (capture_loop d iface isLocal us prev (t, c)))) k =
      (fst (flow_totals (cap_table c) k) + seen_bytes True k (seen_packets d iface isLocal us t),
       snd (flow_totals (cap_table c) k) + seen_bytes False k (seen_packets d iface isLocal us t))"
  using assms
proof (induction us arbitrary: prev t c)
  case (Cons u us)
  obtain prev1 c1 where s: "maybeSampleStats (t_stats u) iface (t_now u) prev c = (prev1, c1)" by fastforce
  have c1: "cap_ok c1" "cap_table c1 = cap_table c"
    using maybeSampleStats_frame [OF s] Cons.prems by simp_all
  show ?case
  proof (cases "t_cancelled u")
    case False
    show ?thesis
    proof (cases "t_read u")
      case (RPacket data ts)
      obtain io t1 where dc: "decode (dissect d data) t = (io, t1)" by fastforce
      show ?thesis
      proof (cases "case io of None \<Rightarrow> None | Some info \<Rightarrow> normalise info iface isLocal")
        case None
        then have "handlePacket d iface isLocal (t_clock u) data ts (t, c1) = (t1, c1)"
          and "seen_packets d iface isLocal (u # us) t = seen_packets d iface isLocal us t1"
          using dc False RPacket by (auto simp: handlePacket_def split: option.splits)
        then show ?thesis using Cons.IH [OF c1(1)] False RPacket s c1(2) by simp
      next
        case (Some ki)
        then obtain info where info: "io = Some info" "normalise info iface isLocal = Some (fst ki, snd ki)"
          by (auto split: option.splits)
        define c2 where "c2 = attributed d iface data info (fst ki) (snd ki) (if IsZero ts then t_clock u else ts) c1"
        have h: "handlePacket d iface isLocal (t_clock u) data ts (t, c1) = (t1, c2)"
          and sp: "seen_packets d iface isLocal (u # us) t =
            (fst ki, snd ki, Bytes info) # seen_packets d iface isLocal us t1"
          using dc info False RPacket by (simp_all add: handlePacket_def c2_def case_prod_beta)
        note a = attributed_result [OF c1(1), of d iface data info "fst ki" "snd ki" "if IsZero ts then t_clock u else ts", folded c2_def]
        show ?thesis
          using Cons.IH [OF a(1)] a(2) [of k] False RPacket s c1(2) h unfolding sp by (simp add: add.assoc)
      qed
    qed (use Cons.IH [OF c1(1)] False s c1 in simp_all)
  qed (use Cons.prems in simp)
qed simp

lemma New_ok: "cap_ok (New cfg)"
  by (simp add: cap_ok_def New_def table_wf_new NewHostnameCache_ok)

section \<open>Properties\<close>

text \<open>
  C23: every byte is accounted for: after any run of the read loop from a new engine, however
  packets, timeouts and errors alternate and whatever the inspectors found, each flow has
  the sizes of exactly the packets attributed to it in each direction, and the flow table,
  the hostname cache and the event buffers are well-formed and within their bounds.
\<close>

theorem captured_totals:
  "cap_ok (snd (capture_loop d iface isLocal us prev (t, New cfg))) \<and>
   flow_totals (cap_table (snd (capture_loop d iface isLocal us prev (t, New cfg)))) k =
     (seen_bytes True k (seen_packets d iface isLocal us t), seen_bytes False k (seen_packets d iface isLocal us t))"
proof -
  have "flow_totals (cap_table (New cfg)) k = (0, 0)"
    by (simp add: New_def flow_totals_def new_table_def)
  with capture_loop_result [OF New_ok, of d iface isLocal us prev t cfg k] show ?thesis by simp
qed

lemma find_two:
  assumes "\<not> (P a \<and> P b)"
  shows "find P [a, b] = find P [b, a]"
  using assms by auto

text \<open>
  Which of the default inspectors is asked first does not matter: no packet is a
  candidate of both, and a reassembly goes back to the inspector that began it.
\<close>

theorem default_inspectors_commute:
  "inspect_ctr (rev (DefaultInspectors ps)) = inspect_ctr (DefaultInspectors ps)"
proof (intro ext)
  fix d i remote s
  have f: "find (\<lambda>insp. if pr then Outbound cand \<and> i_Name insp = want else i_Candidate insp cand)
        [NewQUICSNIInspector ps, NewTLSSNIInspector ps] =
      find (\<lambda>insp. if pr then Outbound cand \<and> i_Name insp = want else i_Candidate insp cand)
        [NewTLSSNIInspector ps, NewQUICSNIInspector ps]" for pr cand want
    by (rule find_two) (auto simp: NewQUICSNIInspector_def NewTLSSNIInspector_def candidate_defs)
  show "inspect_ctr (rev (DefaultInspectors ps)) d i remote s = inspect_ctr (DefaultInspectors ps) d i remote s"
    unfolding inspect_ctr_def DefaultInspectors_def by (simp only: rev.simps append.simps f list.distinct)
qed
text \<open>A flow in the middle of a reassembly by the TLS inspector.\<close>

definition reassembling :: "HelloAssembler \<Rightarrow> ByteCounter \<Rightarrow> bool" where
  "reassembling h ctr \<longleftrightarrow> assembler ctr = Some h \<and> helloInspector ctr = ''tls-sni'' \<and>
     hostname ctr = '''' \<and> \<not> hostnameAttempted ctr"

text \<open>An outbound TCP packet with this sequence number and payload.\<close>

definition outbound_segment :: "dissector \<Rightarrow> u32 \<Rightarrow> bytes \<Rightarrow> inspectInput \<Rightarrow> bool" where
  "outbound_segment d seq p i \<longleftrightarrow> pi_Proto (in_info i) = ProtoTCP \<and> \<not> in_inbound i \<and>
     extractPayload d (in_data i) True = Some (seq, p)"

text \<open>The outbound packets of one stream, in order from a sequence number on.\<close>

fun stream_inputs :: "dissector \<Rightarrow> u32 \<Rightarrow> bytes list \<Rightarrow> inspectInput list \<Rightarrow> bool" where
  "stream_inputs d seq [] is \<longleftrightarrow> is = []"
| "stream_inputs d seq (p # ps) is \<longleftrightarrow>
     (case is of [] \<Rightarrow> False
      | i # is' \<Rightarrow> outbound_segment d seq p i \<and> stream_inputs d (seq + of_nat (length p)) ps is')"

definition inspect_all ::
    "Inspector list \<Rightarrow> dissector \<Rightarrow> addr \<Rightarrow> inspectInput list \<Rightarrow> ByteCounter \<times> HostnameCache \<Rightarrow> ByteCounter \<times> HostnameCache" where
  "inspect_all insps d remote is s = fold (\<lambda>i. inspect_ctr insps d i remote) is s"

lemma inspect_done: "\<not> NeedsHostnameInspection ctr \<Longrightarrow> inspect_ctr insps d i remote (ctr, hc) = (ctr, hc)"
  by (simp add: inspect_ctr_def)

lemma inspect_all_done: "\<not> NeedsHostnameInspection ctr \<Longrightarrow> inspect_all insps d remote is (ctr, hc) = (ctr, hc)"
  by (induction "is") (simp_all add: inspect_all_def inspect_done)

lemma NeedsHostnameInspection_mark [simp]: "\<not> NeedsHostnameInspection (MarkHostnameAttempted ctr)"
  by (simp add: NeedsHostnameInspection_def MarkHostnameAttempted_def)

text \<open>A continuation goes to the TLS inspector, and so does a first packet it recognises.\<close>

lemma inspect_continuation:
  assumes "reassembling h ctr" and "outbound_segment d seq p i"
  shows "inspect_ctr (DefaultInspectors ps) d i remote (ctr, hc) =
      inspect_with (NewTLSSNIInspector ps) True seq p remote (in_ts i) (ctr, hc)"
  using assms
  by (simp add: inspect_ctr_def reassembling_def outbound_segment_def NeedsHostnameInspection_def
      HelloInProgress_def HelloInspector_def DefaultInspectors_def NewTLSSNIInspector_def Let_def)

lemma inspect_opening:
  assumes "NeedsHostnameInspection ctr" and "assembler ctr = None" and "outbound_segment d seq p i"
    and "looksLikeTLSClientHello p" and "minPayloadDatagramLen < sint (Bytes (in_info i))"
  shows "inspect_ctr (DefaultInspectors ps) d i remote (ctr, hc) =
      inspect_with (NewTLSSNIInspector ps) True seq p remote (in_ts i)
        (ctr\<lparr>assembler := Some NewHelloAssembler, helloInspector := ''tls-sni''\<rparr>, hc)"
  using assms
  by (simp add: inspect_ctr_def outbound_segment_def HelloInProgress_def DefaultInspectors_def NewTLSSNIInspector_def
      TLS_Candidate_def inspect_with_def AddHelloSegment_def Let_def)

lemma inspect_with_feed:
  assumes "reassembling h ctr" and "Feed seq p h = (ready, don, h')"
  shows "inspect_with (NewTLSSNIInspector ps) True seq p remote ts (ctr, hc) =
    (case (case ready of None \<Rightarrow> (ctr\<lparr>assembler := Some h'\<rparr>, hc)
           | Some r \<Rightarrow> report_host (NewTLSSNIInspector ps) r remote ts (ctr\<lparr>assembler := Some h'\<rparr>, hc)) of
       (ctr, hc) \<Rightarrow> (if don then MarkHostnameAttempted ctr else ctr, hc))"
  using assms by (simp add: inspect_with_def AddHelloSegment_def reassembling_def)

lemma Feed_ready_done: "Feed seq p h = (ready, False, h') \<Longrightarrow> ready = None"
  by (auto simp: Feed_def Let_def split: if_splits)

lemma TLS_inspector_Inspect: "i_Inspect (NewTLSSNIInspector ps) = TLS_Inspect ps"
  by (simp add: NewTLSSNIInspector_def)

text \<open>The rest of a stream after the first packet.\<close>

lemma inspect_all_stream:
  assumes "reassembling h ctr" and "stream_inputs d seq qs is" and "feed_all seq qs h = (Some r, True, h')"
    and "TLS_Inspect ps r = Some host"
  shows "\<exists>ctr' ts. inspect_all (DefaultInspectors ps) d remote is (ctr, hc) = (ctr', Put (addr_String remote) host ts hc) \<and>
    hostname ctr' = host"
  using assms(1-3)
proof (induction qs arbitrary: seq "is" h ctr)
  case (Cons p qs)
  obtain i is' where i: "is = i # is'" "outbound_segment d seq p i" "stream_inputs d (seq + of_nat (length p)) qs is'"
    using Cons.prems(2) by (auto split: list.splits)
  obtain ready don h1 where f: "Feed seq p h = (ready, don, h1)" by (metis prod_cases3)
  have st: "inspect_ctr (DefaultInspectors ps) d i remote (ctr, hc) =
      inspect_with (NewTLSSNIInspector ps) True seq p remote (in_ts i) (ctr, hc)"
    by (rule inspect_continuation [OF Cons.prems(1) i(2)])
  show ?case
  proof (cases don)
    case True
    with f Cons.prems(3) have "ready = Some r" by simp
    define ctr1 where "ctr1 = MarkHostnameAttempted (SetHostname host (ctr\<lparr>assembler := Some h1\<rparr>))"
    have "inspect_ctr (DefaultInspectors ps) d i remote (ctr, hc) = (ctr1, Put (addr_String remote) host (in_ts i) hc)"
      using True assms(4) \<open>ready = Some r\<close>
      by (simp add: st inspect_with_feed [OF Cons.prems(1) f] report_host_def TLS_inspector_Inspect ctr1_def)
    then have "inspect_all (DefaultInspectors ps) d remote is (ctr, hc) =
        inspect_all (DefaultInspectors ps) d remote is' (ctr1, Put (addr_String remote) host (in_ts i) hc)"
      by (simp add: inspect_all_def i(1))
    moreover have "hostname ctr1 = host" "\<not> NeedsHostnameInspection ctr1"
      using Cons.prems(1) by (simp_all add: ctr1_def reassembling_def SetHostname_def MarkHostnameAttempted_def NeedsHostnameInspection_def)
    ultimately show ?thesis using inspect_all_done by metis
  next
    case False
    have "ready = None" using Feed_ready_done f False by (cases don) auto
    then have one: "inspect_ctr (DefaultInspectors ps) d i remote (ctr, hc) = (ctr\<lparr>assembler := Some h1\<rparr>, hc)"
      using False by (simp add: st inspect_with_feed [OF Cons.prems(1) f])
    have "reassembling h1 (ctr\<lparr>assembler := Some h1\<rparr>)" using Cons.prems(1) by (simp add: reassembling_def)
    moreover have "feed_all (seq + of_nat (length p)) qs h1 = (Some r, True, h')"
      using Cons.prems(3) f False by simp
    ultimately show ?thesis using Cons.IH [OF _ i(3)] by (simp add: inspect_all_def i(1) one)
  qed
qed simp

text \<open>
  C24: a TLS ClientHello is found however it is cut: when a flow's first packet of more than
  120 bytes starts a ClientHello record, and the record's bytes are sent in order in at most
  eight packets and 8192 bytes, the flow gets the server name that the parser reads from
  the whole record, and the cache gets it for the remote address.
\<close>

theorem split_hello_found:
  assumes "NeedsHostnameInspection ctr" and "assembler ctr = None"
    and "stream_inputs d seq (p # qs) (i # is)" and "looksLikeTLSClientHello p"
    and "minPayloadDatagramLen < sint (Bytes (in_info i))"
    and "hello_record r" and "concat (p # qs) = r @ zs" and "\<forall>q \<in> set qs. q \<noteq> []"
    and "length (concat (p # qs)) \<le> maxHelloBufferBytes" and "length (p # qs) \<le> maxHelloSegments"
    and "TLS_Inspect ps r = Some host"
  shows "\<exists>ctr' ts. inspect_all (DefaultInspectors ps) d remote (i # is) (ctr, hc) =
      (ctr', Put (addr_String remote) host ts hc) \<and> Hostname ctr' = host"
proof -
  define c0 where "c0 = ctr\<lparr>assembler := Some NewHelloAssembler, helloInspector := ''tls-sni''\<rparr>"
  have c0: "reassembling NewHelloAssembler c0"
    using assms(1) by (simp add: reassembling_def c0_def NeedsHostnameInspection_def)
  have seg: "outbound_segment d seq p i" using assms(3) by simp
  have "p \<noteq> []" using assms(4) by (auto simp: looksLikeTLSClientHello_def)
  with assms(8) have "\<forall>q \<in> set (p # qs). q \<noteq> []" by simp
  moreover have "r \<noteq> []" using assms(6) by (auto simp: hello_record_def tlsRecordHeaderLen_def)
  ultimately obtain h' where f: "feed_all seq (p # qs) NewHelloAssembler = (Some r, True, h')"
    using feed_all_collects [OF collected_new assms(6), of "p # qs" zs seq] assms(7,9,10)
    by (auto simp del: feed_all.simps)
  have "inspect_all (DefaultInspectors ps) d remote (i # is) (ctr, hc) =
      inspect_all (DefaultInspectors ps) d remote (i # is) (c0, hc)"
    unfolding inspect_all_def fold_Cons comp_def
    by (simp add: inspect_opening [OF assms(1,2) seg assms(4,5)] inspect_continuation [OF c0 seg] c0_def [symmetric])
  with inspect_all_stream [OF c0 assms(3) f assms(11), of remote hc] show ?thesis
    by (simp add: Hostname_def)
qed

definition sample_dissector :: dissector where
  "sample_dissector = \<lparr>dissect = (\<lambda>_. None), tcp_layer = (\<lambda>data. Some (if length data = 6 then 100 else 106, data)),
     udp_layer = (\<lambda>_. None)\<rparr>"

definition sample_input :: "bytes \<Rightarrow> inspectInput" where
  "sample_input data = \<lparr>in_data = data, in_info = no_info\<lparr>Bytes := 500\<rparr>, in_inbound = False, in_ts = 7\<rparr>"

definition sample_parsers :: parsers where
  "sample_parsers = \<lparr>unmarshal_hello = (\<lambda>b. if length b = 9 then Parsed ''one.one'' else ParseError),
     ReadClientHello = (\<lambda>_. Panic), decode_dns = (\<lambda>_. ParseError), DNSType_String = (\<lambda>_. ''''), RCode_String = (\<lambda>_. '''')\<rparr>"

lemmas sample_inspect_defs = sample_dissector_def sample_input_def sample_parsers_def no_info_def

theorem split_hello_found_witness:
  "\<exists>ctr' ts. inspect_all (DefaultInspectors sample_parsers) sample_dissector (AddrV4 [1, 1, 1, 1])
      [sample_input [0x16, 3, 1, 0, 4, 1], sample_input [0, 0, 0]] (NewByteCounter, NewHostnameCache 2 10) =
      (ctr', Put (addr_String (AddrV4 [1, 1, 1, 1])) ''one.one'' ts (NewHostnameCache 2 10)) \<and> Hostname ctr' = ''one.one''"
  by (rule split_hello_found [where seq = 100 and p = "[0x16, 3, 1, 0, 4, 1]" and qs = "[[0, 0, 0]]" and r = "[0x16, 3, 1, 0, 4, 1, 0, 0, 0]" and zs = "[]"])
    (simp_all add: NeedsHostnameInspection_def NewByteCounter_def outbound_segment_def extractPayload_def
      sample_inspect_defs looksLikeTLSClientHello_def minPayloadDatagramLen_def hello_record_def record_total_def
      tlsRecordHeaderLen_def tlsHandshakeRecordType_def maxHelloBufferBytes_def maxHelloSegments_def
      TLS_Inspect_def recoverPanic_def)

text \<open>
  A flow's first payload decides: a TCP packet of more than 120 bytes that no default
  inspector recognises, as any inbound one, ends the attempt, and no later packet of the
  flow is looked at, a ClientHello that follows after STARTTLS included.
\<close>

theorem opening_packet_decides:
  assumes "NeedsHostnameInspection ctr" and "assembler ctr = None" and "pi_Proto (in_info i) = ProtoTCP"
    and "minPayloadDatagramLen < sint (Bytes (in_info i))" and "extractPayload d (in_data i) True = Some (seq, p)"
    and "in_inbound i \<or> \<not> looksLikeTLSClientHello p"
  shows "inspect_all (DefaultInspectors ps) d remote (i # is) (ctr, hc) = (MarkHostnameAttempted ctr, hc)"
proof -
  have "inspect_ctr (DefaultInspectors ps) d i remote (ctr, hc) = (MarkHostnameAttempted ctr, hc)"
    using assms by (auto simp: inspect_ctr_def HelloInProgress_def DefaultInspectors_def NewTLSSNIInspector_def
        NewQUICSNIInspector_def candidate_defs Let_def)
  then show ?thesis
    using inspect_all_done [of "MarkHostnameAttempted ctr" "DefaultInspectors ps" d remote "is" hc]
    by (simp add: inspect_all_def)
qed

theorem opening_packet_decides_witness:
  "inspect_all (DefaultInspectors sample_parsers) sample_dissector (AddrV4 [1, 1, 1, 1])
     [(sample_input [50, 50, 48])\<lparr>in_inbound := True\<rparr>, sample_input [0x16, 3, 1, 0, 4, 1], sample_input [0, 0, 0]]
     (NewByteCounter, NewHostnameCache 2 10) = (MarkHostnameAttempted NewByteCounter, NewHostnameCache 2 10)"
  by (rule opening_packet_decides [where seq = 106 and p = "[50, 50, 48]"])
    (simp_all add: NeedsHostnameInspection_def NewByteCounter_def extractPayload_def sample_inspect_defs
      minPayloadDatagramLen_def)

text \<open>
  With more than one interface \<open>Run\<close> returns no error once capturing has begun, neither
  that the context was cancelled nor that every interface failed to open; with one it
  returns that interface's error. The checks before that report theirs.
\<close>

theorem run_errors:
  assumes "1 \<le> SnapLen cfg" and "SnapLen cfg \<le> MaxInt32"
  shows "Run cfg (Some (a # b # is)) (Some locals) results = None \<and>
    Run cfg (Some [a]) (Some locals) [r] = r \<and> Run cfg None locals' results = Some ErrInterfaces \<and>
    Run cfg (Some ifs) None results = Some ErrAddrs \<and> Run (cfg\<lparr>SnapLen := 0\<rparr>) ifaces locals' results = Some ErrSnapLen"
proof -
  have "find (\<lambda>r. r \<noteq> None) (map (\<lambda>r. None :: capture_error option) results) = None"
    by (induction results) simp_all
  then show ?thesis using assms by (auto simp: Run_def Let_def)
qed

theorem run_errors_witness:
  "Run (DefaultConfig sample_parsers) (Some [''eth0'', ''lo'']) (Some {}) [Some (ErrOpen ''eth0''), Some (ErrOpen ''lo'')] = None \<and>
   Run (DefaultConfig sample_parsers) (Some [''eth0'', ''lo'']) (Some {}) [Some ErrContext, Some ErrContext] = None"
  using run_errors [of "DefaultConfig sample_parsers" "''eth0''" "''lo''" "[]" "{}" "[Some (ErrOpen ''eth0''), Some (ErrOpen ''lo'')]"]
    run_errors [of "DefaultConfig sample_parsers" "''eth0''" "''lo''" "[]" "{}" "[Some ErrContext, Some ErrContext]"]
  by (simp add: DefaultConfig_def MaxInt32_def)

end
