(* ===== verification/Aggregator.thy ===== *)
theory Aggregator
  imports Capturer Poller "HOL-Library.List_Lexorder" "HOL-Library.Product_Lexorder" "HOL-Library.Char_ord"
begin

text \<open>
  The aggregator, \<^verbatim>\<open>src/aggregate/aggregator.go\<close>: the join of the open-connection list with the flow
  counters, the memory of connections that have vanished, the refresh that also drains the
  event buffers and evicts old flows, and the rules on what counts as closed.

  Go does not fix the order in which a map is walked: a walk over the flows takes them as a
  list, and a walk over the records takes the order of the keys.

  The theory shows what a record holds, that the first sighting of a connection is kept,
  how long exactly a vanished connection stays, and three ways in which the code departs
  from what it says: an open connection that is quiet loses its counters, a connection
  seen on two interfaces shows one of them at random, and two connections of one process to
  one remote end can change places.
\<close>

section \<open>Types and constants\<close>

definition GracePeriod :: duration where "GracePeriod = 5 * second"
definition IdleThreshold :: duration where "IdleThreshold = 2 * second"
definition unattributedProcessLabel :: string where "unattributedProcessLabel = ''(no process)''"

record connKey =
  jk_pid :: i32
  jk_localAddr :: string
  jk_localPort :: u16
  jk_remoteAddr :: string
  jk_remotePort :: u16
  jk_proto :: string

record ConnectionRecord =
  r_PID :: i32
  r_ProcessName :: string
  r_LocalAddr :: string
  r_LocalPort :: u16
  r_RemoteAddr :: string
  r_RemotePort :: u16
  r_Proto :: string
  r_State :: string
  r_BytesInTotal :: u64
  r_BytesOutTotal :: u64
  r_RateInBps :: real
  r_RateOutBps :: real
  r_LastSeen :: time
  r_FirstSeen :: time
  r_Hostname :: string
  r_Iface :: string
  r_LastPolled :: time
  r_Vanished :: bool

type_synonym records = "connKey \<rightharpoonup> ConnectionRecord"

section \<open>Closed connections and the order of records\<close>

definition closingTCPState :: "string \<Rightarrow> bool" where
  "closingTCPState state \<longleftrightarrow> state \<in> set [''CLOSE_WAIT'', ''LAST_ACK'', ''CLOSING'', ''TIME_WAIT'',
     ''FIN_WAIT_1'', ''FIN_WAIT_2'', ''CLOSED'', ''FIN_WAIT1'', ''FIN_WAIT2'', ''CLOSE'']"

definition closed :: "bool \<Rightarrow> string \<Rightarrow> time \<Rightarrow> time \<Rightarrow> bool" where
  "closed vanished state seen now =
     (if vanished then True
      else if state \<noteq> '''' then closingTCPState state
      else \<not> IsZero seen \<and> IdleThreshold < time_Sub now seen)"

definition record_Closed :: "ConnectionRecord \<Rightarrow> time \<Rightarrow> bool" where
  "record_Closed r now = closed (r_Vanished r) (r_State r) (r_LastSeen r) now"

definition record_less :: "ConnectionRecord \<Rightarrow> ConnectionRecord \<Rightarrow> bool" where
  "record_less r q =
     (if r_PID r \<noteq> r_PID q then sint (r_PID r) < sint (r_PID q)
      else if r_RemoteAddr r \<noteq> r_RemoteAddr q then r_RemoteAddr r < r_RemoteAddr q
      else if r_RemotePort r \<noteq> r_RemotePort q then r_RemotePort r < r_RemotePort q
      else if r_LocalPort r \<noteq> r_LocalPort q then r_LocalPort r < r_LocalPort q
      else r_Proto r < r_Proto q)"

text \<open>
  \<^verbatim>\<open>sort.Slice\<close> promises a permutation in order, with equal elements anyhow. A stable insertion
  sort of a list in an arbitrary order gives every such result.
\<close>

fun insert_record :: "ConnectionRecord \<Rightarrow> ConnectionRecord list \<Rightarrow> ConnectionRecord list" where
  "insert_record r [] = [r]"
| "insert_record r (q # qs) = (if record_less q r then q # insert_record r qs else r # q # qs)"

definition sort_Slice :: "ConnectionRecord list \<Rightarrow> ConnectionRecord list" where
  "sort_Slice rs = foldr insert_record rs []"

section \<open>The join\<close>

definition protoFromString :: "string \<Rightarrow> Proto" where
  "protoFromString s = (if s = ''udp'' then ProtoUDP else ProtoTCP)"

definition flowKeyFor :: "Connection \<Rightarrow> FlowKey" where
  "flowKeyFor c = \<lparr>fk_LocalAddr = c_LocalAddr c, fk_LocalPort = c_LocalPort c, fk_RemoteAddr = c_RemoteAddr c,
     fk_RemotePort = c_RemotePort c, fk_Proto = protoFromString (c_Proto c), fk_Iface = ''''\<rparr>"

definition openFlowKeys :: "Connection list \<Rightarrow> FlowKey set" where
  "openFlowKeys conns = set (map flowKeyFor conns)"

definition join_key :: "Connection \<Rightarrow> connKey" where
  "join_key c = \<lparr>jk_pid = c_PID c, jk_localAddr = addr_String (c_LocalAddr c), jk_localPort = c_LocalPort c,
     jk_remoteAddr = addr_String (c_RemoteAddr c), jk_remotePort = c_RemotePort c, jk_proto = c_Proto c\<rparr>"

text \<open>The flows indexed without their interface: a later one of the walk replaces an earlier.\<close>

definition flowsByAddr :: "(FlowKey \<times> FlowStats) list \<Rightarrow> FlowKey \<rightharpoonup> FlowStats" where
  "flowsByAddr flows = fold (\<lambda>(fk, st) m. m(fk\<lparr>fk_Iface := ''''\<rparr> \<mapsto> st)) flows Map.empty"

definition first_seen :: "records \<Rightarrow> connKey \<Rightarrow> time \<Rightarrow> time" where
  "first_seen prev key now = (case prev key of Some r \<Rightarrow> r_FirstSeen r | None \<Rightarrow> now)"

definition with_stats :: "FlowStats \<Rightarrow> ConnectionRecord \<Rightarrow> ConnectionRecord" where
  "with_stats st rec = rec\<lparr>r_BytesInTotal := fs_BytesIn st, r_BytesOutTotal := fs_BytesOut st,
     r_RateInBps := fs_RateInBps st, r_RateOutBps := fs_RateOutBps st, r_LastSeen := fs_LastSeen st,
     r_Hostname := fs_Hostname st, r_Iface := fs_Iface st\<rparr>"

definition conn_record :: "records \<Rightarrow> (FlowKey \<rightharpoonup> FlowStats) \<Rightarrow> time \<Rightarrow> Connection \<Rightarrow> ConnectionRecord" where
  "conn_record prev byAddr now c =
     (let key = join_key c;
          rec = \<lparr>r_PID = c_PID c, r_ProcessName = c_ProcessName c, r_LocalAddr = jk_localAddr key,
                 r_LocalPort = c_LocalPort c, r_RemoteAddr = jk_remoteAddr key, r_RemotePort = c_RemotePort c,
                 r_Proto = c_Proto c, r_State = c_State c, r_BytesInTotal = 0, r_BytesOutTotal = 0,
                 r_RateInBps = 0, r_RateOutBps = 0, r_LastSeen = 0, r_FirstSeen = first_seen prev key now,
                 r_Hostname = '''', r_Iface = '''', r_LastPolled = now, r_Vanished = False\<rparr>
      in case byAddr (flowKeyFor c) of Some st \<Rightarrow> with_stats st rec | None \<Rightarrow> rec)"

text \<open>The records of one join are built up in a map; the keys it has are the ones seen.\<close>

definition joinConnections ::
    "records \<Rightarrow> Connection list \<Rightarrow> (FlowKey \<times> FlowStats) list \<Rightarrow> time \<Rightarrow> records \<Rightarrow> records" where
  "joinConnections prev conns flows now recs =
     (let byAddr = flowsByAddr flows
      in fold (\<lambda>c m. m(join_key c \<mapsto> conn_record prev byAddr now c)) conns recs)"

definition unattributed_key :: "FlowKey \<Rightarrow> connKey" where
  "unattributed_key fk = \<lparr>jk_pid = 0, jk_localAddr = addr_String (fk_LocalAddr fk), jk_localPort = fk_LocalPort fk,
     jk_remoteAddr = addr_String (fk_RemoteAddr fk), jk_remotePort = fk_RemotePort fk, jk_proto = Proto_String (fk_Proto fk)\<rparr>"

definition unattributed_record :: "records \<Rightarrow> time \<Rightarrow> FlowKey \<Rightarrow> FlowStats \<Rightarrow> ConnectionRecord" where
  "unattributed_record prev now fk st =
     (let key = unattributed_key fk
      in \<lparr>r_PID = 0, r_ProcessName = unattributedProcessLabel, r_LocalAddr = jk_localAddr key,
          r_LocalPort = fk_LocalPort fk, r_RemoteAddr = jk_remoteAddr key, r_RemotePort = fk_RemotePort fk,
          r_Proto = jk_proto key, r_State = '''', r_BytesInTotal = fs_BytesIn st, r_BytesOutTotal = fs_BytesOut st,
          r_RateInBps = fs_RateInBps st, r_RateOutBps = fs_RateOutBps st, r_LastSeen = fs_LastSeen st,
          r_FirstSeen = first_seen prev key now, r_Hostname = fs_Hostname st, r_Iface = fs_Iface st,
          r_LastPolled = now, r_Vanished = False\<rparr>)"

definition joinUnattributedFlows ::
    "records \<Rightarrow> (FlowKey \<times> FlowStats) list \<Rightarrow> time \<Rightarrow> records \<Rightarrow> records" where
  "joinUnattributedFlows prev flows now recs =
     fold (\<lambda>(fk, st) m.
       if fk_Proto fk \<noteq> ProtoICMP \<and> fk_Proto fk \<noteq> ProtoARP then m
       else m(unattributed_key fk \<mapsto> unattributed_record prev now fk st)) flows recs"

text \<open>
  The loop of \<open>carryForwardVanished\<close> visits each key of the previous records once, so its
  result is given key by key. A key is seen exactly when the join has made a record for it.
\<close>

definition carryForwardVanished :: "records \<Rightarrow> time \<Rightarrow> records \<Rightarrow> records" where
  "carryForwardVanished prev now recs =
     (let cutoff = now - GracePeriod
      in (\<lambda>key. case prev key of
           None \<Rightarrow> recs key
         | Some r \<Rightarrow> if recs key \<noteq> None \<or> r_LastPolled r < cutoff then recs key
                     else Some (r\<lparr>r_Vanished := True\<rparr>)))"

text \<open>
  \<open>join\<close>: the new records, and their list sorted from the order \<open>order\<close> in which the map is
  walked. The two loops over the flows may walk them in different orders.
\<close>

definition join_records ::
    "Connection list \<Rightarrow> (FlowKey \<times> FlowStats) list \<Rightarrow> (FlowKey \<times> FlowStats) list \<Rightarrow> time \<Rightarrow> records \<Rightarrow> records" where
  "join_records conns flows flows' now prev =
     carryForwardVanished prev now
       (joinUnattributedFlows prev flows' now (joinConnections prev conns flows now Map.empty))"

definition record_list :: "connKey list \<Rightarrow> records \<Rightarrow> ConnectionRecord list" where
  "record_list order recs = sort_Slice (List.map_filter recs order)"

section \<open>Refreshing\<close>

record Snapshot =
  sn_At :: time
  sn_Connections :: "ConnectionRecord list"
  sn_SYNEvents :: "SYNEvent list"
  sn_RSTEvents :: "RSTEvent list"
  sn_DNSQueries :: "QueryFinding list"
  sn_DNSErrors :: "DNSErrorFinding list"
  sn_DNSAnswers :: "DNSAnswerFinding list"
  sn_PacketStats :: "string \<rightharpoonup> PacketStats"

text \<open>The orders in which one refresh walks the maps.\<close>

record walks =
  w_snapshot :: "FlowKey list"
  w_again :: "(FlowKey \<times> FlowStats) list \<Rightarrow> (FlowKey \<times> FlowStats) list"
  w_unattributed :: "(FlowKey \<times> FlowStats) list \<Rightarrow> (FlowKey \<times> FlowStats) list"
  w_records :: "connKey list"
  w_evict :: "FlowKey list"

definition Refresh ::
    "walks \<Rightarrow> Connection list \<Rightarrow> time \<Rightarrow> records \<times> Capturer \<Rightarrow> Snapshot \<times> records \<times> Capturer" where
  "Refresh w conns now s =
     (let (prev, c) = s;
          (flows, T) = table_Snapshot (w_snapshot w) now (cap_table c);
          c = c\<lparr>cap_table := T\<rparr>;
          recs = join_records conns (w_again w flows) (w_unattributed w flows) now prev;
          list = record_list (w_records w) recs;
          (syn, c) = DrainSYNEvents c;
          (rst, c) = DrainRSTEvents c;
          (queries, c) = DrainDNSQueries c;
          (errors, c) = DrainDNSErrors c;
          (answers, c) = DrainDNSAnswers c;
          stats = cap_packetStats c;
          (n, T) = Evict (w_evict w) (now - GracePeriod) (openFlowKeys conns) (cap_table c)
      in (\<lparr>sn_At = now, sn_Connections = list, sn_SYNEvents = syn, sn_RSTEvents = rst, sn_DNSQueries = queries,
           sn_DNSErrors = errors, sn_DNSAnswers = answers, sn_PacketStats = stats\<rparr>,
          recs, c\<lparr>cap_table := T\<rparr>))"

section \<open>The order of records\<close>

text \<open>The fields \<open>less\<close> compares, as one key in the lexicographic order.\<close>

definition sort_key_of :: "ConnectionRecord \<Rightarrow> int \<times> string \<times> u16 \<times> u16 \<times> string" where
  "sort_key_of r = (sint (r_PID r), r_RemoteAddr r, r_RemotePort r, r_LocalPort r, r_Proto r)"

lemma less_prod_if: "(a, x) < (b, y) \<longleftrightarrow> (if a \<noteq> b then a < b else x < y)"
  for a b :: "'a::linorder" and x y :: "'b::linorder"
  by (auto simp: less_prod_simp)

lemma sint_neq_iff: "sint a \<noteq> sint b \<longleftrightarrow> a \<noteq> b"
  by (metis signed_word_eqI)

lemma record_less_key: "record_less r q \<longleftrightarrow> sort_key_of r < sort_key_of q"
  by (simp only: record_less_def sort_key_of_def less_prod_if sint_neq_iff)

lemma insert_record_key: "insert_record r qs = insort_key sort_key_of r qs"
  by (induction qs) (auto simp: record_less_key)

lemma sort_Slice_key: "sort_Slice rs = sort_key sort_key_of rs"
  by (induction rs) (simp_all add: sort_Slice_def insert_record_key)

lemma mset_map_filter_order:
  "distinct order \<Longrightarrow> distinct order' \<Longrightarrow> set order = set order' \<Longrightarrow>
     mset (List.map_filter recs order) = mset (List.map_filter recs order')"
  by (simp add: map_filter_def set_eq_iff_mset_eq_distinct flip: mset_filter mset_map)
    (metis mset_filter mset_map set_eq_iff_mset_eq_distinct)

section \<open>What a join makes of the records\<close>

lemma fold_map_upd:
  "fold (\<lambda>x m. m(f x \<mapsto> g x)) xs m = m ++ map_of (rev (map (\<lambda>x. (f x, g x)) xs))"
  by (induction xs arbitrary: m) simp_all

text \<open>A record made by this join.\<close>

definition fresh :: "records \<Rightarrow> time \<Rightarrow> connKey \<Rightarrow> ConnectionRecord \<Rightarrow> bool" where
  "fresh prev now key r \<longleftrightarrow> r_LastPolled r = now \<and> \<not> r_Vanished r \<and> r_FirstSeen r = first_seen prev key now"

lemma conn_record_fresh: "fresh prev now (join_key c) (conn_record prev byAddr now c)"
  by (simp add: fresh_def conn_record_def Let_def with_stats_def split: option.split)

lemma unattributed_record_fresh: "fresh prev now (unattributed_key fk) (unattributed_record prev now fk st)"
  by (simp add: fresh_def unattributed_record_def Let_def)

text \<open>Whether a join sees a key: among the connections, or as a flow without a process.\<close>

definition sees :: "Connection list \<Rightarrow> (FlowKey \<times> FlowStats) list \<Rightarrow> connKey \<Rightarrow> bool" where
  "sees conns flows key \<longleftrightarrow> key \<in> join_key ` set conns \<or>
     key \<in> unattributed_key ` {fk \<in> fst ` set flows. fk_Proto fk = ProtoICMP \<or> fk_Proto fk = ProtoARP}"

definition polled :: "Connection list \<Rightarrow> (FlowKey \<times> FlowStats) list \<Rightarrow> (FlowKey \<times> FlowStats) list \<Rightarrow> time \<Rightarrow> records \<Rightarrow> records" where
  "polled conns flows flows' now prev =
     joinUnattributedFlows prev flows' now (joinConnections prev conns flows now Map.empty)"

lemma joinConnections_map:
  "joinConnections prev conns flows now Map.empty =
     map_of (rev (map (\<lambda>c. (join_key c, conn_record prev (flowsByAddr flows) now c)) conns))"
  by (simp add: joinConnections_def Let_def fold_map_upd)

lemma joinUnattributedFlows_map:
  "joinUnattributedFlows prev flows now recs =
     recs ++ map_of (rev (map (\<lambda>(fk, st). (unattributed_key fk, unattributed_record prev now fk st))
       (filter (\<lambda>(fk, st). fk_Proto fk = ProtoICMP \<or> fk_Proto fk = ProtoARP) flows)))"
  unfolding joinUnattributedFlows_def
  by (induction flows arbitrary: recs) (auto split: if_splits)

lemma polled_fresh:
  assumes "polled conns flows flows' now prev key = Some r"
  shows "fresh prev now key r"
  using assms unfolding polled_def joinUnattributedFlows_map joinConnections_map
  by (auto simp: map_add_Some_iff dest!: map_of_SomeD intro: conn_record_fresh unattributed_record_fresh)

lemma polled_seen: "polled conns flows flows' now prev key = None \<longleftrightarrow> \<not> sees conns flows' key"
proof -
  have u: "fst ` set (map (\<lambda>(fk, st). (unattributed_key fk, unattributed_record prev now fk st))
        (filter (\<lambda>(fk, st). fk_Proto fk = ProtoICMP \<or> fk_Proto fk = ProtoARP) flows')) =
      unattributed_key ` {fk \<in> fst ` set flows'. fk_Proto fk = ProtoICMP \<or> fk_Proto fk = ProtoARP}"
    by (force simp: image_iff)
  show ?thesis
    unfolding polled_def joinUnattributedFlows_map joinConnections_map map_add_None map_of_eq_None_iff set_rev set_map sees_def
      u [unfolded set_map]
    by (auto simp: image_comp comp_def)
qed

lemma join_records_polled:
  "join_records conns flows flows' now prev key =
     (case polled conns flows flows' now prev key of
        Some r \<Rightarrow> Some r
      | None \<Rightarrow> (case prev key of None \<Rightarrow> None
                 | Some r \<Rightarrow> if r_LastPolled r < now - GracePeriod then None else Some (r\<lparr>r_Vanished := True\<rparr>)))"
  by (simp add: join_records_def carryForwardVanished_def polled_def Let_def split: option.split)

lemma join_records_unseen:
  "\<not> sees conns flows' key \<Longrightarrow> join_records conns flows flows' now prev key =
     (case prev key of None \<Rightarrow> None
      | Some r \<Rightarrow> if r_LastPolled r < now - GracePeriod then None else Some (r\<lparr>r_Vanished := True\<rparr>))"
  using polled_seen [of conns flows flows' now prev key] by (simp add: join_records_polled)

lemma join_records_seen:
  "sees conns flows' key \<Longrightarrow> \<exists>r. join_records conns flows flows' now prev key = Some r \<and> fresh prev now key r"
  using polled_seen [of conns flows flows' now prev key] polled_fresh [of conns flows flows' now prev key]
  by (auto simp: join_records_polled split: option.split)
lemma set_map_filter: "y \<in> set (List.map_filter f xs) \<longleftrightarrow> (\<exists>x \<in> set xs. f x = Some y)"
  by (induction xs) (auto simp: map_filter_simps split: option.splits)

text \<open>A map built from a list that has one value for a key.\<close>

lemma map_of_unique:
  assumes "(k, v) \<in> set xs" and "\<And>v'. (k, v') \<in> set xs \<Longrightarrow> v' = v"
  shows "map_of xs k = Some v"
proof (cases "map_of xs k")
  case None
  then have "k \<notin> fst ` set xs" by (simp add: map_of_eq_None_iff)
  with assms(1) show ?thesis by (metis fst_conv image_eqI)
next
  case (Some v')
  then show ?thesis using assms(2) [OF map_of_SomeD [OF Some]] by simp
qed

lemma flowsByAddr_map:
  "flowsByAddr flows = map_of (rev (map (\<lambda>(fk, st). (fk\<lparr>fk_Iface := ''''\<rparr>, st)) flows))"
proof -
  have "fold (\<lambda>(fk, st) m. m(fk\<lparr>fk_Iface := ''''\<rparr> \<mapsto> st)) flows m =
      m ++ map_of (rev (map (\<lambda>(fk, st). (fk\<lparr>fk_Iface := ''''\<rparr>, st)) flows))" for m
    by (induction flows arbitrary: m) auto
  then show ?thesis by (simp add: flowsByAddr_def)
qed

lemma flowsByAddr_unique:
  assumes "(k, st) \<in> set flows"
    and "\<And>k' st'. (k', st') \<in> set flows \<Longrightarrow> k'\<lparr>fk_Iface := ''''\<rparr> = k\<lparr>fk_Iface := ''''\<rparr> \<Longrightarrow> st' = st"
  shows "flowsByAddr flows (k\<lparr>fk_Iface := ''''\<rparr>) = Some st"
  unfolding flowsByAddr_map
proof (rule map_of_unique)
  show "(k\<lparr>fk_Iface := ''''\<rparr>, st) \<in> set (rev (map (\<lambda>(fk, st). (fk\<lparr>fk_Iface := ''''\<rparr>, st)) flows))"
    using assms(1) by force
  show "st' = st" if "(k\<lparr>fk_Iface := ''''\<rparr>, st') \<in> set (rev (map (\<lambda>(fk, st). (fk\<lparr>fk_Iface := ''''\<rparr>, st)) flows))" for st'
  proof -
    from that obtain k' where "(k', st') \<in> set flows" "k'\<lparr>fk_Iface := ''''\<rparr> = k\<lparr>fk_Iface := ''''\<rparr>" by auto
    then show ?thesis by (rule assms(2))
  qed
qed

text \<open>The record of a TCP or UDP connection that is listed once.\<close>

lemma join_records_conn:
  assumes "cn \<in> set conns" and "\<forall>c' \<in> set conns. join_key c' = join_key cn \<longrightarrow> c' = cn"
    and "c_Proto cn = ''tcp'' \<or> c_Proto cn = ''udp''"
  shows "join_records conns flows flows' now prev (join_key cn) = Some (conn_record prev (flowsByAddr flows) now cn)"
proof -
  have proto: "jk_proto (unattributed_key fk) \<noteq> c_Proto cn" if "fk_Proto fk = ProtoICMP \<or> fk_Proto fk = ProtoARP" for fk
    using assms(3) that by (auto simp: unattributed_key_def)
  have "jk_proto (join_key cn) = c_Proto cn" by (simp add: join_key_def)
  then have "join_key cn \<noteq> unattributed_key fk" if "fk_Proto fk = ProtoICMP \<or> fk_Proto fk = ProtoARP" for fk
    using proto [OF that] by metis
  then have "map_of (rev (map (\<lambda>(fk, st). (unattributed_key fk, unattributed_record prev now fk st))
      (filter (\<lambda>(fk, st). fk_Proto fk = ProtoICMP \<or> fk_Proto fk = ProtoARP) flows'))) (join_key cn) = None"
    by (fastforce simp: map_of_eq_None_iff)
  moreover have "map_of (rev (map (\<lambda>c. (join_key c, conn_record prev (flowsByAddr flows) now c)) conns)) (join_key cn) =
      Some (conn_record prev (flowsByAddr flows) now cn)"
    by (rule map_of_unique) (use assms(1,2) in auto)
  ultimately have "polled conns flows flows' now prev (join_key cn) = Some (conn_record prev (flowsByAddr flows) now cn)"
    by (simp add: polled_def joinUnattributedFlows_map joinConnections_map map_add_Some_iff)
  then show ?thesis by (simp add: join_records_polled)
qed

text \<open>Refreshing, taken apart.\<close>

lemma Refresh_parts:
  "sn_Connections (fst (Refresh w conns now (prev, c))) =
     record_list (w_records w) (fst (snd (Refresh w conns now (prev, c))))"
  "fst (snd (Refresh w conns now (prev, c))) =
     join_records conns (w_again w (fst (table_Snapshot (w_snapshot w) now (cap_table c))))
       (w_unattributed w (fst (table_Snapshot (w_snapshot w) now (cap_table c)))) now prev"
  "cap_table (snd (snd (Refresh w conns now (prev, c)))) =
     snd (Evict (w_evict w) (now - GracePeriod) (openFlowKeys conns) (snd (table_Snapshot (w_snapshot w) now (cap_table c))))"
  by (simp_all add: Refresh_def Let_def case_prod_beta DrainSYNEvents_def DrainRSTEvents_def DrainDNSQueries_def
      DrainDNSErrors_def DrainDNSAnswers_def)

text \<open>Several joins, one after the other.\<close>

fun joins :: "(Connection list \<times> (FlowKey \<times> FlowStats) list \<times> (FlowKey \<times> FlowStats) list \<times> time) list \<Rightarrow> records \<Rightarrow> records" where
  "joins [] recs = recs"
| "joins ((conns, flows, flows', now) # xs) recs = joins xs (join_records conns flows flows' now recs)"

lemma joins_unseen_none:
  "recs key = None \<Longrightarrow> \<forall>(conns, flows, flows', now) \<in> set xs. \<not> sees conns flows' key \<Longrightarrow> joins xs recs key = None"
  by (induction xs arbitrary: recs) (auto simp: join_records_unseen)

lemma joins_unseen:
  assumes "recs key = Some r" and "r_Vanished r"
    and "\<forall>(conns, flows, flows', now) \<in> set xs. \<not> sees conns flows' key"
  shows "joins xs recs key =
    (if \<exists>(conns, flows, flows', now) \<in> set xs. r_LastPolled r < now - GracePeriod then None else Some r)"
  using assms
proof (induction xs arbitrary: recs)
  case (Cons x xs)
  obtain conns flows flows' now where x: "x = (conns, flows, flows', now)" by (metis prod_cases4)
  have u: "join_records conns flows flows' now recs key =
      (if r_LastPolled r < now - GracePeriod then None else Some (r\<lparr>r_Vanished := True\<rparr>))"
    using Cons.prems by (simp add: x join_records_unseen)
  have r: "r\<lparr>r_Vanished := True\<rparr> = r" using Cons.prems(2) by (cases r) simp
  show ?case
  proof (cases "r_LastPolled r < now - GracePeriod")
    case True
    with u Cons.prems(3) show ?thesis by (simp add: x joins_unseen_none)
  next
    case False
    with u r have "join_records conns flows flows' now recs key = Some r" by simp
    with Cons.IH [of "join_records conns flows flows' now recs"] Cons.prems(2,3) False show ?thesis by (simp add: x)
  qed
qed simp
section \<open>Properties\<close>

lemma refresh_record:
  assumes "table_wf (cap_table c)" and "distinct (w_snapshot w)" and "set (w_snapshot w) = dom (ft_flows (cap_table c))"
    and "\<And>xs. set (w_again w xs) = set xs" and "join_key cn \<in> set (w_records w)"
    and "cn \<in> set conns" and "\<forall>c' \<in> set conns. join_key c' = join_key cn \<longrightarrow> c' = cn"
    and "c_Proto cn = ''tcp'' \<or> c_Proto cn = ''udp''"
    and "k \<in> dom (ft_flows (cap_table c))" and "k\<lparr>fk_Iface := ''''\<rparr> = flowKeyFor cn"
    and "\<forall>k' \<in> dom (ft_flows (cap_table c)). k'\<lparr>fk_Iface := ''''\<rparr> = flowKeyFor cn \<longrightarrow> k' = k"
  shows "\<exists>r \<in> set (sn_Connections (fst (Refresh w conns now (prev, c)))).
    r_PID r = c_PID cn \<and> r_ProcessName r = c_ProcessName cn \<and> r_State r = c_State cn \<and>
    (r_BytesInTotal r, r_BytesOutTotal r) = flow_totals (cap_table c) k \<and> r_Iface r = fk_Iface k \<and>
    r_LastPolled r = now \<and> \<not> r_Vanished r \<and> r_Proto r = c_Proto cn \<and>
    r_RemoteAddr r = addr_String (c_RemoteAddr cn) \<and> r_RemotePort r = c_RemotePort cn"
proof -
  define flows where "flows = fst (table_Snapshot (w_snapshot w) now (cap_table c))"
  obtain p where p: "ft_flows (cap_table c) k = Some p" using assms(9) by auto
  define st where "st = flow_stats now k (ft_ctrs (cap_table c) p)"
  have lists: "(k', st') \<in> set flows \<longleftrightarrow>
      (\<exists>q. ft_flows (cap_table c) k' = Some q \<and> st' = flow_stats now k' (ft_ctrs (cap_table c) q))" for k' st'
    using assms(3) unfolding flows_def table_Snapshot_lists [OF assms(1,2)] by (force simp: set_map_filter dom_def)
  have "flowsByAddr (w_again w flows) (k\<lparr>fk_Iface := ''''\<rparr>) = Some st"
  proof (rule flowsByAddr_unique)
    show "(k, st) \<in> set (w_again w flows)" using p by (simp add: assms(4) lists st_def)
    show "st' = st" if "(k', st') \<in> set (w_again w flows)" "k'\<lparr>fk_Iface := ''''\<rparr> = k\<lparr>fk_Iface := ''''\<rparr>" for k' st'
      using that p assms(10,11) by (auto simp: assms(4) lists st_def)
  qed
  then have by_addr: "flowsByAddr (w_again w flows) (flowKeyFor cn) = Some st" by (simp add: assms(10))
  define r where "r = conn_record prev (flowsByAddr (w_again w flows)) now cn"
  have "fst (snd (Refresh w conns now (prev, c))) (join_key cn) = Some r"
    using join_records_conn [OF assms(6-8)] by (simp add: Refresh_parts(2) r_def flows_def)
  then have "r \<in> set (sn_Connections (fst (Refresh w conns now (prev, c))))"
    using assms(5) unfolding Refresh_parts(1) record_list_def sort_Slice_key
    by (force simp: set_map_filter)
  moreover have "(fs_BytesIn st, fs_BytesOut st) = flow_totals (cap_table c) k"
    by (simp add: st_def flow_stats_totals flow_totals_def p)
  moreover have "fs_Iface st = fk_Iface k"
    by (simp add: st_def flow_stats_def Let_def case_prod_beta)
  ultimately show ?thesis
    by (intro bexI [of _ r]) (simp_all add: r_def conn_record_def by_addr Let_def with_stats_def join_key_def)
qed

text \<open>
  A refresh shows every open connection with what was captured for it: the record of a
  TCP or UDP connection whose traffic was seen on one interface carries the bytes of the
  flow in each direction, the flow's interface, and is not marked as vanished.
\<close>

theorem refresh_reports:
  assumes "table_wf (cap_table c)" and "distinct (w_snapshot w)" and "set (w_snapshot w) = dom (ft_flows (cap_table c))"
    and "\<And>xs. set (w_again w xs) = set xs" and "join_key cn \<in> set (w_records w)"
    and "cn \<in> set conns" and "\<forall>c' \<in> set conns. join_key c' = join_key cn \<longrightarrow> c' = cn"
    and "c_Proto cn = ''tcp'' \<or> c_Proto cn = ''udp''"
    and "k \<in> dom (ft_flows (cap_table c))" and "k\<lparr>fk_Iface := ''''\<rparr> = flowKeyFor cn"
    and "\<forall>k' \<in> dom (ft_flows (cap_table c)). k'\<lparr>fk_Iface := ''''\<rparr> = flowKeyFor cn \<longrightarrow> k' = k"
  shows "\<exists>r \<in> set (sn_Connections (fst (Refresh w conns now (prev, c)))).
    r_PID r = c_PID cn \<and> r_ProcessName r = c_ProcessName cn \<and> r_State r = c_State cn \<and>
    (r_BytesInTotal r, r_BytesOutTotal r) = flow_totals (cap_table c) k \<and> r_Iface r = fk_Iface k \<and>
    r_LastPolled r = now \<and> \<not> r_Vanished r"
  using refresh_record [OF assms] by blast

definition sample_conn :: Connection where
  "sample_conn = \<lparr>c_PID = 42, c_ProcessName = ''curl'', c_LocalAddr = AddrV4 [10, 0, 0, 1], c_LocalPort = 8080,
     c_RemoteAddr = AddrV4 [1, 1, 1, 1], c_RemotePort = 443, c_Proto = ''tcp'', c_State = ''ESTABLISHED''\<rparr>"

definition sample_table :: flow_table where
  "sample_table = snd (record_flow sample_flow 1 100 True new_table)"

definition sample_walks :: walks where
  "sample_walks = \<lparr>w_snapshot = [sample_flow], w_again = rev, w_unattributed = id,
     w_records = [join_key sample_conn], w_evict = [sample_flow]\<rparr>"

lemma sample_table_result:
  "table_wf sample_table" "ft_flows sample_table = [sample_flow \<mapsto> 0]" "flow_totals sample_table sample_flow = (100, 0)"
proof -
  obtain p T where r: "record_flow sample_flow 1 100 True new_table = (p, T)" by fastforce
  then have T: "sample_table = T" by (simp add: sample_table_def)
  show "table_wf sample_table" "flow_totals sample_table sample_flow = (100, 0)"
    using record_flow_result(1) [OF table_wf_new r] record_flow_result(3) [OF table_wf_new r, of sample_flow]
    by (simp_all add: T) (simp add: flow_totals_def new_table_def)
  show "ft_flows sample_table = [sample_flow \<mapsto> 0]"
    by (simp add: sample_table_def record_flow_def record_find_def record_make_def new_table_def)
qed

lemma sample_flow_strip: "sample_flow\<lparr>fk_Iface := ''''\<rparr> = flowKeyFor sample_conn"
  by (simp add: sample_flow_def flowKeyFor_def sample_conn_def protoFromString_def)

theorem refresh_reports_witness:
  "\<exists>r \<in> set (sn_Connections (fst (Refresh sample_walks [sample_conn] 2 (Map.empty,
      (New (DefaultConfig sample_parsers))\<lparr>cap_table := sample_table\<rparr>)))).
    r_PID r = 42 \<and> (r_BytesInTotal r, r_BytesOutTotal r) = (100, 0) \<and> r_Iface r = ''eth0''"
  using refresh_reports [of "(New (DefaultConfig sample_parsers))\<lparr>cap_table := sample_table\<rparr>" sample_walks
      sample_conn "[sample_conn]" sample_flow 2 Map.empty]
  by (auto simp: sample_table_result sample_flow_strip sample_walks_def) (auto simp: sample_conn_def sample_flow_def)

text \<open>
  C25: a connection that is no longer reported stays, unchanged but for its mark, as long as
  every refresh since comes within the grace period after it was last reported, and is
  gone for good after the first one that comes later.
\<close>

theorem vanished_connection:
  assumes "recs key = Some r" and "xs \<noteq> []"
    and "\<forall>(conns, flows, flows', now) \<in> set xs. \<not> sees conns flows' key"
  shows "joins xs recs key =
    (if \<exists>(conns, flows, flows', now) \<in> set xs. r_LastPolled r + GracePeriod < now then None
     else Some (r\<lparr>r_Vanished := True\<rparr>))"
proof -
  obtain conns flows flows' now ys where xs: "xs = (conns, flows, flows', now) # ys"
    using assms(2) by (metis neq_Nil_conv prod_cases4)
  have u: "join_records conns flows flows' now recs key =
      (if r_LastPolled r < now - GracePeriod then None else Some (r\<lparr>r_Vanished := True\<rparr>))"
    using assms by (simp add: xs join_records_unseen)
  have le: "(t < n - GracePeriod) = (t + GracePeriod < n)" for t n :: int by linarith
  show ?thesis
  proof (cases "r_LastPolled r < now - GracePeriod")
    case True
    with u assms(3) show ?thesis by (simp add: xs joins_unseen_none le)
  next
    case False
    with u joins_unseen [of "join_records conns flows flows' now recs" key "r\<lparr>r_Vanished := True\<rparr>" ys] assms(3)
    show ?thesis by (simp add: xs le)
  qed
qed

definition sample_record :: ConnectionRecord where
  "sample_record = conn_record Map.empty Map.empty second sample_conn"

theorem vanished_connection_witness:
  "joins [([], [], [], 4 * second), ([], [], [], 6 * second)] [join_key sample_conn \<mapsto> sample_record] (join_key sample_conn) =
     Some (sample_record\<lparr>r_Vanished := True\<rparr>) \<and>
   joins [([], [], [], 4 * second), ([], [], [], 7 * second)] [join_key sample_conn \<mapsto> sample_record] (join_key sample_conn) = None"
  using vanished_connection [of "[join_key sample_conn \<mapsto> sample_record]" "join_key sample_conn" sample_record
      "[([], [], [], 4 * second), ([], [], [], 6 * second)]"]
    vanished_connection [of "[join_key sample_conn \<mapsto> sample_record]" "join_key sample_conn" sample_record
      "[([], [], [], 4 * second), ([], [], [], 7 * second)]"]
  by (simp add: sees_def GracePeriod_def sample_record_def conn_record_def Let_def second_def)

text \<open>
  The time of the first sighting never changes while a connection has a record, whether
  it is reported or has vanished, and a record is either new in this join or was there.
\<close>

theorem first_seen_kept:
  assumes "join_records conns flows flows' now prev key = Some r"
  shows "r_FirstSeen r = (case prev key of Some r0 \<Rightarrow> r_FirstSeen r0 | None \<Rightarrow> now) \<and>
    (if sees conns flows' key then r_LastPolled r = now \<and> \<not> r_Vanished r
     else \<exists>r0. prev key = Some r0 \<and> r = r0\<lparr>r_Vanished := True\<rparr>)"
proof (cases "sees conns flows' key")
  case True
  with join_records_seen [of conns flows' key flows now prev] assms show ?thesis
    by (auto simp: fresh_def first_seen_def)
next
  case False
  with assms show ?thesis by (auto simp: join_records_unseen split: option.splits if_splits)
qed

theorem first_seen_kept_witness:
  "\<exists>r. join_records [sample_conn] [] [] (9 * second) [join_key sample_conn \<mapsto> sample_record] (join_key sample_conn) = Some r \<and>
     r_FirstSeen r = second"
proof -
  obtain r where r: "join_records [sample_conn] [] [] (9 * second) [join_key sample_conn \<mapsto> sample_record] (join_key sample_conn) = Some r"
    using join_records_seen [of "[sample_conn]" "[]" "join_key sample_conn" "[]" "9 * second" "[join_key sample_conn \<mapsto> sample_record]"]
    by (auto simp: sees_def)
  with first_seen_kept [OF r] show ?thesis
    by (auto simp: sample_record_def conn_record_def first_seen_def Let_def)
qed
text \<open>
  An open connection that has been quiet for longer than the grace period loses its
  counters: whatever connections are reported open, a refresh evicts every idle flow that
  was captured on a named interface, because the keys to keep have no interface. Only
  the connection's record stays, and the next refresh finds no bytes for it.
\<close>

theorem open_flow_evicted:
  assumes "fk_Iface k \<noteq> ''''" and "idle (now - GracePeriod) (cap_table c) k" and "k \<in> set (w_evict w)"
  shows "k \<notin> openFlowKeys conns \<and> ft_flows (cap_table (snd (snd (Refresh w conns now (prev, c))))) k = None"
proof -
  have "k \<notin> openFlowKeys conns" using assms(1) by (auto simp: openFlowKeys_def flowKeyFor_def)
  moreover have "idle (now - GracePeriod) (snd (table_Snapshot (w_snapshot w) now (cap_table c))) k"
    using assms(2) table_Snapshot_keeps [of "w_snapshot w" now "cap_table c" "now - GracePeriod"] by simp
  ultimately show ?thesis
    using assms(3) Evict_delete_result unfolding Refresh_parts(3) Evict_def by (simp add: Evict_scan_def)
qed

theorem open_flow_evicted_witness:
  "ft_flows sample_table sample_flow \<noteq> None \<and> sample_flow\<lparr>fk_Iface := ''''\<rparr> \<in> openFlowKeys [sample_conn] \<and>
   ft_flows (cap_table (snd (snd (Refresh sample_walks [sample_conn] (6 * second)
     (Map.empty, (New (DefaultConfig sample_parsers))\<lparr>cap_table := sample_table\<rparr>))))) sample_flow = None"
proof -
  have "LastSeen (ft_ctrs sample_table 0) = 1"
    by (simp add: sample_table_def record_flow_def record_find_def record_make_def new_table_def LastSeen_def
        lastSeen_Add NewByteCounter_def)
  then have "idle (6 * second - GracePeriod) sample_table sample_flow"
    by (simp add: idle_def sample_table_result GracePeriod_def second_def)
  moreover have "fk_Iface sample_flow \<noteq> ''''" by (simp add: sample_flow_def)
  moreover have "sample_flow \<in> set (w_evict sample_walks)" by (simp add: sample_walks_def)
  ultimately show ?thesis
    using open_flow_evicted [of sample_flow "6 * second" "(New (DefaultConfig sample_parsers))\<lparr>cap_table := sample_table\<rparr>"
        sample_walks "[sample_conn]" Map.empty]
    by (simp add: sample_table_result sample_flow_strip openFlowKeys_def)
qed

text \<open>
  A connection whose packets are captured on two interfaces shows the counters of one of
  them only, and which one depends on the order in which the map of flows is walked.
\<close>

theorem one_interface_shown:
  assumes "k1\<lparr>fk_Iface := ''''\<rparr> = flowKeyFor cn" and "k2\<lparr>fk_Iface := ''''\<rparr> = flowKeyFor cn"
    and "c_Proto cn = ''tcp'' \<or> c_Proto cn = ''udp''"
  shows "\<exists>r1 r2. join_records [cn] [(k2, s2), (k1, s1)] flows' now prev (join_key cn) = Some r1 \<and>
      join_records [cn] [(k1, s1), (k2, s2)] flows' now prev (join_key cn) = Some r2 \<and>
      r_BytesInTotal r1 = fs_BytesIn s1 \<and> r_BytesInTotal r2 = fs_BytesIn s2"
proof -
  have "flowsByAddr [(k2, s2), (k1, s1)] (flowKeyFor cn) = Some s1" "flowsByAddr [(k1, s1), (k2, s2)] (flowKeyFor cn) = Some s2"
    using assms(1,2) by (simp_all add: flowsByAddr_def)
  then show ?thesis
    using join_records_conn [of cn "[cn]"] assms(3) by (simp add: conn_record_def Let_def with_stats_def)
qed

theorem one_interface_shown_witness:
  "\<exists>r1 r2. join_records [sample_conn] [(sample_flow\<lparr>fk_Iface := ''br0''\<rparr>, (flow_stats 1 sample_flow NewByteCounter)\<lparr>fs_BytesIn := 7\<rparr>),
        (sample_flow, (flow_stats 1 sample_flow NewByteCounter)\<lparr>fs_BytesIn := 5\<rparr>)] [] 1 Map.empty (join_key sample_conn) = Some r1 \<and>
      join_records [sample_conn] [(sample_flow, (flow_stats 1 sample_flow NewByteCounter)\<lparr>fs_BytesIn := 5\<rparr>),
        (sample_flow\<lparr>fk_Iface := ''br0''\<rparr>, (flow_stats 1 sample_flow NewByteCounter)\<lparr>fs_BytesIn := 7\<rparr>)] [] 1 Map.empty (join_key sample_conn) = Some r2 \<and>
      r_BytesInTotal r1 = 5 \<and> r_BytesInTotal r2 = 7"
  using one_interface_shown [of sample_flow sample_conn "sample_flow\<lparr>fk_Iface := ''br0''\<rparr>"
      "(flow_stats 1 sample_flow NewByteCounter)\<lparr>fs_BytesIn := 7\<rparr>" "(flow_stats 1 sample_flow NewByteCounter)\<lparr>fs_BytesIn := 5\<rparr>" "[]" 1 Map.empty]
  by (simp add: sample_flow_strip) (simp add: sample_conn_def)

text \<open>
  The list of records is the sorted list of the records, and it does not depend on the
  order in which the map is walked as long as no two records agree in process, remote end,
  local port and protocol.
\<close>

theorem record_list_sorted:
  assumes "distinct order" and "distinct order'" and "set order = set order'"
    and "\<forall>k \<in> set order. \<forall>k' \<in> set order. \<forall>r r'. recs k = Some r \<and> recs k' = Some r' \<and> sort_key_of r = sort_key_of r' \<longrightarrow> r = r'"
  shows "mset (record_list order recs) = mset (List.map_filter recs order) \<and>
    sorted_wrt (\<lambda>r q. \<not> record_less q r) (record_list order recs) \<and>
    record_list order recs = record_list order' recs"
proof -
  have m: "mset (List.map_filter recs order) = mset (List.map_filter recs order')"
    by (rule mset_map_filter_order [OF assms(1-3)])
  have inj: "inj_on sort_key_of (set (List.map_filter recs order))"
    using assms(4) by (force simp: inj_on_def set_map_filter)
  have "sort_key sort_key_of (List.map_filter recs order) = sort_key sort_key_of (List.map_filter recs order')"
  proof (rule sort_key_inj_key_eq [OF _ inj])
    show "mset (List.map_filter recs order) = mset (sort_key sort_key_of (List.map_filter recs order'))"
      by (simp only: mset_sort m)
  qed (rule sorted_sort_key)
  moreover have "sorted_wrt (\<lambda>r q. \<not> record_less q r) (sort_key sort_key_of (List.map_filter recs order))"
    using sorted_sort_key [of sort_key_of "List.map_filter recs order"]
    unfolding sorted_map record_less_key not_less .
  ultimately show ?thesis unfolding record_list_def sort_Slice_key by (metis mset_sort)
qed

theorem record_list_sorted_witness:
  "record_list [join_key sample_conn, join_key (sample_conn\<lparr>c_PID := 7\<rparr>)]
     [join_key sample_conn \<mapsto> sample_record, join_key (sample_conn\<lparr>c_PID := 7\<rparr>) \<mapsto> sample_record\<lparr>r_PID := 7\<rparr>] =
   record_list [join_key (sample_conn\<lparr>c_PID := 7\<rparr>), join_key sample_conn]
     [join_key sample_conn \<mapsto> sample_record, join_key (sample_conn\<lparr>c_PID := 7\<rparr>) \<mapsto> sample_record\<lparr>r_PID := 7\<rparr>]"
proof -
  have "join_key sample_conn \<noteq> join_key (sample_conn\<lparr>c_PID := 7\<rparr>)" by (simp add: join_key_def sample_conn_def)
  moreover have "sint (r_PID sample_record) = 42"
    by (simp add: sample_record_def conn_record_def Let_def sample_conn_def)
  ultimately show ?thesis
    using record_list_sorted [of "[join_key sample_conn, join_key (sample_conn\<lparr>c_PID := 7\<rparr>)]"
        "[join_key (sample_conn\<lparr>c_PID := 7\<rparr>), join_key sample_conn]"
        "[join_key sample_conn \<mapsto> sample_record, join_key (sample_conn\<lparr>c_PID := 7\<rparr>) \<mapsto> sample_record\<lparr>r_PID := 7\<rparr>]"]
    by (auto simp: sort_key_of_def insert_commute)
qed

text \<open>Two connections that differ in their local address only come out in the order of the walk.\<close>

lemma record_order_unstable:
  assumes "recs k1 = Some r" and "recs k2 = Some (r\<lparr>r_LocalAddr := a\<rparr>)"
  shows "record_list [k1, k2] recs = [r, r\<lparr>r_LocalAddr := a\<rparr>] \<and> record_list [k2, k1] recs = [r\<lparr>r_LocalAddr := a\<rparr>, r]"
proof -
  have "sort_key_of (r\<lparr>r_LocalAddr := a\<rparr>) = sort_key_of r" by (simp add: sort_key_of_def)
  with assms show ?thesis by (simp add: record_list_def sort_Slice_key map_filter_simps)
qed

end
