(* ===== verification/Rows.thy ===== *)
theory Rows
  imports Aggregator
begin

text \<open>
  The rows of the table: \<open>rollup\<close> of \<^verbatim>\<open>src/aggregate/aggregator.go\<close> and the groupings of \<^verbatim>\<open>rows.go\<close>. The
  theory shows that the one-pass \<open>rollup\<close>, which keeps an index into a growing list and
  updates rows in place, computes the groups of the records in order of first appearance,
  that every grouping keeps the totals, and that without grouping each connection has a
  row of its own.
\<close>

section \<open>Rows\<close>

record Row =
  w_Key :: string
  w_Label :: string
  w_PID :: i32
  w_LocalAddr :: string
  w_LocalPort :: u16
  w_RemoteAddr :: string
  w_RemotePort :: u16
  w_Proto :: string
  w_State :: string
  w_Hostname :: string
  w_Iface :: string
  w_BytesInTotal :: u64
  w_BytesOutTotal :: u64
  w_RateInBps :: real
  w_RateOutBps :: real
  w_Connections :: int
  w_LastSeen :: time
  w_FirstSeen :: time
  w_Vanished :: bool

definition zero_row :: Row where
  "zero_row = \<lparr>w_Key = '''', w_Label = '''', w_PID = 0, w_LocalAddr = '''', w_LocalPort = 0, w_RemoteAddr = '''',
     w_RemotePort = 0, w_Proto = '''', w_State = '''', w_Hostname = '''', w_Iface = '''', w_BytesInTotal = 0,
     w_BytesOutTotal = 0, w_RateInBps = 0, w_RateOutBps = 0, w_Connections = 0, w_LastSeen = 0, w_FirstSeen = 0,
     w_Vanished = False\<rparr>"

definition row_Closed :: "Row \<Rightarrow> time \<Rightarrow> bool" where
  "row_Closed r now = closed (w_Vanished r) (w_State r) (w_LastSeen r) now"

text \<open>What one record adds to its row.\<close>

definition accumulate :: "ConnectionRecord \<Rightarrow> Row \<Rightarrow> Row" where
  "accumulate c r =
     (let r = r\<lparr>w_BytesInTotal := w_BytesInTotal r + r_BytesInTotal c, w_BytesOutTotal := w_BytesOutTotal r + r_BytesOutTotal c,
                w_RateInBps := w_RateInBps r + r_RateInBps c, w_RateOutBps := w_RateOutBps r + r_RateOutBps c,
                w_Connections := w_Connections r + 1\<rparr>;
          r = (if w_LastSeen r < r_LastSeen c then r\<lparr>w_LastSeen := r_LastSeen c\<rparr> else r)
      in if IsZero (w_FirstSeen r) \<or> r_FirstSeen c < w_FirstSeen r then r\<lparr>w_FirstSeen := r_FirstSeen c\<rparr> else r)"

text \<open>One turn of the loop of \<open>rollup\<close>, on the index and the rows, and the loop.\<close>

definition rollup_step ::
    "(ConnectionRecord \<Rightarrow> string) \<Rightarrow> (ConnectionRecord \<Rightarrow> string \<Rightarrow> Row) \<Rightarrow> ConnectionRecord \<Rightarrow>
     (string \<rightharpoonup> nat) \<times> Row list \<Rightarrow> (string \<rightharpoonup> nat) \<times> Row list" where
  "rollup_step key seed c s =
     (let (index, rows) = s;
          k = key c;
          (i, index, rows) = (case index k of
              Some i \<Rightarrow> (i, index, rows)
            | None \<Rightarrow> (length rows, index(k \<mapsto> length rows), rows @ [seed c k]))
      in (index, rows[i := accumulate c (rows ! i)]))"

definition rollup ::
    "ConnectionRecord list \<Rightarrow> (ConnectionRecord \<Rightarrow> string) \<Rightarrow> (ConnectionRecord \<Rightarrow> string \<Rightarrow> Row) \<Rightarrow> Row list" where
  "rollup recs key seed = snd (fold (rollup_step key seed) recs (Map.empty, []))"

section \<open>Groupings\<close>

type_synonym Grouping = u8

definition GroupNone :: Grouping where "GroupNone = 0"
definition GroupByPID :: Grouping where "GroupByPID = 1"
definition GroupByProcessName :: Grouping where "GroupByProcessName = 2"
definition numGroupings :: Grouping where "numGroupings = 3"

definition Next :: "Grouping \<Rightarrow> Grouping" where
  "Next g = (g + 1) mod numGroupings"

definition Grouping_String :: "Grouping \<Rightarrow> string" where
  "Grouping_String g =
     (if g = GroupByPID then ''By PID'' else if g = GroupByProcessName then ''By Process'' else ''Ungrouped'')"

definition connectionKey :: "ConnectionRecord \<Rightarrow> string" where
  "connectionKey c = Itoa (sint (r_PID c)) @ ''|'' @ r_LocalAddr c @ ''|'' @ Itoa (int (unat (r_LocalPort c))) @
     ''|'' @ r_RemoteAddr c @ ''|'' @ Itoa (int (unat (r_RemotePort c))) @ ''|'' @ r_Proto c"

definition pidRemoteKey :: "ConnectionRecord \<Rightarrow> string" where
  "pidRemoteKey c = Itoa (sint (r_PID c)) @ ''|'' @ r_RemoteAddr c @ ''|'' @ Itoa (int (unat (r_RemotePort c)))"

definition processRemoteKey :: "ConnectionRecord \<Rightarrow> string" where
  "processRemoteKey c = r_ProcessName c @ ''|'' @ r_RemoteAddr c @ ''|'' @ Itoa (int (unat (r_RemotePort c)))"

definition seed_connection :: "ConnectionRecord \<Rightarrow> string \<Rightarrow> Row" where
  "seed_connection c key = zero_row\<lparr>w_Key := key, w_Label := r_ProcessName c, w_PID := r_PID c,
     w_LocalAddr := r_LocalAddr c, w_LocalPort := r_LocalPort c, w_RemoteAddr := r_RemoteAddr c,
     w_RemotePort := r_RemotePort c, w_Proto := r_Proto c, w_State := r_State c, w_Hostname := r_Hostname c,
     w_Iface := r_Iface c, w_Vanished := r_Vanished c\<rparr>"

definition seed_pid :: "ConnectionRecord \<Rightarrow> string \<Rightarrow> Row" where
  "seed_pid c key = zero_row\<lparr>w_Key := key, w_Label := r_ProcessName c, w_PID := r_PID c,
     w_LocalAddr := r_LocalAddr c, w_RemoteAddr := r_RemoteAddr c, w_RemotePort := r_RemotePort c,
     w_Hostname := r_Hostname c, w_Iface := r_Iface c\<rparr>"

definition seed_process :: "ConnectionRecord \<Rightarrow> string \<Rightarrow> Row" where
  "seed_process c key = zero_row\<lparr>w_Key := key, w_Label := r_ProcessName c, w_RemoteAddr := r_RemoteAddr c,
     w_RemotePort := r_RemotePort c, w_Hostname := r_Hostname c, w_Iface := r_Iface c\<rparr>"

definition rowsUngrouped :: "Snapshot \<Rightarrow> Row list" where
  "rowsUngrouped snap = rollup (sn_Connections snap) connectionKey seed_connection"

definition rowsByPID :: "Snapshot \<Rightarrow> Row list" where
  "rowsByPID snap = rollup (sn_Connections snap) pidRemoteKey seed_pid"

definition rowsByProcessName :: "Snapshot \<Rightarrow> Row list" where
  "rowsByProcessName snap = rollup (sn_Connections snap) processRemoteKey seed_process"

definition Rows :: "Snapshot \<Rightarrow> Grouping \<Rightarrow> Row list" where
  "Rows snap g =
     (if g = GroupByPID then rowsByPID snap
      else if g = GroupByProcessName then rowsByProcessName snap
      else rowsUngrouped snap)"

section \<open>The groups\<close>

text \<open>The distinct elements of a list in order of first appearance.\<close>

definition appearances :: "'a list \<Rightarrow> 'a list" where
  "appearances ks = rev (remdups (rev ks))"

lemma appearances_simps [simp]:
  "appearances [] = []" "set (appearances ks) = set ks" "distinct (appearances ks)"
  "appearances (ks @ [k]) = (if k \<in> set ks then appearances ks else appearances ks @ [k])"
  by (simp_all add: appearances_def)

lemma appearances_distinct: "distinct ks \<Longrightarrow> appearances ks = ks"
  by (simp add: appearances_def distinct_remdups_id)

text \<open>The row of one group: seeded by its first record, with all of them accumulated.\<close>

definition group_row ::
    "(ConnectionRecord \<Rightarrow> string) \<Rightarrow> (ConnectionRecord \<Rightarrow> string \<Rightarrow> Row) \<Rightarrow> ConnectionRecord list \<Rightarrow> string \<Rightarrow> Row" where
  "group_row key seed recs k =
     (let g = filter (\<lambda>c. key c = k) recs in fold accumulate g (seed (hd g) k))"

definition grouped ::
    "(ConnectionRecord \<Rightarrow> string) \<Rightarrow> (ConnectionRecord \<Rightarrow> string \<Rightarrow> Row) \<Rightarrow> ConnectionRecord list \<Rightarrow> Row list" where
  "grouped key seed recs = map (group_row key seed recs) (appearances (map key recs))"

lemma group_row_same: "key c \<noteq> k \<Longrightarrow> group_row key seed (recs @ [c]) k = group_row key seed recs k"
  by (simp add: group_row_def)

lemma group_row_old:
  "k \<in> set (map key recs) \<Longrightarrow> key c = k \<Longrightarrow>
     group_row key seed (recs @ [c]) k = accumulate c (group_row key seed recs k)"
  by (auto simp: group_row_def Let_def hd_append filter_empty_conv)

lemma group_row_new:
  "key c \<notin> set (map key recs) \<Longrightarrow> group_row key seed (recs @ [c]) (key c) = accumulate c (seed c (key c))"
proof -
  assume "key c \<notin> set (map key recs)"
  then have "\<forall>x \<in> set recs. key x \<noteq> key c" by (metis image_eqI set_map)
  then have "filter (\<lambda>x. key x = key c) recs = []" by (simp add: filter_empty_conv)
  then show ?thesis by (simp add: group_row_def)
qed

lemma rollup_invariant:
  "snd (fold (rollup_step key seed) recs (Map.empty, [])) = grouped key seed recs \<and>
   dom (fst (fold (rollup_step key seed) recs (Map.empty, []))) = set (map key recs) \<and>
   (\<forall>i < length (appearances (map key recs)).
      fst (fold (rollup_step key seed) recs (Map.empty, [])) (appearances (map key recs) ! i) = Some i)"
proof (induction recs rule: rev_induct)
  case (snoc c recs)
  obtain index rows where s: "fold (rollup_step key seed) recs (Map.empty, []) = (index, rows)" by fastforce
  define ap where "ap = appearances (map key recs)"
  have rows: "rows = map (group_row key seed recs) ap" and dom: "dom index = set (map key recs)"
    and idx: "i < length ap \<Longrightarrow> index (ap ! i) = Some i" for i
    using snoc by (simp_all add: s ap_def grouped_def)
  have ap: "set ap = set (map key recs)" "distinct ap" by (simp_all add: ap_def)
  show ?case
  proof (cases "key c \<in> set (map key recs)")
    case True
    then obtain j where j: "j < length ap" "ap ! j = key c" using ap(1) by (metis in_set_conv_nth)
    have "rollup_step key seed c (index, rows) = (index, rows[j := accumulate c (rows ! j)])"
      using idx [OF j(1)] by (simp add: rollup_step_def j(2))
    moreover have "rows[j := accumulate c (rows ! j)] = map (group_row key seed (recs @ [c])) ap"
    proof (rule nth_equalityI)
      fix i assume "i < length (rows[j := accumulate c (rows ! j)])"
      then have i: "i < length ap" by (simp add: rows)
      show "rows[j := accumulate c (rows ! j)] ! i = map (group_row key seed (recs @ [c])) ap ! i"
      proof (cases "i = j")
        case True
        with i j \<open>key c \<in> set (map key recs)\<close> show ?thesis by (simp add: rows group_row_old)
      next
        case False
        then have "ap ! i \<noteq> key c" using i j ap(2) by (metis nth_eq_iff_index_eq)
        with False i show ?thesis by (simp add: rows group_row_same)
      qed
    qed (simp add: rows)
    ultimately show ?thesis
      using True s dom idx by (auto simp: grouped_def ap_def [symmetric])
  next
    case False
    then have "index (key c) = None" using dom by (metis domIff)
    then have "rollup_step key seed c (index, rows) =
        (index(key c \<mapsto> length ap), rows @ [accumulate c (seed c (key c))])"
      by (simp add: rollup_step_def rows Let_def)
    moreover have "map (group_row key seed (recs @ [c])) ap = rows"
      using False ap(1) by (auto simp: rows intro!: map_cong group_row_same)
    moreover have "index (ap ! i) = Some i" "ap ! i \<noteq> key c" if "i < length ap" for i
      using idx [OF that] \<open>index (key c) = None\<close> by auto
    moreover have "dom (index(key c \<mapsto> length ap)) = set (map key (recs @ [c]))" using dom by auto
    ultimately show ?thesis
      using False s by (auto simp: grouped_def ap_def [symmetric] group_row_new nth_append less_Suc_eq)
  qed
qed (simp add: grouped_def)

section \<open>Row keys\<close>

text \<open>The separator is in no number and in no printed address.\<close>

lemma neq_char_of: "n < 256 \<Longrightarrow> of_char c \<noteq> n \<Longrightarrow> c \<noteq> char_of (n :: nat)"
  by auto

lemma bar_free_digit: "d < 10 \<Longrightarrow> CHR ''|'' \<noteq> char_of (48 + d :: nat)"
  by (rule neq_char_of) simp_all

lemma bar_free_Itoa: "CHR ''|'' \<notin> set (Itoa i)"
  using dec_digits_set bar_free_digit by (auto simp: Itoa_def dest!: dec_digits_set)

lemma Itoa_inj: "Itoa i = Itoa j \<Longrightarrow> i = j"
proof -
  have minus: "CHR ''-'' \<notin> set (dec_digits n)" for n
  proof
    assume "CHR ''-'' \<in> set (dec_digits n)"
    then obtain d where "d < 10" "CHR ''-'' = char_of (48 + d :: nat)" using dec_digits_set by blast
    then show False using neq_char_of [of "48 + d" "CHR ''-''"] by simp
  qed
  assume a: "Itoa i = Itoa j"
  show ?thesis
  proof (cases "(i < 0) = (j < 0)")
    case True
    then have "dec_digits (nat \<bar>i\<bar>) = dec_digits (nat \<bar>j\<bar>)"
      using a by (auto simp: Itoa_def split: if_splits)
    then have "nat \<bar>i\<bar> = nat \<bar>j\<bar>" by (rule dec_digits_inj)
    with True show ?thesis by linarith
  next
    case False
    then have "CHR ''-'' \<in> set (dec_digits (nat i)) \<or> CHR ''-'' \<in> set (dec_digits (nat j))"
      using a by (auto simp: Itoa_def split: if_splits) (metis list.set_intros(1))+
    then show ?thesis using minus by blast
  qed
qed

lemma sep_inj:
  assumes "CHR ''|'' \<notin> set xs" and "CHR ''|'' \<notin> set xs'" and "xs @ CHR ''|'' # ys = xs' @ CHR ''|'' # ys'"
  shows "xs = xs' \<and> ys = ys'"
proof -
  have "(xs, ys, True) = (xs', ys', True)"
    by (simp only: Cut_append [OF assms(1), of ys, symmetric] assms(3)) (rule Cut_append [OF assms(2)])
  then show ?thesis by simp
qed

text \<open>A record whose addresses were printed has no separator in them.\<close>

definition plain_addrs :: "ConnectionRecord \<Rightarrow> bool" where
  "plain_addrs c \<longleftrightarrow> CHR ''|'' \<notin> set (r_LocalAddr c) \<and> CHR ''|'' \<notin> set (r_RemoteAddr c)"

definition socket_tuple :: "ConnectionRecord \<Rightarrow> i32 \<times> string \<times> u16 \<times> string \<times> u16 \<times> string" where
  "socket_tuple c = (r_PID c, r_LocalAddr c, r_LocalPort c, r_RemoteAddr c, r_RemotePort c, r_Proto c)"

lemma connectionKey_inj:
  assumes "plain_addrs c" and "plain_addrs c'" and "connectionKey c = connectionKey c'"
  shows "socket_tuple c = socket_tuple c'"
proof -
  have a: "CHR ''|'' \<notin> set (r_LocalAddr c)" "CHR ''|'' \<notin> set (r_LocalAddr c')"
      "CHR ''|'' \<notin> set (r_RemoteAddr c)" "CHR ''|'' \<notin> set (r_RemoteAddr c')"
    using assms(1,2) by (simp_all add: plain_addrs_def)
  note key = assms(3) [unfolded connectionKey_def append_Cons append_Nil]
  note s1 = sep_inj [OF bar_free_Itoa bar_free_Itoa key]
  note s2 = sep_inj [OF a(1,2) conjunct2 [OF s1]]
  note s3 = sep_inj [OF bar_free_Itoa bar_free_Itoa conjunct2 [OF s2]]
  note s4 = sep_inj [OF a(3,4) conjunct2 [OF s3]]
  note s5 = sep_inj [OF bar_free_Itoa bar_free_Itoa conjunct2 [OF s4]]
  have "r_PID c = r_PID c'" using Itoa_inj [OF conjunct1 [OF s1]] by (metis signed_word_eqI)
  moreover have "r_LocalPort c = r_LocalPort c'" "r_RemotePort c = r_RemotePort c'"
    using Itoa_inj [OF conjunct1 [OF s3]] Itoa_inj [OF conjunct1 [OF s5]]
    by (simp_all add: unsigned_word_eqI [where ?'a = int])
  ultimately show ?thesis using s2 s4 s5 by (simp add: socket_tuple_def)
qed

lemma hex_lower_bar: "d < 16 \<Longrightarrow> CHR ''|'' \<noteq> hex_lower d"
  unfolding hex_lower_def by (rule neq_char_of) (simp_all split: if_splits)

lemma hex_digits_bar: "CHR ''|'' \<notin> set (hex_digits n)"
proof (induction n rule: hex_digits.induct)
  case (1 n)
  then show ?case
    using hex_lower_bar [of n] hex_lower_bar [of "n mod 16"] by (subst hex_digits.simps) auto
qed

lemma addr_String_bar: "CHR ''|'' \<notin> set (addr_String a)"
proof -
  have g: "CHR ''|'' \<notin> set (join_groups gs)" for gs
    using hex_digits_bar by (auto simp: join_groups_def split: if_splits)
  have f: "CHR ''|'' \<notin> set (string4 b)" for b
    using bar_free_digit by (auto simp: string4_def dest!: dec_digits_set split: if_splits)
  show ?thesis
    using g f by (cases a) (auto simp: string6_def Let_def case_prod_beta)
qed
section \<open>Records under their keys\<close>

definition key_tuple :: "connKey \<Rightarrow> i32 \<times> string \<times> u16 \<times> string \<times> u16 \<times> string" where
  "key_tuple k = (jk_pid k, jk_localAddr k, jk_localPort k, jk_remoteAddr k, jk_remotePort k, jk_proto k)"

definition records_keyed :: "records \<Rightarrow> bool" where
  "records_keyed recs \<longleftrightarrow> (\<forall>k r. recs k = Some r \<longrightarrow> socket_tuple r = key_tuple k \<and> plain_addrs r)"

lemma key_tuple_inj: "key_tuple k = key_tuple k' \<Longrightarrow> k = k'"
  by (simp add: key_tuple_def)

lemma conn_record_keyed:
  "socket_tuple (conn_record prev byAddr now c) = key_tuple (join_key c)" "plain_addrs (conn_record prev byAddr now c)"
  by (simp_all add: conn_record_def Let_def with_stats_def socket_tuple_def key_tuple_def join_key_def plain_addrs_def
      addr_String_bar split: option.split)

lemma unattributed_record_keyed:
  "socket_tuple (unattributed_record prev now fk st) = key_tuple (unattributed_key fk)"
  "plain_addrs (unattributed_record prev now fk st)"
  by (simp_all add: unattributed_record_def Let_def socket_tuple_def key_tuple_def unattributed_key_def plain_addrs_def
      addr_String_bar)

lemma join_records_keyed:
  assumes "records_keyed prev"
  shows "records_keyed (join_records conns flows flows' now prev)"
  unfolding records_keyed_def
proof (intro allI impI)
  fix k r
  assume r: "join_records conns flows flows' now prev k = Some r"
  show "socket_tuple r = key_tuple k \<and> plain_addrs r"
  proof (cases "polled conns flows flows' now prev k")
    case None
    with r obtain r0 where "prev k = Some r0" "r = r0\<lparr>r_Vanished := True\<rparr>"
      by (auto simp: join_records_polled split: option.splits if_splits)
    then show ?thesis using assms by (auto simp: records_keyed_def socket_tuple_def plain_addrs_def)
  next
    case (Some r')
    with r have "polled conns flows flows' now prev k = Some r" by (simp add: join_records_polled)
    then show ?thesis
      unfolding polled_def joinUnattributedFlows_map joinConnections_map
      by (auto simp: map_add_Some_iff conn_record_keyed unattributed_record_keyed dest!: map_of_SomeD)
  qed
qed

lemma joins_keyed: "records_keyed recs \<Longrightarrow> records_keyed (joins xs recs)"
  by (induction xs arbitrary: recs) (auto simp: join_records_keyed)

lemma map_filter_keyed:
  assumes "records_keyed recs" and "distinct order"
  shows "distinct (map socket_tuple (List.map_filter recs order)) \<and>
    (\<forall>r \<in> set (List.map_filter recs order). plain_addrs r \<and> socket_tuple r \<in> key_tuple ` set order)"
  using assms(2)
proof (induction order)
  case (Cons k ks)
  show ?case
  proof (cases "recs k")
    case None
    then show ?thesis using Cons by (auto simp: map_filter_simps)
  next
    case (Some r)
    then have r: "socket_tuple r = key_tuple k" "plain_addrs r" using assms(1) by (auto simp: records_keyed_def)
    have "key_tuple k \<notin> key_tuple ` set ks" using Cons.prems key_tuple_inj by auto
    then show ?thesis using Cons r by (auto simp: map_filter_simps Some)
  qed
qed (simp add: map_filter_simps)

lemma connectionKey_distinct:
  assumes "distinct (map socket_tuple cs)" and "\<forall>c \<in> set cs. plain_addrs c"
  shows "distinct (map connectionKey cs)"
  using assms
proof (induction cs)
  case (Cons c cs)
  have "connectionKey c \<noteq> connectionKey c'" if "c' \<in> set cs" for c'
    using Cons.prems connectionKey_inj [of c c'] that by (metis distinct.simps(2) image_eqI list.set_intros list.simps(9) set_map)
  then show ?case using Cons by auto
qed simp

section \<open>Properties\<close>

text \<open>
  C26: the one-pass \<open>rollup\<close>, with its index and rows updated in place, gives the groups of the
  records in order of first appearance, each row seeded by the first record of its group
  and with the counters of all its records accumulated.
\<close>

theorem rollup_is_grouping:
  "rollup recs key seed =
     map (\<lambda>k. let g = filter (\<lambda>c. key c = k) recs in fold accumulate g (seed (hd g) k)) (appearances (map key recs))"
  using rollup_invariant [of key seed recs] by (simp add: rollup_def grouped_def group_row_def [abs_def])

lemma rollup_step_sums:
  assumes "\<And>c k. f (seed c k) = (0 :: 'a::ab_group_add)" and "\<And>c r. f (accumulate c r) = f r + g c"
    and "\<And>k i. index k = Some i \<Longrightarrow> i < length rows"
  shows "(\<Sum>r\<leftarrow>snd (rollup_step key seed c (index, rows)). f r) = (\<Sum>r\<leftarrow>rows. f r) + g c"
    and "fst (rollup_step key seed c (index, rows)) k = Some i \<Longrightarrow> i < length (snd (rollup_step key seed c (index, rows)))"
  using assms by (auto simp: rollup_step_def Let_def sum_list_list_update less_Suc_eq split: option.splits if_splits)

lemma rollup_sums:
  assumes "\<And>c k. f (seed c k) = (0 :: 'a::ab_group_add)" and "\<And>c r. f (accumulate c r) = f r + g c"
  shows "(\<Sum>r\<leftarrow>rollup recs key seed. f r) = (\<Sum>c\<leftarrow>recs. g c)"
proof -
  have "(\<Sum>r\<leftarrow>snd (fold (rollup_step key seed) recs (index, rows)). f r) = (\<Sum>r\<leftarrow>rows. f r) + (\<Sum>c\<leftarrow>recs. g c)"
    if "\<And>k i. index k = Some i \<Longrightarrow> i < length rows" for index rows
    using that
  proof (induction recs arbitrary: index rows)
    case (Cons c recs)
    obtain index' rows' where s: "rollup_step key seed c (index, rows) = (index', rows')" by fastforce
    note step = rollup_step_sums [where f = f and g = g and seed = seed and index = index and rows = rows and key = key and c = c, OF assms Cons.prems, unfolded s]
    have "(\<Sum>r\<leftarrow>rows'. f r) = (\<Sum>r\<leftarrow>rows. f r) + g c" using step(1) by simp
    moreover have "i < length rows'" if "index' k = Some i" for k i using step(2) that by simp
    ultimately show ?case using Cons.IH [of index' rows'] by (simp add: s add.assoc)
  qed simp
  from this [of Map.empty "[]"] show ?thesis by (simp add: rollup_def)
qed

lemma accumulate_sums:
  "w_BytesInTotal (accumulate c r) = w_BytesInTotal r + r_BytesInTotal c"
  "w_BytesOutTotal (accumulate c r) = w_BytesOutTotal r + r_BytesOutTotal c"
  "w_Connections (accumulate c r) = w_Connections r + 1"
  by (simp_all add: accumulate_def Let_def)

text \<open>What the rollup relies on: a key for every record, and a seed with empty counters.\<close>

locale row_grouping =
  fixes key :: "ConnectionRecord \<Rightarrow> string" and seed :: "ConnectionRecord \<Rightarrow> string \<Rightarrow> Row"
  assumes seed_empty: "w_BytesInTotal (seed c k) = 0" "w_BytesOutTotal (seed c k) = 0" "w_Connections (seed c k) = 0"
begin

lemma rollup_totals:
  "(\<Sum>r\<leftarrow>rollup recs key seed. w_BytesInTotal r) = (\<Sum>c\<leftarrow>recs. r_BytesInTotal c)"
  "(\<Sum>r\<leftarrow>rollup recs key seed. w_BytesOutTotal r) = (\<Sum>c\<leftarrow>recs. r_BytesOutTotal c)"
  "(\<Sum>r\<leftarrow>rollup recs key seed. w_Connections r) = int (length recs)"
  using rollup_sums [where f = w_Connections and g = "\<lambda>_. 1" and seed = seed, OF seed_empty(3) accumulate_sums(3), of recs key]
  by (simp_all add: rollup_sums [OF seed_empty(1) accumulate_sums(1)] rollup_sums [OF seed_empty(2) accumulate_sums(2)]
      sum_list_triv)

end

interpretation ungrouped: row_grouping connectionKey seed_connection
  by unfold_locales (simp_all add: seed_connection_def zero_row_def)

interpretation by_pid: row_grouping pidRemoteKey seed_pid
  by unfold_locales (simp_all add: seed_pid_def zero_row_def)

interpretation by_process: row_grouping processRemoteKey seed_process
  by unfold_locales (simp_all add: seed_process_def zero_row_def)

text \<open>
  Every grouping keeps the totals: the bytes of the rows in each direction add up to those
  of the connections, modulo \<open>2 ^ 64\<close>, and the rows count every connection once.
\<close>

theorem rows_keep_totals:
  "(\<Sum>r\<leftarrow>Rows snap g. w_BytesInTotal r) = (\<Sum>c\<leftarrow>sn_Connections snap. r_BytesInTotal c) \<and>
   (\<Sum>r\<leftarrow>Rows snap g. w_BytesOutTotal r) = (\<Sum>c\<leftarrow>sn_Connections snap. r_BytesOutTotal c) \<and>
   (\<Sum>r\<leftarrow>Rows snap g. w_Connections r) = int (length (sn_Connections snap))"
  by (simp add: Rows_def rowsByPID_def rowsByProcessName_def rowsUngrouped_def ungrouped.rollup_totals
      by_pid.rollup_totals by_process.rollup_totals)

text \<open>
  Without grouping every connection has a row of its own, in the order of the snapshot:
  after any refreshes, no two records of the aggregator share a row key.
\<close>

theorem ungrouped_rows:
  assumes "distinct order"
  shows "rowsUngrouped (s\<lparr>sn_Connections := record_list order (joins xs Map.empty)\<rparr>) =
    map (\<lambda>c. accumulate c (seed_connection c (connectionKey c))) (record_list order (joins xs Map.empty))"
proof -
  define cs where "cs = record_list order (joins xs Map.empty)"
  have "records_keyed (joins xs Map.empty)" by (rule joins_keyed) (simp add: records_keyed_def)
  note k = map_filter_keyed [OF this assms]
  have m: "mset cs = mset (List.map_filter (joins xs Map.empty) order)"
    by (simp add: cs_def record_list_def sort_Slice_key)
  have "distinct (map socket_tuple cs)"
    using k mset_eq_imp_distinct_iff [of "map socket_tuple cs"] m by (metis mset_map)
  moreover have "\<forall>c \<in> set cs. plain_addrs c" using k mset_eq_setD [OF m] by simp
  ultimately have d: "distinct (map connectionKey cs)" by (rule connectionKey_distinct)
  have "group_row connectionKey seed_connection cs (connectionKey c) = accumulate c (seed_connection c (connectionKey c))"
    if "c \<in> set cs" for c
  proof -
    have "filter (\<lambda>x. connectionKey x = connectionKey c) cs = [c]"
      using d that by (induction cs) (auto simp: filter_empty_conv rev_image_eqI)
    then show ?thesis by (simp add: group_row_def)
  qed
  then have "grouped connectionKey seed_connection cs = map (\<lambda>c. accumulate c (seed_connection c (connectionKey c))) cs"
    by (simp add: grouped_def appearances_distinct [OF d])
  then show ?thesis
    using rollup_invariant [of connectionKey seed_connection cs] by (simp add: rowsUngrouped_def rollup_def cs_def)
qed

theorem ungrouped_rows_witness:
  "\<exists>s. length (rowsUngrouped (s\<lparr>sn_Connections :=
     record_list [join_key sample_conn, join_key (sample_conn\<lparr>c_PID := 7\<rparr>)]
       (joins [([sample_conn, sample_conn\<lparr>c_PID := 7\<rparr>], [], [], 1)] Map.empty)\<rparr>)) = 2"
proof -
  have d: "distinct [join_key sample_conn, join_key (sample_conn\<lparr>c_PID := 7\<rparr>)]"
    by (simp add: join_key_def sample_conn_def)
  have "sees [sample_conn, sample_conn\<lparr>c_PID := 7\<rparr>] [] (join_key sample_conn)"
      "sees [sample_conn, sample_conn\<lparr>c_PID := 7\<rparr>] [] (join_key (sample_conn\<lparr>c_PID := 7\<rparr>))"
    by (simp_all add: sees_def)
  then obtain r r' where
      "join_records [sample_conn, sample_conn\<lparr>c_PID := 7\<rparr>] [] [] 1 Map.empty (join_key sample_conn) = Some r"
      "join_records [sample_conn, sample_conn\<lparr>c_PID := 7\<rparr>] [] [] 1 Map.empty (join_key (sample_conn\<lparr>c_PID := 7\<rparr>)) = Some r'"
    using join_records_seen by meson
  then have "length (record_list [join_key sample_conn, join_key (sample_conn\<lparr>c_PID := 7\<rparr>)]
       (joins [([sample_conn, sample_conn\<lparr>c_PID := 7\<rparr>], [], [], 1)] Map.empty)) = 2"
    by (simp add: record_list_def sort_Slice_key map_filter_simps)
  then show ?thesis unfolding ungrouped_rows [OF d] by (simp del: joins.simps)
qed

end
