(* ===== verification/Otel_Metrics.thy ===== *)
theory Otel_Metrics
  imports Aggregator
begin

text \<open>
  The metrics half of the collector receiver, \<^verbatim>\<open>src/receiver/translate.go\<close>: the cap on the number
  of peers that carry attributes of their own within one collection, the counters that the
  receiver keeps from one collection to the next, and the six metrics that \<open>buildMetrics\<close>
  makes from a snapshot. The containers of the collector's data library are records of what
  the code sets in them; attributes are listed in the order in which they are put. Where the
  code walks a map, the order is the order of a list given as a parameter.

  The theory shows that the cap holds over all metrics of a collection together, that every
  event is counted once for good, in its own series or in the overflow one, that the values
  reported for a key are its number of events, and what the overflow series of the bytes
  holds.
\<close>

section \<open>Data points and metrics\<close>

datatype attr = Str string | IntAttr int | BoolAttr bool

record dataPoint =
  dp_Start :: time
  dp_At :: time
  dp_Value :: int
  dp_Attributes :: "(string \<times> attr) list"

record metric =
  m_Name :: string
  m_Unit :: string
  m_IsMonotonic :: bool
  m_Cumulative :: bool
  m_DataPoints :: "dataPoint list"

record metrics =
  md_Scope :: string
  md_Metrics :: "metric list"

definition ScopeName :: string where "ScopeName = ''github.com/boyvinall/trafficmon/receiver''"
definition MetricNetworkIO :: string where "MetricNetworkIO = ''trafficmon.network.io''"
definition MetricDNSQueryCount :: string where "MetricDNSQueryCount = ''trafficmon.dns.query.count''"
definition MetricNetworkSYNCount :: string where "MetricNetworkSYNCount = ''trafficmon.network.syn.count''"
definition MetricNetworkRSTCount :: string where "MetricNetworkRSTCount = ''trafficmon.network.rst.count''"
definition MetricCapturePacketsDropped :: string where
  "MetricCapturePacketsDropped = ''trafficmon.capture.packets.dropped''"
definition MetricDNSQueryErrors :: string where "MetricDNSQueryErrors = ''trafficmon.dns.query.errors''"
definition AttrNetworkIODirection :: string where "AttrNetworkIODirection = ''network.io.direction''"
definition AttrNetworkInterfaceName :: string where "AttrNetworkInterfaceName = ''network.interface.name''"
definition AttrDNSQuestionType :: string where "AttrDNSQuestionType = ''dns.question.type''"
definition AttrPeerOverflow :: string where "AttrPeerOverflow = ''network.peer.address.overflow''"
definition AttrSYNAttemptCount :: string where "AttrSYNAttemptCount = ''network.syn.attempt_count''"
definition AttrDNSResponseCode :: string where "AttrDNSResponseCode = ''dns.response_code''"
definition AttrDirectionTransmit :: string where "AttrDirectionTransmit = ''transmit''"
definition AttrDirectionReceive :: string where "AttrDirectionReceive = ''receive''"

text \<open>The configuration of the receiver, \<^verbatim>\<open>src/receiver/config.go\<close>.\<close>

record ReceiverConfig =
  CollectionInterval :: duration
  rc_Interface :: string
  MaxPeerCardinality :: int

definition NewDefaultConfig :: ReceiverConfig where
  "NewDefaultConfig = \<lparr>CollectionInterval = second, rc_Interface = '''', MaxPeerCardinality = 1000\<rparr>"

datatype config_error = BadInterval | BadCardinality int

definition Validate :: "ReceiverConfig \<Rightarrow> config_error option" where
  "Validate c =
     (if CollectionInterval c \<le> 0 then Some BadInterval
      else if MaxPeerCardinality c \<le> 0 then Some (BadCardinality (MaxPeerCardinality c))
      else None)"

section \<open>The peer limiter\<close>

text \<open>The set of keys seen, listed in the order in which they came.\<close>

record peerLimiter =
  pl_max :: int
  pl_seen :: "string list"

definition newPeerLimiter :: "int \<Rightarrow> peerLimiter" where
  "newPeerLimiter maxPeers = \<lparr>pl_max = maxPeers, pl_seen = []\<rparr>"

definition peer_key :: "string \<Rightarrow> u16 \<Rightarrow> string" where
  "peer_key a port = a @ '':'' @ Itoa (uint port)"

definition allow :: "string \<Rightarrow> u16 \<Rightarrow> peerLimiter \<Rightarrow> bool \<times> peerLimiter" where
  "allow a port l =
     (let key = peer_key a port
      in if key \<in> set (pl_seen l) then (True, l)
         else if pl_max l \<le> int (length (pl_seen l)) then (False, l)
         else (True, l\<lparr>pl_seen := pl_seen l @ [key]\<rparr>))"

section \<open>The counters\<close>

record flowIdentity =
  fi_pid :: i32
  fi_localAddr :: string
  fi_remoteAddr :: string
  fi_localPort :: u16
  fi_remotePort :: u16
  fi_proto :: string

record ioTotals =
  io_in :: u64
  io_out :: u64

record dnsKey =
  dk_name :: string
  dk_qtype :: string

record dnsErrorKey =
  dek_name :: string
  dek_qtype :: string
  dek_rcode :: string

record synKey =
  sk_addr :: string
  sk_iface :: string
  sk_port :: u16

record rstKey =
  rk_addr :: string
  rk_iface :: string
  rk_port :: u16

record metricsState =
  ms_start :: time
  dnsCounts :: "dnsKey \<rightharpoonup> u64"
  dnsErrorCounts :: "dnsErrorKey \<rightharpoonup> u64"
  synCounts :: "synKey \<rightharpoonup> u64"
  rstCounts :: "rstKey \<rightharpoonup> u64"
  synOverflowCount :: u64
  rstOverflowCount :: u64
  overflowBytesIn :: u64
  overflowBytesOut :: u64
  lastIO :: "flowIdentity \<rightharpoonup> ioTotals"

definition newMetricsState :: "time \<Rightarrow> metricsState" where
  "newMetricsState start = \<lparr>ms_start = start, dnsCounts = Map.empty, dnsErrorCounts = Map.empty,
     synCounts = Map.empty, rstCounts = Map.empty, synOverflowCount = 0, rstOverflowCount = 0,
     overflowBytesIn = 0, overflowBytesOut = 0, lastIO = Map.empty\<rparr>"

text \<open>Go's \<^verbatim>\<open>m[k]\<close> and \<^verbatim>\<open>m[k]++\<close>: a key that is not there reads as zero.\<close>

definition count_at :: "('k \<rightharpoonup> u64) \<Rightarrow> 'k \<Rightarrow> u64" where
  "count_at m k = (case m k of None \<Rightarrow> 0 | Some n \<Rightarrow> n)"

definition increment :: "'k \<Rightarrow> ('k \<rightharpoonup> u64) \<Rightarrow> ('k \<rightharpoonup> u64)" where
  "increment k m = m(k \<mapsto> count_at m k + 1)"

section \<open>The bytes\<close>

definition io_data_point :: "ConnectionRecord \<Rightarrow> time \<Rightarrow> string \<times> u64 \<Rightarrow> dataPoint" where
  "io_data_point rec now d =
     \<lparr>dp_Start = r_FirstSeen rec, dp_At = now, dp_Value = sint (snd d),
      dp_Attributes = [(AttrNetworkIODirection, Str (fst d)), (''network.transport'', Str (r_Proto rec))] @
        (if r_Iface rec \<noteq> '''' then [(AttrNetworkInterfaceName, Str (r_Iface rec))] else []) @
        [(''network.peer.address'', Str (r_RemoteAddr rec)), (''network.peer.port'', IntAttr (uint (r_RemotePort rec)))] @
        (if r_PID rec \<noteq> 0 then [(''process.pid'', IntAttr (sint (r_PID rec))),
           (''process.executable.name'', Str (r_ProcessName rec))] else [])\<rparr>"

definition addIODataPoint :: "dataPoint list \<Rightarrow> ConnectionRecord \<Rightarrow> time \<Rightarrow> dataPoint list" where
  "addIODataPoint points rec now = points @ map (io_data_point rec now)
     [(AttrDirectionTransmit, r_BytesOutTotal rec), (AttrDirectionReceive, r_BytesInTotal rec)]"

definition addOverflowIODataPoints ::
    "dataPoint list \<Rightarrow> time \<Rightarrow> time \<Rightarrow> u64 \<Rightarrow> u64 \<Rightarrow> dataPoint list" where
  "addOverflowIODataPoints points start now bytes_in bytes_out = points @
     map (\<lambda>(direction, bytes). \<lparr>dp_Start = start, dp_At = now, dp_Value = sint bytes,
            dp_Attributes = [(AttrNetworkIODirection, Str direction), (AttrPeerOverflow, BoolAttr True)]\<rparr>)
       [(AttrDirectionTransmit, bytes_out), (AttrDirectionReceive, bytes_in)]"

definition flow_identity :: "ConnectionRecord \<Rightarrow> flowIdentity" where
  "flow_identity rec = \<lparr>fi_pid = r_PID rec, fi_localAddr = r_LocalAddr rec, fi_remoteAddr = r_RemoteAddr rec,
     fi_localPort = r_LocalPort rec, fi_remotePort = r_RemotePort rec, fi_proto = r_Proto rec\<rparr>"

text \<open>The variables of the loop of \<open>addIOMetric\<close>.\<close>

record io_loop =
  il_points :: "dataPoint list"
  il_next :: "flowIdentity \<rightharpoonup> ioTotals"
  il_overflowed :: bool
  il_in :: u64
  il_out :: u64
  il_limiter :: peerLimiter

definition last_io :: "(flowIdentity \<rightharpoonup> ioTotals) \<Rightarrow> flowIdentity \<Rightarrow> ioTotals" where
  "last_io m fid = (case m fid of None \<Rightarrow> \<lparr>io_in = 0, io_out = 0\<rparr> | Some t \<Rightarrow> t)"

definition io_step :: "(flowIdentity \<rightharpoonup> ioTotals) \<Rightarrow> time \<Rightarrow> ConnectionRecord \<Rightarrow> io_loop \<Rightarrow> io_loop" where
  "io_step prevIO now rec L =
     (let fid = flow_identity rec;
          (ok, l) = allow (r_RemoteAddr rec) (r_RemotePort rec) (il_limiter L);
          L = L\<lparr>il_limiter := l\<rparr>
      in if ok then L\<lparr>il_points := addIODataPoint (il_points L) rec now\<rparr>
         else (let prev = last_io prevIO fid;
                   L = L\<lparr>il_overflowed := True\<rparr>;
                   L = (if io_in prev < r_BytesInTotal rec
                        then L\<lparr>il_in := il_in L + (r_BytesInTotal rec - io_in prev)\<rparr> else L);
                   L = (if io_out prev < r_BytesOutTotal rec
                        then L\<lparr>il_out := il_out L + (r_BytesOutTotal rec - io_out prev)\<rparr> else L)
               in L\<lparr>il_next := (il_next L)(fid \<mapsto> \<lparr>io_in = r_BytesInTotal rec, io_out = r_BytesOutTotal rec\<rparr>)\<rparr>))"

definition addIOMetric :: "Snapshot \<Rightarrow> time \<Rightarrow> metricsState \<times> peerLimiter \<times> metric list \<Rightarrow>
    metricsState \<times> peerLimiter \<times> metric list" where
  "addIOMetric snap now S =
     (let (s, l, ms) = S;
          L = fold (io_step (lastIO s) now) (sn_Connections snap)
                \<lparr>il_points = [], il_next = Map.empty, il_overflowed = False, il_in = overflowBytesIn s,
                 il_out = overflowBytesOut s, il_limiter = l\<rparr>;
          s = s\<lparr>lastIO := il_next L, overflowBytesIn := il_in L, overflowBytesOut := il_out L\<rparr>;
          points = (if il_overflowed L
                    then addOverflowIODataPoints (il_points L) (ms_start s) now (overflowBytesIn s) (overflowBytesOut s)
                    else il_points L)
      in (s, il_limiter L, ms @ [\<lparr>m_Name = MetricNetworkIO, m_Unit = ''By'', m_IsMonotonic = True,
            m_Cumulative = True, m_DataPoints = points\<rparr>]))"

section \<open>DNS\<close>

definition dns_key :: "QueryFinding \<Rightarrow> dnsKey" where
  "dns_key q = \<lparr>dk_name = qf_Name q, dk_qtype = qf_QType q\<rparr>"

definition dns_error_key :: "DNSErrorFinding \<Rightarrow> dnsErrorKey" where
  "dns_error_key e = \<lparr>dek_name = ef_Name e, dek_qtype = ef_QType e, dek_rcode = ef_RCode e\<rparr>"

text \<open>The loops with a set of keys \<^verbatim>\<open>seen\<close>: each key once, where it comes first.\<close>

fun first_seen_keys :: "'k list \<Rightarrow> 'k list \<Rightarrow> 'k list" where
  "first_seen_keys seen [] = []"
| "first_seen_keys seen (k # ks) =
     (if k \<in> set seen then first_seen_keys seen ks else k # first_seen_keys (k # seen) ks)"

definition addDNSQueryMetric :: "Snapshot \<Rightarrow> time \<Rightarrow> metricsState \<times> metric list \<Rightarrow> metricsState \<times> metric list" where
  "addDNSQueryMetric snap now S =
     (let (s, ms) = S;
          s = fold (\<lambda>q s. s\<lparr>dnsCounts := increment (dns_key q) (dnsCounts s)\<rparr>) (sn_DNSQueries snap) s
      in if length (sn_DNSQueries snap) = 0 then (s, ms)
         else (s, ms @ [\<lparr>m_Name = MetricDNSQueryCount, m_Unit = ''{query}'', m_IsMonotonic = True, m_Cumulative = True,
           m_DataPoints = map (\<lambda>k. \<lparr>dp_Start = ms_start s, dp_At = now, dp_Value = sint (count_at (dnsCounts s) k),
               dp_Attributes = [(''dns.question.name'', Str (dk_name k)), (AttrDNSQuestionType, Str (dk_qtype k))]\<rparr>)
             (first_seen_keys [] (map dns_key (sn_DNSQueries snap)))\<rparr>]))"

definition addDNSErrorMetric :: "Snapshot \<Rightarrow> time \<Rightarrow> metricsState \<times> metric list \<Rightarrow> metricsState \<times> metric list" where
  "addDNSErrorMetric snap now S =
     (let (s, ms) = S;
          s = fold (\<lambda>e s. s\<lparr>dnsErrorCounts := increment (dns_error_key e) (dnsErrorCounts s)\<rparr>) (sn_DNSErrors snap) s
      in if length (sn_DNSErrors snap) = 0 then (s, ms)
         else (s, ms @ [\<lparr>m_Name = MetricDNSQueryErrors, m_Unit = ''{query}'', m_IsMonotonic = True, m_Cumulative = True,
           m_DataPoints = map (\<lambda>k. \<lparr>dp_Start = ms_start s, dp_At = now, dp_Value = sint (count_at (dnsErrorCounts s) k),
               dp_Attributes = [(''dns.question.name'', Str (dek_name k)), (AttrDNSQuestionType, Str (dek_qtype k)),
                 (AttrDNSResponseCode, Str (dek_rcode k))]\<rparr>)
             (first_seen_keys [] (map dns_error_key (sn_DNSErrors snap)))\<rparr>]))"

section \<open>SYN and RST\<close>

text \<open>
  One turn of the loop over the events: the counters, the keys touched, the overflow count
  and the limiter. The set \<^verbatim>\<open>touched\<close> lists its keys in the order in which they came.
\<close>

definition syn_key :: "SYNEvent \<Rightarrow> synKey" where
  "syn_key ev = \<lparr>sk_addr = addr_String (se_RemoteAddr ev), sk_iface = se_Iface ev, sk_port = se_RemotePort ev\<rparr>"

definition syn_step :: "SYNEvent \<Rightarrow> metricsState \<times> synKey list \<times> peerLimiter \<Rightarrow>
    metricsState \<times> synKey list \<times> peerLimiter" where
  "syn_step ev S =
     (let (s, touched, l) = S;
          (ok, l) = allow (addr_String (se_RemoteAddr ev)) (se_RemotePort ev) l
      in if ok then (let k = syn_key ev
                     in (s\<lparr>synCounts := increment k (synCounts s)\<rparr>,
                         if k \<in> set touched then touched else touched @ [k], l))
         else (s\<lparr>synOverflowCount := synOverflowCount s + 1\<rparr>, touched, l))"

definition addSYNMetric :: "(synKey list \<Rightarrow> synKey list) \<Rightarrow> Snapshot \<Rightarrow> time \<Rightarrow>
    metricsState \<times> peerLimiter \<times> metric list \<Rightarrow> metricsState \<times> peerLimiter \<times> metric list" where
  "addSYNMetric walk snap now S =
     (let (s, l, ms) = S;
          (s, touched, l) = fold syn_step (sn_SYNEvents snap) (s, [], l)
      in if length (sn_SYNEvents snap) = 0 then (s, l, ms)
         else (s, l, ms @ [\<lparr>m_Name = MetricNetworkSYNCount, m_Unit = ''{attempt}'', m_IsMonotonic = True,
           m_Cumulative = True,
           m_DataPoints = map (\<lambda>k. \<lparr>dp_Start = ms_start s, dp_At = now, dp_Value = sint (count_at (synCounts s) k),
               dp_Attributes = [(''network.peer.address'', Str (sk_addr k)), (''network.peer.port'', IntAttr (uint (sk_port k))),
                 (AttrNetworkInterfaceName, Str (sk_iface k))]\<rparr>) (walk touched) @
             (if 0 < synOverflowCount s
              then [\<lparr>dp_Start = ms_start s, dp_At = now, dp_Value = sint (synOverflowCount s),
                     dp_Attributes = [(AttrPeerOverflow, BoolAttr True)]\<rparr>] else [])\<rparr>]))"

definition rst_key :: "RSTEvent \<Rightarrow> rstKey" where
  "rst_key ev = \<lparr>rk_addr = addr_String (re_RemoteAddr ev), rk_iface = re_Iface ev, rk_port = re_RemotePort ev\<rparr>"

definition rst_step :: "RSTEvent \<Rightarrow> metricsState \<times> rstKey list \<times> peerLimiter \<Rightarrow>
    metricsState \<times> rstKey list \<times> peerLimiter" where
  "rst_step ev S =
     (let (s, touched, l) = S;
          (ok, l) = allow (addr_String (re_RemoteAddr ev)) (re_RemotePort ev) l
      in if ok then (let k = rst_key ev
                     in (s\<lparr>rstCounts := increment k (rstCounts s)\<rparr>,
                         if k \<in> set touched then touched else touched @ [k], l))
         else (s\<lparr>rstOverflowCount := rstOverflowCount s + 1\<rparr>, touched, l))"

definition addRSTMetric :: "(rstKey list \<Rightarrow> rstKey list) \<Rightarrow> Snapshot \<Rightarrow> time \<Rightarrow>
    metricsState \<times> peerLimiter \<times> metric list \<Rightarrow> metricsState \<times> peerLimiter \<times> metric list" where
  "addRSTMetric walk snap now S =
     (let (s, l, ms) = S;
          (s, touched, l) = fold rst_step (sn_RSTEvents snap) (s, [], l)
      in if length (sn_RSTEvents snap) = 0 then (s, l, ms)
         else (s, l, ms @ [\<lparr>m_Name = MetricNetworkRSTCount, m_Unit = ''{reset}'', m_IsMonotonic = True,
           m_Cumulative = True,
           m_DataPoints = map (\<lambda>k. \<lparr>dp_Start = ms_start s, dp_At = now, dp_Value = sint (count_at (rstCounts s) k),
               dp_Attributes = [(''network.peer.address'', Str (rk_addr k)), (''network.peer.port'', IntAttr (uint (rk_port k))),
                 (AttrNetworkInterfaceName, Str (rk_iface k))]\<rparr>) (walk touched) @
             (if 0 < rstOverflowCount s
              then [\<lparr>dp_Start = ms_start s, dp_At = now, dp_Value = sint (rstOverflowCount s),
                     dp_Attributes = [(AttrPeerOverflow, BoolAttr True)]\<rparr>] else [])\<rparr>]))"

section \<open>The metrics of one collection\<close>

text \<open>
  The orders in which one collection walks the maps. The walk over the packet statistics is
  over the list of the interfaces that have some.
\<close>

record metric_walks =
  mw_syn :: "synKey list \<Rightarrow> synKey list"
  mw_rst :: "rstKey list \<Rightarrow> rstKey list"
  mw_stats :: "string list"

definition addPacketsDroppedMetric :: "string list \<Rightarrow> Snapshot \<Rightarrow> time \<Rightarrow> time \<Rightarrow> metric list \<Rightarrow> metric list" where
  "addPacketsDroppedMetric ifaces snap start now ms =
     (if sn_PacketStats snap = Map.empty then ms
      else ms @ [\<lparr>m_Name = MetricCapturePacketsDropped, m_Unit = ''{packet}'', m_IsMonotonic = True, m_Cumulative = True,
        m_DataPoints = List.map_filter (\<lambda>iface. map_option (\<lambda>stats.
             \<lparr>dp_Start = start, dp_At = now, dp_Value = Dropped stats,
              dp_Attributes = [(AttrNetworkInterfaceName, Str iface)]\<rparr>) (sn_PacketStats snap iface)) ifaces\<rparr>])"

definition buildMetrics :: "metric_walks \<Rightarrow> Snapshot \<Rightarrow> time \<Rightarrow> ReceiverConfig \<Rightarrow> metricsState \<Rightarrow>
    metrics \<times> metricsState" where
  "buildMetrics w snap now cfg s =
     (let limiter = newPeerLimiter (MaxPeerCardinality cfg);
          (s, limiter, ms) = addIOMetric snap now (s, limiter, []);
          (s, ms) = addDNSQueryMetric snap now (s, ms);
          (s, ms) = addDNSErrorMetric snap now (s, ms);
          (s, limiter, ms) = addSYNMetric (mw_syn w) snap now (s, limiter, ms);
          (s, limiter, ms) = addRSTMetric (mw_rst w) snap now (s, limiter, ms);
          ms = addPacketsDroppedMetric (mw_stats w) snap (ms_start s) now ms
      in (\<lparr>md_Scope = ScopeName, md_Metrics = ms\<rparr>, s))"

section \<open>What the limiter admits\<close>

definition admit :: "string \<times> u16 \<Rightarrow> peerLimiter \<Rightarrow> peerLimiter" where
  "admit p l = snd (allow (fst p) (snd p) l)"

definition admitted :: "string \<times> u16 \<Rightarrow> peerLimiter \<Rightarrow> bool" where
  "admitted p l \<longleftrightarrow> fst (allow (fst p) (snd p) l)"

definition full :: "peerLimiter \<Rightarrow> bool" where
  "full l \<longleftrightarrow> pl_max l \<le> int (length (pl_seen l))"

definition key_of :: "string \<times> u16 \<Rightarrow> string" where
  "key_of p = peer_key (fst p) (snd p)"

lemma no_colon_Itoa: "CHR '':'' \<notin> set (Itoa (uint (n :: u16)))"
proof
  assume "CHR '':'' \<in> set (Itoa (uint n))"
  then obtain d :: nat where "d < 10" and "CHR '':'' = char_of (48 + d)"
    using dec_digits_set [of _ "nat (uint n)"] by (auto simp: Itoa_def)
  then have "(of_char (CHR '':'') :: nat) = 48 + d" by simp
  with \<open>d < 10\<close> show False by simp
qed

lemma Itoa_port_inj: "Itoa (uint m) = Itoa (uint (n :: u16)) \<Longrightarrow> m = n"
  using dec_digits_inj [of "unat m" "unat n"] by (auto simp: Itoa_def intro: unsigned_word_eqI [where ?'a = nat])

lemma last_separator:
  assumes "xs @ c # ys = xs' @ c # ys'" and "c \<notin> set ys" and "c \<notin> set ys'"
  shows "xs = xs' \<and> ys = ys'"
proof -
  have split: "takeWhile (\<lambda>x. x \<noteq> c) (us @ c # zs) = us" if "c \<notin> set us" for zs us
    using that by (induction us) auto
  have rev: "rev (zs @ c # us) = rev us @ c # rev zs" for zs us by simp
  have "rev ys = takeWhile (\<lambda>x. x \<noteq> c) (rev ys @ c # rev xs)" by (simp add: split assms(2))
  also have "\<dots> = takeWhile (\<lambda>x. x \<noteq> c) (rev ys' @ c # rev xs')" by (simp only: rev [symmetric] assms(1))
  also have "\<dots> = rev ys'" by (simp add: split assms(3))
  finally have "ys = ys'" by simp
  with assms(1) show ?thesis by simp
qed

lemma key_of_inj: "inj key_of"
proof (rule injI)
  fix p q :: "string \<times> u16"
  assume "key_of p = key_of q"
  then have "fst p = fst q \<and> Itoa (uint (snd p)) = Itoa (uint (snd q))"
    using last_separator [OF _ no_colon_Itoa no_colon_Itoa] by (simp add: key_of_def peer_key_def)
  then show "p = q" by (auto intro: prod_eqI dest: Itoa_port_inj)
qed

lemma admit_cases:
  obtains (known) "key_of p \<in> set (pl_seen l)" "admit p l = l" "admitted p l"
  | (refused) "key_of p \<notin> set (pl_seen l)" "full l" "admit p l = l" "\<not> admitted p l"
  | (new) "key_of p \<notin> set (pl_seen l)" "\<not> full l" "admit p l = l\<lparr>pl_seen := pl_seen l @ [key_of p]\<rparr>" "admitted p l"
  by (auto simp: admit_def admitted_def full_def key_of_def allow_def Let_def split: if_splits)

lemma allow_admit: "allow a port l = (admitted (a, port) l, admit (a, port) l)"
  by (simp add: admit_def admitted_def)

lemma admit_max [simp]: "pl_max (fold admit ps l) = pl_max l"
proof (induction ps arbitrary: l)
  case (Cons p ps)
  then show ?case by (cases p l rule: admit_cases) simp_all
qed simp

lemma admit_seen_mono: "set (pl_seen l) \<subseteq> set (pl_seen (fold admit ps l))"
proof (induction ps arbitrary: l)
  case (Cons p ps)
  from Cons [of "admit p l"] show ?case by (cases p l rule: admit_cases) auto
qed simp

lemma full_stays: "full l \<Longrightarrow> fold admit ps l = l"
proof (induction ps)
  case (Cons p ps)
  then show ?case by (cases p l rule: admit_cases) simp_all
qed simp

text \<open>A peer has been admitted exactly when its key is there in the end.\<close>

lemma admitted_iff_seen: "admitted p l \<longleftrightarrow> key_of p \<in> set (pl_seen (fold admit ps (admit p l)))"
proof (cases p l rule: admit_cases)
  case refused
  then show ?thesis by (simp add: full_stays)
next
  case known
  then show ?thesis using admit_seen_mono [of l ps] by auto
next
  case new
  then show ?thesis using admit_seen_mono [of "admit p l" ps] by auto
qed

text \<open>The keys a fresh limiter holds after some peers: all of them, or as many as the cap allows.\<close>

definition limiter_inv :: "(string \<times> u16) list \<Rightarrow> peerLimiter \<Rightarrow> bool" where
  "limiter_inv ps l \<longleftrightarrow> distinct (pl_seen l) \<and> set (pl_seen l) \<subseteq> key_of ` set ps \<and>
     (if full l then length (pl_seen l) = nat (pl_max l) else set (pl_seen l) = key_of ` set ps)"

lemma limiter_inv_admit: "limiter_inv ps l \<Longrightarrow> limiter_inv (ps @ [p]) (admit p l)"
proof (cases p l rule: admit_cases)
  case new
  moreover assume "limiter_inv ps l"
  ultimately show ?thesis
    by (auto simp: limiter_inv_def full_def insert_absorb)
qed (auto simp: limiter_inv_def)

lemma limiter_inv_fold: "limiter_inv qs l \<Longrightarrow> limiter_inv (qs @ ps) (fold admit ps l)"
proof (induction ps arbitrary: qs l)
  case (Cons p ps)
  then show ?case using Cons.IH [OF limiter_inv_admit [OF Cons.prems]] by simp
qed simp

lemma fresh_limiter_seen:
  fixes ps
  assumes "0 \<le> n"
  defines "l \<equiv> fold admit ps (newPeerLimiter n)"
  shows "length (pl_seen l) = min (nat n) (card (set ps))" and "distinct (pl_seen l)"
    and "set (pl_seen l) \<subseteq> key_of ` set ps"
proof -
  have "limiter_inv [] (newPeerLimiter n)"
    using assms by (auto simp: limiter_inv_def newPeerLimiter_def full_def)
  from limiter_inv_fold [OF this] have inv: "limiter_inv ps l" by (simp add: l_def)
  have max: "pl_max l = n" by (simp add: l_def newPeerLimiter_def)
  show "distinct (pl_seen l)" "set (pl_seen l) \<subseteq> key_of ` set ps"
    using inv by (auto simp: limiter_inv_def)
  have card: "card (key_of ` set ps) = card (set ps)"
    by (rule card_image) (meson key_of_inj inj_on_subset subset_UNIV)
  have len: "length (pl_seen l) = card (set (pl_seen l))"
    using inv by (simp add: limiter_inv_def distinct_card)
  also have "\<dots> \<le> card (set ps)"
    using card_mono [of "key_of ` set ps" "set (pl_seen l)"] inv card by (simp add: limiter_inv_def)
  finally have le: "length (pl_seen l) \<le> card (set ps)" .
  show "length (pl_seen l) = min (nat n) (card (set ps))"
  proof (cases "full l")
    case True
    with inv max le show ?thesis by (simp add: limiter_inv_def)
  next
    case False
    with inv len card have "length (pl_seen l) = card (set ps)" by (simp add: limiter_inv_def)
    with False max show ?thesis by (simp add: full_def)
  qed
qed

section \<open>Loops under the limiter\<close>

text \<open>
  Three loops share one limiter. The contract of such a loop: a turn asks for the peer of its
  event and shows the peer when it is admitted.
\<close>

locale limited_loop =
  fixes step :: "'e \<Rightarrow> 's \<Rightarrow> 's" and limiter :: "'s \<Rightarrow> peerLimiter"
    and peer :: "'e \<Rightarrow> string \<times> u16" and shown :: "'s \<Rightarrow> (string \<times> u16) set"
  assumes step_limiter: "limiter (step e s) = admit (peer e) (limiter s)"
    and step_shown: "shown (step e s) = (if admitted (peer e) (limiter s) then insert (peer e) (shown s) else shown s)"
begin

lemma loop_limiter: "limiter (fold step es s) = fold admit (map peer es) (limiter s)"
  by (induction es arbitrary: s) (simp_all add: step_limiter)

lemma loop_shown:
  "shown (fold step es s) =
     shown s \<union> {p \<in> peer ` set es. key_of p \<in> set (pl_seen (limiter (fold step es s)))}"
proof (induction es arbitrary: s)
  case (Cons e es)
  have "admitted (peer e) (limiter s) \<longleftrightarrow> key_of (peer e) \<in> set (pl_seen (limiter (fold step es (step e s))))"
    by (simp add: loop_limiter step_limiter admitted_iff_seen [of _ _ "map peer es"])
  with Cons show ?case by (auto simp: step_shown)
qed simp

end

text \<open>A loop that also counts: an admitted event under its key, any other one in the overflow.\<close>

definition total_of :: "('k \<rightharpoonup> u64) \<Rightarrow> u64" where
  "total_of m = (\<Sum>k\<in>dom m. count_at m k)"

lemma count_increment: "count_at (increment k m) j = (if j = k then count_at m k + 1 else count_at m j)"
  by (simp add: increment_def count_at_def)

lemma dom_increment: "dom (increment k m) = insert k (dom m)"
  by (simp add: increment_def)

lemma total_increment:
  assumes "finite (dom m)"
  shows "total_of (increment k m) = total_of m + 1"
proof -
  have rest: "(\<Sum>j\<in>dom m - {k}. count_at (increment k m) j) = (\<Sum>j\<in>dom m - {k}. count_at m j)"
    by (rule sum.cong) (auto simp: count_increment)
  have "total_of (increment k m) = count_at m k + 1 + (\<Sum>j\<in>dom m - {k}. count_at m j)"
    using assms by (simp add: total_of_def dom_increment sum.insert_remove count_increment rest)
  moreover have "total_of m = count_at m k + (\<Sum>j\<in>dom m - {k}. count_at m j)"
  proof (cases "k \<in> dom m")
    case True
    then show ?thesis using assms by (simp add: total_of_def sum.remove)
  next
    case False
    then have "count_at m k = 0" by (simp add: count_at_def domIff)
    with False show ?thesis by (simp add: total_of_def)
  qed
  ultimately show ?thesis by simp
qed

locale limited_tally = limited_loop step limiter peer shown
  for step :: "'e \<Rightarrow> 's \<Rightarrow> 's" and limiter and peer and shown +
  fixes counts :: "'s \<Rightarrow> 'k \<rightharpoonup> u64" and spill :: "'s \<Rightarrow> u64" and keyed :: "'e \<Rightarrow> 'k"
  assumes step_counts: "counts (step e s) =
      (if admitted (peer e) (limiter s) then increment (keyed e) (counts s) else counts s)"
    and step_spill: "spill (step e s) = (if admitted (peer e) (limiter s) then spill s else spill s + 1)"
begin

lemma loop_finite: "finite (dom (counts s)) \<Longrightarrow> finite (dom (counts (fold step es s)))"
  by (induction es arbitrary: s) (simp_all add: step_counts dom_increment)

lemma loop_total:
  assumes "finite (dom (counts s))"
  shows "total_of (counts (fold step es s)) + spill (fold step es s) =
    total_of (counts s) + spill s + of_nat (length es)"
  using assms
proof (induction es arbitrary: s)
  case (Cons e es)
  have "finite (dom (counts (step e s)))" using Cons.prems by (simp add: step_counts dom_increment)
  from Cons.IH [OF this] Cons.prems show ?case
    by (simp add: step_counts step_spill total_increment)
qed simp

text \<open>The counter of a key grows by its events with an admitted peer.\<close>

lemma loop_count:
  "count_at (counts (fold step es s)) k =
     count_at (counts s) k + of_nat (length (filter
       (\<lambda>e. keyed e = k \<and> key_of (peer e) \<in> set (pl_seen (limiter (fold step es s)))) es))"
proof (induction es arbitrary: s)
  case (Cons e es)
  have "admitted (peer e) (limiter s) \<longleftrightarrow> key_of (peer e) \<in> set (pl_seen (limiter (fold step es (step e s))))"
    by (simp add: loop_limiter step_limiter admitted_iff_seen [of _ _ "map peer es"])
  with Cons show ?case by (auto simp: step_counts count_increment)
qed simp

end

definition record_peer :: "ConnectionRecord \<Rightarrow> string \<times> u16" where
  "record_peer r = (r_RemoteAddr r, r_RemotePort r)"

definition syn_peer :: "SYNEvent \<Rightarrow> string \<times> u16" where
  "syn_peer e = (addr_String (se_RemoteAddr e), se_RemotePort e)"

definition rst_peer :: "RSTEvent \<Rightarrow> string \<times> u16" where
  "rst_peer e = (addr_String (re_RemoteAddr e), re_RemotePort e)"

text \<open>The peers that data points carry attributes of.\<close>

definition point_peers :: "dataPoint \<Rightarrow> (string \<times> u16) set" where
  "point_peers d = {(a, p). (''network.peer.address'', Str a) \<in> set (dp_Attributes d) \<and>
     (''network.peer.port'', IntAttr (uint p)) \<in> set (dp_Attributes d)}"

definition peers_of :: "metric list \<Rightarrow> (string \<times> u16) set" where
  "peers_of ms = (\<Union>m\<in>set ms. \<Union>d\<in>set (m_DataPoints m). point_peers d)"

lemma io_point_peers: "point_peers (io_data_point r now d) = {record_peer r}"
  by (auto simp: point_peers_def io_data_point_def record_peer_def AttrNetworkIODirection_def
      AttrNetworkInterfaceName_def intro: unsigned_word_eqI [where ?'a = int])

interpretation io_loop: limited_loop "io_step prevIO now" il_limiter record_peer
  "\<lambda>L. \<Union>d\<in>set (il_points L). point_peers d"
  for prevIO now
proof unfold_locales
  fix e L
  show "il_limiter (io_step prevIO now e L) = admit (record_peer e) (il_limiter L)"
    by (simp add: io_step_def allow_admit record_peer_def Let_def)
  show "(\<Union>d\<in>set (il_points (io_step prevIO now e L)). point_peers d) =
      (if admitted (record_peer e) (il_limiter L)
       then insert (record_peer e) (\<Union>d\<in>set (il_points L). point_peers d)
       else (\<Union>d\<in>set (il_points L). point_peers d))"
    by (simp add: io_step_def allow_admit record_peer_def [symmetric] Let_def addIODataPoint_def io_point_peers
        split: if_splits)
qed

interpretation syn_loop: limited_tally syn_step "\<lambda>S. snd (snd S)" syn_peer
  "\<lambda>S. (\<lambda>k. (sk_addr k, sk_port k)) ` set (fst (snd S))" "\<lambda>S. synCounts (fst S)" "\<lambda>S. synOverflowCount (fst S)" syn_key
  by unfold_locales
    (auto simp: syn_step_def allow_admit syn_peer_def syn_key_def Let_def split: prod.splits intro: rev_image_eqI)

interpretation rst_loop: limited_tally rst_step "\<lambda>S. snd (snd S)" rst_peer
  "\<lambda>S. (\<lambda>k. (rk_addr k, rk_port k)) ` set (fst (snd S))" "\<lambda>S. rstCounts (fst S)" "\<lambda>S. rstOverflowCount (fst S)" rst_key
  by unfold_locales
    (auto simp: rst_step_def allow_admit rst_peer_def rst_key_def Let_def split: prod.splits intro: rev_image_eqI)

section \<open>The cap\<close>

lemma peers_of_Nil [simp]: "peers_of [] = {}"
  by (simp add: peers_of_def)

lemma peers_of_snoc [simp]: "peers_of (ms @ [m]) = peers_of ms \<union> (\<Union>d\<in>set (m_DataPoints m). point_peers d)"
  by (auto simp: peers_of_def)

lemma addIOMetric_peers:
  assumes "addIOMetric snap now (s, l, ms) = (s', l', ms')"
  shows "l' = fold admit (map record_peer (sn_Connections snap)) l"
    and "peers_of ms' = peers_of ms \<union> {p \<in> record_peer ` set (sn_Connections snap). key_of p \<in> set (pl_seen l')}"
proof -
  define L0 where "L0 = \<lparr>il_points = [], il_next = Map.empty, il_overflowed = False, il_in = overflowBytesIn s,
    il_out = overflowBytesOut s, il_limiter = l\<rparr>"
  define L where "L = fold (io_step (lastIO s) now) (sn_Connections snap) L0"
  note eq = assms [unfolded addIOMetric_def Let_def prod.case L0_def [symmetric] L_def [symmetric]]
  have over: "(\<Union>d\<in>set (addOverflowIODataPoints ps a b c e). point_peers d) = (\<Union>d\<in>set ps. point_peers d)"
    for ps a b c e by (auto simp: addOverflowIODataPoints_def point_peers_def AttrNetworkIODirection_def AttrPeerOverflow_def)
  have l': "l' = il_limiter L" using eq by simp
  have shown: "(\<Union>d\<in>set (il_points L). point_peers d) =
      {p \<in> record_peer ` set (sn_Connections snap). key_of p \<in> set (pl_seen (il_limiter L))}"
    using io_loop.loop_shown [of "lastIO s" now "sn_Connections snap" L0]
    unfolding L_def [symmetric] by (simp add: L0_def)
  show lim: "l' = fold admit (map record_peer (sn_Connections snap)) l"
    by (simp add: l' L_def io_loop.loop_limiter) (simp add: L0_def)
  show "peers_of ms' = peers_of ms \<union> {p \<in> record_peer ` set (sn_Connections snap). key_of p \<in> set (pl_seen l')}"
    unfolding l' shown [symmetric] using eq by (cases "il_overflowed L") (auto simp: over)
qed

lemma syn_point_peers:
  "point_peers \<lparr>dp_Start = a, dp_At = b, dp_Value = v, dp_Attributes =
     [(''network.peer.address'', Str x), (''network.peer.port'', IntAttr (uint p)), (AttrNetworkInterfaceName, Str y)]\<rparr> = {(x, p)}"
  by (auto simp: point_peers_def AttrNetworkInterfaceName_def intro: unsigned_word_eqI [where ?'a = int])

lemma overflow_point_peers:
  "point_peers \<lparr>dp_Start = a, dp_At = b, dp_Value = v, dp_Attributes = [(AttrPeerOverflow, BoolAttr t)]\<rparr> = {}"
  by (auto simp: point_peers_def)

lemma addSYNMetric_peers:
  assumes "addSYNMetric walk snap now (s, l, ms) = (s', l', ms')" and walk: "\<And>ks. set (walk ks) = set ks"
  shows "l' = fold admit (map syn_peer (sn_SYNEvents snap)) l"
    and "peers_of ms' = peers_of ms \<union> {p \<in> syn_peer ` set (sn_SYNEvents snap). key_of p \<in> set (pl_seen l')}"
proof -
  obtain t touched where fold: "fold syn_step (sn_SYNEvents snap) (s, [], l) = (t, touched, l')"
    using assms(1) by (auto simp: addSYNMetric_def Let_def split: prod.splits if_splits)
  have ms': "ms' = snd (snd (addSYNMetric walk snap now (s, l, ms)))" by (simp add: assms(1))
  show lim: "l' = fold admit (map syn_peer (sn_SYNEvents snap)) l"
    using syn_loop.loop_limiter [of "sn_SYNEvents snap" "(s, [], l)"] by (simp add: fold)
  have shown: "(\<lambda>k. (sk_addr k, sk_port k)) ` set touched = {p \<in> syn_peer ` set (sn_SYNEvents snap). key_of p \<in> set (pl_seen l')}"
    using syn_loop.loop_shown [of "sn_SYNEvents snap" "(s, [], l)"] by (simp add: fold)
  show "peers_of ms' = peers_of ms \<union> {p \<in> syn_peer ` set (sn_SYNEvents snap). key_of p \<in> set (pl_seen l')}"
    unfolding shown [symmetric] ms' using fold
    by (cases "sn_SYNEvents snap = []") (auto simp: addSYNMetric_def syn_point_peers overflow_point_peers walk)
qed

lemma addRSTMetric_peers:
  assumes "addRSTMetric walk snap now (s, l, ms) = (s', l', ms')" and walk: "\<And>ks. set (walk ks) = set ks"
  shows "l' = fold admit (map rst_peer (sn_RSTEvents snap)) l"
    and "peers_of ms' = peers_of ms \<union> {p \<in> rst_peer ` set (sn_RSTEvents snap). key_of p \<in> set (pl_seen l')}"
proof -
  obtain t touched where fold: "fold rst_step (sn_RSTEvents snap) (s, [], l) = (t, touched, l')"
    using assms(1) by (auto simp: addRSTMetric_def Let_def split: prod.splits if_splits)
  have ms': "ms' = snd (snd (addRSTMetric walk snap now (s, l, ms)))" by (simp add: assms(1))
  show lim: "l' = fold admit (map rst_peer (sn_RSTEvents snap)) l"
    using rst_loop.loop_limiter [of "sn_RSTEvents snap" "(s, [], l)"] by (simp add: fold)
  have shown: "(\<lambda>k. (rk_addr k, rk_port k)) ` set touched = {p \<in> rst_peer ` set (sn_RSTEvents snap). key_of p \<in> set (pl_seen l')}"
    using rst_loop.loop_shown [of "sn_RSTEvents snap" "(s, [], l)"] by (simp add: fold)
  show "peers_of ms' = peers_of ms \<union> {p \<in> rst_peer ` set (sn_RSTEvents snap). key_of p \<in> set (pl_seen l')}"
    unfolding shown [symmetric] ms' using fold
    by (cases "sn_RSTEvents snap = []") (auto simp: addRSTMetric_def syn_point_peers overflow_point_peers walk)
qed

lemma peerless_metrics:
  "addDNSQueryMetric snap now (s, ms) = (s', ms') \<Longrightarrow> peers_of ms' = peers_of ms"
  "addDNSErrorMetric snap now (t, ms) = (t', ms') \<Longrightarrow> peers_of ms' = peers_of ms"
  "peers_of (addPacketsDroppedMetric ifaces snap start now ms) = peers_of ms"
  by (auto simp: addDNSQueryMetric_def addDNSErrorMetric_def addPacketsDroppedMetric_def point_peers_def
      AttrDNSQuestionType_def AttrDNSResponseCode_def AttrNetworkInterfaceName_def map_filter_def Let_def split: if_splits)

lemma processed_seen:
  assumes "p \<in> set ps"
  shows "key_of p \<in> set (pl_seen (fold admit qs (fold admit ps l))) \<longleftrightarrow> key_of p \<in> set (pl_seen (fold admit ps l))"
proof -
  obtain as bs where ps: "ps = as @ p # bs" using assms by (auto simp: in_set_conv_decomp)
  have "admitted p (fold admit as l) \<longleftrightarrow> key_of p \<in> set (pl_seen (fold admit ps l))"
    using admitted_iff_seen [of p "fold admit as l" bs] by (simp add: ps)
  moreover have "admitted p (fold admit as l) \<longleftrightarrow> key_of p \<in> set (pl_seen (fold admit qs (fold admit ps l)))"
    using admitted_iff_seen [of p "fold admit as l" "bs @ qs"] by (simp add: ps)
  ultimately show ?thesis by simp
qed

definition snapshot_peers :: "Snapshot \<Rightarrow> (string \<times> u16) list" where
  "snapshot_peers snap = map record_peer (sn_Connections snap) @ map syn_peer (sn_SYNEvents snap) @
     map rst_peer (sn_RSTEvents snap)"

definition walks_ok :: "metric_walks \<Rightarrow> bool" where
  "walks_ok w \<longleftrightarrow> (\<forall>ks. mset (mw_syn w ks) = mset ks) \<and> (\<forall>ks. mset (mw_rst w ks) = mset ks)"

lemma walks_ok_set: "walks_ok w \<Longrightarrow> set (mw_syn w ks) = set ks" "walks_ok w \<Longrightarrow> set (mw_rst w js) = set js"
  by (metis walks_ok_def mset_eq_setD)+

lemma buildMetrics_peers:
  fixes snap cfg
  assumes "walks_ok w"
  defines "l \<equiv> fold admit (snapshot_peers snap) (newPeerLimiter (MaxPeerCardinality cfg))"
  shows "peers_of (md_Metrics (fst (buildMetrics w snap now cfg s))) =
    {p \<in> set (snapshot_peers snap). key_of p \<in> set (pl_seen l)}"
proof -
  define l0 where "l0 = newPeerLimiter (MaxPeerCardinality cfg)"
  obtain s1 l1 m1 where 1: "addIOMetric snap now (s, l0, []) = (s1, l1, m1)" by (metis prod_cases3)
  obtain s2 m2 where 2: "addDNSQueryMetric snap now (s1, m1) = (s2, m2)" by fastforce
  obtain s3 m3 where 3: "addDNSErrorMetric snap now (s2, m2) = (s3, m3)" by fastforce
  obtain s4 l4 m4 where 4: "addSYNMetric (mw_syn w) snap now (s3, l1, m3) = (s4, l4, m4)" by (metis prod_cases3)
  obtain s5 l5 m5 where 5: "addRSTMetric (mw_rst w) snap now (s4, l4, m4) = (s5, l5, m5)" by (metis prod_cases3)
  note io = addIOMetric_peers [OF 1] and syn = addSYNMetric_peers [OF 4 walks_ok_set(1) [OF assms(1)]]
    and rst = addRSTMetric_peers [OF 5 walks_ok_set(2) [OF assms(1)]]
  have l5: "l5 = l" and l4: "l5 = fold admit (map rst_peer (sn_RSTEvents snap)) l4"
    and l1: "l5 = fold admit (map syn_peer (sn_SYNEvents snap) @ map rst_peer (sn_RSTEvents snap)) l1"
    by (simp_all add: l_def snapshot_peers_def l0_def [symmetric] io(1) syn(1) rst(1))
  let ?S = "set (pl_seen l)"
  have "key_of p \<in> set (pl_seen l1) \<longleftrightarrow> key_of p \<in> ?S" if "p \<in> record_peer ` set (sn_Connections snap)" for p
    unfolding l5 [symmetric] l1 io(1) using that by (intro processed_seen [symmetric]) simp
  then have conns: "{p \<in> record_peer ` set (sn_Connections snap). key_of p \<in> set (pl_seen l1)} =
      {p \<in> record_peer ` set (sn_Connections snap). key_of p \<in> ?S}" by blast
  have "key_of p \<in> set (pl_seen l4) \<longleftrightarrow> key_of p \<in> ?S" if "p \<in> syn_peer ` set (sn_SYNEvents snap)" for p
    unfolding l5 [symmetric] l4 syn(1) using that by (intro processed_seen [symmetric]) simp
  then have syns: "{p \<in> syn_peer ` set (sn_SYNEvents snap). key_of p \<in> set (pl_seen l4)} =
      {p \<in> syn_peer ` set (sn_SYNEvents snap). key_of p \<in> ?S}" by blast
  have "md_Metrics (fst (buildMetrics w snap now cfg s)) = addPacketsDroppedMetric (mw_stats w) snap (ms_start s5) now m5"
    by (simp add: buildMetrics_def l0_def [symmetric] 1 2 3 4 5)
  then have "peers_of (md_Metrics (fst (buildMetrics w snap now cfg s))) =
      {p \<in> record_peer ` set (sn_Connections snap). key_of p \<in> set (pl_seen l1)} \<union>
      {p \<in> syn_peer ` set (sn_SYNEvents snap). key_of p \<in> set (pl_seen l4)} \<union>
      {p \<in> rst_peer ` set (sn_RSTEvents snap). key_of p \<in> set (pl_seen l5)}"
    by (simp add: peerless_metrics(3) rst(2) syn(2) peerless_metrics(2) [OF 3] peerless_metrics(1) [OF 2] io(2))
  also have "\<dots> = {p \<in> set (snapshot_peers snap). key_of p \<in> set (pl_seen l)}"
    unfolding conns syns by (auto simp: l5 snapshot_peers_def)
  finally show ?thesis .
qed


definition sample_orders :: metric_walks where
  "sample_orders = \<lparr>mw_syn = rev, mw_rst = rev, mw_stats = []\<rparr>"

definition other_record :: ConnectionRecord where
  "other_record = sample_record\<lparr>r_RemotePort := 80, r_BytesInTotal := 1000\<rparr>"

definition conns_snapshot :: "ConnectionRecord list \<Rightarrow> Snapshot" where
  "conns_snapshot conns = \<lparr>sn_At = 0, sn_Connections = conns, sn_SYNEvents = [], sn_RSTEvents = [], sn_DNSQueries = [],
     sn_DNSErrors = [], sn_DNSAnswers = [], sn_PacketStats = Map.empty\<rparr>"

lemma other_peer: "record_peer sample_record \<noteq> record_peer other_record"
  by (simp add: other_record_def record_peer_def sample_record_def conn_record_def sample_conn_def Let_def)


text \<open>With room for all peers, every connection has its two data points.\<close>

lemma io_loop_points:
  assumes "r \<in> set es" and "key_of (record_peer r) \<in> set (pl_seen (il_limiter (fold (io_step prevIO now) es L)))"
  shows "set (addIODataPoint [] r now) \<subseteq> set (il_points (fold (io_step prevIO now) es L))"
proof -
  have mono: "set (il_points L) \<subseteq> set (il_points (fold (io_step prevIO now) xs L))" for xs L
  proof (induction xs arbitrary: L)
    case (Cons x xs)
    have "set (il_points L) \<subseteq> set (il_points (io_step prevIO now x L))"
      by (auto simp: io_step_def addIODataPoint_def Let_def split: prod.split)
    with Cons [of "io_step prevIO now x L"] show ?case by auto
  qed simp
  obtain as bs where es: "es = as @ r # bs" using assms(1) by (auto simp: in_set_conv_decomp)
  define M where "M = fold (io_step prevIO now) as L"
  have "admitted (record_peer r) (il_limiter M)"
    using assms(2) admitted_iff_seen [of "record_peer r" "il_limiter M" "map record_peer bs"]
    by (simp add: es M_def io_loop.loop_limiter io_loop.step_limiter)
  then have "il_points (io_step prevIO now r M) = addIODataPoint (il_points M) r now"
    by (simp add: io_step_def allow_admit record_peer_def Let_def)
  then have "set (addIODataPoint [] r now) \<subseteq> set (il_points (io_step prevIO now r M))"
    by (auto simp: addIODataPoint_def)
  with mono [of "io_step prevIO now r M" bs] show ?thesis by (auto simp: es M_def)
qed

lemma later_metrics_keep:
  "set ms \<subseteq> set (snd (addDNSQueryMetric snap now (s, ms)))" "set ms \<subseteq> set (snd (addDNSErrorMetric snap now (s, ms)))"
  "set ms \<subseteq> set (snd (snd (addSYNMetric walk snap now (s, l, ms))))" "set ms \<subseteq> set (snd (snd (addRSTMetric walk' snap now (s, l, ms))))"
  "set ms \<subseteq> set (addPacketsDroppedMetric ifaces snap start now ms)"
  by (auto simp: addDNSQueryMetric_def addDNSErrorMetric_def addSYNMetric_def addRSTMetric_def addPacketsDroppedMetric_def
      Let_def split: prod.split)

lemma all_peers_seen:
  assumes "card (set ps) \<le> nat n" and "0 \<le> n" and "p \<in> set ps"
  shows "key_of p \<in> set (pl_seen (fold admit ps (newPeerLimiter n)))"
proof -
  define l where "l = fold admit ps (newPeerLimiter n)"
  note seen = fresh_limiter_seen [OF assms(2), of ps, folded l_def]
  have "card (set (pl_seen l)) = card (set ps)" using seen(1,2) assms(1) by (simp add: distinct_card)
  also have "\<dots> = card (key_of ` set ps)" by (rule card_image [symmetric], rule inj_on_subset [OF key_of_inj]) simp
  finally have "set (pl_seen l) = key_of ` set ps" using seen(3) by (intro card_subset_eq) auto
  then show ?thesis using assms(3) by (simp add: l_def)
qed

lemma buildMetrics_io_points:
  assumes "card (set (snapshot_peers snap)) \<le> nat (MaxPeerCardinality cfg)" and "0 \<le> MaxPeerCardinality cfg"
    and "r \<in> set (sn_Connections snap)"
  shows "\<exists>m \<in> set (md_Metrics (fst (buildMetrics w snap now cfg s))). m_Name m = MetricNetworkIO \<and>
    set (addIODataPoint [] r now) \<subseteq> set (m_DataPoints m)"
proof -
  define l0 where "l0 = newPeerLimiter (MaxPeerCardinality cfg)"
  obtain s1 l1 m1 where 1: "addIOMetric snap now (s, l0, []) = (s1, l1, m1)" by (metis prod_cases3)
  obtain s2 m2 where 2: "addDNSQueryMetric snap now (s1, m1) = (s2, m2)" by fastforce
  obtain s3 m3 where 3: "addDNSErrorMetric snap now (s2, m2) = (s3, m3)" by fastforce
  obtain s4 l4 m4 where 4: "addSYNMetric (mw_syn w) snap now (s3, l1, m3) = (s4, l4, m4)" by (metis prod_cases3)
  obtain s5 l5 m5 where 5: "addRSTMetric (mw_rst w) snap now (s4, l4, m4) = (s5, l5, m5)" by (metis prod_cases3)
  have "set m1 \<subseteq> set m2" "set m2 \<subseteq> set m3" "set m3 \<subseteq> set m4" "set m4 \<subseteq> set m5"
    using later_metrics_keep(1) [of m1 snap now s1] later_metrics_keep(2) [of m2 snap now s2]
      later_metrics_keep(3) [of m3 "mw_syn w" snap now s3 l1] later_metrics_keep(4) [of m4 "mw_rst w" snap now s4 l4]
    by (simp_all add: 2 3 4 5)
  moreover have "md_Metrics (fst (buildMetrics w snap now cfg s)) = addPacketsDroppedMetric (mw_stats w) snap (ms_start s5) now m5"
    by (simp add: buildMetrics_def l0_def [symmetric] 1 2 3 4 5)
  ultimately have keep: "set m1 \<subseteq> set (md_Metrics (fst (buildMetrics w snap now cfg s)))"
    using later_metrics_keep(5) [of m5 "mw_stats w" snap "ms_start s5" now] by (metis (no_types, lifting) order_trans)
  define L where "L = fold (io_step (lastIO s) now) (sn_Connections snap)
    \<lparr>il_points = [], il_next = Map.empty, il_overflowed = False, il_in = overflowBytesIn s,
     il_out = overflowBytesOut s, il_limiter = l0\<rparr>"
  have lim: "il_limiter L = fold admit (map record_peer (sn_Connections snap)) l0"
    by (simp add: L_def io_loop.loop_limiter)
  have "key_of (record_peer r) \<in> set (pl_seen (il_limiter L))"
    using all_peers_seen [OF assms(1,2), of "record_peer r"] assms(3)
      processed_seen [of "record_peer r" "map record_peer (sn_Connections snap)"
        "map syn_peer (sn_SYNEvents snap) @ map rst_peer (sn_RSTEvents snap)" l0]
    by (simp add: lim snapshot_peers_def l0_def)
  then have "set (addIODataPoint [] r now) \<subseteq> set (il_points L)"
    using io_loop_points [OF assms(3)] by (simp add: L_def)
  moreover obtain ps where m1: "m1 = [\<lparr>m_Name = MetricNetworkIO, m_Unit = ''By'', m_IsMonotonic = True, m_Cumulative = True,
      m_DataPoints = il_points L @ ps\<rparr>]"
    using 1 [unfolded addIOMetric_def Let_def prod.case L_def [symmetric]]
    by (cases "il_overflowed L") (auto simp: addOverflowIODataPoints_def)
  ultimately show ?thesis using keep unfolding m1 by (intro bexI [OF _ subsetD [OF keep [unfolded m1] list.set_intros(1)]]) auto
qed

section \<open>Every event is counted once\<close>

lemma fold_increment_count:
  "count_at (fold (\<lambda>e. increment (f e)) es m) k = count_at m k + of_nat (count_list (map f es) k)"
  by (induction es arbitrary: m) (simp_all add: count_increment)

lemma fold_dns:
  "fold (\<lambda>q s. s\<lparr>dnsCounts := increment (dns_key q) (dnsCounts s)\<rparr>) qs s =
     s\<lparr>dnsCounts := fold (\<lambda>q. increment (dns_key q)) qs (dnsCounts s)\<rparr>"
  "fold (\<lambda>e s. s\<lparr>dnsErrorCounts := increment (dns_error_key e) (dnsErrorCounts s)\<rparr>) es s =
     s\<lparr>dnsErrorCounts := fold (\<lambda>e. increment (dns_error_key e)) es (dnsErrorCounts s)\<rparr>"
  by (induction qs arbitrary: s, simp_all) (induction es arbitrary: s, simp_all)

text \<open>What each metric leaves alone.\<close>

definition all_counts :: "metricsState \<Rightarrow> (dnsKey \<rightharpoonup> u64) \<times> (dnsErrorKey \<rightharpoonup> u64) \<times>
    (synKey \<rightharpoonup> u64) \<times> u64 \<times> (rstKey \<rightharpoonup> u64) \<times> u64" where
  "all_counts s = (dnsCounts s, dnsErrorCounts s, synCounts s, synOverflowCount s, rstCounts s, rstOverflowCount s)"

lemma io_counts: "all_counts (fst (addIOMetric snap now S)) = all_counts (fst S)"
  by (simp add: addIOMetric_def all_counts_def Let_def split: prod.splits)

lemma dns_counts:
  "all_counts (fst (addDNSQueryMetric snap now (s, ms))) =
     all_counts (s\<lparr>dnsCounts := fold (\<lambda>q. increment (dns_key q)) (sn_DNSQueries snap) (dnsCounts s)\<rparr>)"
  "all_counts (fst (addDNSErrorMetric snap now (s, ms))) =
     all_counts (s\<lparr>dnsErrorCounts := fold (\<lambda>e. increment (dns_error_key e)) (sn_DNSErrors snap) (dnsErrorCounts s)\<rparr>)"
  by (simp_all add: addDNSQueryMetric_def addDNSErrorMetric_def fold_dns Let_def)

definition syn_state :: "metricsState \<Rightarrow> metricsState \<Rightarrow> bool" where
  "syn_state s t \<longleftrightarrow> dnsCounts t = dnsCounts s \<and> dnsErrorCounts t = dnsErrorCounts s \<and> rstCounts t = rstCounts s \<and>
     rstOverflowCount t = rstOverflowCount s"

definition rst_state :: "metricsState \<Rightarrow> metricsState \<Rightarrow> bool" where
  "rst_state s t \<longleftrightarrow> dnsCounts t = dnsCounts s \<and> dnsErrorCounts t = dnsErrorCounts s \<and> synCounts t = synCounts s \<and>
     synOverflowCount t = synOverflowCount s"

lemma syn_fold_state: "syn_state (fst S) (fst (fold syn_step es S))"
proof (induction es arbitrary: S)
  case (Cons e es)
  from Cons [of "syn_step e S"] show ?case
    by (cases S) (simp add: syn_state_def syn_step_def Let_def split: prod.splits)
qed (simp add: syn_state_def)

lemma rst_fold_state: "rst_state (fst S) (fst (fold rst_step es S))"
proof (induction es arbitrary: S)
  case (Cons e es)
  from Cons [of "rst_step e S"] show ?case
    by (cases S) (simp add: rst_state_def rst_step_def Let_def split: prod.splits)
qed (simp add: rst_state_def)

lemma addSYNMetric_state: "fst (addSYNMetric walk snap now (s, l, ms)) = fst (fold syn_step (sn_SYNEvents snap) (s, [], l))"
  by (simp add: addSYNMetric_def Let_def split: prod.split)

lemma addRSTMetric_state: "fst (addRSTMetric walk snap now (s, l, ms)) = fst (fold rst_step (sn_RSTEvents snap) (s, [], l))"
  by (simp add: addRSTMetric_def Let_def split: prod.split)

text \<open>The counters after some collections, from what the snapshots held.\<close>

type_synonym tick = "metric_walks \<times> Snapshot \<times> time"

definition run_ticks :: "ReceiverConfig \<Rightarrow> tick list \<Rightarrow> metricsState \<Rightarrow> metricsState" where
  "run_ticks cfg ticks s = fold (\<lambda>(w, snap, now) s. snd (buildMetrics w snap now cfg s)) ticks s"

definition counted :: "Snapshot list \<Rightarrow> metricsState \<Rightarrow> bool" where
  "counted snaps s \<longleftrightarrow>
     finite (dom (synCounts s)) \<and> finite (dom (rstCounts s)) \<and>
     total_of (synCounts s) + synOverflowCount s = of_nat (length (concat (map sn_SYNEvents snaps))) \<and>
     total_of (rstCounts s) + rstOverflowCount s = of_nat (length (concat (map sn_RSTEvents snaps))) \<and>
     (\<forall>k. count_at (dnsCounts s) k = of_nat (count_list (map dns_key (concat (map sn_DNSQueries snaps))) k)) \<and>
     (\<forall>k. count_at (dnsErrorCounts s) k = of_nat (count_list (map dns_error_key (concat (map sn_DNSErrors snaps))) k))"

lemma buildMetrics_counted:
  assumes "counted snaps s"
  shows "counted (snaps @ [snap]) (snd (buildMetrics w snap now cfg s))"
proof -
  define l0 where "l0 = newPeerLimiter (MaxPeerCardinality cfg)"
  obtain s1 l1 m1 where 1: "addIOMetric snap now (s, l0, []) = (s1, l1, m1)" by (metis prod_cases3)
  obtain s2 m2 where 2: "addDNSQueryMetric snap now (s1, m1) = (s2, m2)" by fastforce
  obtain s3 m3 where 3: "addDNSErrorMetric snap now (s2, m2) = (s3, m3)" by fastforce
  obtain s4 l4 m4 where 4: "addSYNMetric (mw_syn w) snap now (s3, l1, m3) = (s4, l4, m4)" by (metis prod_cases3)
  obtain s5 l5 m5 where 5: "addRSTMetric (mw_rst w) snap now (s4, l4, m4) = (s5, l5, m5)" by (metis prod_cases3)
  have s4: "s4 = fst (fold syn_step (sn_SYNEvents snap) (s3, [], l1))"
    using addSYNMetric_state [of "mw_syn w" snap now s3 l1 m3] by (simp add: 4)
  have s5: "s5 = fst (fold rst_step (sn_RSTEvents snap) (s4, [], l4))"
    using addRSTMetric_state [of "mw_rst w" snap now s4 l4 m4] by (simp add: 5)
  note counts = io_counts [of snap now "(s, l0, [])"] dns_counts(1) [of snap now s1 m1] dns_counts(2) [of snap now s2 m2]
    syn_fold_state [of "(s3, [], l1)" "sn_SYNEvents snap"] rst_fold_state [of "(s4, [], l4)" "sn_RSTEvents snap"]
  have syn: "total_of (synCounts s4) + synOverflowCount s4 =
      total_of (synCounts s) + synOverflowCount s + of_nat (length (sn_SYNEvents snap))" "finite (dom (synCounts s4))"
    using syn_loop.loop_total [of "(s3, [], l1)" "sn_SYNEvents snap"] syn_loop.loop_finite [of "(s3, [], l1)" "sn_SYNEvents snap"]
      counts(1-3) assms by (simp_all add: s4 [symmetric] all_counts_def 1 2 3 counted_def)
  have rst: "total_of (rstCounts s5) + rstOverflowCount s5 =
      total_of (rstCounts s) + rstOverflowCount s + of_nat (length (sn_RSTEvents snap))" "finite (dom (rstCounts s5))"
    using rst_loop.loop_total [of "(s4, [], l4)" "sn_RSTEvents snap"] rst_loop.loop_finite [of "(s4, [], l4)" "sn_RSTEvents snap"]
      counts(1-4) assms by (simp_all add: s4 [symmetric] s5 [symmetric] all_counts_def syn_state_def 1 2 3 counted_def)
  have "snd (buildMetrics w snap now cfg s) = s5"
    by (simp add: buildMetrics_def l0_def [symmetric] 1 2 3 4 5)
  with syn rst counts assms show ?thesis
    by (simp add: counted_def s4 [symmetric] s5 [symmetric] syn_state_def rst_state_def all_counts_def 1 2 3 fold_increment_count)
qed

lemma run_ticks_counted: "counted snaps s \<Longrightarrow> counted (snaps @ map (fst \<circ> snd) ticks) (run_ticks cfg ticks s)"
proof (induction ticks arbitrary: snaps s)
  case (Cons t ticks)
  obtain w snap now where t: "t = (w, snap, now)" by (metis prod_cases3)
  from Cons.IH [OF buildMetrics_counted [OF Cons.prems]] show ?case
    by (simp add: run_ticks_def t)
qed (simp add: run_ticks_def)

lemma counted_start: "counted [] (newMetricsState start)"
  by (simp add: counted_def newMetricsState_def total_of_def count_at_def)

lemma count_list_concat: "count_list (map f (concat (map g ts))) j = (\<Sum>t\<leftarrow>ts. count_list (map f (g t)) j)"
  by (induction ts) (simp_all add: count_list_append)

text \<open>
  C30: no event is lost or counted twice. After any collections the SYN counters of all peers
  and the overflow counter add up to the SYN packets of all snapshots, the same holds for RST
  packets, and the counter of a DNS question, or of a failed one, is the number of times it was
  in a snapshot.
\<close>

theorem events_counted_once:
  "total_of (synCounts (run_ticks cfg ticks (newMetricsState start))) + synOverflowCount (run_ticks cfg ticks (newMetricsState start)) =
     of_nat (\<Sum>t\<leftarrow>ticks. length (sn_SYNEvents (fst (snd t)))) \<and>
   total_of (rstCounts (run_ticks cfg ticks (newMetricsState start))) + rstOverflowCount (run_ticks cfg ticks (newMetricsState start)) =
     of_nat (\<Sum>t\<leftarrow>ticks. length (sn_RSTEvents (fst (snd t)))) \<and>
   count_at (dnsCounts (run_ticks cfg ticks (newMetricsState start))) k =
     of_nat (\<Sum>t\<leftarrow>ticks. count_list (map dns_key (sn_DNSQueries (fst (snd t)))) k) \<and>
   count_at (dnsErrorCounts (run_ticks cfg ticks (newMetricsState start))) k' =
     of_nat (\<Sum>t\<leftarrow>ticks. count_list (map dns_error_key (sn_DNSErrors (fst (snd t)))) k')"
proof -
  from run_ticks_counted [OF counted_start, of ticks cfg start]
  have "counted (map (fst \<circ> snd) ticks) (run_ticks cfg ticks (newMetricsState start))" by simp
  then show ?thesis by (simp add: counted_def length_concat o_def count_list_concat)
qed

section \<open>What is reported\<close>

lemma first_seen_keys_set: "set (first_seen_keys seen ks) = set ks - set seen \<and> distinct (first_seen_keys seen ks)"
  by (induction seen ks rule: first_seen_keys.induct) auto

lemmas metric_names = MetricNetworkIO_def MetricDNSQueryCount_def MetricDNSQueryErrors_def MetricNetworkSYNCount_def
  MetricNetworkRSTCount_def MetricCapturePacketsDropped_def

definition named :: "string \<Rightarrow> metric list \<Rightarrow> metric list" where
  "named n ms = filter (\<lambda>m. m_Name m = n) ms"

lemma named_append [simp]: "named n (ms @ ms') = named n ms @ named n ms'"
  by (simp add: named_def)

lemma dns_metric_only:
  "named MetricDNSQueryCount (snd (addDNSErrorMetric snap now (s, ms))) = named MetricDNSQueryCount ms"
  "named MetricDNSQueryCount (snd (snd (addSYNMetric walk snap now (s, l, ms)))) = named MetricDNSQueryCount ms"
  "named MetricDNSQueryCount (snd (snd (addRSTMetric walk' snap now (s, l, ms)))) = named MetricDNSQueryCount ms"
  "named MetricDNSQueryCount (addPacketsDroppedMetric ifaces snap start now ms) = named MetricDNSQueryCount ms"
  "named MetricDNSQueryCount (snd (snd (addIOMetric snap now (s, l, ms)))) = named MetricDNSQueryCount ms"
  by (simp_all add: addDNSErrorMetric_def addSYNMetric_def addRSTMetric_def addPacketsDroppedMetric_def addIOMetric_def
      named_def metric_names Let_def split: prod.split)

lemma buildMetrics_dns:
  "named MetricDNSQueryCount (md_Metrics (fst (buildMetrics w snap now cfg s))) =
     (if sn_DNSQueries snap = [] then []
      else [\<lparr>m_Name = MetricDNSQueryCount, m_Unit = ''{query}'', m_IsMonotonic = True, m_Cumulative = True,
        m_DataPoints = map (\<lambda>k. \<lparr>dp_Start = ms_start s, dp_At = now,
            dp_Value = sint (count_at (fold (\<lambda>q. increment (dns_key q)) (sn_DNSQueries snap) (dnsCounts s)) k),
            dp_Attributes = [(''dns.question.name'', Str (dk_name k)), (AttrDNSQuestionType, Str (dk_qtype k))]\<rparr>)
          (first_seen_keys [] (map dns_key (sn_DNSQueries snap)))\<rparr>])"
proof -
  define l0 where "l0 = newPeerLimiter (MaxPeerCardinality cfg)"
  obtain s1 l1 m1 where 1: "addIOMetric snap now (s, l0, []) = (s1, l1, m1)" by (metis prod_cases3)
  obtain s2 m2 where 2: "addDNSQueryMetric snap now (s1, m1) = (s2, m2)" by fastforce
  obtain s3 m3 where 3: "addDNSErrorMetric snap now (s2, m2) = (s3, m3)" by fastforce
  obtain s4 l4 m4 where 4: "addSYNMetric (mw_syn w) snap now (s3, l1, m3) = (s4, l4, m4)" by (metis prod_cases3)
  obtain s5 l5 m5 where 5: "addRSTMetric (mw_rst w) snap now (s4, l4, m4) = (s5, l5, m5)" by (metis prod_cases3)
  have "named MetricDNSQueryCount (md_Metrics (fst (buildMetrics w snap now cfg s))) = named MetricDNSQueryCount m2"
    using dns_metric_only(1) [of snap now s2 m2] dns_metric_only(2) [of "mw_syn w" snap now s3 l1 m3]
      dns_metric_only(3) [of "mw_rst w" snap now s4 l4 m4]
    by (simp add: buildMetrics_def l0_def [symmetric] 1 2 3 4 5 dns_metric_only(4))
  moreover have "named MetricDNSQueryCount m1 = []"
    using dns_metric_only(5) [of snap now s l0 "[]"] by (simp add: 1 named_def)
  moreover have "dnsCounts s1 = dnsCounts s" "ms_start s1 = ms_start s"
    using 1 by (auto simp: addIOMetric_def Let_def)
  ultimately show ?thesis
    using 2 by (auto simp: addDNSQueryMetric_def fold_dns Let_def named_def split: if_splits)
qed

lemma syn_fold_start: "ms_start (fst (fold syn_step es S)) = ms_start (fst S)"
  by (induction es arbitrary: S) (auto simp: syn_step_def Let_def split: prod.split)

lemma rst_fold_start: "ms_start (fst (fold rst_step es S)) = ms_start (fst S)"
  by (induction es arbitrary: S) (auto simp: rst_step_def Let_def split: prod.split)

lemma add_metric_start:
  "ms_start (fst (addIOMetric snap now S)) = ms_start (fst S)"
  "ms_start (fst (addDNSQueryMetric snap now T)) = ms_start (fst T)"
  "ms_start (fst (addDNSErrorMetric snap now T)) = ms_start (fst T)"
  "ms_start (fst (addSYNMetric walk snap now S)) = ms_start (fst S)"
  "ms_start (fst (addRSTMetric walk' snap now S)) = ms_start (fst S)"
  by (cases S; cases T; simp add: addIOMetric_def addDNSQueryMetric_def addDNSErrorMetric_def fold_dns
      addSYNMetric_state addRSTMetric_state syn_fold_start rst_fold_start Let_def)+

lemma buildMetrics_start: "ms_start (snd (buildMetrics w snap now cfg s)) = ms_start s"
  unfolding buildMetrics_def Let_def
  by (auto split: prod.split dest!: arg_cong [where f = "ms_start \<circ> fst"] simp: add_metric_start)

lemma run_ticks_start: "ms_start (run_ticks cfg ticks s) = ms_start s"
  by (induction ticks arbitrary: s) (auto simp: run_ticks_def buildMetrics_start split: prod.split)

text \<open>
  The DNS metric reports the true numbers. A collection whose snapshot has DNS questions
  emits one DNS query metric, with one data point for each question of the snapshot, and its
  value is how often the question was asked in this snapshot and all earlier ones since the
  receiver started; a collection without questions emits none.
\<close>

theorem dns_metric_exact:
  "named MetricDNSQueryCount (md_Metrics (fst (buildMetrics w snap now cfg (run_ticks cfg ticks (newMetricsState start))))) =
     (if sn_DNSQueries snap = [] then []
      else [\<lparr>m_Name = MetricDNSQueryCount, m_Unit = ''{query}'', m_IsMonotonic = True, m_Cumulative = True,
        m_DataPoints = map (\<lambda>k. \<lparr>dp_Start = start, dp_At = now,
            dp_Value = sint (of_nat (count_list (map dns_key (concat (map (sn_DNSQueries \<circ> fst \<circ> snd) ticks) @ sn_DNSQueries snap)) k) :: u64),
            dp_Attributes = [(''dns.question.name'', Str (dk_name k)), (AttrDNSQuestionType, Str (dk_qtype k))]\<rparr>)
          (first_seen_keys [] (map dns_key (sn_DNSQueries snap)))\<rparr>])"
proof -
  define s where "s = run_ticks cfg ticks (newMetricsState start)"
  have "counted (map (fst \<circ> snd) ticks) s"
    using run_ticks_counted [OF counted_start, of ticks cfg start] by (simp add: s_def)
  then have "count_at (dnsCounts s) k = of_nat (count_list (map dns_key (concat (map (sn_DNSQueries \<circ> fst \<circ> snd) ticks))) k)" for k
    by (simp add: counted_def o_def)
  then have "count_at (fold (\<lambda>q. increment (dns_key q)) (sn_DNSQueries snap) (dnsCounts s)) k =
      of_nat (count_list (map dns_key (concat (map (sn_DNSQueries \<circ> fst \<circ> snd) ticks) @ sn_DNSQueries snap)) k)" for k
    by (simp add: fold_increment_count count_list_append)
  moreover have "ms_start s = start"
    by (simp add: s_def run_ticks_start) (simp add: newMetricsState_def)
  ultimately show ?thesis unfolding s_def [symmetric] by (simp only: buildMetrics_dns)
qed

section \<open>The overflow of the bytes\<close>

lemma buildMetrics_conns:
  "snd (buildMetrics w (conns_snapshot conns) now cfg s) =
     fst (addIOMetric (conns_snapshot conns) now (s, newPeerLimiter (MaxPeerCardinality cfg), []))"
  by (simp add: buildMetrics_def conns_snapshot_def addDNSQueryMetric_def addDNSErrorMetric_def addSYNMetric_def
      addRSTMetric_def Let_def split: prod.split)

lemmas io_tick = addIOMetric_def conns_snapshot_def newPeerLimiter_def io_step_def allow_def record_peer_def Let_def

lemma peer_key_neq: "record_peer a \<noteq> record_peer b \<Longrightarrow>
    peer_key (r_RemoteAddr a) (r_RemotePort a) \<noteq> peer_key (r_RemoteAddr b) (r_RemotePort b)"
  using injD [OF key_of_inj, of "record_peer a" "record_peer b"] by (auto simp: key_of_def record_peer_def)

text \<open>One collection with room for one peer: a lone connection, and one behind another.\<close>

lemma tick_alone:
  fixes w a now s
  assumes "MaxPeerCardinality cfg = 1"
  defines "s' \<equiv> snd (buildMetrics w (conns_snapshot [a]) now cfg s)"
  shows "lastIO s' = Map.empty" and "overflowBytesIn s' = overflowBytesIn s"
  unfolding s'_def buildMetrics_conns assms(1) by (simp_all add: io_tick)

lemma tick_behind:
  fixes w a b now s
  assumes "record_peer a \<noteq> record_peer b" and "MaxPeerCardinality cfg = 1"
  defines "s' \<equiv> snd (buildMetrics w (conns_snapshot [b, a]) now cfg s)"
  shows "lastIO s' = [flow_identity a \<mapsto> \<lparr>io_in = r_BytesInTotal a, io_out = r_BytesOutTotal a\<rparr>]"
    and "overflowBytesIn s' = overflowBytesIn s +
      (if io_in (last_io (lastIO s) (flow_identity a)) < r_BytesInTotal a
       then r_BytesInTotal a - io_in (last_io (lastIO s) (flow_identity a)) else 0)"
  unfolding s'_def buildMetrics_conns assms(2) using peer_key_neq [OF assms(1)] by (simp_all add: io_tick)

text \<open>
  The overflow series counts bytes that were already reported. With room for one peer, a
  connection \<open>a\<close> that stays behind another one \<open>b\<close> adds its bytes to the overflow once; but one
  that has had its own series before, and leaves the overflow for one collection, adds all of
  its bytes again each time it comes back, although it transferred nothing in between.
\<close>

theorem overflow_counts_again:
  assumes "record_peer a \<noteq> record_peer b" and "MaxPeerCardinality cfg = 1"
  shows "overflowBytesIn (run_ticks cfg [(w, conns_snapshot [b, a], t1), (w, conns_snapshot [b, a], t2)] (newMetricsState t0)) =
      r_BytesInTotal a \<and>
    overflowBytesIn (run_ticks cfg [(w, conns_snapshot [a], t1), (w, conns_snapshot [b, a], t2),
        (w, conns_snapshot [a], t3), (w, conns_snapshot [b, a], t4)] (newMetricsState t0)) =
      r_BytesInTotal a + r_BytesInTotal a"
  using word_gt_0 [of "r_BytesInTotal a"]
  by (auto simp: run_ticks_def tick_alone [OF assms(2)] tick_behind [OF assms] last_io_def newMetricsState_def)

theorem overflow_counts_again_witness:
  "overflowBytesIn (run_ticks (NewDefaultConfig\<lparr>MaxPeerCardinality := 1\<rparr>)
     [(sample_orders, conns_snapshot [other_record], 1), (sample_orders, conns_snapshot [sample_record, other_record], 2),
      (sample_orders, conns_snapshot [other_record], 3), (sample_orders, conns_snapshot [sample_record, other_record], 4)]
     (newMetricsState 0)) = 2000"
  using overflow_counts_again [of other_record sample_record "NewDefaultConfig\<lparr>MaxPeerCardinality := 1\<rparr>" sample_orders 1 2 0 3 4]
    other_peer by (simp add: other_record_def)

end
