(* ===== verification/Syn_Attempts.thy ===== *)
theory Syn_Attempts
  imports Event_Rings Go_Addr
begin

text \<open>
  The count of connection attempts that the receiver adds to its log records,
  \<^verbatim>\<open>src/receiver/synattempts.go\<close>: a history of timestamps for each 4-tuple, cut to a window of three
  minutes whenever an attempt is recorded. \<open>pruneBefore\<close> filters a slice in place, which is
  modelled with the writes into the list; the theory shows that this is the plain filter,
  that the count is the number of attempts of the tuple in the window, and that pruning
  forgets exactly the tuples without any.
\<close>

definition synAttemptWindow :: duration where "synAttemptWindow = 3 * 60 * second"

record synAttemptKey =
  sa_localAddr :: string
  sa_remoteAddr :: string
  sa_localPort :: u16
  sa_remotePort :: u16

type_synonym synAttemptCache = "synAttemptKey \<rightharpoonup> time list"

definition newSYNAttemptCache :: synAttemptCache where
  "newSYNAttemptCache = Map.empty"

text \<open>The loop of \<open>pruneBefore\<close> over the indices \<open>i\<close> of the slice, with the write position \<open>n\<close>.\<close>

function pruneBefore_loop :: "time \<Rightarrow> nat \<Rightarrow> nat \<Rightarrow> time list \<Rightarrow> nat \<times> time list" where
  "pruneBefore_loop cutoff i n hist =
     (if length hist \<le> i then (n, hist)
      else if cutoff < hist ! i then pruneBefore_loop cutoff (Suc i) (Suc n) (hist[n := hist ! i])
      else pruneBefore_loop cutoff (Suc i) n hist)"
  by pat_completeness auto
termination by (relation "measure (\<lambda>(cutoff, i, n, hist). length hist - i)") auto

declare pruneBefore_loop.simps [simp del]

definition pruneBefore :: "time list \<Rightarrow> time \<Rightarrow> time list" where
  "pruneBefore hist cutoff = (case pruneBefore_loop cutoff 0 0 hist of (n, hist) \<Rightarrow> take n hist)"

definition syn_record :: "synAttemptKey \<Rightarrow> time \<Rightarrow> synAttemptCache \<Rightarrow> nat \<times> synAttemptCache" where
  "syn_record key at c =
     (let hist = (case c key of None \<Rightarrow> [] | Some h \<Rightarrow> h);
          hist = hist @ [at];
          hist = pruneBefore hist (at - synAttemptWindow)
      in (length hist, c(key \<mapsto> hist)))"

text \<open>\<open>prune\<close> visits each key once; a key without attempts in the window is deleted.\<close>

definition syn_prune :: "time \<Rightarrow> synAttemptCache \<Rightarrow> synAttemptCache" where
  "syn_prune now c =
     (let cutoff = now - synAttemptWindow
      in (\<lambda>key. case c key of
            None \<Rightarrow> None
          | Some h \<Rightarrow> (let h = pruneBefore h cutoff in if length h = 0 then None else Some h)))"

definition synAttemptKeyFor :: "SYNEvent \<Rightarrow> synAttemptKey" where
  "synAttemptKeyFor ev = \<lparr>sa_localAddr = addr_String (se_LocalAddr ev), sa_remoteAddr = addr_String (se_RemoteAddr ev),
     sa_localPort = se_LocalPort ev, sa_remotePort = se_RemotePort ev\<rparr>"

definition synAttemptKey_String :: "synAttemptKey \<Rightarrow> string" where
  "synAttemptKey_String k = sa_localAddr k @ '':'' @ Itoa (int (unat (sa_localPort k))) @ '' -> '' @
     sa_remoteAddr k @ '':'' @ Itoa (int (unat (sa_remotePort k)))"

section \<open>Filtering in place\<close>

lemma pruneBefore_loop_filter:
  assumes "n \<le> i" and "i \<le> length hist"
  shows "case pruneBefore_loop cutoff i n hist of (m, hist') \<Rightarrow>
    take m hist' = take n hist @ filter (\<lambda>t. cutoff < t) (drop i hist)"
  using assms
proof (induction cutoff i n hist rule: pruneBefore_loop.induct)
  case (1 cutoff i n hist)
  show ?case
  proof (cases "length hist \<le> i")
    case True
    then show ?thesis by (simp add: pruneBefore_loop.simps [of cutoff i n hist])
  next
    case False
    then have d: "drop i hist = hist ! i # drop (Suc i) hist" by (simp add: Cons_nth_drop_Suc)
    show ?thesis
    proof (cases "cutoff < hist ! i")
      case True
      have "take (Suc n) (hist[n := hist ! i]) = take n hist @ [hist ! i]"
        using 1(3) False by (simp add: take_Suc_conv_app_nth)
      moreover have "drop (Suc i) (hist[n := hist ! i]) = drop (Suc i) hist" using 1(3) by simp
      ultimately show ?thesis
        using 1(1) [OF False True] 1(3) False True
        by (simp add: pruneBefore_loop.simps [of cutoff i n hist] d split: prod.splits)
    next
      case notlater: False
      then show ?thesis
        using 1(2) [OF False notlater] 1(3) False
        by (simp add: pruneBefore_loop.simps [of cutoff i n hist] d split: prod.splits)
    qed
  qed
qed

lemma pruneBefore_filter: "pruneBefore hist cutoff = filter (\<lambda>t. cutoff < t) hist"
  using pruneBefore_loop_filter [of 0 0 hist cutoff] by (simp add: pruneBefore_def split: prod.splits)

section \<open>Counting\<close>

text \<open>The timestamps recorded for a tuple, in order.\<close>

definition attempts_of :: "synAttemptKey \<Rightarrow> (synAttemptKey \<times> time) list \<Rightarrow> time list" where
  "attempts_of key xs = map snd (filter (\<lambda>x. fst x = key) xs)"

definition record_all :: "(synAttemptKey \<times> time) list \<Rightarrow> synAttemptCache \<Rightarrow> synAttemptCache" where
  "record_all xs c = fold (\<lambda>(k, t) c. snd (syn_record k t c)) xs c"

definition history :: "synAttemptCache \<Rightarrow> synAttemptKey \<Rightarrow> time list" where
  "history c key = (case c key of None \<Rightarrow> [] | Some h \<Rightarrow> h)"

lemma syn_record_history:
  "history (snd (syn_record k t c)) key =
     (if k = key then filter (\<lambda>u. t - synAttemptWindow < u) (history c key @ [t]) else history c key)"
  by (simp add: syn_record_def history_def pruneBefore_filter Let_def split: option.split)

lemma filter_cutoffs:
  "a \<le> b \<Longrightarrow> filter (\<lambda>u. a - w < u \<and> b - w < u) xs = filter (\<lambda>u. b - w < u) (xs :: int list)"
  by (rule filter_cong) auto

lemma record_all_history:
  assumes "sorted (map snd xs)" and "\<forall>u \<in> set xs. snd u \<le> now"
  shows "filter (\<lambda>u. now - synAttemptWindow < u) (history (record_all xs newSYNAttemptCache) key) =
    filter (\<lambda>u. now - synAttemptWindow < u) (attempts_of key xs)"
  using assms
proof (induction xs arbitrary: now rule: rev_induct)
  case Nil
  then show ?case by (simp add: record_all_def attempts_of_def history_def newSYNAttemptCache_def)
next
  case (snoc x xs)
  obtain k t where x: "x = (k, t)" by fastforce
  have t: "t \<le> now" "sorted (map snd xs)" "\<forall>u \<in> set xs. snd u \<le> t"
    using snoc.prems by (auto simp: x sorted_append)
  have now: "\<forall>u \<in> set xs. snd u \<le> now" using snoc.prems(2) by simp
  show ?case
    using snoc.IH [OF t(2) now] t(1)
    by (auto simp: record_all_def x syn_record_history attempts_of_def filter_cutoffs)
qed

text \<open>
  Recording an attempt returns the number of attempts of its tuple within the window, this one
  included, when timestamps do not go back.
\<close>

lemma syn_attempts_counted:
  assumes "sorted (map snd xs @ [t])"
  shows "fst (syn_record key t (record_all xs newSYNAttemptCache)) =
    length (filter (\<lambda>u. t - synAttemptWindow < u) (attempts_of key xs)) + 1"
proof -
  have s: "sorted (map snd xs)" "\<forall>u \<in> set xs. snd u \<le> t" using assms by (auto simp: sorted_append)
  have "fst (syn_record key t c) = length (filter (\<lambda>u. t - synAttemptWindow < u) (history c key)) + 1" for c
    by (simp add: syn_record_def pruneBefore_filter history_def Let_def synAttemptWindow_def second_def split: option.split)
  then show ?thesis using record_all_history [OF s] by simp
qed

text \<open>Pruning keeps what is in the window, and forgets exactly the tuples without any of it.\<close>

lemma syn_prune_history:
  "history (syn_prune now c) key = filter (\<lambda>u. now - synAttemptWindow < u) (history c key)"
  "syn_prune now c key = None \<longleftrightarrow> filter (\<lambda>u. now - synAttemptWindow < u) (history c key) = []"
  by (auto simp: syn_prune_def history_def pruneBefore_filter Let_def split: option.split)

end
