(* ===== verification/Go_Text.thy ===== *)
theory Go_Text
  imports Go_Strings
begin

text \<open>
  More of Go's standard library, for the text the user types and reads: \<^verbatim>\<open>strings.TrimSpace\<close>,
  \<^verbatim>\<open>Split\<close>, \<^verbatim>\<open>Join\<close>, \<^verbatim>\<open>ToLower\<close>, \<^verbatim>\<open>ToUpper\<close>, \<^verbatim>\<open>Contains\<close>, \<^verbatim>\<open>HasSuffix\<close> and \<^verbatim>\<open>Repeat\<close>, and \<^verbatim>\<open>net.JoinHostPort\<close>. Letters and
  white space are those of ASCII.
\<close>

section \<open>Operations\<close>

definition TrimSpace :: "string \<Rightarrow> string" where
  "TrimSpace s = rev (dropWhile is_space (rev (dropWhile is_space s)))"

text \<open>\<^verbatim>\<open>strings.Split\<close> at a one-byte separator: always one part more than separators.\<close>

fun Split :: "char \<Rightarrow> string \<Rightarrow> string list" where
  "Split c [] = [[]]"
| "Split c (x # xs) =
     (if x = c then [] # Split c xs
      else case Split c xs of [] \<Rightarrow> [[x]] | p # ps \<Rightarrow> (x # p) # ps)"

fun Join :: "string list \<Rightarrow> string \<Rightarrow> string" where
  "Join [] sep = []"
| "Join [s] sep = s"
| "Join (s # t # ts) sep = s @ sep @ Join (t # ts) sep"

definition lower_char :: "char \<Rightarrow> char" where
  "lower_char c = (let n = of_char c :: nat in if 65 \<le> n \<and> n \<le> 90 then char_of (n + 32) else c)"

definition upper_char :: "char \<Rightarrow> char" where
  "upper_char c = (let n = of_char c :: nat in if 97 \<le> n \<and> n \<le> 122 then char_of (n - 32) else c)"

definition ToLower :: "string \<Rightarrow> string" where "ToLower s = map lower_char s"
definition ToUpper :: "string \<Rightarrow> string" where "ToUpper s = map upper_char s"

fun HasPrefix :: "string \<Rightarrow> string \<Rightarrow> bool" where
  "HasPrefix s [] = True"
| "HasPrefix [] (p # ps) = False"
| "HasPrefix (x # xs) (p # ps) = (x = p \<and> HasPrefix xs ps)"

definition HasSuffix :: "string \<Rightarrow> string \<Rightarrow> bool" where
  "HasSuffix s x \<longleftrightarrow> HasPrefix (rev s) (rev x)"

fun Contains :: "string \<Rightarrow> string \<Rightarrow> bool" where
  "Contains [] q = (q = [])"
| "Contains (x # xs) q = (HasPrefix (x # xs) q \<or> Contains xs q)"

text \<open>\<^verbatim>\<open>strings.Cut\<close> at a longer separator, and \<^verbatim>\<open>strings.IndexByte\<close> with the text before it.\<close>

fun CutString :: "string \<Rightarrow> string \<Rightarrow> (string \<times> string) option" where
  "CutString [] sep = (if sep = [] then Some ([], []) else None)"
| "CutString (x # xs) sep =
     (if HasPrefix (x # xs) sep then Some ([], drop (length sep) (x # xs))
      else map_option (\<lambda>(b, a). (x # b, a)) (CutString xs sep))"

definition JoinHostPort :: "string \<Rightarrow> string \<Rightarrow> string" where
  "JoinHostPort host port =
     (if CHR '':'' \<in> set host then ''['' @ host @ '']:'' @ port else host @ '':'' @ port)"

section \<open>Lemmas\<close>

lemma HasPrefix_iff: "HasPrefix s p \<longleftrightarrow> (\<exists>r. s = p @ r)"
  by (induction s p rule: HasPrefix.induct) auto

lemma HasPrefix_append [simp]: "HasPrefix (p @ r) p"
  by (auto simp: HasPrefix_iff)

lemma Contains_iff: "Contains s q \<longleftrightarrow> (\<exists>a b. s = a @ q @ b)"
proof (induction s)
  case (Cons x xs)
  have "(\<exists>a b. x # xs = a @ q @ b) \<longleftrightarrow> (\<exists>b. x # xs = q @ b) \<or> (\<exists>a b. xs = a @ q @ b)"
    by (metis append_Cons append_Nil list.inject neq_Nil_conv)
  with Cons show ?case by (simp add: HasPrefix_iff)
qed auto

lemma Contains_Nil [simp]: "Contains s []"
  by (auto simp: Contains_iff)

lemma Split_ne [simp]: "Split c s \<noteq> []"
  by (induction s) (auto split: list.split)

lemma Split_no_sep: "c \<notin> set s \<Longrightarrow> Split c s = [s]"
  by (induction s) auto

lemma Split_append: "c \<notin> set s \<Longrightarrow> Split c (s @ c # t) = s # Split c t"
  by (induction s) auto

text \<open>Splitting takes a joined list apart again.\<close>

lemma Split_Join:
  assumes "ss \<noteq> []" and "\<forall>s \<in> set ss. c \<notin> set s"
  shows "Split c (Join ss [c]) = ss"
  using assms
proof (induction ss "[c]" rule: Join.induct)
  case (3 s t ts)
  then show ?case by (simp add: Split_append)
qed (simp_all add: Split_no_sep)

lemma TrimSpace_plain: "s = [] \<or> \<not> is_space (hd s) \<and> \<not> is_space (last s) \<Longrightarrow> TrimSpace s = s"
  using dropWhile_eq_self_iff [of is_space s] dropWhile_eq_self_iff [of is_space "rev s"]
  by (auto simp: TrimSpace_def hd_rev)

lemma TrimSpace_no_space: "\<forall>c \<in> set s. \<not> is_space c \<Longrightarrow> TrimSpace s = s"
  by (rule TrimSpace_plain) (cases s, auto)

lemma TrimSpace_ends: "TrimSpace s = [] \<or> \<not> is_space (hd (TrimSpace s)) \<and> \<not> is_space (last (TrimSpace s))"
proof (cases "TrimSpace s = []")
  case False
  define t where "t = dropWhile is_space s"
  have T: "TrimSpace s = rev (dropWhile is_space (rev t))" by (simp add: TrimSpace_def t_def)
  have ne: "dropWhile is_space (rev t) \<noteq> []" using False by (simp add: T)
  then have "\<not> is_space (hd (dropWhile is_space (rev t)))" by (rule hd_dropWhile)
  then have "\<not> is_space (last (TrimSpace s))" by (simp add: T last_rev)
  moreover have "hd (TrimSpace s) = hd t"
  proof -
    obtain a where a: "rev t = a @ dropWhile is_space (rev t)" by (metis takeWhile_dropWhile_id)
    then have "t = TrimSpace s @ rev a" by (metis T rev_append rev_rev_ident)
    with False show ?thesis by (metis hd_append2)
  qed
  moreover have "t \<noteq> []" using ne by auto
  then have "\<not> is_space (hd t)" unfolding t_def by (rule hd_dropWhile)
  ultimately show ?thesis by simp
qed simp

text \<open>Trimming twice is trimming once.\<close>

lemma TrimSpace_idem: "TrimSpace (TrimSpace s) = TrimSpace s"
  by (rule TrimSpace_plain [OF TrimSpace_ends])

lemma Fields_acc_word:
  assumes "\<forall>c \<in> set w. \<not> is_space c" and "acc \<noteq> [] \<or> w \<noteq> []"
  shows "Fields_acc acc w = [rev acc @ w]" and "is_space b \<Longrightarrow> Fields_acc acc (w @ b # t) = (rev acc @ w) # Fields_acc [] t"
  using assms by (induction w arbitrary: acc) auto

text \<open>\<^verbatim>\<open>Fields\<close> takes words joined by blanks apart again.\<close>

lemma Fields_words:
  assumes "\<forall>w \<in> set ws. w \<noteq> [] \<and> (\<forall>c \<in> set w. \<not> is_space c)"
  shows "Fields (Join ws '' '') = ws"
  using assms
proof (induction ws "'' ''" rule: Join.induct)
  case (3 w v vs)
  have b: "is_space (CHR '' '')" by (simp add: is_space_def)
  have "Fields (Join (w # v # vs) '' '') = w # Fields (Join (v # vs) '' '')"
    using 3(2) Fields_acc_word(2) [of w "[]" "CHR '' ''", OF _ _ b] by (simp add: Fields_def)
  with 3 show ?case by simp
qed (simp_all add: Fields_def Fields_acc_word(1))

end
