(* ===== verification/Iface_Select.thy ===== *)
theory Iface_Select
  imports Capturer Go_Text
begin

text \<open>
  The choice of interfaces: the specification the user gives, \<^verbatim>\<open>src/capture/iface.go\<close>, and what each
  platform adds, \<^verbatim>\<open>route_linux.go\<close>, \<^verbatim>\<open>route_darwin.go\<close>, \<^verbatim>\<open>route_other.go\<close> and \<^verbatim>\<open>route_windows.go\<close>. What
  the operating system and the capture library answer is a record of parameters; what differs
  between platforms is a record of functions, instantiated for each of them.

  The theory shows what list a specification stands for, that a default interface is always
  found in a non-empty list, that the parsers find the interface that the routing tools print,
  and that on Windows the device found for an interface index leads back to it.
\<close>

section \<open>The operating system\<close>

datatype iface_error =
    ErrFindAllDevs | ErrNoCapturable | ErrNoLoopback | ErrNoRouteInterface | ErrParseIndex
  | ErrAdapters | ErrNoAdapter | ErrNoDevice | ErrNoGUID | ErrInterfaces_net | ErrByIndex | ErrNoAddrs

text \<open>An interface of the system: its addresses, or nothing when they cannot be read, and whether it is a loopback.\<close>

record net_iface =
  ni_index :: nat
  ni_loopback :: bool
  ni_addrs :: "bytes list option"

record net_os =
  os_FindAllDevs :: "string list option"
  os_runRoute :: "string option"
  os_runRoute6 :: "string option"
  os_InterfaceByName :: "string \<Rightarrow> net_iface option"
  os_InterfaceByIndex :: "nat \<Rightarrow> net_iface option"
  os_Interfaces :: "net_iface list option"
  os_adapters :: "(string \<times> u32) list option"   \<comment> \<open>names and indices of the Windows adapters\<close>

record platform =
  pf_parseRouteInterface :: "net_os \<Rightarrow> string \<Rightarrow> iface_error + string"
  pf_resolveInterface :: "net_os \<Rightarrow> string \<Rightarrow> iface_error + net_iface"
  pf_isLoopbackInterface :: "net_os \<Rightarrow> string \<Rightarrow> bool"
  pf_loopbackDeviceName :: "net_os \<Rightarrow> iface_error + string"

definition ListInterfaces :: "net_os \<Rightarrow> iface_error + string list" where
  "ListInterfaces E = (case os_FindAllDevs E of None \<Rightarrow> Inl ErrFindAllDevs | Some names \<Rightarrow> Inr names)"

section \<open>Specifications\<close>

definition Default :: string where "Default = ''default''"
definition Localhost :: string where "Localhost = ''localhost''"

text \<open>The closure \<^verbatim>\<open>add\<close>: a name that is there already is not added again.\<close>

definition add_name :: "string \<Rightarrow> string list \<Rightarrow> string list" where
  "add_name name out = (if name \<in> set out then out else out @ [name])"

definition route_name :: "platform \<Rightarrow> net_os \<Rightarrow> string option \<Rightarrow> string list \<Rightarrow> string list" where
  "route_name P E printed out =
     (case printed of
        None \<Rightarrow> out
      | Some text \<Rightarrow> (case pf_parseRouteInterface P E text of Inl _ \<Rightarrow> out | Inr name \<Rightarrow> add_name name out))"

definition DefaultInterfaces :: "platform \<Rightarrow> net_os \<Rightarrow> iface_error + string list" where
  "DefaultInterfaces P E =
     (let out = route_name P E (os_runRoute E) [];
          out = route_name P E (os_runRoute6 E) out
      in if 0 < length out then Inr out
         else case ListInterfaces E of
           Inl err \<Rightarrow> Inl err
         | Inr names \<Rightarrow>
             (case find (\<lambda>n. \<not> pf_isLoopbackInterface P E n) names of
                Some n \<Rightarrow> Inr [n]
              | None \<Rightarrow> Inl ErrNoCapturable))"

text \<open>\<open>DefaultInterface\<close>: indexing the empty slice would panic, here \<open>None\<close>.\<close>

definition DefaultInterface :: "platform \<Rightarrow> net_os \<Rightarrow> (iface_error + string) option" where
  "DefaultInterface P E =
     (case DefaultInterfaces P E of
        Inl err \<Rightarrow> Some (Inl err)
      | Inr names \<Rightarrow> if 0 < length names then Some (Inr (names ! 0)) else None)"

fun resolve_tokens :: "platform \<Rightarrow> net_os \<Rightarrow> string list \<Rightarrow> string list \<Rightarrow> iface_error + string list" where
  "resolve_tokens P E [] out = Inr out"
| "resolve_tokens P E (tok # toks) out =
     (let tok = TrimSpace tok
      in if tok = '''' then resolve_tokens P E toks out
         else if ToLower tok = Any then
           (case ListInterfaces E of Inl err \<Rightarrow> Inl err | Inr names \<Rightarrow> resolve_tokens P E toks (fold add_name names out))
         else if ToLower tok = Default then
           (case DefaultInterfaces P E of Inl err \<Rightarrow> Inl err | Inr names \<Rightarrow> resolve_tokens P E toks (fold add_name names out))
         else if ToLower tok = Localhost \<or> ToLower tok = ''local'' \<or> ToLower tok = ''loopback'' then
           (case pf_loopbackDeviceName P E of Inl err \<Rightarrow> Inl err | Inr name \<Rightarrow> resolve_tokens P E toks (add_name name out))
         else resolve_tokens P E toks (add_name tok out))"

definition ResolveInterfaces :: "platform \<Rightarrow> net_os \<Rightarrow> string \<Rightarrow> iface_error + string list" where
  "ResolveInterfaces P E spec =
     (let spec = (if TrimSpace spec = '''' then Any else spec) in resolve_tokens P E (Split (CHR '','') spec) [])"

section \<open>Local addresses\<close>

definition iface_addrs :: "platform \<Rightarrow> net_os \<Rightarrow> string \<Rightarrow> addr list" where
  "iface_addrs P E name =
     (case pf_resolveInterface P E name of
        Inl _ \<Rightarrow> []
      | Inr ifi \<Rightarrow> (case ni_addrs ifi of None \<Rightarrow> [] | Some addrs \<Rightarrow> map Unmap (List.map_filter AddrFromSlice addrs)))"

definition localAddrSet :: "platform \<Rightarrow> net_os \<Rightarrow> string list \<Rightarrow> iface_error + addr set" where
  "localAddrSet P E names =
     (let s = fold (\<lambda>name s. fold insert (iface_addrs P E name) s) names {}
      in if s = {} then Inl ErrNoAddrs else Inr s)"

section \<open>Linux\<close>

fun dev_field :: "string list \<Rightarrow> string option" where
  "dev_field [] = None"
| "dev_field (f # fs) = (if f = ''dev'' \<and> fs \<noteq> [] then Some (hd fs) else dev_field fs)"

definition parseRouteInterface_linux :: "string \<Rightarrow> iface_error + string" where
  "parseRouteInterface_linux out =
     (let (line, _, _) = Cut (CHR 0x0A) out
      in case dev_field (Fields line) of Some name \<Rightarrow> Inr name | None \<Rightarrow> Inl ErrNoRouteInterface)"

definition resolveInterface_other :: "net_os \<Rightarrow> string \<Rightarrow> iface_error + net_iface" where
  "resolveInterface_other E name = (case os_InterfaceByName E name of None \<Rightarrow> Inl ErrInterfaces_net | Some i \<Rightarrow> Inr i)"

definition unix_platform :: "string \<Rightarrow> (string \<Rightarrow> iface_error + string) \<Rightarrow> platform" where
  "unix_platform loopbackInterface parse = \<lparr>pf_parseRouteInterface = \<lambda>E. parse, pf_resolveInterface = resolveInterface_other,
     pf_isLoopbackInterface = \<lambda>E name. name = loopbackInterface, pf_loopbackDeviceName = \<lambda>E. Inr loopbackInterface\<rparr>"

definition linux :: platform where "linux = unix_platform ''lo'' parseRouteInterface_linux"

section \<open>Darwin\<close>

fun interface_line :: "string list \<Rightarrow> string option" where
  "interface_line [] = None"
| "interface_line (l # ls) =
     (case CutPrefix (TrimSpace l) ''interface:'' of
        (rest, found) \<Rightarrow>
          if \<not> found then interface_line ls
          else if TrimSpace rest \<noteq> '''' then Some (TrimSpace rest) else interface_line ls)"

definition parseRouteInterface_darwin :: "string \<Rightarrow> iface_error + string" where
  "parseRouteInterface_darwin out =
     (case interface_line (Split (CHR 0x0A) out) of Some name \<Rightarrow> Inr name | None \<Rightarrow> Inl ErrNoRouteInterface)"

definition darwin :: platform where "darwin = unix_platform ''lo0'' parseRouteInterface_darwin"

section \<open>Windows\<close>

definition npfGUID :: "string \<Rightarrow> string option" where
  "npfGUID name =
     (case CutString name ''NPF_'' of
        None \<Rightarrow> None
      | Some (_, guid) \<Rightarrow>
          (let guid = takeWhile (\<lambda>c. c \<noteq> CHR 0x5C) guid in if guid \<noteq> '''' then Some guid else None))"

definition npcapLoopbackDevice :: string where "npcapLoopbackDevice = ''NPF_Loopback''"

definition firstLoopbackInterface :: "net_os \<Rightarrow> iface_error + net_iface" where
  "firstLoopbackInterface E =
     (case os_Interfaces E of
        None \<Rightarrow> Inl ErrInterfaces_net
      | Some is \<Rightarrow> (case find ni_loopback is of Some i \<Rightarrow> Inr i | None \<Rightarrow> Inl ErrNoLoopback))"

definition resolveInterface_windows :: "net_os \<Rightarrow> string \<Rightarrow> iface_error + net_iface" where
  "resolveInterface_windows E name =
     (if HasSuffix name npcapLoopbackDevice then firstLoopbackInterface E
      else case npfGUID name of
        None \<Rightarrow> Inl ErrNoGUID
      | Some guid \<Rightarrow>
          (case os_adapters E of
             None \<Rightarrow> Inl ErrAdapters
           | Some aa \<Rightarrow>
               (case find (\<lambda>a. fst a = guid) aa of
                  None \<Rightarrow> Inl ErrNoAdapter
                | Some a \<Rightarrow>
                    (case os_InterfaceByIndex E (unat (snd a)) of None \<Rightarrow> Inl ErrByIndex | Some i \<Rightarrow> Inr i))))"

definition isLoopbackInterface_windows :: "net_os \<Rightarrow> string \<Rightarrow> bool" where
  "isLoopbackInterface_windows E name =
     (case resolveInterface_windows E name of Inl _ \<Rightarrow> False | Inr ifi \<Rightarrow> ni_loopback ifi)"

definition loopbackDeviceName_windows :: "net_os \<Rightarrow> iface_error + string" where
  "loopbackDeviceName_windows E =
     (case os_FindAllDevs E of
        None \<Rightarrow> Inl ErrFindAllDevs
      | Some names \<Rightarrow> (case find (isLoopbackInterface_windows E) names of Some n \<Rightarrow> Inr n | None \<Rightarrow> Inl ErrNoLoopback))"

definition deviceNameForIndex :: "net_os \<Rightarrow> u32 \<Rightarrow> iface_error + string" where
  "deviceNameForIndex E idx =
     (case os_adapters E of
        None \<Rightarrow> Inl ErrAdapters
      | Some aa \<Rightarrow>
          (let guid = (case find (\<lambda>a. snd a = idx) aa of Some a \<Rightarrow> fst a | None \<Rightarrow> '''')
           in if guid = '''' then Inl ErrNoAdapter
              else case os_FindAllDevs E of
                None \<Rightarrow> Inl ErrFindAllDevs
              | Some names \<Rightarrow>
                  (case find (\<lambda>n. npfGUID n = Some guid) names of Some n \<Rightarrow> Inr n | None \<Rightarrow> Inl ErrNoDevice)))"

text \<open>\<^verbatim>\<open>strconv.Atoi\<close> parses a 64-bit integer; the conversion to \<^verbatim>\<open>uint32\<close> wraps.\<close>

definition parseRouteInterface_windows :: "net_os \<Rightarrow> string \<Rightarrow> iface_error + string" where
  "parseRouteInterface_windows E out =
     (case ParseInt (TrimSpace out) 64 of
        None \<Rightarrow> Inl ErrParseIndex
      | Some idx \<Rightarrow> deviceNameForIndex E (of_int idx))"

definition windows :: platform where
  "windows = \<lparr>pf_parseRouteInterface = parseRouteInterface_windows, pf_resolveInterface = resolveInterface_windows,
     pf_isLoopbackInterface = isLoopbackInterface_windows, pf_loopbackDeviceName = loopbackDeviceName_windows\<rparr>"

text \<open>The answer of the IP Helper API to a route query on Windows: the interface index in decimal.\<close>

definition route_answer :: "u32 \<Rightarrow> string" where
  "route_answer idx = Itoa (uint idx)"

section \<open>Running the capture\<close>

text \<open>\<open>Run\<close> of \<^verbatim>\<open>src/capture/pcap.go\<close> with the interfaces and addresses it looks up.\<close>

definition run_capture :: "platform \<Rightarrow> net_os \<Rightarrow> Config \<Rightarrow> capture_error option list \<Rightarrow> capture_error option" where
  "run_capture P E cfg results =
     (case ResolveInterfaces P E (cfg_Interface cfg) of
        Inl _ \<Rightarrow> Run cfg None None results
      | Inr ifaces \<Rightarrow> Run cfg (Some ifaces)
          (case localAddrSet P E ifaces of Inl _ \<Rightarrow> None | Inr locals \<Rightarrow> Some locals) results)"

section \<open>What a specification stands for\<close>

text \<open>The elements of a list without repetitions, where they come first.\<close>

definition first_names :: "string list \<Rightarrow> string list" where
  "first_names xs = rev (remdups (rev xs))"

lemma first_names_snoc: "first_names (xs @ [x]) = add_name x (first_names xs)"
  by (simp add: first_names_def add_name_def)

lemma fold_add_name: "fold add_name xs (first_names ys) = first_names (ys @ xs)"
proof (induction xs arbitrary: ys)
  case (Cons x xs)
  from Cons [of "ys @ [x]"] show ?case by (simp add: first_names_snoc)
qed simp

definition expand :: "platform \<Rightarrow> net_os \<Rightarrow> string \<Rightarrow> iface_error + string list" where
  "expand P E tok =
     (if tok = '''' then Inr []
      else if ToLower tok = ''any'' then ListInterfaces E
      else if ToLower tok = ''default'' then DefaultInterfaces P E
      else if ToLower tok \<in> {''localhost'', ''local'', ''loopback''} then map_sum id (\<lambda>n. [n]) (pf_loopbackDeviceName P E)
      else Inr [tok])"

fun expand_all :: "platform \<Rightarrow> net_os \<Rightarrow> string list \<Rightarrow> iface_error + string list" where
  "expand_all P E [] = Inr []"
| "expand_all P E (tok # toks) =
     (case expand P E tok of
        Inl err \<Rightarrow> Inl err
      | Inr names \<Rightarrow> map_sum id (\<lambda>more_names. names @ more_names) (expand_all P E toks))"

lemma resolve_step:
  "resolve_tokens P E (tok # toks) out =
     (case expand P E (TrimSpace tok) of Inl err \<Rightarrow> Inl err | Inr names \<Rightarrow> resolve_tokens P E toks (fold add_name names out))"
  by (auto simp: expand_def Any_def Default_def Localhost_def Let_def split: sum.split)

lemma resolve_tokens_expand:
  "resolve_tokens P E toks (first_names ys) =
     map_sum id (\<lambda>names. first_names (ys @ names)) (expand_all P E (map TrimSpace toks))"
proof (induction toks arbitrary: ys)
  case (Cons tok toks)
  show ?case
  proof (cases "expand P E (TrimSpace tok)")
    case (Inr names)
    then show ?thesis using Cons [of "ys @ names"]
      by (simp only: resolve_step sum.case fold_add_name list.map expand_all.simps)
        (cases "expand_all P E (map TrimSpace toks)", simp_all)
  qed (simp add: resolve_step del: resolve_tokens.simps)
qed simp

text \<open>
  C33: an interface specification resolves to the names that its comma-separated items stand for,
  blanks around an item ignored, each name once and in the order in which it comes first;
  an empty one stands for all interfaces. An item that is a keyword in any case is expanded,
  every other one is a device name as it is, and the first item that cannot be expanded gives
  the error.
\<close>

theorem interfaces_resolved:
  "ResolveInterfaces P E spec =
     map_sum id first_names (expand_all P E (if TrimSpace spec = '''' then [''any''] else map TrimSpace (Split (CHR '','') spec)))"
proof -
  have nil: "first_names [] = []" by (simp add: first_names_def)
  have "Split (CHR '','') Any = [''any'']" "TrimSpace ''any'' = ''any''"
    by (simp_all add: Any_def TrimSpace_def is_space_def)
  then show ?thesis
    using resolve_tokens_expand [of P E _ "[]"] by (simp add: ResolveInterfaces_def nil)
qed

text \<open>A default interface is found in a list that is never empty.\<close>

lemma route_name_distinct: "distinct out \<Longrightarrow> distinct (route_name P E printed out)"
  by (auto simp: route_name_def add_name_def split: option.split sum.split)

lemma DefaultInterfaces_nonempty: "DefaultInterfaces P E = Inr names \<Longrightarrow> names \<noteq> [] \<and> distinct names"
  by (auto simp: DefaultInterfaces_def Let_def route_name_distinct split: if_splits sum.splits option.splits)

text \<open>
  Asking for the default interface never indexes an empty list, and when there is an
  answer it is one the list of default interfaces starts with.
\<close>

theorem default_interface_safe:
  "DefaultInterface P E = Some (map_sum id hd (DefaultInterfaces P E))"
  using DefaultInterfaces_nonempty [of P E]
  by (cases "DefaultInterfaces P E") (auto simp: DefaultInterface_def hd_conv_nth)

text \<open>The addresses that are local: those of the interfaces that can be looked up.\<close>

lemma fold_insert: "fold insert xs s = set xs \<union> s"
  by (induction xs arbitrary: s) auto

lemma localAddrSet_union:
  "localAddrSet P E names =
     (if \<Union>(set ` (iface_addrs P E ` set names)) = {} then Inl ErrNoAddrs else Inr (\<Union>(set ` (iface_addrs P E ` set names))))"
proof -
  have "fold (\<lambda>name s. fold insert (iface_addrs P E name) s) names S = S \<union> (\<Union>(set ` (iface_addrs P E ` set names)))" for S
    by (induction names arbitrary: S) (auto simp: fold_insert)
  then show ?thesis by (simp add: localAddrSet_def Let_def)
qed

section \<open>Routing output\<close>

lemma dev_field_found: "''dev'' \<notin> set pre \<Longrightarrow> dev_field (pre @ ''dev'' # name # post) = Some name"
  by (induction pre) auto

lemma Join_set: "c \<in> set (Join ws sep) \<Longrightarrow> c \<in> set sep \<or> (\<exists>w \<in> set ws. c \<in> set w)"
  by (induction ws sep rule: Join.induct) auto

text \<open>
  The device of the first default route is found: for any first line of words in which
  the word \<open>dev\<close> comes first before the device name, whatever lines follow, the Linux parser
  returns that name.
\<close>

theorem linux_route_parsed:
  assumes "\<forall>w \<in> set (pre @ name # post). w \<noteq> [] \<and> (\<forall>c \<in> set w. \<not> is_space c)" and "''dev'' \<notin> set pre"
  shows "parseRouteInterface_linux (Join (pre @ ''dev'' # name # post) '' '' @ CHR 0x0A # rest) = Inr name"
proof -
  let ?ws = "pre @ ''dev'' # name # post"
  have words: "\<forall>w \<in> set ?ws. w \<noteq> [] \<and> (\<forall>c \<in> set w. \<not> is_space c)"
  proof -
    have "\<forall>c \<in> set ''dev''. \<not> is_space c" by (simp add: is_space_def)
    with assms(1) show ?thesis by simp
  qed
  have "CHR 0x0A \<notin> set (Join ?ws '' '')"
  proof
    assume "CHR 0x0A \<in> set (Join ?ws '' '')"
    then obtain w where "w \<in> set ?ws" "CHR 0x0A \<in> set w" using Join_set [of "CHR 0x0A" ?ws "'' ''"] by auto
    moreover have "is_space (CHR 0x0A)" by (simp add: is_space_def)
    ultimately show False using words by blast
  qed
  then have "Cut (CHR 0x0A) (Join ?ws '' '' @ CHR 0x0A # rest) = (Join ?ws '' '', rest, True)" by (rule Cut_append)
  then show ?thesis
    using Fields_words [OF words] dev_field_found [OF assms(2)] by (simp add: parseRouteInterface_linux_def)
qed

theorem linux_route_parsed_witness:
  "parseRouteInterface_linux (''default via 192.168.1.1 dev eth0 proto dhcp'' @ CHR 0x0A # ''default dev tun0'') = Inr ''eth0''"
  using linux_route_parsed [of "[''default'', ''via'', ''192.168.1.1'']" "''eth0''" "[''proto'', ''dhcp'']" "''default dev tun0''"]
  by (simp add: is_space_def)

lemma interface_line_found:
  assumes "TrimSpace l = ''interface:'' @ rest" and "TrimSpace rest \<noteq> ''''"
    and "\<forall>k \<in> set ls. \<not> HasPrefix (TrimSpace k) ''interface:''"
  shows "interface_line (ls @ l # ls') = Some (TrimSpace rest)"
proof -
  have skip: "interface_line (k # ks) = interface_line ks" if "\<not> HasPrefix (TrimSpace k) ''interface:''" for k ks
  proof -
    have "take (length ''interface:'') (TrimSpace k) \<noteq> ''interface:''"
      using that by (metis HasPrefix_append append_take_drop_id)
    then show ?thesis by (simp add: CutPrefix_def)
  qed
  have hit: "interface_line (l # ls') = Some (TrimSpace rest)" using assms(1,2) by (simp add: CutPrefix_def)
  from assms(3) show ?thesis
  proof (induction ls)
    case Nil
    show ?case using hit by (simp only: append_Nil)
  next
    case (Cons k ks)
    then show ?case using skip [of k "ks @ l # ls'"] by (simp only: append_Cons list.set_intros ball_simps list.set) simp
  qed
qed

text \<open>
  The Darwin parser returns the interface of the first line that names one, whatever blanks it
  is indented and followed by.
\<close>

lemma darwin_route_parsed:
  assumes "\<forall>k \<in> set (ls @ l # ls'). CHR 0x0A \<notin> set k" and "TrimSpace l = ''interface:'' @ rest" and "TrimSpace rest \<noteq> ''''"
    and "\<forall>k \<in> set ls. \<not> HasPrefix (TrimSpace k) ''interface:''"
  shows "parseRouteInterface_darwin (Join (ls @ l # ls') [CHR 0x0A]) = Inr (TrimSpace rest)"
  using Split_Join [of "ls @ l # ls'" "CHR 0x0A"] interface_line_found [OF assms(2-4), of ls'] assms(1)
  by (simp add: parseRouteInterface_darwin_def)

section \<open>Windows devices\<close>

lemma dec_digits_range:
  assumes "c \<in> set (dec_digits n)"
  shows "48 \<le> (of_char c :: nat) \<and> (of_char c :: nat) \<le> 57"
proof -
  obtain d where "d < 10" "c = char_of (48 + d :: nat)" using dec_digits_set [OF assms] by auto
  then show ?thesis by simp
qed

lemma dec_digits_no_space: "c \<in> set (dec_digits n) \<Longrightarrow> \<not> is_space c"
  using dec_digits_range [of c n] by (auto simp: is_space_def)

lemma ParseInt_dec_digits:
  assumes "n < 2 ^ (bits - 1)"
  shows "ParseInt (dec_digits n) bits = Some (int n)"
proof (cases "dec_digits n")
  case (Cons c cs)
  have "c \<noteq> CHR ''+'' \<and> c \<noteq> CHR ''-''" using dec_digits_range [of c n] Cons by auto
  with assms digits_val_dec_digits [of n] show ?thesis by (simp add: ParseInt_def Cons)
qed simp

text \<open>The route answer is read back.\<close>

lemma windows_route_parsed: "parseRouteInterface_windows E (route_answer idx) = deviceNameForIndex E idx"
proof -
  have "unat idx < 2 ^ 32" using unsigned_less [where ?'a = nat, of idx] by simp
  then have less: "unat idx < 2 ^ (64 - 1)" by (rule less_trans) simp
  have ans: "route_answer idx = dec_digits (unat idx)" by (simp add: route_answer_def Itoa_def)
  have "TrimSpace (dec_digits (unat idx)) = dec_digits (unat idx)"
    by (rule TrimSpace_no_space) (auto dest: dec_digits_no_space)
  then show ?thesis using ParseInt_dec_digits [OF less] by (simp add: parseRouteInterface_windows_def ans)
qed

lemma find_SomeD: "find Q xs = Some x \<Longrightarrow> Q x \<and> x \<in> set xs"
  by (induction xs) (auto split: if_splits)

text \<open>
  On Windows the route found for an index and the device found for it belong together.
  When no two adapters have the same name, the device that the answer for an interface index
  is parsed to resolves to the interface with that index, unless it is the loopback
  pseudo-device, which has none.
\<close>

theorem windows_device_round_trip:
  assumes "parseRouteInterface_windows E (route_answer idx) = Inr name" and "os_adapters E = Some aa"
    and "distinct (map fst aa)" and "\<not> HasSuffix name ''NPF_Loopback''"
  shows "resolveInterface_windows E name =
    (case os_InterfaceByIndex E (unat idx) of None \<Rightarrow> Inl ErrByIndex | Some i \<Rightarrow> Inr i)"
proof -
  obtain a where a: "find (\<lambda>a. snd a = idx) aa = Some a" and name: "npfGUID name = Some (fst a)"
    using assms(1,2)
    by (auto simp: windows_route_parsed deviceNameForIndex_def Let_def dest: find_SomeD split: option.splits if_splits)
  define guid where "guid = fst a"
  have "(guid, idx) \<in> set aa" using find_SomeD [OF a] by (auto simp: guid_def)
  moreover have "\<exists>b. find (\<lambda>a. fst a = guid) aa = Some (guid, b) \<and> (guid, b) \<in> set aa" if "(guid, idx) \<in> set aa"
    using that by (induction aa) auto
  ultimately obtain b where b: "find (\<lambda>a. fst a = guid) aa = Some (guid, b)" "(guid, b) \<in> set aa" by auto
  have "b = idx" using b(2) \<open>(guid, idx) \<in> set aa\<close> assms(3) by (metis map_of_is_SomeI option.inject)
  with b(1) show ?thesis
    using assms(2,4) by (simp add: resolveInterface_windows_def name guid_def [symmetric] npcapLoopbackDevice_def)
qed

definition sample_os :: net_os where
  "sample_os = \<lparr>os_FindAllDevs = Some [''NPF_Loopback'', ''NPF_{A}'', ''NPF_{B}''], os_runRoute = Some ''7'', os_runRoute6 = None,
     os_InterfaceByName = \<lambda>_. None,
     os_InterfaceByIndex = \<lambda>i. Some \<lparr>ni_index = i, ni_loopback = False, ni_addrs = Some [[10, 0, 0, 1]]\<rparr>,
     os_Interfaces = None, os_adapters = Some [(''{A}'', 3), (''{B}'', 7)]\<rparr>"

theorem windows_device_round_trip_witness:
  "\<exists>i. resolveInterface_windows sample_os ''NPF_{B}'' = Inr i \<and> ni_index i = 7"
proof -
  have "parseRouteInterface_windows sample_os (route_answer 7) = Inr ''NPF_{B}''"
    by (simp add: windows_route_parsed deviceNameForIndex_def sample_os_def npfGUID_def Let_def)
  from windows_device_round_trip [OF this, of "[(''{A}'', 3), (''{B}'', 7)]"] show ?thesis
    by (simp add: sample_os_def HasSuffix_def)
qed

end
