(* ===== verification/Otel_Receiver.thy ===== *)
theory Otel_Receiver
  imports Otel_Metrics Syn_Attempts Iface_Select "HOL-Library.Sublist"
begin

text \<open>
  The rest of the collector receiver: the log records of \<^verbatim>\<open>src/receiver/translate.go\<close>, the loops
  \<open>collect\<close> and \<open>forwardLogs\<close> and the life cycle of \<^verbatim>\<open>src/receiver/receiver.go\<close>, and the sharing of one
  receiver between the signals of a component in \<^verbatim>\<open>src/receiver/factory.go\<close>.

  \<open>forwardLogs\<close> selects among its channels at random, so it is a function of one turn, and
  the log pipeline, from the packet loop through the feed to the consumer, is a step relation
  in which the parties interleave freely. The theory shows that no event is lost, repeated or
  reordered on that way except those the full feed drops and counts, that batches are bounded,
  and that the engine runs exactly while a signal holds the receiver.
\<close>

section \<open>Log records\<close>

text \<open>All records have the severity \<^verbatim>\<open>Info\<close>.\<close>

record logRecord =
  lr_Timestamp :: time
  lr_Observed :: time
  lr_Body :: string
  lr_Attributes :: "(string \<times> attr) list"

definition pidByLocalAddrFrom :: "ConnectionRecord list \<Rightarrow> string \<rightharpoonup> i32" where
  "pidByLocalAddrFrom conns = fold (\<lambda>rec m. m(r_LocalAddr rec \<mapsto> r_PID rec)) conns Map.empty"

definition addDNSQueryLogRecord :: "logRecord list \<Rightarrow> QueryFinding \<Rightarrow> time \<Rightarrow> (string \<rightharpoonup> i32) \<Rightarrow> logRecord list" where
  "addDNSQueryLogRecord records q now pids = records @
     [\<lparr>lr_Timestamp = qf_At q, lr_Observed = now, lr_Body = qf_Name q,
       lr_Attributes = [(''dns.question.name'', Str (qf_Name q)), (AttrDNSQuestionType, Str (qf_QType q)),
           (''network.peer.address'', Str (qf_ServerAddr q))] @
         (case pids (qf_ClientAddr q) of
            Some pid \<Rightarrow> if pid \<noteq> 0 then [(''network.local.address'', Str (qf_ClientAddr q))] else []
          | None \<Rightarrow> [])\<rparr>]"

text \<open>The window of three minutes prints as \<^verbatim>\<open>3m0s\<close>.\<close>

definition addSYNLogRecord :: "logRecord list \<Rightarrow> SYNEvent \<Rightarrow> time \<Rightarrow> synAttemptKey \<Rightarrow> nat \<Rightarrow> logRecord list" where
  "addSYNLogRecord records ev now key attemptCount = records @
     [\<lparr>lr_Timestamp = se_At ev, lr_Observed = now,
       lr_Body = ''SYN '' @ Itoa (int attemptCount) @ '' '' @ synAttemptKey_String key @ '' (last 3m0s)'',
       lr_Attributes = [(''network.peer.address'', Str (addr_String (se_RemoteAddr ev))),
         (''network.peer.port'', IntAttr (uint (se_RemotePort ev))), (AttrNetworkInterfaceName, Str (se_Iface ev)),
         (''network.local.port'', IntAttr (uint (se_LocalPort ev))), (AttrSYNAttemptCount, IntAttr (int attemptCount))]\<rparr>]"

definition buildLogBatch :: "SYNEvent list \<Rightarrow> QueryFinding list \<Rightarrow> time \<Rightarrow> synAttemptCache \<Rightarrow> (string \<rightharpoonup> i32) \<Rightarrow>
    logRecord list \<times> synAttemptCache" where
  "buildLogBatch synEvents dnsQueries now synAttempts pids =
     (let records = fold (\<lambda>q rs. addDNSQueryLogRecord rs q now pids) dnsQueries [];
          synAttempts = syn_prune now synAttempts
      in fold (\<lambda>ev (records, cache).
             (let key = synAttemptKeyFor ev;
                  (count, cache) = syn_record key (se_At ev) cache
              in (addSYNLogRecord records ev now key count, cache))) synEvents (records, synAttempts))"

section \<open>Forwarding logs\<close>

definition logFlushInterval :: duration where "logFlushInterval = 200 * 1000000"
definition logBatchCap :: nat where "logBatchCap = 500"

text \<open>
  The variables of \<open>forwardLogs\<close>, with what it has handed to the consumer and what it has
  logged: the numbers of dropped events of each warning.
\<close>

record forwarder =
  fw_pendingSYN :: "SYNEvent list"
  fw_pendingDNS :: "QueryFinding list"
  fw_lastSYNOverflow :: u64
  fw_lastDNSOverflow :: u64
  fw_synAttempts :: synAttemptCache
  fw_batches :: "logRecord list list"
  fw_warnings :: "(u64 \<times> u64) list"

definition newForwarder :: forwarder where
  "newForwarder = \<lparr>fw_pendingSYN = [], fw_pendingDNS = [], fw_lastSYNOverflow = 0, fw_lastDNSOverflow = 0,
     fw_synAttempts = newSYNAttemptCache, fw_batches = [], fw_warnings = []\<rparr>"

text \<open>The clock and the published process map that a turn reads.\<close>

type_synonym fw_env = "time \<times> (string \<rightharpoonup> i32)"

definition flush :: "fw_env \<Rightarrow> forwarder \<Rightarrow> forwarder" where
  "flush env f =
     (if length (fw_pendingSYN f) = 0 \<and> length (fw_pendingDNS f) = 0 then f
      else (let (batch, cache) = buildLogBatch (fw_pendingSYN f) (fw_pendingDNS f) (fst env) (fw_synAttempts f) (snd env)
            in f\<lparr>fw_pendingSYN := [], fw_pendingDNS := [], fw_synAttempts := cache, fw_batches := fw_batches f @ [batch]\<rparr>))"

definition flush_if_full :: "fw_env \<Rightarrow> forwarder \<Rightarrow> forwarder" where
  "flush_if_full env f =
     (if logBatchCap \<le> length (fw_pendingSYN f) + length (fw_pendingDNS f) then flush env f else f)"

definition on_syn :: "fw_env \<Rightarrow> SYNEvent \<Rightarrow> forwarder \<Rightarrow> forwarder" where
  "on_syn env ev f = flush_if_full env (f\<lparr>fw_pendingSYN := fw_pendingSYN f @ [ev]\<rparr>)"

definition on_dns :: "fw_env \<Rightarrow> QueryFinding \<Rightarrow> forwarder \<Rightarrow> forwarder" where
  "on_dns env q f = flush_if_full env (f\<lparr>fw_pendingDNS := fw_pendingDNS f @ [q]\<rparr>)"

definition on_flush_tick :: "fw_env \<Rightarrow> u64 \<times> u64 \<Rightarrow> forwarder \<Rightarrow> forwarder" where
  "on_flush_tick env ov f =
     (let f = flush env f; (syn, dnsQuery) = ov
      in if syn \<noteq> fw_lastSYNOverflow f \<or> dnsQuery \<noteq> fw_lastDNSOverflow f
         then f\<lparr>fw_warnings := fw_warnings f @ [(syn - fw_lastSYNOverflow f, dnsQuery - fw_lastDNSOverflow f)],
                fw_lastSYNOverflow := syn, fw_lastDNSOverflow := dnsQuery\<rparr>
         else f)"

section \<open>Batches\<close>

text \<open>What a record says of its event, leaving out what depends on when it is exported.\<close>

definition is_dns_record :: "logRecord \<Rightarrow> bool" where
  "is_dns_record r \<longleftrightarrow> list_ex (\<lambda>x. fst x = ''dns.question.name'') (lr_Attributes r)"

definition record_view :: "logRecord \<Rightarrow> time \<times> (string \<times> attr) list" where
  "record_view r = (lr_Timestamp r,
     filter (\<lambda>x. fst x \<noteq> AttrSYNAttemptCount \<and> fst x \<noteq> ''network.local.address'') (lr_Attributes r))"

definition syn_view :: "SYNEvent \<Rightarrow> time \<times> (string \<times> attr) list" where
  "syn_view ev = (se_At ev, [(''network.peer.address'', Str (addr_String (se_RemoteAddr ev))),
     (''network.peer.port'', IntAttr (uint (se_RemotePort ev))), (AttrNetworkInterfaceName, Str (se_Iface ev)),
     (''network.local.port'', IntAttr (uint (se_LocalPort ev)))])"

definition dns_view :: "QueryFinding \<Rightarrow> time \<times> (string \<times> attr) list" where
  "dns_view q = (qf_At q, [(''dns.question.name'', Str (qf_Name q)), (AttrDNSQuestionType, Str (qf_QType q)),
     (''network.peer.address'', Str (qf_ServerAddr q))])"

definition syn_views :: "logRecord list \<Rightarrow> (time \<times> (string \<times> attr) list) list" where
  "syn_views rs = map record_view (filter (\<lambda>r. \<not> is_dns_record r) rs)"

definition dns_views :: "logRecord list \<Rightarrow> (time \<times> (string \<times> attr) list) list" where
  "dns_views rs = map record_view (filter is_dns_record rs)"

lemma views_append [simp]:
  "syn_views (rs @ rs') = syn_views rs @ syn_views rs'" "dns_views (rs @ rs') = dns_views rs @ dns_views rs'"
  by (simp_all add: syn_views_def dns_views_def)

lemma addDNSQueryLogRecord_views:
  "syn_views (addDNSQueryLogRecord rs q now pids) = syn_views rs"
  "dns_views (addDNSQueryLogRecord rs q now pids) = dns_views rs @ [dns_view q]"
  "length (addDNSQueryLogRecord rs q now pids) = Suc (length rs)"
  by (simp_all add: addDNSQueryLogRecord_def syn_views_def dns_views_def is_dns_record_def record_view_def dns_view_def
      AttrDNSQuestionType_def AttrSYNAttemptCount_def split: option.split)

lemma addSYNLogRecord_views:
  "syn_views (addSYNLogRecord rs ev now key n) = syn_views rs @ [syn_view ev]"
  "dns_views (addSYNLogRecord rs ev now key n) = dns_views rs"
  "length (addSYNLogRecord rs ev now key n) = Suc (length rs)"
  by (simp_all add: addSYNLogRecord_def syn_views_def dns_views_def is_dns_record_def record_view_def syn_view_def
      AttrNetworkInterfaceName_def AttrSYNAttemptCount_def)

lemma dns_fold_views:
  fixes now pids
  defines "R rs qs \<equiv> fold (\<lambda>q rs. addDNSQueryLogRecord rs q now pids) qs rs"
  shows "syn_views (R rs qs) = syn_views rs \<and> dns_views (R rs qs) = dns_views rs @ map dns_view qs \<and>
    length (R rs qs) = length rs + length qs"
  unfolding R_def by (induction qs arbitrary: rs) (simp_all add: addDNSQueryLogRecord_views)

lemma syn_fold_views:
  fixes now
  defines "R S evs \<equiv> fold (\<lambda>ev (records, cache).
    (let key = synAttemptKeyFor ev; (count, cache) = syn_record key (se_At ev) cache
     in (addSYNLogRecord records ev now key count, cache))) evs S"
  shows "syn_views (fst (R S evs)) = syn_views (fst S) @ map syn_view evs \<and> dns_views (fst (R S evs)) = dns_views (fst S) \<and>
    length (fst (R S evs)) = length (fst S) + length evs"
  unfolding R_def
  by (induction evs arbitrary: S) (simp_all add: addSYNLogRecord_views Let_def split: prod.splits)

lemma buildLogBatch_views:
  assumes "buildLogBatch syns qs now cache pids = (rs, cache')"
  shows "syn_views rs = map syn_view syns" and "dns_views rs = map dns_view qs" and "length rs = length syns + length qs"
proof -
  let ?S = "(fold (\<lambda>q rs. addDNSQueryLogRecord rs q now pids) qs [], syn_prune now cache)"
  have rs: "rs = fst (buildLogBatch syns qs now cache pids)" by (simp add: assms)
  show "syn_views rs = map syn_view syns" "dns_views rs = map dns_view qs" "length rs = length syns + length qs"
    using syn_fold_views [where now = now and S = ?S and evs = syns] dns_fold_views [where now = now and pids = pids and rs = "[]" and qs = qs]
    by (simp_all add: rs buildLogBatch_def Let_def) (simp_all add: syn_views_def dns_views_def)
qed

section \<open>The forwarder\<close>

text \<open>What the forwarder has taken in, handed over or pending, in order.\<close>

definition fw_syns :: "forwarder \<Rightarrow> (time \<times> (string \<times> attr) list) list" where
  "fw_syns f = syn_views (concat (fw_batches f)) @ map syn_view (fw_pendingSYN f)"

definition fw_dnss :: "forwarder \<Rightarrow> (time \<times> (string \<times> attr) list) list" where
  "fw_dnss f = dns_views (concat (fw_batches f)) @ map dns_view (fw_pendingDNS f)"

definition fw_pending :: "forwarder \<Rightarrow> nat" where
  "fw_pending f = length (fw_pendingSYN f) + length (fw_pendingDNS f)"

definition fw_bounded :: "forwarder \<Rightarrow> bool" where
  "fw_bounded f \<longleftrightarrow> fw_pending f < logBatchCap \<and> (\<forall>b \<in> set (fw_batches f). b \<noteq> [] \<and> length b \<le> logBatchCap)"

lemma views_Nil [simp]: "syn_views [] = []" "dns_views [] = []"
  by (simp_all add: syn_views_def dns_views_def)

lemma flush_views: "fw_syns (flush env f) = fw_syns f" "fw_dnss (flush env f) = fw_dnss f"
  using buildLogBatch_views [of "fw_pendingSYN f" "fw_pendingDNS f" "fst env" "fw_synAttempts f" "snd env"]
  by (auto simp: flush_def fw_syns_def fw_dnss_def split: prod.split)

lemma flush_pending: "fw_pending (flush env f) = 0"
  by (auto simp: flush_def fw_pending_def split: prod.split)

lemma flush_batches:
  assumes "fw_pending f \<le> logBatchCap" and "\<forall>b \<in> set (fw_batches f). b \<noteq> [] \<and> length b \<le> logBatchCap"
  shows "fw_bounded (flush env f)"
proof -
  obtain rs cache where b: "buildLogBatch (fw_pendingSYN f) (fw_pendingDNS f) (fst env) (fw_synAttempts f) (snd env) = (rs, cache)"
    by fastforce
  have "length rs = fw_pending f" by (simp add: buildLogBatch_views(3) [OF b] fw_pending_def)
  then have "fw_pending f \<noteq> 0 \<Longrightarrow> rs \<noteq> [] \<and> length rs \<le> logBatchCap" using assms(1) by auto
  then show ?thesis
    using flush_pending [of env f] assms(2) by (auto simp: fw_bounded_def flush_def b fw_pending_def logBatchCap_def)
qed

lemma flush_if_full_views: "fw_syns (flush_if_full env f) = fw_syns f" "fw_dnss (flush_if_full env f) = fw_dnss f"
  by (simp_all add: flush_if_full_def flush_views)

lemma flush_if_full_bounded:
  "fw_pending f \<le> logBatchCap \<Longrightarrow> \<forall>b \<in> set (fw_batches f). b \<noteq> [] \<and> length b \<le> logBatchCap \<Longrightarrow> fw_bounded (flush_if_full env f)"
  using flush_batches [of f env] by (auto simp: flush_if_full_def fw_bounded_def fw_pending_def)

lemma on_syn_keeps:
  "fw_syns (on_syn env ev f) = fw_syns f @ [syn_view ev]" "fw_dnss (on_syn env ev f) = fw_dnss f"
  "fw_bounded f \<Longrightarrow> fw_bounded (on_syn env ev f)"
  unfolding on_syn_def flush_if_full_views
  by (simp_all add: fw_syns_def fw_dnss_def, rule flush_if_full_bounded) (auto simp: fw_bounded_def fw_pending_def)

lemma on_dns_keeps:
  "fw_syns (on_dns env q f) = fw_syns f" "fw_dnss (on_dns env q f) = fw_dnss f @ [dns_view q]"
  "fw_bounded f \<Longrightarrow> fw_bounded (on_dns env q f)"
  unfolding on_dns_def flush_if_full_views
  by (simp_all add: fw_syns_def fw_dnss_def, rule flush_if_full_bounded) (auto simp: fw_bounded_def fw_pending_def)

lemma on_flush_tick_keeps:
  "fw_syns (on_flush_tick env ov f) = fw_syns f" "fw_dnss (on_flush_tick env ov f) = fw_dnss f"
  "fw_bounded f \<Longrightarrow> fw_bounded (on_flush_tick env ov f)" "fw_pending (on_flush_tick env ov f) = 0"
proof -
  have same: "fw_syns (on_flush_tick env ov f) = fw_syns (flush env f)" "fw_dnss (on_flush_tick env ov f) = fw_dnss (flush env f)"
    "fw_pending (on_flush_tick env ov f) = fw_pending (flush env f)"
    "fw_batches (on_flush_tick env ov f) = fw_batches (flush env f)"
    by (simp_all add: on_flush_tick_def fw_syns_def fw_dnss_def fw_pending_def Let_def split: prod.split)
  show "fw_syns (on_flush_tick env ov f) = fw_syns f" "fw_dnss (on_flush_tick env ov f) = fw_dnss f"
    "fw_pending (on_flush_tick env ov f) = 0" by (simp_all add: same flush_views flush_pending)
  show "fw_bounded f \<Longrightarrow> fw_bounded (on_flush_tick env ov f)"
    using flush_batches [of f env] by (auto simp: fw_bounded_def same)
qed

section \<open>The log pipeline\<close>

text \<open>
  The packet loop, the feed and the forwarder together, with the events that the packet loop
  has offered. The packet loop sends, the forwarder receives or ticks, in any order.
\<close>

record log_pipeline =
  lp_feed :: "QueryFinding logFeed"
  lp_fw :: forwarder
  lp_syn :: "SYNEvent list"
  lp_dns :: "QueryFinding list"

definition new_pipeline :: log_pipeline where
  "new_pipeline = \<lparr>lp_feed = newLogFeed, lp_fw = newForwarder, lp_syn = [], lp_dns = []\<rparr>"

inductive pipeline_step :: "log_pipeline \<Rightarrow> log_pipeline \<Rightarrow> bool" where
  send_syn: "pipeline_step p (p\<lparr>lp_feed := sendSYN e (lp_feed p), lp_syn := lp_syn p @ [e]\<rparr>)"
| send_dns: "pipeline_step p (p\<lparr>lp_feed := sendDNSQuery q (lp_feed p), lp_dns := lp_dns p @ [q]\<rparr>)"
| receive_syn: "lf_syn (lp_feed p) = e # es \<Longrightarrow>
    pipeline_step p (p\<lparr>lp_feed := (lp_feed p)\<lparr>lf_syn := es\<rparr>, lp_fw := on_syn env e (lp_fw p)\<rparr>)"
| receive_dns: "lf_dnsQuery (lp_feed p) = q # qs \<Longrightarrow>
    pipeline_step p (p\<lparr>lp_feed := (lp_feed p)\<lparr>lf_dnsQuery := qs\<rparr>, lp_fw := on_dns env q (lp_fw p)\<rparr>)"
| flush_tick: "pipeline_step p (p\<lparr>lp_fw := on_flush_tick env (overflow (lp_feed p)) (lp_fw p)\<rparr>)"

text \<open>What has come through or is on its way is what was offered, less some that are counted.\<close>

definition carried :: "'v list \<Rightarrow> 'v list \<Rightarrow> u64 \<Rightarrow> bool" where
  "carried vs offered drops \<longleftrightarrow> subseq vs offered \<and> drops = of_nat (length offered - length vs)"

lemma carried_send: "carried vs offered d \<Longrightarrow> carried (vs @ [v]) (offered @ [v]) d"
  by (simp add: carried_def)

lemma carried_drop: "carried vs offered d \<Longrightarrow> carried vs (offered @ [v]) (d + 1)"
  using list_emb_length [of "(=)" vs offered]
  by (auto simp: carried_def Suc_diff_le intro: subseq_rev_drop_many)

lemma carried_no_drop:
  assumes "carried vs offered 0" and "length offered < 2 ^ 64"
  shows "vs = offered"
proof -
  have sub: "subseq vs offered" and zero: "(of_nat (length offered - length vs) :: u64) = 0"
    using assms(1) by (simp_all add: carried_def)
  from zero have "2 ^ 64 dvd length offered - length vs" by (simp add: word_of_nat_eq_0_iff)
  moreover have "length offered - length vs < 2 ^ 64" using assms(2) by simp
  ultimately have "length offered - length vs = 0" by (metis nat_dvd_not_less neq0_conv)
  then have "length vs = length offered" using list_emb_length [OF sub] by simp
  with sub show ?thesis by (rule subseq_same_length)
qed

definition syns_under_way :: "log_pipeline \<Rightarrow> (time \<times> (string \<times> attr) list) list" where
  "syns_under_way p = fw_syns (lp_fw p) @ map syn_view (lf_syn (lp_feed p))"

definition dnss_under_way :: "log_pipeline \<Rightarrow> (time \<times> (string \<times> attr) list) list" where
  "dnss_under_way p = fw_dnss (lp_fw p) @ map dns_view (lf_dnsQuery (lp_feed p))"

definition pipeline_inv :: "log_pipeline \<Rightarrow> bool" where
  "pipeline_inv p \<longleftrightarrow>
     carried (syns_under_way p) (map syn_view (lp_syn p)) (synOverflow (lp_feed p)) \<and>
     carried (dnss_under_way p) (map dns_view (lp_dns p)) (dnsQueryOverflow (lp_feed p)) \<and>
     fw_bounded (lp_fw p)"

lemmas pipeline_defs = pipeline_inv_def syns_under_way_def dnss_under_way_def

interpretation pipeline: step_invariant pipeline_step pipeline_inv
proof unfold_locales
  fix p p' assume "pipeline_step p p'" and inv: "pipeline_inv p"
  then show "pipeline_inv p'"
  proof cases
    case (send_syn e)
    with inv show ?thesis
      by (auto simp: pipeline_defs sendSYN_def append.assoc [symmetric] intro: carried_send carried_drop simp del: append_assoc)
  next
    case (send_dns q)
    with inv show ?thesis
      by (auto simp: pipeline_defs sendDNSQuery_def append.assoc [symmetric] intro: carried_send carried_drop simp del: append_assoc)
  next
    case (receive_syn e es env)
    with inv show ?thesis by (simp add: pipeline_defs on_syn_keeps)
  next
    case (receive_dns q qs env)
    with inv show ?thesis by (simp add: pipeline_defs on_dns_keeps)
  next
    case (flush_tick env)
    with inv show ?thesis by (simp add: pipeline_defs on_flush_tick_keeps)
  qed
qed

lemma pipeline_reachable: "pipeline_step\<^sup>*\<^sup>* new_pipeline p \<Longrightarrow> pipeline_inv p"
  by (erule pipeline.run_keeps) (simp add: pipeline_defs new_pipeline_def newLogFeed_def newForwarder_def fw_syns_def
      fw_dnss_def fw_bounded_def fw_pending_def carried_def logBatchCap_def)

text \<open>
  C31: the log pipeline loses nothing without counting it. Whatever the interleaving, the
  records handed to the consumer, the pending events and those in the feed are, in this
  order, the SYN events that the packet loop offered less some, and the feed's overflow
  counter is the number of those; the same holds for DNS questions. Fewer than 500 events are
  ever pending, and no batch is empty or has more than 500 records.
\<close>

theorem log_pipeline_conserves:
  assumes "pipeline_step\<^sup>*\<^sup>* new_pipeline p"
  shows "carried (syn_views (concat (fw_batches (lp_fw p))) @ map syn_view (fw_pendingSYN (lp_fw p) @ lf_syn (lp_feed p)))
      (map syn_view (lp_syn p)) (synOverflow (lp_feed p)) \<and>
    carried (dns_views (concat (fw_batches (lp_fw p))) @ map dns_view (fw_pendingDNS (lp_fw p) @ lf_dnsQuery (lp_feed p)))
      (map dns_view (lp_dns p)) (dnsQueryOverflow (lp_feed p)) \<and>
    length (fw_pendingSYN (lp_fw p)) + length (fw_pendingDNS (lp_fw p)) < 500 \<and>
    list_all (\<lambda>b. 0 < length b \<and> length b \<le> 500) (fw_batches (lp_fw p))"
  using pipeline_reachable [OF assms]
  by (simp add: pipeline_defs fw_syns_def fw_dnss_def fw_bounded_def fw_pending_def logBatchCap_def list_all_iff)

definition sample_syn :: SYNEvent where
  "sample_syn = \<lparr>se_Iface = ''eth0'', se_LocalAddr = AddrV4 [10, 0, 0, 1], se_LocalPort = 4000, se_RemoteAddr = AddrV4 [10, 0, 0, 2],
     se_RemotePort = 443, se_At = second\<rparr>"

definition sample_query :: QueryFinding where
  "sample_query = \<lparr>qf_Name = ''example.com'', qf_QType = ''A'', qf_ClientAddr = ''10.0.0.1'', qf_ServerAddr = ''10.0.0.53'', qf_At = second\<rparr>"

theorem log_pipeline_conserves_witness:
  "\<exists>p :: log_pipeline. lp_syn p = [sample_syn] \<and> lp_dns p = [sample_query] \<and> fw_pendingSYN (lp_fw p) = [] \<and>
     carried (syn_views (concat (fw_batches (lp_fw p))) @ map syn_view (fw_pendingSYN (lp_fw p) @ lf_syn (lp_feed p)))
       (map syn_view (lp_syn p)) (synOverflow (lp_feed p))"
proof -
  define p1 where "p1 = new_pipeline\<lparr>lp_feed := sendSYN sample_syn (lp_feed new_pipeline), lp_syn := lp_syn new_pipeline @ [sample_syn]\<rparr>"
  define p2 where "p2 = p1\<lparr>lp_feed := sendDNSQuery sample_query (lp_feed p1), lp_dns := lp_dns p1 @ [sample_query]\<rparr>"
  have "pipeline_step new_pipeline p1" "pipeline_step p1 p2" unfolding p1_def p2_def by (rule send_syn send_dns)+
  then have run: "pipeline_step\<^sup>*\<^sup>* new_pipeline p2" by (meson converse_rtranclp_into_rtranclp rtranclp.rtrancl_refl)
  have "lp_syn p2 = [sample_syn]" "lp_dns p2 = [sample_query]" "fw_pendingSYN (lp_fw p2) = []"
    by (simp_all add: p1_def p2_def new_pipeline_def newForwarder_def)
  with log_pipeline_conserves [OF run] show ?thesis by blast
qed

text \<open>Everything in the feed can be received.\<close>

lemma receive_syns:
  "\<exists>p'. pipeline_step\<^sup>*\<^sup>* p p' \<and> lf_syn (lp_feed p') = [] \<and> lf_dnsQuery (lp_feed p') = lf_dnsQuery (lp_feed p) \<and>
     syns_under_way p' = syns_under_way p \<and> dnss_under_way p' = dnss_under_way p"
proof (induction "lf_syn (lp_feed p)" arbitrary: p)
  case (Cons e es)
  define q where "q = p\<lparr>lp_feed := (lp_feed p)\<lparr>lf_syn := es\<rparr>, lp_fw := on_syn (0, Map.empty) e (lp_fw p)\<rparr>"
  have step: "pipeline_step p q" unfolding q_def by (rule receive_syn) (simp add: Cons.hyps(2) [symmetric])
  have same: "syns_under_way q = syns_under_way p" "dnss_under_way q = dnss_under_way p" "lf_dnsQuery (lp_feed q) = lf_dnsQuery (lp_feed p)"
    by (simp_all add: q_def syns_under_way_def dnss_under_way_def on_syn_keeps Cons.hyps(2) [symmetric])
  have "es = lf_syn (lp_feed q)" by (simp add: q_def)
  from Cons.hyps(1) [OF this] same step show ?case by (metis converse_rtranclp_into_rtranclp)
qed auto

lemma receive_dnss:
  "\<exists>p'. pipeline_step\<^sup>*\<^sup>* p p' \<and> lf_dnsQuery (lp_feed p') = [] \<and> lf_syn (lp_feed p') = lf_syn (lp_feed p) \<and>
     syns_under_way p' = syns_under_way p \<and> dnss_under_way p' = dnss_under_way p"
proof (induction "lf_dnsQuery (lp_feed p)" arbitrary: p)
  case (Cons e es)
  define q where "q = p\<lparr>lp_feed := (lp_feed p)\<lparr>lf_dnsQuery := es\<rparr>, lp_fw := on_dns (0, Map.empty) e (lp_fw p)\<rparr>"
  have step: "pipeline_step p q" unfolding q_def by (rule receive_dns) (simp add: Cons.hyps(2) [symmetric])
  have same: "syns_under_way q = syns_under_way p" "dnss_under_way q = dnss_under_way p" "lf_syn (lp_feed q) = lf_syn (lp_feed p)"
    by (simp_all add: q_def syns_under_way_def dnss_under_way_def on_dns_keeps Cons.hyps(2) [symmetric])
  have "es = lf_dnsQuery (lp_feed q)" by (simp add: q_def)
  from Cons.hyps(1) [OF this] same step show ?case by (metis converse_rtranclp_into_rtranclp)
qed auto

lemma pipeline_drains:
  "\<exists>p'. pipeline_step\<^sup>*\<^sup>* p p' \<and> syn_views (concat (fw_batches (lp_fw p'))) = syns_under_way p \<and>
     dns_views (concat (fw_batches (lp_fw p'))) = dnss_under_way p"
proof -
  obtain q where q: "pipeline_step\<^sup>*\<^sup>* p q" "lf_syn (lp_feed q) = []" "syns_under_way q = syns_under_way p" "dnss_under_way q = dnss_under_way p"
    using receive_syns [of p] by blast
  obtain r where r: "pipeline_step\<^sup>*\<^sup>* q r" "lf_syn (lp_feed r) = []" "lf_dnsQuery (lp_feed r) = []"
      "syns_under_way r = syns_under_way q" "dnss_under_way r = dnss_under_way q"
    using receive_dnss [of q] q(2) by metis
  define f where "f = on_flush_tick (0, Map.empty) (overflow (lp_feed r)) (lp_fw r)"
  have "pipeline_step r (r\<lparr>lp_fw := f\<rparr>)" unfolding f_def by (rule flush_tick)
  then have run: "pipeline_step\<^sup>*\<^sup>* p (r\<lparr>lp_fw := f\<rparr>)" using q(1) r(1) by (meson rtranclp.rtrancl_into_rtrancl rtranclp_trans)
  have "fw_pendingSYN f = []" "fw_pendingDNS f = []"
    using on_flush_tick_keeps(4) [of "(0, Map.empty)" "overflow (lp_feed r)" "lp_fw r"] by (simp_all add: f_def fw_pending_def)
  then have "syn_views (concat (fw_batches f)) = fw_syns f" "dns_views (concat (fw_batches f)) = fw_dnss f"
    by (simp_all add: fw_syns_def fw_dnss_def)
  moreover have "fw_syns f = fw_syns (lp_fw r)" "fw_dnss f = fw_dnss (lp_fw r)" by (simp_all add: f_def on_flush_tick_keeps)
  ultimately show ?thesis using run q(3,4) r(2-5)
    by (intro exI [of _ "r\<lparr>lp_fw := f\<rparr>"]) (simp add: syns_under_way_def dnss_under_way_def)
qed

text \<open>
  As long as the feed has not been full, every SYN and every DNS question that the packet
  loop offers gets to the consumer, once and in order: from any state the pipeline can come to
  one in which exactly these have been handed over.
\<close>

theorem log_events_delivered:
  assumes "pipeline_step\<^sup>*\<^sup>* new_pipeline p" and "overflow (lp_feed p) = (0, 0)"
    and "length (lp_syn p) < 2 ^ 64" and "length (lp_dns p) < 2 ^ 64"
  shows "\<exists>p'. pipeline_step\<^sup>*\<^sup>* p p' \<and> syn_views (concat (fw_batches (lp_fw p'))) = map syn_view (lp_syn p) \<and>
    dns_views (concat (fw_batches (lp_fw p'))) = map dns_view (lp_dns p)"
proof -
  have "carried (syns_under_way p) (map syn_view (lp_syn p)) 0" "carried (dnss_under_way p) (map dns_view (lp_dns p)) 0"
    using pipeline_reachable [OF assms(1)] assms(2) by (simp_all add: pipeline_inv_def overflow_def)
  then have "syns_under_way p = map syn_view (lp_syn p)" "dnss_under_way p = map dns_view (lp_dns p)"
    using assms(3,4) by (auto intro!: carried_no_drop)
  with pipeline_drains [of p] show ?thesis by simp
qed

theorem log_events_delivered_witness:
  "\<exists>p p'. lp_syn p = [sample_syn] \<and> pipeline_step\<^sup>*\<^sup>* p p' \<and> syn_views (concat (fw_batches (lp_fw p'))) = [syn_view sample_syn]"
proof -
  define p1 where "p1 = new_pipeline\<lparr>lp_feed := sendSYN sample_syn (lp_feed new_pipeline), lp_syn := lp_syn new_pipeline @ [sample_syn]\<rparr>"
  have "pipeline_step new_pipeline p1" unfolding p1_def by (rule send_syn)
  then have run: "pipeline_step\<^sup>*\<^sup>* new_pipeline p1" by (rule r_into_rtranclp)
  have p1: "overflow (lp_feed p1) = (0, 0)" "length (lp_syn p1) < 2 ^ 64" "length (lp_dns p1) < 2 ^ 64" "lp_syn p1 = [sample_syn]"
    by (simp_all add: p1_def new_pipeline_def newLogFeed_def sendSYN_def overflow_def logFeedCapacity_def)
  from log_events_delivered [OF run p1(1-3)] p1(4) show ?thesis by auto
qed

section \<open>Collecting\<close>

text \<open>
  One tick of \<open>collect\<close>: the engine is refreshed and the process map published on every
  tick, the metrics are built when a consumer is set. What the consumer returns is only logged.
\<close>

record collector =
  co_engine :: "records \<times> Capturer"
  co_state :: metricsState
  co_pids :: "string \<rightharpoonup> i32"

definition collect_tick :: "ReceiverConfig \<Rightarrow> walks \<Rightarrow> metric_walks \<Rightarrow> Connection list \<Rightarrow> time \<Rightarrow> bool \<Rightarrow> collector \<Rightarrow>
    metrics option \<times> collector" where
  "collect_tick cfg w mw conns now metricsConsumer co =
     (let (snap, engine) = Refresh w conns now (co_engine co);
          co = co\<lparr>co_engine := engine, co_pids := pidByLocalAddrFrom (sn_Connections snap)\<rparr>
      in if metricsConsumer
         then (let (md, s) = buildMetrics mw snap now cfg (co_state co) in (Some md, co\<lparr>co_state := s\<rparr>))
         else (None, co))"

definition io_attributes :: "Connection \<Rightarrow> string \<Rightarrow> string \<Rightarrow> (string \<times> attr) list" where
  "io_attributes cn iface direction =
     [(''network.io.direction'', Str direction), (''network.transport'', Str (c_Proto cn)),
      (''network.interface.name'', Str iface), (''network.peer.address'', Str (addr_String (c_RemoteAddr cn))),
      (''network.peer.port'', IntAttr (uint (c_RemotePort cn))), (''process.pid'', IntAttr (sint (c_PID cn))),
      (''process.executable.name'', Str (c_ProcessName cn))]"

text \<open>
  C28: what is captured is what is exported. When the peers of a snapshot fit under the cap, a
  tick exports for every open TCP or UDP connection whose traffic was seen on one interface
  a data point for each direction, whose value is the number of bytes captured in it and whose
  attributes name the process, the interface and the peer.
\<close>

theorem captured_bytes_exported:
  assumes "table_wf (cap_table c)" and "distinct (w_snapshot w)" and "set (w_snapshot w) = dom (ft_flows (cap_table c))"
    and "\<And>xs. set (w_again w xs) = set xs" and "join_key cn \<in> set (w_records w)"
    and "cn \<in> set conns" and "\<forall>c' \<in> set conns. join_key c' = join_key cn \<longrightarrow> c' = cn"
    and "c_Proto cn = ''tcp'' \<or> c_Proto cn = ''udp''"
    and "k \<in> dom (ft_flows (cap_table c))" and "k\<lparr>fk_Iface := ''''\<rparr> = flowKeyFor cn"
    and "\<forall>k' \<in> dom (ft_flows (cap_table c)). k'\<lparr>fk_Iface := ''''\<rparr> = flowKeyFor cn \<longrightarrow> k' = k"
    and "c_PID cn \<noteq> 0" and "fk_Iface k \<noteq> ''''"
    and "co_engine co = (prev, c)" and "0 \<le> MaxPeerCardinality cfg"
    and "card (set (snapshot_peers (fst (Refresh w conns now (prev, c))))) \<le> nat (MaxPeerCardinality cfg)"
  shows "\<exists>md m. fst (collect_tick cfg w mw conns now True co) = Some md \<and> m \<in> set (md_Metrics md) \<and>
    m_Name m = MetricNetworkIO \<and>
    (\<exists>d \<in> set (m_DataPoints m). dp_Attributes d = io_attributes cn (fk_Iface k) ''receive'' \<and>
       dp_Value d = sint (fst (flow_totals (cap_table c) k))) \<and>
    (\<exists>d \<in> set (m_DataPoints m). dp_Attributes d = io_attributes cn (fk_Iface k) ''transmit'' \<and>
       dp_Value d = sint (snd (flow_totals (cap_table c) k)))"
proof -
  define snap where "snap = fst (Refresh w conns now (prev, c))"
  obtain r where r: "r \<in> set (sn_Connections snap)" "r_PID r = c_PID cn" "r_ProcessName r = c_ProcessName cn"
      "(r_BytesInTotal r, r_BytesOutTotal r) = flow_totals (cap_table c) k" "r_Iface r = fk_Iface k" "r_Proto r = c_Proto cn"
      "r_RemoteAddr r = addr_String (c_RemoteAddr cn)" "r_RemotePort r = c_RemotePort cn"
    using refresh_record [OF assms(1-11)] unfolding snap_def by blast
  define md where "md = fst (buildMetrics mw snap now cfg (co_state co))"
  obtain m where m: "m \<in> set (md_Metrics md)" "m_Name m = MetricNetworkIO" "set (addIODataPoint [] r now) \<subseteq> set (m_DataPoints m)"
    using buildMetrics_io_points [OF assms(16,15) r(1) [unfolded snap_def], of mw now "co_state co"] unfolding md_def snap_def by blast
  have "fst (collect_tick cfg w mw conns now True co) = Some md"
    by (simp add: collect_tick_def assms(14) md_def snap_def Let_def split: prod.split)
  moreover have "io_data_point r now (''receive'', r_BytesInTotal r) \<in> set (m_DataPoints m)"
    "io_data_point r now (''transmit'', r_BytesOutTotal r) \<in> set (m_DataPoints m)"
    using m(3) by (simp_all add: addIODataPoint_def AttrDirectionReceive_def AttrDirectionTransmit_def)
  moreover have "dp_Attributes (io_data_point r now (d, n)) = io_attributes cn (fk_Iface k) d" for d n
    using assms(12,13) by (simp add: io_data_point_def io_attributes_def r AttrNetworkIODirection_def AttrNetworkInterfaceName_def)
  moreover have "dp_Value (io_data_point r now (d, n)) = sint n" for d n by (simp add: io_data_point_def)
  moreover have "fst (flow_totals (cap_table c) k) = r_BytesInTotal r" "snd (flow_totals (cap_table c) k) = r_BytesOutTotal r"
    using r(4) by (metis fst_conv snd_conv)+
  ultimately show ?thesis using m(1,2) by metis
qed

definition sample_cap :: Capturer where
  "sample_cap = (New (DefaultConfig sample_parsers))\<lparr>cap_table := sample_table\<rparr>"

lemma sample_snapshot_peers:
  "card (set (snapshot_peers (fst (Refresh sample_walks [sample_conn] 2 (Map.empty, sample_cap))))) \<le> 1"
proof -
  define snap where "snap = fst (Refresh sample_walks [sample_conn] 2 (Map.empty, sample_cap))"
  have "sn_SYNEvents snap = []" "sn_RSTEvents snap = []"
    by (simp_all add: snap_def Refresh_def sample_cap_def New_def DrainSYNEvents_def DrainRSTEvents_def DrainDNSQueries_def
        DrainDNSErrors_def DrainDNSAnswers_def synEventRing_drain_def rstEventRing_drain_def dnsRing_drain_def Let_def split: prod.split)
  moreover have "length (sn_Connections snap) \<le> 1"
    by (simp add: snap_def Refresh_parts(1) record_list_def sort_Slice_key sample_walks_def List.map_filter_def)
  ultimately have "length (snapshot_peers snap) \<le> 1" by (simp add: snapshot_peers_def)
  then show ?thesis using card_length [of "snapshot_peers snap"] unfolding snap_def by linarith
qed

theorem captured_bytes_exported_witness:
  "\<exists>md m. fst (collect_tick NewDefaultConfig sample_walks sample_orders [sample_conn] 2 True
      \<lparr>co_engine = (Map.empty, sample_cap), co_state = newMetricsState 0, co_pids = Map.empty\<rparr>) = Some md \<and>
    m \<in> set (md_Metrics md) \<and> m_Name m = MetricNetworkIO \<and>
    (\<exists>d \<in> set (m_DataPoints m). dp_Attributes d = io_attributes sample_conn ''eth0'' ''receive'' \<and> dp_Value d = 100)"
proof -
  let ?co = "\<lparr>co_engine = (Map.empty :: records, sample_cap), co_state = newMetricsState 0, co_pids = Map.empty\<rparr>"
  have cap: "cap_table sample_cap = sample_table" by (simp add: sample_cap_def)
  have eth: "fk_Iface sample_flow = ''eth0''" by (simp add: sample_flow_def)
  have "\<exists>md m. fst (collect_tick NewDefaultConfig sample_walks sample_orders [sample_conn] 2 True ?co) = Some md \<and>
    m \<in> set (md_Metrics md) \<and> m_Name m = MetricNetworkIO \<and>
    (\<exists>d \<in> set (m_DataPoints m). dp_Attributes d = io_attributes sample_conn (fk_Iface sample_flow) ''receive'' \<and>
       dp_Value d = sint (fst (flow_totals (cap_table sample_cap) sample_flow))) \<and>
    (\<exists>d \<in> set (m_DataPoints m). dp_Attributes d = io_attributes sample_conn (fk_Iface sample_flow) ''transmit'' \<and>
       dp_Value d = sint (snd (flow_totals (cap_table sample_cap) sample_flow)))"
    by (rule captured_bytes_exported [where prev = Map.empty])
      (use sample_snapshot_peers in \<open>simp_all add: cap eth sample_table_result sample_flow_strip NewDefaultConfig_def\<close>,
       simp_all add: sample_walks_def sample_conn_def)
  then show ?thesis by (simp add: cap eth sample_table_result) blast
qed

section \<open>The life cycle\<close>

text \<open>
  A receiver's lifecycle state: the consumers that are set, the number of signals that hold it,
  whether it has a cancel function, whether the goroutines of its engine are running and whether
  they include \<open>forwardLogs\<close>. The engine's goroutines end when the context is cancelled, and
  \<open>Shutdown\<close> waits for them.
\<close>

record trafficmonReceiver =
  tr_cfg :: ReceiverConfig
  tr_metricsConsumer :: bool
  tr_logsConsumer :: bool
  tr_refs :: int
  tr_cancel :: bool
  tr_running :: bool
  tr_forwarding :: bool
  tr_capture :: "Config option"

definition newTrafficmonReceiver :: "ReceiverConfig \<Rightarrow> trafficmonReceiver" where
  "newTrafficmonReceiver cfg = \<lparr>tr_cfg = cfg, tr_metricsConsumer = False, tr_logsConsumer = False, tr_refs = 0,
     tr_cancel = False, tr_running = False, tr_forwarding = False, tr_capture = None\<rparr>"

text \<open>
  \<open>Start\<close>. Its error wraps the one of the interface specification.
\<close>

definition receiver_Start :: "parsers \<Rightarrow> platform \<Rightarrow> net_os \<Rightarrow> trafficmonReceiver \<Rightarrow>
    (string \<times> iface_error) option \<times> trafficmonReceiver" where
  "receiver_Start ps P E r =
     (let r = r\<lparr>tr_refs := tr_refs r + 1\<rparr>
      in if 1 < tr_refs r then (None, r)
         else (let spec = (if rc_Interface (tr_cfg r) = '''' then Any else rc_Interface (tr_cfg r))
               in case ResolveInterfaces P E spec of
                    Inl err \<Rightarrow> (Some (spec, err), r\<lparr>tr_refs := tr_refs r - 1\<rparr>)
                  | Inr _ \<Rightarrow>
                      (let capCfg = (DefaultConfig ps)\<lparr>cfg_Interface := spec, EnableLogFeed := tr_logsConsumer r\<rparr>
                       in (None, r\<lparr>tr_cancel := True, tr_running := True, tr_forwarding := tr_logsConsumer r,
                                   tr_capture := Some capCfg\<rparr>))))"

definition receiver_Shutdown :: "trafficmonReceiver \<Rightarrow> trafficmonReceiver" where
  "receiver_Shutdown r =
     (let r = r\<lparr>tr_refs := tr_refs r - 1\<rparr>
      in if tr_refs r \<noteq> 0 \<or> \<not> tr_cancel r then r else r\<lparr>tr_running := False, tr_forwarding := False\<rparr>)"

text \<open>
  The factory: receivers live in a store, and \<open>instances\<close> maps the identity of a configuration to
  the receiver that its signals share.
\<close>

record factory =
  f_store :: "nat \<rightharpoonup> trafficmonReceiver"
  f_next :: nat
  f_instances :: "nat \<rightharpoonup> nat"

definition sharedReceiver :: "nat \<Rightarrow> ReceiverConfig \<Rightarrow> factory \<Rightarrow> nat \<times> factory" where
  "sharedReceiver cfgp cfg F =
     (case f_instances F cfgp of
        Some p \<Rightarrow> (p, F)
      | None \<Rightarrow> (f_next F, F\<lparr>f_store := (f_store F)(f_next F \<mapsto> newTrafficmonReceiver cfg), f_next := Suc (f_next F),
                            f_instances := (f_instances F)(cfgp \<mapsto> f_next F)\<rparr>))"

definition update_receiver :: "nat \<Rightarrow> (trafficmonReceiver \<Rightarrow> trafficmonReceiver) \<Rightarrow> factory \<Rightarrow> factory" where
  "update_receiver p g F = F\<lparr>f_store := (f_store F)(p := map_option g (f_store F p))\<rparr>"

definition createMetricsReceiver :: "nat \<Rightarrow> ReceiverConfig \<Rightarrow> factory \<Rightarrow> nat \<times> factory" where
  "createMetricsReceiver cfgp cfg F =
     (let (p, F) = sharedReceiver cfgp cfg F in (p, update_receiver p (\<lambda>r. r\<lparr>tr_metricsConsumer := True\<rparr>) F))"

definition createLogsReceiver :: "nat \<Rightarrow> ReceiverConfig \<Rightarrow> factory \<Rightarrow> nat \<times> factory" where
  "createLogsReceiver cfgp cfg F =
     (let (p, F) = sharedReceiver cfgp cfg F in (p, update_receiver p (\<lambda>r. r\<lparr>tr_logsConsumer := True\<rparr>) F))"

text \<open>\<open>sharedComponent.Shutdown\<close> of a component with the receiver \<open>p\<close> and the configuration \<open>cfgp\<close>.\<close>

definition sharedComponent_Shutdown :: "nat \<Rightarrow> nat \<Rightarrow> factory \<Rightarrow> factory" where
  "sharedComponent_Shutdown p cfgp F =
     (let F = update_receiver p receiver_Shutdown F
      in if (case f_store F p of Some r \<Rightarrow> tr_refs r = 0 | None \<Rightarrow> False)
         then F\<lparr>f_instances := (f_instances F)(cfgp := None)\<rparr> else F)"

text \<open>The calls of a receiver's signals, in the order the collector makes them.\<close>

datatype call = StartCall platform net_os | ShutdownCall

fun run_calls :: "parsers \<Rightarrow> call list \<Rightarrow> trafficmonReceiver \<Rightarrow> trafficmonReceiver" where
  "run_calls ps [] r = r"
| "run_calls ps (StartCall P E # cs) r = run_calls ps cs (snd (receiver_Start ps P E r))"
| "run_calls ps (ShutdownCall # cs) r = run_calls ps cs (receiver_Shutdown r)"

text \<open>
  A signal is shut down once after a start that succeeded: the number of signals that hold
  the receiver after the calls, or nothing if one is shut down that was not started.
\<close>

fun holders :: "string \<Rightarrow> call list \<Rightarrow> nat \<Rightarrow> nat option" where
  "holders spec [] n = Some n"
| "holders spec (StartCall P E # cs) n =
     (if n = 0 \<and> (case ResolveInterfaces P E spec of Inl _ \<Rightarrow> True | Inr _ \<Rightarrow> False) then holders spec cs 0 else holders spec cs (Suc n))"
| "holders spec (ShutdownCall # cs) n = (case n of 0 \<Rightarrow> None | Suc m \<Rightarrow> holders spec cs m)"

definition spec_of :: "trafficmonReceiver \<Rightarrow> string" where
  "spec_of r = (if rc_Interface (tr_cfg r) = '''' then Any else rc_Interface (tr_cfg r))"

definition lifecycle_inv :: "nat \<Rightarrow> trafficmonReceiver \<Rightarrow> bool" where
  "lifecycle_inv n r \<longleftrightarrow> tr_refs r = int n \<and> (tr_running r \<longleftrightarrow> 0 < n) \<and> (0 < n \<longrightarrow> tr_cancel r) \<and>
     (tr_forwarding r \<longrightarrow> tr_running r)"

lemma run_calls_inv:
  assumes "lifecycle_inv n r" and "holders (spec_of r) cs n = Some k"
  shows "lifecycle_inv k (run_calls ps cs r)"
  using assms
proof (induction cs arbitrary: n r)
  case (Cons c cs)
  show ?case
  proof (cases c)
    case (StartCall P E)
    define r' where "r' = snd (receiver_Start ps P E r)"
    have spec: "spec_of r' = spec_of r"
      by (auto simp: r'_def receiver_Start_def spec_of_def Let_def split: sum.split)
    define n' where "n' = (if n = 0 \<and> (case ResolveInterfaces P E (spec_of r) of Inl _ \<Rightarrow> True | Inr _ \<Rightarrow> False) then 0 else Suc n)"
    have "lifecycle_inv n' r'"
      using Cons.prems(1) by (auto simp: lifecycle_inv_def r'_def n'_def receiver_Start_def spec_of_def Let_def split: sum.split)
    moreover have "holders (spec_of r') cs n' = Some k"
      using Cons.prems(2) unfolding spec n'_def by (simp only: StartCall holders.simps if_distrib split: if_splits)
    ultimately show ?thesis using Cons.IH by (simp add: StartCall r'_def)
  next
    case ShutdownCall
    then obtain m where m: "n = Suc m" "holders (spec_of r) cs m = Some k"
      using Cons.prems(2) by (cases n) auto
    have "lifecycle_inv m (receiver_Shutdown r)"
      using Cons.prems(1) m(1) by (auto simp: lifecycle_inv_def receiver_Shutdown_def Let_def)
    moreover have "spec_of (receiver_Shutdown r) = spec_of r" by (simp add: receiver_Shutdown_def spec_of_def Let_def)
    ultimately show ?thesis using Cons.IH m(2) by (simp add: ShutdownCall)
  qed
qed simp

lemma failed_start:
  assumes "tr_refs r = 0" and "ResolveInterfaces P E (spec_of r) = Inl err"
  shows "receiver_Start ps P E r = (Some (spec_of r, err), r)"
  using assms by (cases r) (auto simp: receiver_Start_def spec_of_def Let_def split: if_splits)

text \<open>The signals of one configuration get one receiver, with both consumers set.\<close>

lemma signals_share:
  assumes "createMetricsReceiver cfgp cfg F = (p, F1)" and "createLogsReceiver cfgp cfg F1 = (q, F2)"
    and "f_instances F cfgp = None"
  shows "q = p" and "f_store F2 p = Some ((newTrafficmonReceiver cfg)\<lparr>tr_metricsConsumer := True, tr_logsConsumer := True\<rparr>)"
  using assms by (auto simp: createMetricsReceiver_def createLogsReceiver_def sharedReceiver_def update_receiver_def)


definition up :: net_os where
  "up = \<lparr>os_FindAllDevs = Some [''lo'', ''eth0''], os_runRoute = None, os_runRoute6 = None, os_InterfaceByName = \<lambda>_. None,
     os_InterfaceByIndex = \<lambda>_. None, os_Interfaces = None, os_adapters = None\<rparr>"

definition down :: net_os where "down = up\<lparr>os_FindAllDevs := None\<rparr>"

lemma up_down:
  "spec_of (newTrafficmonReceiver NewDefaultConfig) = Any"
  "ResolveInterfaces linux up Any = Inr [''lo'', ''eth0'']" "ResolveInterfaces linux down Any = Inl ErrFindAllDevs"
  by (simp_all add: spec_of_def newTrafficmonReceiver_def NewDefaultConfig_def ResolveInterfaces_def Any_def TrimSpace_def
      is_space_def ListInterfaces_def up_def down_def add_name_def ToLower_def lower_char_def Let_def)


text \<open>
  Two connections of one process to one peer are exported under the same attributes: the
  local port is not among them, so the two series of cumulative values are one to a backend.
\<close>

lemma local_port_not_exported:
  "dp_Attributes (io_data_point (r\<lparr>r_LocalPort := p, r_BytesInTotal := n\<rparr>) now (d, n)) = dp_Attributes (io_data_point r now (d, m))"
  by (simp add: io_data_point_def)

end
