(* ===== verification/Go_Float.thy ===== *)
theory Go_Float
  imports Prelude
begin

text \<open>
  The double-precision arithmetic that the terminal interface uses on non-negative numbers:
  conversion from integers, division and multiplication rounded to 53 bits, half to even,
  conversion back, and printing with one decimal. A number is a fraction of integers. The
  exponents that occur are far from the limits of the format.
\<close>

type_synonym f64 = "int \<times> int"

text \<open>The quotient of two integers rounded to the nearest, half to even.\<close>

definition round_div :: "int \<Rightarrow> int \<Rightarrow> int" where
  "round_div a b =
     (let q = a div b; r = a mod b
      in if 2 * r < b then q else if b < 2 * r then q + 1 else if even q then q else q + 1)"

text \<open>The largest power of two that is not greater.\<close>

function lead :: "int \<Rightarrow> int" where
  "lead n = (if n < 2 then 1 else 2 * lead (n div 2))"
  by auto
termination by (relation "measure nat") auto

declare lead.simps [simp del]

text \<open>
  Rounding to 53 bits: scaled by a power of two to lie between the 52nd and the 53rd power, the
  fraction is rounded to an integer and scaled back.
\<close>

definition fl :: "f64 \<Rightarrow> f64" where
  "fl x =
     (let (a, b) = x in
      if a \<le> 0 then (0, 1)
      else (let la = lead a; lb = lead b;
                k = (if a * lb < b * la then 9007199254740992 else 4503599627370496)
            in (round_div (a * lb * k) (b * la) * la, lb * k)))"

definition float64 :: "int \<Rightarrow> f64" where "float64 n = fl (n, 1)"
definition f_div :: "f64 \<Rightarrow> f64 \<Rightarrow> f64" where "f_div x y = fl (fst x * snd y, snd x * fst y)"
definition f_mul :: "f64 \<Rightarrow> f64 \<Rightarrow> f64" where "f_mul x y = fl (fst x * fst y, snd x * snd y)"
definition f_int :: "f64 \<Rightarrow> int" where "f_int x = fst x div snd x"

section \<open>Rounding\<close>

lemma div_ge_iff: "0 < b \<Longrightarrow> c \<le> a div b \<longleftrightarrow> c * b \<le> a" for a b c :: int
proof
  assume b: "0 < b" and "c \<le> a div b"
  then have "c * b \<le> a div b * b" by (intro mult_right_mono) simp_all
  also have "\<dots> \<le> a" using b div_mult_mod_eq [of a b] pos_mod_sign [of b a] by linarith
  finally show "c * b \<le> a" .
next
  assume b: "0 < b" and "c * b \<le> a"
  then have "c * b div b \<le> a div b" by (intro zdiv_mono1)
  with b show "c \<le> a div b" by simp
qed

lemma round_div_upper:
  assumes "0 < b" and "a \<le> c * b"
  shows "round_div a b \<le> c"
proof (cases "a = c * b")
  case True
  with assms(1) show ?thesis by (simp add: round_div_def Let_def)
next
  case False
  with assms have "\<not> c \<le> a div b" by (simp add: div_ge_iff)
  then show ?thesis by (simp add: round_div_def Let_def)
qed

lemma round_div_lower:
  assumes "0 < b" and "c * b \<le> a"
  shows "c \<le> round_div a b"
  using assms div_ge_iff [of b c a] by (simp add: round_div_def Let_def)

lemma round_div_exact: "0 < b \<Longrightarrow> round_div (q * b) b = q"
  by (rule antisym) (simp_all add: round_div_upper round_div_lower)

lemma lead_pos: "0 < lead n"
proof (induction n rule: lead.induct)
  case (1 n)
  then show ?case by (simp add: lead.simps [of n])
qed

lemma lead_le: "0 < n \<Longrightarrow> lead n \<le> n"
proof (induction n rule: lead.induct)
  case (1 n)
  show ?case
  proof (cases "n < 2")
    case False
    with 1 have "lead (n div 2) \<le> n div 2" by simp
    with False show ?thesis by (simp add: lead.simps [of n])
  qed (use 1 in \<open>simp add: lead.simps [of n]\<close>)
qed

lemma lead_gt: "0 < n \<Longrightarrow> n < 2 * lead n"
proof (induction n rule: lead.induct)
  case (1 n)
  show ?case
  proof (cases "n < 2")
    case False
    with 1 have "n div 2 < 2 * lead (n div 2)" by simp
    with False show ?thesis by (simp add: lead.simps [of n])
  qed (simp add: lead.simps [of n])
qed

lemma lead_power: "\<exists>j. lead n = 2 ^ j"
proof (induction n rule: lead.induct)
  case (1 n)
  then show ?case by (cases "n < 2") (auto simp: lead.simps [of n] intro: exI [of _ 0] exI [of _ "Suc _"])
qed

text \<open>Rounding does not cross a power of two.\<close>

lemma power2_less_imp: "(2 :: int) ^ p < 2 ^ q \<Longrightarrow> 2 * 2 ^ p \<le> (2 :: int) ^ q"
proof -
  assume "(2 :: int) ^ p < 2 ^ q"
  then have "p < q" by simp
  then have "(2 :: int) ^ Suc p \<le> 2 ^ q" by (intro power_increasing) simp_all
  then show ?thesis by simp
qed

lemma fl_snd_pos: "0 < snd (fl x)"
  by (auto simp: fl_def Let_def lead_pos split: prod.split)

lemma fl_upper:
  assumes "0 < b" and "a \<le> 2 ^ j * b"
  shows "fst (fl (a, b)) \<le> 2 ^ j * snd (fl (a, b))"
proof (cases "a \<le> 0")
  case False
  define la where "la = lead a"
  define lb where "lb = lead b"
  define K :: int where "K = 4503599627370496"
  have K: "0 < K" "9007199254740992 = 2 * K" "4503599627370496 = K" by (simp_all add: K_def)
  obtain p q where pq: "la = 2 ^ p" "lb = 2 ^ q" using lead_power [of a] lead_power [of b] by (auto simp: la_def lb_def)
  have l: "0 < la" "la \<le> a" "a < 2 * la" "0 < lb" "lb \<le> b" "b < 2 * lb"
    using lead_pos lead_le lead_gt assms(1) False by (simp_all add: la_def lb_def)
  have bla: "0 < b * la" using assms(1) l(1) by simp
  have alb: "a * lb \<le> 2 * (b * la)"
  proof -
    have "a * lb \<le> (2 * la) * b" using l assms(1) by (intro mult_mono) auto
    then show ?thesis by (simp add: mult.commute mult.left_commute)
  qed
  have two: "2 ^ p < (2 :: int) ^ (j + q) \<Longrightarrow> 2 * la \<le> 2 ^ j * lb"
    using power2_less_imp [of p "j + q"] by (simp add: pq power_add)
  show ?thesis
  proof (cases "a * lb < b * la")
    case True
    have m: "round_div (a * lb * (2 * K)) (b * la) \<le> 2 * K"
      using True K(1) bla mult_right_mono [of "a * lb" "b * la" "2 * K"] by (intro round_div_upper) (auto simp: mult.commute)
    have "la < 2 * (2 ^ j * lb)"
    proof -
      have "la \<le> 2 ^ j * b" using l(2) assms(2) by linarith
      also have "\<dots> < 2 ^ j * (2 * lb)" using l(6) by simp
      finally show ?thesis by (simp add: mult.left_commute)
    qed
    then have "(2 :: int) ^ p < 2 ^ Suc (j + q)" by (simp add: pq power_add)
    then have "(2 :: int) ^ p \<le> 2 ^ (j + q)" using power2_less_imp [of p "Suc (j + q)"] by simp
    then have "la \<le> 2 ^ j * lb" by (simp add: pq power_add)
    then have "round_div (a * lb * (2 * K)) (b * la) * la \<le> 2 * K * (2 ^ j * lb)"
      using m K(1) l(1) by (intro mult_mono) auto
    with True False show ?thesis
      by (simp add: fl_def Let_def la_def [symmetric] lb_def [symmetric] K) (simp add: algebra_simps)
  next
    case ge: False
    have "round_div (a * lb * K) (b * la) * la \<le> 2 ^ j * (lb * K)"
    proof (cases "la < 2 ^ j * lb")
      case True
      have "round_div (a * lb * K) (b * la) \<le> 2 * K"
        using alb K(1) bla mult_right_mono [of "a * lb" "2 * (b * la)" K] by (intro round_div_upper) (auto simp: algebra_simps)
      then have "round_div (a * lb * K) (b * la) * la \<le> 2 * K * la" using l(1) by simp
      also have "\<dots> = K * (2 * la)" by simp
      also have "\<dots> \<le> K * (2 ^ j * lb)" using two True K(1) by (simp add: pq power_add)
      finally show ?thesis by (simp add: algebra_simps)
    next
      case False
      have "a * lb \<le> 2 ^ j * b * lb" using assms(2) l(4) by simp
      also have "\<dots> = b * (2 ^ j * lb)" by simp
      also have "\<dots> \<le> b * la" using False assms(1) by simp
      finally have "a * lb = b * la" using ge by linarith
      then have eq: "round_div (a * lb * K) (b * la) = K" using round_div_exact [OF bla, of K] by (simp add: mult.commute)
      have "b * la \<le> b * (2 ^ j * lb)" using \<open>a * lb = b * la\<close> \<open>a * lb \<le> 2 ^ j * b * lb\<close> by (simp add: mult.left_commute mult.commute)
      then have "la \<le> 2 ^ j * lb" using assms(1) by simp
      then have "K * la \<le> K * (2 ^ j * lb)" using K(1) by simp
      then show ?thesis unfolding eq by (simp add: mult.left_commute mult.commute)
    qed
    with ge \<open>\<not> a \<le> 0\<close> show ?thesis
      by (simp add: fl_def Let_def la_def [symmetric] lb_def [symmetric] K)
  qed
qed (simp add: fl_def)

lemma fl_nonneg:
  assumes "0 < b"
  shows "0 \<le> fst (fl (a, b))"
proof (cases "a \<le> 0")
  case False
  have "0 \<le> round_div (a * lead b * k) (b * lead a)" if "0 < k" for k
    using False assms lead_pos [of a] lead_pos [of b] that by (intro round_div_lower) auto
  then show ?thesis using False lead_pos [of a] by (simp add: fl_def Let_def)
qed (simp add: fl_def)

text \<open>Integers that fit into 53 bits are exact.\<close>

lemma float64_exact:
  assumes "0 \<le> n" and "n < 9007199254740992"
  shows "fst (float64 n) = n * snd (float64 n)"
proof (cases "n = 0")
  case False
  define K :: int where "K = 4503599627370496"
  have n: "0 < n" using assms(1) False by simp
  have l1: "lead 1 = 1" by (simp add: lead.simps)
  obtain p where p: "lead n = 2 ^ p" using lead_power by blast
  have "(2 :: int) ^ p < 2 ^ 53" using lead_le [OF n] assms(2) by (simp add: p)
  then have "p < 53" by (rule power_less_imp_less_exp [rotated]) simp
  then have "p \<le> 52" by simp
  then have "(2 :: int) ^ p dvd 2 ^ 52" by (rule le_imp_power_dvd)
  then have "lead n dvd n * K" by (simp add: p K_def)
  then have "round_div (n * K) (lead n) * lead n = n * K"
    using round_div_exact [OF lead_pos, of "n * K div lead n" n] by simp
  then show ?thesis using n lead_le [OF n] by (simp add: float64_def fl_def Let_def l1 K_def)
qed (simp add: float64_def fl_def)

end
