(* ===== verification/Tui_Format.thy ===== *)
theory Tui_Format
  imports Complex_Main Go_Float Go_Text Go_Time
begin

text \<open>
  The formatting of the terminal interface, \<^verbatim>\<open>src/cmd/trafficmon/internal/tui/format.go\<close>. Text is a list
  of runes. How many cells a text takes on the screen is a function of the styling library,
  so it is a parameter \<open>W\<close>; what the layout relies on is stated where it is used. The theory
  shows that a padded cell has exactly its width, that truncating keeps the right end of the
  text, and that the byte counts fit their columns.
\<close>

type_synonym rune = nat
type_synonym rtext = "rune list"

definition runes :: "string \<Rightarrow> rtext" where "runes s = map of_char s"
definition blank :: rune where "blank = 32"
definition ellipsis :: rune where "ellipsis = 0x2026"

datatype alignment = alignLeft | alignRight

section \<open>Truncating and padding\<close>

fun keep_runes :: "(rtext \<Rightarrow> nat) \<Rightarrow> int \<Rightarrow> nat \<Rightarrow> rtext \<Rightarrow> rtext" where
  "keep_runes W budget used [] = []"
| "keep_runes W budget used (r # rs) =
     (let rw = W [r] in if budget < int (used + rw) then [] else r # keep_runes W budget (used + rw) rs)"

definition truncateSide :: "(rtext \<Rightarrow> nat) \<Rightarrow> rtext \<Rightarrow> int \<Rightarrow> bool \<Rightarrow> rtext" where
  "truncateSide W s w left =
     (if w \<le> 0 then []
      else if int (W s) \<le> w then s
      else if w = 1 then [ellipsis]
      else (let rs = (if left then rev s else s);
                kept = keep_runes W (w - 1) 0 rs
            in if left then ellipsis # rev kept else kept @ [ellipsis]))"

definition truncate_text :: "(rtext \<Rightarrow> nat) \<Rightarrow> rtext \<Rightarrow> int \<Rightarrow> rtext" where
  "truncate_text W s w = truncateSide W s w False"

definition truncateLeft :: "(rtext \<Rightarrow> nat) \<Rightarrow> rtext \<Rightarrow> int \<Rightarrow> rtext" where
  "truncateLeft W s w = truncateSide W s w True"

definition pad :: "(rtext \<Rightarrow> nat) \<Rightarrow> rtext \<Rightarrow> int \<Rightarrow> alignment \<Rightarrow> bool \<Rightarrow> rtext" where
  "pad W s w a truncLeft =
     (let s = (if truncLeft then truncateLeft W s w else truncate_text W s w);
          gap = w - int (W s)
      in if gap \<le> 0 then s
         else if a = alignRight then replicate (nat gap) blank @ s
         else s @ replicate (nat gap) blank)"

section \<open>Numbers\<close>

text \<open>\<^verbatim>\<open>%.1f\<close> rounds the exact value to one decimal, half to even.\<close>

definition print_1f :: "f64 \<Rightarrow> string" where
  "print_1f x = (let t = round_div (10 * fst x) (snd x) in Itoa (t div 10) @ ''.'' @ Itoa (t mod 10))"

function human_loop :: "u64 \<Rightarrow> u64 \<Rightarrow> nat \<Rightarrow> u64 \<times> nat" where
  "human_loop v d e = (if 1024 \<le> v then human_loop (v div 1024) (d * 1024) (Suc e) else (d, e))"
  by auto
termination
proof (relation "measure (\<lambda>(v, d, e). unat v)")
  show "((v div 1024, d * 1024, Suc e), (v, d, e)) \<in> measure (\<lambda>(v, d, e). unat v)" if "1024 \<le> v" for v d :: u64 and e
  proof -
    have "1024 \<le> unat v" using that by (simp add: word_le_nat_alt)
    then show ?thesis by (simp add: unat_div)
  qed
qed simp

declare human_loop.simps [simp del]

text \<open>The unit letter is read out of a string by index.\<close>

definition humanBytes :: "u64 \<Rightarrow> string" where
  "humanBytes n =
     (if n < 1024 then Itoa (uint n) @ '' B''
      else (let (d, e) = human_loop (n div 1024) 1024 0
            in print_1f (f_div (float64 (uint n)) (float64 (uint d))) @ '' '' @ [''KMGTPE'' ! e] @ ''B''))"

text \<open>
  Rates are real numbers here, so there is no NaN; converting one that is not negative to an
  unsigned integer drops the fraction.
\<close>

definition humanRate :: "real \<Rightarrow> string" where
  "humanRate bps = (let bps = (if bps < 0 then 0 else bps) in humanBytes (of_int \<lfloor>bps\<rfloor>) @ ''/s'')"

definition minute :: duration where "minute = 60 * second"
definition hour :: duration where "hour = 60 * minute"

text \<open>\<^verbatim>\<open>%02d\<close>.\<close>

definition print_02d :: "int \<Rightarrow> string" where
  "print_02d n = (if 0 \<le> n \<and> n < 10 then ''0'' @ Itoa n else Itoa n)"

definition humanDuration :: "duration \<Rightarrow> string" where
  "humanDuration d =
     (let d = (if d < 0 then 0 else d)
      in if d < minute then Itoa (d div second) @ ''s''
         else if d < hour then Itoa (d div minute) @ ''m''
         else if d < 24 * hour then Itoa (d div hour) @ ''h'' @ print_02d (d div minute mod 60) @ ''m''
         else Itoa (d div (24 * hour)) @ ''d'' @ print_02d (d div hour mod 24) @ ''h'')"

section \<open>Cells\<close>

text \<open>
  What the layout relies on of the width of text: it adds up, and a blank and the ellipsis take
  one cell.
\<close>

definition width_ok :: "(rtext \<Rightarrow> nat) \<Rightarrow> bool" where
  "width_ok W \<longleftrightarrow> (\<forall>s t. W (s @ t) = W s + W t) \<and> W [blank] = 1 \<and> W [ellipsis] = 1"

lemma width_simps:
  assumes "width_ok W"
  shows "W [] = 0" and "W (s @ t) = W s + W t" and "W (r # s) = W [r] + W s" and "W (replicate n blank) = n" and "W (rev s) = W s"
proof -
  have app: "W (s @ t) = W s + W t" for s t using assms by (simp add: width_ok_def)
  show nil: "W [] = 0" using app [of "[]" "[]"] by simp
  show cons: "W (r # s) = W [r] + W s" for r s using app [of "[r]" s] by simp
  show "W (s @ t) = W s + W t" by (rule app)
  show "W (replicate n blank) = n" using assms by (induction n) (simp_all add: nil cons [of blank "replicate _ _"] width_ok_def)
  show "W (rev s) = W s"
  proof (induction s)
    case (Cons r s)
    then show ?case by (simp add: app cons [of r s])
  qed (simp add: nil)
qed

lemma keep_runes_width:
  assumes "width_ok W" and "int used \<le> budget"
  shows "int (used + W (keep_runes W budget used rs)) \<le> budget"
  using assms(2)
proof (induction rs arbitrary: used)
  case (Cons r rs)
  show ?case
  proof (cases "budget < int (used + W [r])")
    case False
    with Cons.IH [of "used + W [r]"] show ?thesis
      by (simp add: width_simps(3) [OF assms(1), of r "keep_runes W budget (used + W [r]) rs"] Let_def)
  qed (use Cons.prems width_simps(1) [OF assms(1)] in \<open>simp add: Let_def\<close>)
qed (use width_simps(1) [OF assms(1)] in simp)

lemma keep_runes_prefix: "\<exists>k. keep_runes W budget used rs = take k rs"
proof (induction rs arbitrary: used)
  case (Cons r rs)
  obtain k where "keep_runes W budget (used + W [r]) rs = take k rs" using Cons by blast
  then have "keep_runes W budget used (r # rs) = take (if budget < int (used + W [r]) then 0 else Suc k) (r # rs)"
    by (simp add: Let_def)
  then show ?case by blast
qed simp

lemma truncateSide_width:
  assumes "width_ok W" and "0 \<le> w"
  shows "int (W (truncateSide W s w left)) \<le> w"
proof -
  have keep: "1 < w \<Longrightarrow> 1 + int (W (keep_runes W (w - 1) 0 rs)) \<le> w" for rs
    using keep_runes_width [OF assms(1), of 0 "w - 1" rs] by simp
  have "W [ellipsis] = 1" using assms(1) by (simp add: width_ok_def)
  then show ?thesis
    using assms(2) keep [of s] keep [of "rev s"]
    by (auto simp: truncateSide_def Let_def width_simps(1,2,5) [OF assms(1)] not_le
        width_simps(3) [OF assms(1), of ellipsis "rev (keep_runes W (w - 1) 0 (rev s))"])
qed

text \<open>A text that is cut keeps one of its ends, and the ellipsis stands for the rest.\<close>

lemma truncateSide_keeps:
  assumes "1 < w"
  shows "truncateSide W s w left = s \<or>
    (\<exists>k. truncateSide W s w left = (if left then ellipsis # drop k s else take k s @ [ellipsis]))"
proof -
  obtain k where k: "keep_runes W (w - 1) 0 (if left then rev s else s) = take k (if left then rev s else s)"
    using keep_runes_prefix by blast
  then show ?thesis
    using assms by (cases left) (auto simp: truncateSide_def Let_def rev_take intro: exI [of _ k] exI [of _ "length s - k"])
qed

lemma pad_parts:
  assumes "width_ok W" and "0 \<le> w"
  defines "t s left \<equiv> if left then truncateLeft W s w else truncate_text W s w"
  shows "\<exists>g. int g = w - int (W (t s left)) \<and>
    pad W s w a left = (if a = alignRight then replicate g blank @ t s left else t s left @ replicate g blank)"
proof -
  have "int (W (t s left)) \<le> w" using truncateSide_width [OF assms(1,2)] by (simp add: t_def truncateLeft_def truncate_text_def)
  then show ?thesis
    by (intro exI [of _ "nat (w - int (W (t s left)))"]) (auto simp: pad_def t_def Let_def)
qed

lemma pad_width: "width_ok W \<Longrightarrow> 0 \<le> w \<Longrightarrow> int (W (pad W s w a left)) = w"
  using pad_parts [where W = W and w = w and s = s and left = left and a = a] by (auto simp: width_simps(2,4))

lemma pad_fitting:
  assumes "int (W s) \<le> w \<and> 0 < w"
  shows "\<exists>l r. pad W s w a left = replicate l blank @ s @ replicate r blank"
proof -
  have "(if left then truncateLeft W s w else truncate_text W s w) = s"
    using assms by (simp add: truncateLeft_def truncate_text_def truncateSide_def)
  then show ?thesis by (simp add: pad_def Let_def) (metis append_Nil append_Nil2 replicate_0)
qed

text \<open>
  A cell has exactly the width of its column, whatever its text: when widths add up, and
  blanks and the ellipsis take one cell, padding gives a text of exactly the width asked
  for; a text that fits is in it unchanged.
\<close>

theorem pad_exact:
  assumes "width_ok W" and "0 \<le> w"
  shows "int (W (pad W s w a left)) = w \<and>
    (int (W s) \<le> w \<and> 0 < w \<longrightarrow> (\<exists>l r. pad W s w a left = replicate l blank @ s @ replicate r blank))"
  using pad_width [OF assms] pad_fitting [of W s w a left] by blast

theorem pad_exact_witness:
  "length (pad length (runes ''ESTABLISHED'') 6 alignRight True) = 6 \<and> pad length (runes ''443'') 6 alignRight True = runes ''   443''"
proof -
  have ok: "width_ok length" by (simp add: width_ok_def)
  have "pad length (runes ''443'') 6 alignRight True = runes ''   443''"
    by (simp add: pad_def truncateLeft_def truncateSide_def runes_def blank_def numeral_eq_Suc)
  then show ?thesis using pad_exact [OF ok, of 6 "runes ''ESTABLISHED''" alignRight True] by simp
qed

section \<open>Widths of numbers\<close>

lemma dec_digits_length: "0 < k \<Longrightarrow> n < 10 ^ k \<Longrightarrow> length (dec_digits n) \<le> k"
proof (induction n arbitrary: k rule: dec_digits.induct)
  case (1 n)
  show ?case
  proof (cases "n < 10")
    case False
    with 1(3) obtain j where j: "k = Suc j" "0 < j" using 1(2) by (cases k; cases "k - 1") auto
    then have "n div 10 < 10 ^ j" using 1(3) by (simp add: less_mult_imp_div_less mult.commute)
    with 1(1) [OF False j(2)] False j(1) show ?thesis by (simp add: dec_digits.simps [of n])
  qed (use 1(2) in \<open>simp add: dec_digits.simps [of n]\<close>)
qed

lemma Itoa_length: "0 \<le> i \<Longrightarrow> 0 < k \<Longrightarrow> i < 10 ^ k \<Longrightarrow> length (Itoa i) \<le> k"
  using dec_digits_length [of k "nat i"] by (simp add: Itoa_def nat_less_iff)

lemma print_1f_length:
  assumes "0 \<le> fst x" and "0 < snd x" and "fst x \<le> 1024 * snd x"
  shows "length (print_1f x) \<le> 6"
proof -
  define t where "t = round_div (10 * fst x) (snd x)"
  have "0 \<le> t" "t \<le> 10240"
    unfolding t_def using assms by (auto intro: round_div_lower round_div_upper)
  then have "length (Itoa (t div 10)) \<le> 4" "length (Itoa (t mod 10)) \<le> 1" by (auto intro: Itoa_length)
  then show ?thesis by (simp add: print_1f_def t_def [symmetric] Let_def)
qed

lemma human_loop_result:
  assumes "unat v = n div 1024 ^ Suc e" and "unat d = 1024 ^ Suc e" and "1024 ^ Suc e \<le> n" and "n < 2 ^ 64"
    and "human_loop v d e = (d', e')"
  shows "unat d' = 1024 ^ Suc e' \<and> n < 1024 * 1024 ^ Suc e' \<and> 1024 ^ Suc e' \<le> n"
  using assms
proof (induction v d e rule: human_loop.induct)
  case (1 v d e)
  show ?case
  proof (cases "1024 \<le> v")
    case True
    have "1024 \<le> n div 1024 ^ Suc e" using True 1(2) by (simp add: word_le_nat_alt)
    then have "1024 * 1024 ^ Suc e \<le> n" by (simp add: less_eq_div_iff_mult_less_eq)
    then have n: "1024 ^ Suc (Suc e) \<le> n" by simp
    have "1024 * unat d < 2 ^ 64" using \<open>1024 * 1024 ^ Suc e \<le> n\<close> 1(3,5) by simp
    then have d: "unat (d * 1024) = 1024 ^ Suc (Suc e)" using 1(3) by (simp add: unat_word_ariths mult.commute)
    have v: "unat (v div 1024) = n div 1024 ^ Suc (Suc e)"
      using 1(2) by (simp add: unat_div div_mult2_eq [symmetric] mult.commute)
    show ?thesis using 1(1) [OF True v d n 1(5)] 1(6) True by (simp add: human_loop.simps [of v d e])
  next
    case False
    then have "n div 1024 ^ Suc e < 1024" using 1(2) by (simp add: word_le_nat_alt)
    then have "n < 1024 * 1024 ^ Suc e" by (simp add: div_less_iff_less_mult)
    with False 1 show ?thesis by (auto simp: human_loop.simps [of v d e])
  qed
qed

lemma float64_power: "float64 (2 ^ j) = (4503599627370496 * 2 ^ j, 4503599627370496)"
proof -
  obtain p where p: "lead (2 ^ j) = 2 ^ p" using lead_power by blast
  have le: "(2 :: int) ^ p \<le> 2 ^ j" and less: "(2 :: int) ^ j < 2 ^ Suc p"
    using lead_le [of "2 ^ j"] lead_gt [of "2 ^ j"] by (simp_all add: p)
  from le have "p \<le> j" by simp
  moreover from less have "j < Suc p" by (rule power_less_imp_less_exp [rotated]) simp
  ultimately have l: "lead (2 ^ j) = 2 ^ j" using p by simp
  have l1: "lead 1 = 1" by (simp add: lead.simps)
  show ?thesis
    using round_div_exact [of "2 ^ j" 4503599627370496]
    by (simp add: float64_def fl_def l l1 Let_def mult.commute)
qed

lemma human_bytes_unit:
  assumes "1024 \<le> n" and "human_loop (n div 1024) 1024 0 = (d, e)"
  shows "e < 6" and "length (print_1f (f_div (float64 (uint n)) (float64 (uint d)))) \<le> 6"
proof -
  have n: "unat n < 2 ^ 64" using unsigned_less [where ?'a = nat, of n] by simp
  have n1: "1024 ^ Suc 0 \<le> unat n" using assms(1) by (simp add: word_le_nat_alt)
  have r: "unat d = 1024 ^ Suc e" "unat n < 1024 * 1024 ^ Suc e" "1024 ^ Suc e \<le> unat n"
    using human_loop_result [of "n div 1024" "unat n" 0 1024 d e, OF _ _ n1 n assms(2)] by (simp_all add: unat_div)
  have pow: "(1024 :: nat) ^ k = 2 ^ (10 * k)" for k by (simp add: power_mult)
  have "(2 :: nat) ^ (10 * Suc e) < 2 ^ 64" using r(3) n unfolding pow by linarith
  then have "10 * Suc e < 64" by (rule power_less_imp_less_exp [rotated]) simp
  then show "e < 6" by simp
  define j where "j = 10 * Suc e"
  have ud: "uint d = 2 ^ j" using r(1) unfolding pow j_def by (metis of_nat_numeral of_nat_power uint_nat)
  have "uint n \<le> 2 ^ (j + 10) * 1"
  proof -
    have "int (unat n) \<le> int (1024 * 2 ^ j)" using r(2) unfolding pow j_def by linarith
    then show ?thesis by (simp add: power_add)
  qed
  from fl_upper [OF _ this] have x: "fst (float64 (uint n)) \<le> 2 ^ (j + 10) * snd (float64 (uint n))" by (simp add: float64_def)
  define x where "x = float64 (uint n)"
  have sx: "0 < snd x" by (simp add: x_def float64_def fl_snd_pos)
  define a where "a = fst x * 4503599627370496"
  define b where "b = snd x * (4503599627370496 * 2 ^ j)"
  have q: "f_div x (float64 (uint d)) = fl (a, b)" by (simp add: f_div_def ud float64_power a_def b_def)
  have "0 < b" using sx by (simp add: b_def)
  moreover have "a \<le> 2 ^ 10 * b" using x by (simp add: a_def b_def x_def power_add mult.commute mult.left_commute)
  ultimately show "length (print_1f (f_div (float64 (uint n)) (float64 (uint d)))) \<le> 6"
    using fl_upper [of b a 10] fl_nonneg [of b a] fl_snd_pos [of "(a, b)"]
    unfolding x_def [symmetric] q by (intro print_1f_length) auto
qed

text \<open>
  Byte counts and rates fit their columns. For every 64-bit count, the unit letter is read
  within the six letters there are, the text of the count has at most the 9 characters of its
  column, and the text of a rate at most the 11 of its own.
\<close>

theorem human_numbers_fit:
  "snd (human_loop (n div 1024) 1024 0) < 6 \<and> length (humanBytes n) \<le> 9 \<and> length (humanRate r) \<le> 11"
proof -
  have small: "length (Itoa (uint n)) \<le> 4" if "n < 1024" for n :: u64
    using that Itoa_length [of "uint n" 4] by (simp add: word_less_def)
  have fit: "length (humanBytes n) \<le> 9" for n
    using small [of n] human_bytes_unit [of n] by (auto simp: humanBytes_def split: prod.split)
  have "snd (human_loop (n div 1024) 1024 0) < 6"
  proof (cases "1024 \<le> n")
    case True
    then show ?thesis using human_bytes_unit(1) [of n] by (metis prod.collapse)
  next
    case False
    then have "unat n < 1024" by (simp add: word_le_nat_alt)
    then have "n div 1024 = 0" by (intro unsigned_word_eqI [where ?'a = nat]) (simp add: unat_div)
    then show ?thesis by (simp add: human_loop.simps)
  qed
  with fit show ?thesis by (simp add: humanRate_def Let_def)
qed

end
