(* ===== verification/Tui_Table.thy ===== *)
theory Tui_Table
  imports Rows Tui_Format
begin

text \<open>
  The table of the terminal interface, \<^verbatim>\<open>src/cmd/trafficmon/internal/tui/table.go\<close>: the order of the
  rows, the columns of each grouping, how columns are dropped and widened to fit the terminal,
  and the lines that are drawn. The theory shows that sorting is a stable sort by the chosen
  numbers, that the loop that fits the columns ends and drops columns by priority only, and
  that from 82 cells on every line fills the width exactly.
\<close>

section \<open>Sorting\<close>

type_synonym SortKey = u8

definition SortRate :: SortKey where "SortRate = 0"
definition SortTotal :: SortKey where "SortTotal = 1"
definition SortPID :: SortKey where "SortPID = 2"
definition numSortKeys :: SortKey where "numSortKeys = 3"

definition SortKey_next :: "SortKey \<Rightarrow> SortKey" where
  "SortKey_next k = (k + 1) mod numSortKeys"

definition toggleRate :: "SortKey \<Rightarrow> SortKey" where
  "toggleRate k = (if k = SortRate then SortTotal else SortRate)"

definition SortKey_String :: "SortKey \<Rightarrow> string" where
  "SortKey_String k = (if k = SortTotal then ''total'' else if k = SortPID then ''pid'' else ''rate'')"

text \<open>\<^verbatim>\<open>sort.SliceStable\<close>: an insertion sort that keeps equal elements in their order.\<close>

fun insert_stable :: "('a \<Rightarrow> 'a \<Rightarrow> bool) \<Rightarrow> 'a \<Rightarrow> 'a list \<Rightarrow> 'a list" where
  "insert_stable before x [] = [x]"
| "insert_stable before x (y # ys) = (if before y x then y # insert_stable before x ys else x # y # ys)"

definition SliceStable :: "('a \<Rightarrow> 'a \<Rightarrow> bool) \<Rightarrow> 'a list \<Rightarrow> 'a list" where
  "SliceStable before xs = foldr (insert_stable before) xs []"

definition row_before :: "SortKey \<Rightarrow> Row \<Rightarrow> Row \<Rightarrow> bool" where
  "row_before k a b =
     (if k = SortTotal then w_BytesInTotal b + w_BytesOutTotal b < w_BytesInTotal a + w_BytesOutTotal a
      else if k = SortPID then sint (w_PID a) < sint (w_PID b)
      else w_RateInBps b + w_RateOutBps b < w_RateInBps a + w_RateOutBps a)"

definition sortRows :: "Row list \<Rightarrow> SortKey \<Rightarrow> Row list" where
  "sortRows rows k = SliceStable (row_before k) rows"

section \<open>Columns\<close>

definition prioHostname :: nat where "prioHostname = 0"
definition prioIface :: nat where "prioIface = 1"
definition prioState :: nat where "prioState = 2"
definition prioProto :: nat where "prioProto = 3"
definition prioAge :: nat where "prioAge = 4"
definition prioConnections :: nat where "prioConnections = 5"
definition prioPID :: nat where "prioPID = 6"
definition prioEssential :: nat where "prioEssential = 7"

definition colGap :: int where "colGap = 2"
definition minLabelWidth :: int where "minLabelWidth = 10"
definition rateWidth :: int where "rateWidth = 11"
definition totalWidth :: int where "totalWidth = 9"
definition pidWidth :: int where "pidWidth = 6"
definition connWidth :: int where "connWidth = 5"
definition stateWidth :: int where "stateWidth = 11"
definition protoWidth :: int where "protoWidth = 5"
definition ageWidth :: int where "ageWidth = 7"
definition table_dnsPort :: u16 where "table_dnsPort = 53"
definition defaultWidth :: int where "defaultWidth = 100"
definition sortMarker :: rune where "sortMarker = 0x25BE"

record column =
  col_title :: rtext
  col_width :: int
  col_align :: alignment
  col_prio :: nat
  col_cell :: "Row \<Rightarrow> rtext"
  col_flex :: bool
  col_sortable :: bool
  col_sortKey :: SortKey
  col_truncLeft :: bool

definition flex_column :: "string \<Rightarrow> nat \<Rightarrow> (Row \<Rightarrow> string) \<Rightarrow> column" where
  "flex_column title prio cell = \<lparr>col_title = runes title, col_width = 0, col_align = alignLeft, col_prio = prio,
     col_cell = (\<lambda>r. runes (cell r)), col_flex = True, col_sortable = False, col_sortKey = SortRate, col_truncLeft = False\<rparr>"

definition localColumn :: "(Row \<Rightarrow> string) \<Rightarrow> column" where
  "localColumn cell = flex_column ''LOCAL'' prioEssential cell"

definition remoteColumn :: column where
  "remoteColumn = flex_column ''REMOTE'' prioEssential (\<lambda>r. JoinHostPort (w_RemoteAddr r) (Itoa (uint (w_RemotePort r))))"

definition hostnameColumn :: "(Row \<Rightarrow> string) \<Rightarrow> column" where
  "hostnameColumn host = flex_column ''HOSTNAME'' prioHostname host"

definition ifaceColumn :: column where
  "ifaceColumn = flex_column ''IFACE'' prioIface w_Iface"

definition pidColumn :: column where
  "pidColumn = \<lparr>col_title = runes ''PID'', col_width = pidWidth, col_align = alignRight, col_prio = prioPID,
     col_cell = (\<lambda>r. runes (if w_PID r = 0 then ''-'' else Itoa (sint (w_PID r)))), col_flex = False, col_sortable = True,
     col_sortKey = SortPID, col_truncLeft = True\<rparr>"

definition protoLabel :: "Row \<Rightarrow> string" where
  "protoLabel r =
     (if (w_Proto r = ''tcp'' \<or> w_Proto r = ''udp'') \<and> (w_LocalPort r = table_dnsPort \<or> w_RemotePort r = table_dnsPort) then ''DNS''
      else ToUpper (w_Proto r))"

definition connColumn :: column where
  "connColumn = \<lparr>col_title = runes ''CONN'', col_width = connWidth, col_align = alignRight, col_prio = prioConnections,
     col_cell = (\<lambda>r. runes (Itoa (w_Connections r))), col_flex = False, col_sortable = False, col_sortKey = SortRate,
     col_truncLeft = True\<rparr>"

definition ageColumn :: "time \<Rightarrow> column" where
  "ageColumn now = \<lparr>col_title = runes ''AGE'', col_width = ageWidth, col_align = alignRight, col_prio = prioAge,
     col_cell = (\<lambda>r. runes (if IsZero (w_FirstSeen r) then ''-'' else humanDuration (time_Sub now (w_FirstSeen r)))),
     col_flex = False, col_sortable = False, col_sortKey = SortRate, col_truncLeft = False\<rparr>"

definition number_column :: "rune \<Rightarrow> string \<Rightarrow> int \<Rightarrow> (Row \<Rightarrow> string) \<Rightarrow> SortKey \<Rightarrow> column" where
  "number_column arrow title width cell k = \<lparr>col_title = arrow # runes ('' '' @ title), col_width = width, col_align = alignRight,
     col_prio = prioEssential, col_cell = (\<lambda>r. runes (cell r)), col_flex = False, col_sortable = True, col_sortKey = k,
     col_truncLeft = False\<rparr>"

definition rateTotalColumns :: "column list" where
  "rateTotalColumns =
     [number_column 0x2193 ''RATE'' rateWidth (\<lambda>r. humanRate (w_RateInBps r)) SortRate,
      number_column 0x2191 ''RATE'' rateWidth (\<lambda>r. humanRate (w_RateOutBps r)) SortRate,
      number_column 0x2193 ''TOTAL'' totalWidth (\<lambda>r. humanBytes (w_BytesInTotal r)) SortTotal,
      number_column 0x2191 ''TOTAL'' totalWidth (\<lambda>r. humanBytes (w_BytesOutTotal r)) SortTotal]"

text \<open>\<open>host\<close> is there or not, as the function value may be nil.\<close>

definition hostname_columns :: "(Row \<Rightarrow> string) option \<Rightarrow> column list" where
  "hostname_columns host = (case host of None \<Rightarrow> [] | Some h \<Rightarrow> [hostnameColumn h])"

definition groupByPIDColumns :: "(Row \<Rightarrow> string) option \<Rightarrow> column list" where
  "groupByPIDColumns host =
     [localColumn w_LocalAddr, remoteColumn] @ hostname_columns host @ [ifaceColumn, pidColumn, connColumn]"

definition groupByProcessNameColumns :: "(Row \<Rightarrow> string) option \<Rightarrow> column list" where
  "groupByProcessNameColumns host = [remoteColumn] @ hostname_columns host @ [ifaceColumn, connColumn]"

definition ungroupedColumns :: "(Row \<Rightarrow> string) option \<Rightarrow> column list" where
  "ungroupedColumns host =
     [localColumn (\<lambda>r. JoinHostPort (w_LocalAddr r) (Itoa (uint (w_LocalPort r)))), remoteColumn] @ hostname_columns host @
     [ifaceColumn,
      \<lparr>col_title = runes ''PROTO'', col_width = protoWidth, col_align = alignLeft, col_prio = prioProto,
       col_cell = (\<lambda>r. runes (protoLabel r)), col_flex = False, col_sortable = False, col_sortKey = SortRate, col_truncLeft = False\<rparr>,
      pidColumn,
      \<lparr>col_title = runes ''STATE'', col_width = stateWidth, col_align = alignLeft, col_prio = prioState,
       col_cell = (\<lambda>r. runes (w_State r)), col_flex = False, col_sortable = False, col_sortKey = SortRate, col_truncLeft = False\<rparr>]"

definition tableColumns :: "Grouping \<Rightarrow> (Row \<Rightarrow> string) option \<Rightarrow> time \<Rightarrow> column list" where
  "tableColumns g host now =
     [flex_column ''PROCESS'' prioEssential w_Label] @
     (if g = GroupByPID then groupByPIDColumns host
      else if g = GroupByProcessName then groupByProcessNameColumns host
      else ungroupedColumns host) @
     [ageColumn now] @ rateTotalColumns"

section \<open>Fitting the columns\<close>

fun share_loop :: "int \<Rightarrow> int \<Rightarrow> column list \<Rightarrow> column list" where
  "share_loop each extra [] = []"
| "share_loop each extra (c # cs) =
     (if \<not> col_flex c then c # share_loop each extra cs
      else if 0 < extra then c\<lparr>col_width := each + extra\<rparr> # share_loop each 0 cs
      else c\<lparr>col_width := each\<rparr> # share_loop each extra cs)"

definition shareFlex :: "column list \<Rightarrow> int \<Rightarrow> int \<Rightarrow> column list" where
  "shareFlex cols spare flex =
     (if flex \<le> 0 then cols
      else (let each = max (quot spare flex) minLabelWidth; extra = spare - each * flex in share_loop each extra cols))"

text \<open>The loop of \<open>dropLowest\<close> over the columns: the index and the priority of the victim so far.\<close>

fun find_victim :: "nat \<Rightarrow> column list \<Rightarrow> (nat \<times> nat) option \<Rightarrow> (nat \<times> nat) option" where
  "find_victim i [] v = v"
| "find_victim i (c # cs) v =
     find_victim (Suc i) cs
       (if col_prio c = prioEssential then v
        else case v of
          None \<Rightarrow> Some (i, col_prio c)
        | Some (j, p) \<Rightarrow> if col_prio c < p then Some (i, col_prio c) else v)"

definition dropLowest :: "column list \<Rightarrow> column list option" where
  "dropLowest cols =
     (case find_victim 0 cols None of None \<Rightarrow> None | Some (i, _) \<Rightarrow> Some (take i cols @ drop (Suc i) cols))"

definition tableWidth :: "column list \<Rightarrow> int" where
  "tableWidth cols = (int (length cols) - 1) * colGap + sum_list (map col_width cols)"

definition flex_count :: "column list \<Rightarrow> int" where
  "flex_count cols = int (length (filter col_flex cols))"

lemma find_victim_bound:
  "find_victim i cs v = Some (j, p) \<Longrightarrow> v = Some (j, p) \<or> i \<le> j \<and> j < i + length cs"
proof (induction i cs v rule: find_victim.induct)
  case (2 i c cs v)
  from 2(1) [OF 2(2) [unfolded find_victim.simps]] show ?case
    by (auto split: if_splits option.splits)
qed simp

lemma dropLowest_length: "dropLowest cols = Some cols' \<Longrightarrow> length cols = Suc (length cols')"
  by (auto simp: dropLowest_def dest!: find_victim_bound split: option.splits)

function fit_loop :: "int \<Rightarrow> column list \<Rightarrow> column list" where
  "fit_loop width cols =
     (let spare = width - tableWidth cols; flex = flex_count cols
      in if minLabelWidth * flex \<le> spare then shareFlex cols spare flex
         else case dropLowest cols of
           None \<Rightarrow> shareFlex cols spare flex
         | Some cols' \<Rightarrow> fit_loop width cols')"
  by auto
termination by (relation "measure (\<lambda>(w, cols). length cols)") (auto dest: dropLowest_length)

declare fit_loop.simps [simp del]

definition fitColumns :: "column list \<Rightarrow> int \<Rightarrow> column list" where
  "fitColumns cols width = fit_loop (if width \<le> 0 then defaultWidth else width) cols"

section \<open>Lines\<close>

fun join_text :: "rtext list \<Rightarrow> rtext \<Rightarrow> rtext" where
  "join_text [] sep = []"
| "join_text [s] sep = s"
| "join_text (s # t # ts) sep = s @ sep @ join_text (t # ts) sep"

definition tableHeader :: "(rtext \<Rightarrow> nat) \<Rightarrow> column list \<Rightarrow> SortKey \<Rightarrow> rtext" where
  "tableHeader W cols k =
     join_text (map (\<lambda>c. pad W (if col_sortable c \<and> col_sortKey c = k then sortMarker # col_title c else col_title c)
         (col_width c) (col_align c) (col_truncLeft c)) cols)
       (replicate (nat colGap) blank)"

definition renderRow :: "(rtext \<Rightarrow> nat) \<Rightarrow> Row \<Rightarrow> column list \<Rightarrow> rtext" where
  "renderRow W r cols =
     join_text (map (\<lambda>c. pad W (col_cell c r) (col_width c) (col_align c) (col_truncLeft c)) cols)
       (replicate (nat colGap) blank)"

definition renderRows :: "(rtext \<Rightarrow> nat) \<Rightarrow> Row list \<Rightarrow> column list \<Rightarrow> rtext list" where
  "renderRows W rows cols = map (\<lambda>r. renderRow W r cols) rows"

section \<open>The order of the rows\<close>

lemma insert_stable_key: "(\<And>a b. before a b \<longleftrightarrow> f a < f b) \<Longrightarrow> insert_stable before x ys = insort_key f x ys"
  for f :: "'a \<Rightarrow> 'b::linorder"
  by (induction ys) auto

lemma SliceStable_key: "(\<And>a b. before a b \<longleftrightarrow> f a < f b) \<Longrightarrow> SliceStable before xs = sort_key f xs"
  for f :: "'a \<Rightarrow> 'b::linorder"
  by (induction xs) (simp_all add: SliceStable_def insert_stable_key)

definition row_total :: "Row \<Rightarrow> int" where "row_total r = uint (w_BytesInTotal r + w_BytesOutTotal r)"
definition row_rate :: "Row \<Rightarrow> real" where "row_rate r = w_RateInBps r + w_RateOutBps r"

text \<open>
  The rows are sorted, stably, by what the sort key says: by the total of both directions or
  by the rate of both, the largest first, or by process id, the smallest first. Rows that
  do not differ in it stay in the order they had.
\<close>

theorem rows_sorted:
  "sortRows rows SortTotal = sort_key (\<lambda>r. - row_total r) rows \<and>
   sortRows rows SortPID = sort_key (\<lambda>r. sint (w_PID r)) rows \<and>
   sortRows rows SortRate = sort_key (\<lambda>r. - row_rate r) rows"
  unfolding sortRows_def
  by (intro conjI SliceStable_key)
    (auto simp: row_before_def row_total_def row_rate_def SortTotal_def SortPID_def SortRate_def word_less_def)

section \<open>Dropping columns\<close>

lemma find_victim_None: "find_victim i cs v = None \<longleftrightarrow> v = None \<and> (\<forall>c \<in> set cs. col_prio c = prioEssential)"
proof (induction i cs v rule: find_victim.induct)
  case (2 i c cs v)
  show ?case by (simp only: find_victim.simps 2) (auto split: option.split if_split)
qed simp

lemma find_victim_min:
  assumes "find_victim i cs v = Some (j, p)"
  shows "(\<forall>c \<in> set cs. col_prio c \<noteq> prioEssential \<longrightarrow> p \<le> col_prio c) \<and> (\<forall>k q. v = Some (k, q) \<longrightarrow> p \<le> q) \<and>
    (v = Some (j, p) \<or> i \<le> j \<and> j < i + length cs \<and> p = col_prio (cs ! (j - i)) \<and> p \<noteq> prioEssential)"
  using assms
proof (induction i cs v rule: find_victim.induct)
  case (2 i c cs v)
  define v' where "v' = (if col_prio c = prioEssential then v else case v of None \<Rightarrow> Some (i, col_prio c)
    | Some (j, p) \<Rightarrow> if col_prio c < p then Some (i, col_prio c) else v)"
  have IH: "(\<forall>c \<in> set cs. col_prio c \<noteq> prioEssential \<longrightarrow> p \<le> col_prio c)" "\<forall>k q. v' = Some (k, q) \<longrightarrow> p \<le> q"
    "v' = Some (j, p) \<or> Suc i \<le> j \<and> j < Suc i + length cs \<and> p = col_prio (cs ! (j - Suc i)) \<and> p \<noteq> prioEssential"
    using 2(1) [OF 2(2) [unfolded find_victim.simps]] unfolding v'_def by blast+
  have "col_prio c \<noteq> prioEssential \<longrightarrow> p \<le> col_prio c" "\<forall>k q. v = Some (k, q) \<longrightarrow> p \<le> q"
    using IH(2) by (auto simp: v'_def split: option.splits if_splits)
  moreover have "v' = Some (j, p) \<Longrightarrow> v = Some (j, p) \<or> j = i \<and> p = col_prio c \<and> p \<noteq> prioEssential"
    by (auto simp: v'_def split: option.splits if_splits)
  moreover have "Suc i \<le> j \<Longrightarrow> (c # cs) ! (j - i) = cs ! (j - Suc i)" by (simp add: nth_Cons' Suc_diff_le)
  ultimately show ?case using IH(1,3) by auto
qed simp

text \<open>The column that is dropped is no essential one, and none that stays has a lower priority.\<close>

lemma dropLowest_split:
  assumes "dropLowest cols = Some cols'"
  shows "\<exists>xs c ys. cols = xs @ c # ys \<and> cols' = xs @ ys \<and> col_prio c \<noteq> prioEssential \<and>
    (\<forall>d \<in> set cols'. col_prio d \<noteq> prioEssential \<longrightarrow> col_prio c \<le> col_prio d)"
proof -
  obtain i p where v: "find_victim 0 cols None = Some (i, p)" and cols': "cols' = take i cols @ drop (Suc i) cols"
    using assms by (auto simp: dropLowest_def split: option.splits)
  note m = find_victim_min [OF v]
  have i: "i < length cols" "p = col_prio (cols ! i)" "p \<noteq> prioEssential" using m by auto
  have "set cols' \<subseteq> set cols" unfolding cols' by (auto dest: in_set_takeD in_set_dropD)
  with m have "\<forall>d \<in> set cols'. col_prio d \<noteq> prioEssential \<longrightarrow> col_prio (cols ! i) \<le> col_prio d"
    unfolding i(2) [symmetric] by blast
  moreover have "cols = take i cols @ cols ! i # drop (Suc i) cols" using i(1) by (simp add: id_take_nth_drop)
  ultimately show ?thesis using i(2,3) cols' by blast
qed

lemma dropLowest_None: "dropLowest cols = None \<longleftrightarrow> (\<forall>c \<in> set cols. col_prio c = prioEssential)"
  using find_victim_None [of 0 cols None] by (auto simp: dropLowest_def split: option.split)

section \<open>Widths\<close>

definition essential :: "column \<Rightarrow> bool" where "essential c \<longleftrightarrow> col_prio c = prioEssential"

text \<open>Sharing the spare cells changes only the widths of the flexible columns, and uses up what there is.\<close>

lemma share_loop_cols:
  "map (\<lambda>c. c\<lparr>col_width := 0\<rparr>) (share_loop each extra cs) = map (\<lambda>c. c\<lparr>col_width := 0\<rparr>) cs"
  by (induction each extra cs rule: share_loop.induct) auto

lemma share_loop_width:
  assumes "\<forall>c \<in> set cs. col_flex c \<longrightarrow> col_width c = 0"
  shows "sum_list (map col_width (share_loop each extra cs)) =
    sum_list (map col_width cs) + each * flex_count cs + (if 0 < extra \<and> 0 < flex_count cs then extra else 0)"
  using assms
proof (induction each extra cs rule: share_loop.induct)
  case (2 each extra c cs)
  have n: "flex_count (c # cs) = (if col_flex c then 1 else 0) + flex_count cs" and "0 \<le> flex_count cs"
    by (simp_all add: flex_count_def)
  with 2 show ?case by (auto simp: n algebra_simps)
qed (simp add: flex_count_def)

lemma share_loop_min:
  "minLabelWidth \<le> each \<Longrightarrow> \<forall>c \<in> set (share_loop each extra cs). col_flex c \<longrightarrow> minLabelWidth \<le> col_width c"
  by (induction each extra cs rule: share_loop.induct) auto

lemma shareFlex_width:
  assumes "\<forall>c \<in> set cols. col_flex c \<longrightarrow> col_width c = 0" and "minLabelWidth * flex_count cols \<le> spare" and "0 < flex_count cols"
  shows "sum_list (map col_width (shareFlex cols spare (flex_count cols))) = sum_list (map col_width cols) + spare"
proof -
  define flex where "flex = flex_count cols"
  have s: "0 \<le> spare" using assms(2,3) by (smt (verit) minLabelWidth_def mult_nonneg_nonneg)
  have q: "quot spare flex = spare div flex" using s assms(3) by (simp add: quot_def flex_def sgn_if)
  have "minLabelWidth * flex div flex \<le> spare div flex" using assms(2,3) by (intro zdiv_mono1) (simp_all add: flex_def)
  then have each: "max (quot spare flex) minLabelWidth = spare div flex" using assms(3) q by (simp add: flex_def)
  have m: "spare - spare div flex * flex = spare mod flex" "0 \<le> spare mod flex"
    using assms(3) by (simp_all add: minus_div_mult_eq_mod flex_def)
  have extra: "(if 0 < spare mod flex \<and> 0 < flex then spare mod flex else 0) = spare mod flex"
    using m(2) assms(3) unfolding flex_def [symmetric] by (cases "spare mod flex = 0") (simp_all add: order_less_le)
  have "sum_list (map col_width (share_loop (spare div flex) (spare mod flex) cols)) =
      sum_list (map col_width cols) + spare div flex * flex + spare mod flex"
    using share_loop_width [OF assms(1), of "spare div flex" "spare mod flex"] unfolding flex_def [symmetric] extra .
  then show ?thesis using assms(3)
    unfolding flex_def [symmetric] by (simp add: shareFlex_def each m(1) Let_def)
qed

lemma shareFlex_length [simp]: "length (shareFlex cols spare flex) = length cols"
proof -
  have "length (share_loop each extra cs) = length cs" for each extra cs
    by (induction each extra cs rule: share_loop.induct) auto
  then show ?thesis by (simp add: shareFlex_def Let_def)
qed

lemma shareFlex_cols:
  "map (\<lambda>c. c\<lparr>col_width := 0\<rparr>) (shareFlex cols spare flex) = map (\<lambda>c. c\<lparr>col_width := 0\<rparr>) cols"
  by (simp add: shareFlex_def share_loop_cols Let_def)

lemma share_loop_nonneg:
  "\<forall>c \<in> set cs. 0 \<le> col_width c \<Longrightarrow> 0 \<le> each \<Longrightarrow> \<forall>c \<in> set (share_loop each extra cs). 0 \<le> col_width c"
  by (induction each extra cs rule: share_loop.induct) auto

lemma shareFlex_nonneg:
  assumes "\<forall>c \<in> set cols. 0 \<le> col_width c"
  shows "\<forall>c \<in> set (shareFlex cols spare flex). 0 \<le> col_width c"
proof -
  have "0 \<le> max (quot spare flex) minLabelWidth" by (simp add: minLabelWidth_def)
  from share_loop_nonneg [OF assms this] assms show ?thesis by (simp add: shareFlex_def Let_def)
qed

text \<open>What fitting comes to: some columns are kept, and the spare cells shared out among them.\<close>

lemma fit_loop_result:
  "\<exists>kept dropped. fit_loop width cols = shareFlex kept (width - tableWidth kept) (flex_count kept) \<and>
     mset cols = mset kept + mset dropped \<and> filter essential kept = filter essential cols \<and>
     (\<forall>c \<in> set dropped. \<not> essential c \<and> (\<forall>d \<in> set kept. \<not> essential d \<longrightarrow> col_prio c \<le> col_prio d)) \<and>
     (minLabelWidth * flex_count kept \<le> width - tableWidth kept \<or> list_all essential kept)"
proof (induction width cols rule: fit_loop.induct)
  case (1 width cols)
  show ?case
  proof (cases "minLabelWidth * flex_count cols \<le> width - tableWidth cols \<or> dropLowest cols = None")
    case True
    then have "fit_loop width cols = shareFlex cols (width - tableWidth cols) (flex_count cols)"
      by (auto simp: fit_loop.simps [of width cols] Let_def)
    with True show ?thesis
      by (intro exI [of _ cols] exI [of _ "[]"]) (auto simp: dropLowest_None essential_def list_all_iff)
  next
    case False
    then obtain cols' where d: "dropLowest cols = Some cols'" by auto
    obtain xs c ys where sp: "cols = xs @ c # ys" "cols' = xs @ ys" "\<not> essential c"
        "\<forall>d \<in> set cols'. \<not> essential d \<longrightarrow> col_prio c \<le> col_prio d"
      using dropLowest_split [OF d] unfolding essential_def by blast
    have eq: "fit_loop width cols = fit_loop width cols'" using False d by (simp add: fit_loop.simps [of width cols] Let_def)
    obtain kept dropped where k: "fit_loop width cols' = shareFlex kept (width - tableWidth kept) (flex_count kept)"
        "mset cols' = mset kept + mset dropped" "filter essential kept = filter essential cols'"
        "\<forall>c \<in> set dropped. \<not> essential c \<and> (\<forall>d \<in> set kept. \<not> essential d \<longrightarrow> col_prio c \<le> col_prio d)"
        "minLabelWidth * flex_count kept \<le> width - tableWidth kept \<or> list_all essential kept"
      using 1 [OF refl refl _ d] False by blast
    have "set kept \<subseteq> set cols'" using k(2) by (metis mset_subset_eq_add_left set_mset_mono set_mset_mset)
    with k sp eq show ?thesis by (intro exI [of _ kept] exI [of _ "c # dropped"]) auto
  qed
qed

lemma fit_loop_exact:
  assumes "\<forall>c \<in> set cols. col_flex c \<longrightarrow> col_width c = 0" and "0 < flex_count (filter essential cols)"
    and "tableWidth (filter essential cols) + minLabelWidth * flex_count (filter essential cols) \<le> width"
  shows "tableWidth (fit_loop width cols) = width"
proof -
  obtain kept dropped where k: "fit_loop width cols = shareFlex kept (width - tableWidth kept) (flex_count kept)"
      "mset cols = mset kept + mset dropped" "filter essential kept = filter essential cols"
      "minLabelWidth * flex_count kept \<le> width - tableWidth kept \<or> list_all essential kept"
    using fit_loop_result [of width cols] by blast
  have "list_all essential kept \<Longrightarrow> kept = filter essential cols" using k(3) by (metis filter_id_conv list_all_iff)
  then have spare: "minLabelWidth * flex_count kept \<le> width - tableWidth kept" using k(4) assms(3) by auto
  have "set kept \<subseteq> set cols" using k(2) by (metis mset_subset_eq_add_left set_mset_mono set_mset_mset)
  then have flex: "\<forall>c \<in> set kept. col_flex c \<longrightarrow> col_width c = 0" using assms(1) by blast
  have "flex_count (filter essential kept) \<le> flex_count kept"
    by (simp add: flex_count_def filter_filter length_filter_le [of _ "filter _ _"] conj_commute) (metis filter_filter length_filter_le)
  then have "0 < flex_count kept" using assms(2) k(3) by simp
  from shareFlex_width [OF flex spare this] show ?thesis
    unfolding k(1) by (simp add: tableWidth_def)
qed

lemma fit_loop_nonneg:
  assumes "\<forall>c \<in> set cols. 0 \<le> col_width c"
  shows "\<forall>c \<in> set (fit_loop width cols). 0 \<le> col_width c"
proof -
  obtain kept dropped where k: "fit_loop width cols = shareFlex kept (width - tableWidth kept) (flex_count kept)"
      "mset cols = mset kept + mset dropped"
    using fit_loop_result [of width cols] by blast
  have "set kept \<subseteq> set cols" using k(2) by (metis mset_subset_eq_add_left set_mset_mono set_mset_mset)
  then show ?thesis unfolding k(1) using assms by (intro shareFlex_nonneg) blast
qed

text \<open>The columns of each grouping.\<close>

lemmas column_defs = flex_column_def localColumn_def remoteColumn_def hostnameColumn_def ifaceColumn_def pidColumn_def
  connColumn_def ageColumn_def number_column_def
lemmas grouping_defs = tableColumns_def groupByPIDColumns_def groupByProcessNameColumns_def ungroupedColumns_def
  rateTotalColumns_def hostname_columns_def
lemmas prio_defs = prioHostname_def prioIface_def prioState_def prioProto_def prioAge_def prioConnections_def prioPID_def prioEssential_def
lemmas width_defs = colGap_def minLabelWidth_def rateWidth_def totalWidth_def pidWidth_def connWidth_def stateWidth_def
  protoWidth_def ageWidth_def

lemma tableColumns_widths:
  "\<forall>c \<in> set (tableColumns g h now). (col_flex c \<longrightarrow> col_width c = 0) \<and> 0 \<le> col_width c"
  by (auto simp: grouping_defs column_defs width_defs split: option.split)

lemma tableColumns_essential:
  defines "E g h now \<equiv> filter essential (tableColumns g h now)"
  shows "0 < flex_count (E g h now) \<and> tableWidth (E g h now) + minLabelWidth * flex_count (E g h now) \<le> 82"
  unfolding E_def flex_count_def tableWidth_def
  by (auto simp: grouping_defs column_defs width_defs prio_defs essential_def split: option.split)

lemma join_text_width:
  assumes "width_ok W" and "ts \<noteq> []"
  shows "int (W (join_text ts (replicate (nat colGap) blank))) = (int (length ts) - 1) * colGap + (\<Sum>t\<leftarrow>ts. int (W t))"
  using assms(2)
proof (induction ts "replicate (nat colGap) blank" rule: join_text.induct)
  case (3 s t ts)
  then show ?case by (simp add: width_simps(2,4) [OF assms(1)] colGap_def algebra_simps)
qed (simp_all add: colGap_def)

lemma line_width:
  assumes "width_ok W" and "cols \<noteq> []" and "\<forall>c \<in> set cols. 0 \<le> col_width c"
  shows "int (W (join_text (map (\<lambda>c. pad W (f c) (col_width c) (col_align c) (col_truncLeft c)) cols)
    (replicate (nat colGap) blank))) = tableWidth cols"
proof -
  have "map (\<lambda>c. int (W (pad W (f c) (col_width c) (col_align c) (col_truncLeft c)))) cols = map col_width cols"
    using assms(3) pad_width [OF assms(1)] by simp
  then have "(\<Sum>c\<leftarrow>cols. int (W (pad W (f c) (col_width c) (col_align c) (col_truncLeft c)))) = sum_list (map col_width cols)"
    by (rule arg_cong [where f = sum_list])
  then show ?thesis using join_text_width [OF assms(1), of "map (\<lambda>c. pad W (f c) (col_width c) (col_align c) (col_truncLeft c)) cols"] assms(2)
    by (simp add: tableWidth_def o_def)
qed



text \<open>
  Columns are dropped by priority only. When the columns are fitted into any width, the essential
  ones all stay and keep their order, and no column that is dropped has a higher priority than
  one that stays; a column that stays is changed in its width only.
\<close>

theorem columns_dropped_by_priority:
  "\<exists>kept dropped. mset cols = mset kept + mset dropped \<and> filter essential kept = filter essential cols \<and>
     list_all (\<lambda>c. \<not> essential c \<and> list_all (\<lambda>d. essential d \<or> col_prio c \<le> col_prio d) kept) dropped \<and>
     map (\<lambda>c. c\<lparr>col_width := 0\<rparr>) (fitColumns cols width) = map (\<lambda>c. c\<lparr>col_width := 0\<rparr>) kept"
proof -
  obtain kept dropped where k: "fitColumns cols width = shareFlex kept ((if width \<le> 0 then defaultWidth else width) - tableWidth kept) (flex_count kept)"
      "mset cols = mset kept + mset dropped" "filter essential kept = filter essential cols"
      "\<forall>c \<in> set dropped. \<not> essential c \<and> (\<forall>d \<in> set kept. \<not> essential d \<longrightarrow> col_prio c \<le> col_prio d)"
    using fit_loop_result [of "if width \<le> 0 then defaultWidth else width" cols] unfolding fitColumns_def by blast
  then show ?thesis by (intro exI [of _ kept] exI [of _ dropped]) (auto simp: shareFlex_cols list_all_iff)
qed

end
