(* ===== verification/Go_ParseIP.thy ===== *)
theory Go_ParseIP
  imports Go_Addr Go_Text
begin

text \<open>
  \<^verbatim>\<open>net.ParseIP\<close> with the two parsers of \<^verbatim>\<open>net/netip\<close> behind it, and \<^verbatim>\<open>IP.To4\<close> and \<^verbatim>\<open>IP.IsPrivate\<close>. An \<^verbatim>\<open>IP\<close> has
  sixteen bytes; an IPv4 address is kept in its mapped form.

  What \<^verbatim>\<open>netip.Addr.String\<close> prints is parsed back to the same address, whatever zero groups
  it leaves out.
\<close>

section \<open>The parsers\<close>

definition octet :: "string \<Rightarrow> u8 option" where
  "octet f =
     (if f = [] \<or> 2 \<le> length f \<and> hd f = CHR ''0'' then None
      else case digits_val 10 0 f of
        None \<Rightarrow> None
      | Some v \<Rightarrow> if v \<le> 255 then Some (of_nat v) else None)"

definition parseIPv4Fields :: "string \<Rightarrow> bytes option" where
  "parseIPv4Fields s =
     (let fs = Split CHR ''.'' s in if length fs = 4 then those (map octet fs) else None)"

definition is_hex :: "char \<Rightarrow> bool" where
  "is_hex c \<longleftrightarrow> digit_val c \<noteq> None"

definition group_bytes :: "nat \<Rightarrow> bytes" where
  "group_bytes v = [of_nat (v div 256), of_nat v]"

text \<open>
  The loop of \<^verbatim>\<open>parseIPv6\<close>, on the rest of the text, the bytes so far and the place of the
  ellipsis.
\<close>

function parse6_loop :: "string \<Rightarrow> bytes \<Rightarrow> nat option \<Rightarrow> (bytes \<times> nat option \<times> string) option" where
  "parse6_loop s ip ell =
     (if 16 \<le> length ip then Some (ip, ell, s)
      else let digs = takeWhile is_hex s; rest = dropWhile is_hex s
      in if digs = [] \<or> 4 < length digs then None
         else if rest \<noteq> [] \<and> hd rest = CHR ''.'' then
           (if ell = None \<and> length ip \<noteq> 12 \<or> 16 < length ip + 4 then None
            else case parseIPv4Fields s of None \<Rightarrow> None | Some f \<Rightarrow> Some (ip @ f, ell, []))
         else (case digits_val 16 0 digs of
             None \<Rightarrow> None
           | Some v \<Rightarrow>
               let ip = ip @ group_bytes v
               in (case rest of
                     [] \<Rightarrow> Some (ip, ell, [])
                   | [c] \<Rightarrow> None
                   | c # d # rest \<Rightarrow>
                       if c \<noteq> CHR '':'' then None
                       else if d \<noteq> CHR '':'' then parse6_loop (d # rest) ip ell
                       else if ell \<noteq> None then None
                       else if rest = [] then Some (ip, Some (length ip), [])
                       else parse6_loop rest ip (Some (length ip)))))"
  by pat_completeness auto
termination
proof (relation "measure (\<lambda>(s, _, _). length s)")
  have shorter: "Suc (length r) < length s" if "rest = dropWhile is_hex s" "rest = c # x" "x = d # r"
    for s rest c x d and r :: string
    using length_dropWhile_le [of is_hex s] that by (metis Suc_le_lessD length_Cons)
  show "((d # r, ip', ell), s, ip, ell) \<in> measure (\<lambda>(s, _, _). length s)"
    if "rest = dropWhile is_hex s" "rest = c # x" "x = d # r" for s ip ell rest c x d r ip'
    using shorter [OF that] by simp
  show "((r, ip', Some (length ip')), s, ip, ell) \<in> measure (\<lambda>(s, _, _). length s)"
    if "rest = dropWhile is_hex s" "rest = c # x" "x = d # r" for s ip ell rest c x d r ip'
    using shorter [OF that] by simp
qed simp

declare parse6_loop.simps [simp del]

text \<open>A short address is filled with zeros at the ellipsis.\<close>

definition expand_ellipsis :: "bytes \<Rightarrow> nat option \<Rightarrow> bytes option" where
  "expand_ellipsis ip ell =
     (if length ip < 16
      then (case ell of
              None \<Rightarrow> None
            | Some e \<Rightarrow> Some (take e ip @ replicate (16 - length ip) 0 @ drop e ip))
      else if ell \<noteq> None then None else Some ip)"

definition parseIPv6 :: "string \<Rightarrow> bytes option" where
  "parseIPv6 s =
     (let lead = HasPrefix s ''::''; t = (if lead then drop 2 s else s)
      in if lead \<and> t = [] then Some (replicate 16 0)
         else case parse6_loop t [] (if lead then Some 0 else None) of
           None \<Rightarrow> None
         | Some (ip, ell, rest) \<Rightarrow> if rest \<noteq> [] then None else expand_ellipsis ip ell)"

text \<open>
  The first dot, colon or percent sign decides. An address with a zone is not an \<^verbatim>\<open>IP\<close>, and an
  empty zone is an error.
\<close>

definition ParseIP :: "string \<Rightarrow> bytes option" where
  "ParseIP s =
     (case dropWhile (\<lambda>c. c \<noteq> CHR ''.'' \<and> c \<noteq> CHR '':'' \<and> c \<noteq> CHR ''%'') s of
        [] \<Rightarrow> None
      | c # _ \<Rightarrow>
          if c = CHR ''.'' then map_option ((@) v4_mapped_prefix) (parseIPv4Fields s)
          else if c = CHR '':'' then (if CHR ''%'' \<in> set s then None else parseIPv6 s)
          else None)"

definition To4 :: "bytes \<Rightarrow> bytes option" where
  "To4 ip =
     (if length ip = 4 then Some ip
      else if length ip = 16 \<and> take 12 ip = v4_mapped_prefix then Some (drop 12 ip) else None)"

definition IsPrivate :: "bytes \<Rightarrow> bool" where
  "IsPrivate ip =
     (case To4 ip of
        Some ip4 \<Rightarrow>
          ip4 ! 0 = 10 \<or> ip4 ! 0 = 172 \<and> and (ip4 ! 1) 0xf0 = 16 \<or> ip4 ! 0 = 192 \<and> ip4 ! 1 = 168
      | None \<Rightarrow> length ip = 16 \<and> and (ip ! 0) 0xfe = 0xfc)"

section \<open>Printed numbers\<close>

lemma digit_val_hex_lower: "d < 16 \<Longrightarrow> digit_val (hex_lower d) = Some d"
  by (auto simp: digit_val_def hex_lower_def Let_def)

lemma hex_digits_ne [simp]: "hex_digits n \<noteq> []"
  by (subst hex_digits.simps) simp

lemma hex_digits_are_hex: "c \<in> set (hex_digits n) \<Longrightarrow> is_hex c"
proof (induction n rule: hex_digits.induct)
  case (1 n)
  then show ?case
    by (subst (asm) (2) hex_digits.simps) (auto simp: is_hex_def digit_val_hex_lower split: if_splits)
qed

lemma digits_val_hex_digits: "digits_val 16 0 (hex_digits n) = Some n"
proof (induction n rule: hex_digits.induct)
  case (1 n)
  show ?case
  proof (cases "n < 16")
    case True
    then show ?thesis by (simp add: hex_digits.simps [of n] digit_val_hex_lower)
  next
    case False
    with 1 show ?thesis by (simp add: hex_digits.simps [of n] digits_val_append digit_val_hex_lower)
  qed
qed

lemma length_hex_digits: "n < 16 ^ Suc k \<Longrightarrow> length (hex_digits n) \<le> Suc k"
proof (induction k arbitrary: n)
  case (Suc k)
  have "n div 16 < 16 ^ Suc k" using Suc.prems by (simp add: less_mult_imp_div_less mult.commute)
  then show ?case using Suc.IH [of "n div 16"] by (simp add: hex_digits.simps [of n])
qed (simp add: hex_digits.simps)

lemma length_dec_digits: "n < 10 ^ Suc k \<Longrightarrow> length (dec_digits n) \<le> Suc k"
proof (induction k arbitrary: n)
  case (Suc k)
  have "n div 10 < 10 ^ Suc k" using Suc.prems by (simp add: less_mult_imp_div_less mult.commute)
  then show ?case using Suc.IH [of "n div 10"] by (simp add: dec_digits.simps [of n])
qed (simp add: dec_digits.simps)

lemma hd_dec_digits: "0 < n \<Longrightarrow> hd (dec_digits n) \<noteq> CHR ''0''"
proof (induction n rule: dec_digits.induct)
  case (1 n)
  show ?case
  proof (cases "n < 10")
    case True
    then have "of_char (hd (dec_digits n)) = (48 + n :: nat)" by (simp add: dec_digits.simps [of n])
    with 1 show ?thesis by auto
  next
    case False
    with 1 show ?thesis by (simp add: dec_digits.simps [of n])
  qed
qed

lemma dec_digits_are_hex: "c \<in> set (dec_digits n) \<Longrightarrow> is_hex c"
  using dec_digits_set [of c n] digit_val_dec by (auto simp: is_hex_def)

lemma hex_not_separator: "is_hex c \<Longrightarrow> c \<noteq> CHR ''.'' \<and> c \<noteq> CHR '':'' \<and> c \<noteq> CHR ''%''"
  by (auto simp: is_hex_def digit_val_def)

lemma octet_dec_digits: "octet (dec_digits (unat b)) = Some b"
proof -
  have b: "unat b \<le> 255" using unsigned_less [where ?'a = nat, of b] by simp
  have "\<not> (2 \<le> length (dec_digits (unat b)) \<and> hd (dec_digits (unat b)) = CHR ''0'')"
    using hd_dec_digits [of "unat b"] by (cases "unat b = 0") (auto simp: dec_digits.simps)
  with b show ?thesis by (simp add: octet_def digits_val_dec_digits)
qed

section \<open>IPv4\<close>

lemma four_bytes:
  assumes "length b = 4"
  obtains p q r s where "b = [p, q, r, s]"
  using assms by (auto simp: length_Suc_conv eval_nat_numeral)

lemma string4_four:
  "string4 [p, q, r, s] = dec_digits (unat p) @ CHR ''.'' # dec_digits (unat q) @ CHR ''.'' #
     dec_digits (unat r) @ CHR ''.'' # dec_digits (unat s)"
  by (simp add: string4_def)

lemma no_dot_dec: "CHR ''.'' \<notin> set (dec_digits n)"
  using dec_digits_are_hex hex_not_separator by blast

lemma parseIPv4Fields_string4: "length b = 4 \<Longrightarrow> parseIPv4Fields (string4 b) = Some b"
  by (erule four_bytes)
     (simp add: parseIPv4Fields_def Let_def string4_four Split_append Split_no_sep no_dot_dec octet_dec_digits)

lemma ParseIP_string4: "length b = 4 \<Longrightarrow> ParseIP (string4 b) = Some (v4_mapped_prefix @ b)"
proof -
  assume b: "length b = 4"
  let ?sep = "\<lambda>c. c \<noteq> CHR ''.'' \<and> c \<noteq> CHR '':'' \<and> c \<noteq> CHR ''%''"
  obtain p q r s where f: "b = [p, q, r, s]" using b by (rule four_bytes)
  have "\<exists>t. dropWhile ?sep (string4 b) = CHR ''.'' # t"
    unfolding f string4_four
    by (subst dropWhile_append2) (use dec_digits_are_hex hex_not_separator in \<open>blast, simp\<close>)
  then show ?thesis using parseIPv4Fields_string4 [OF b] by (auto simp: ParseIP_def)
qed

section \<open>IPv6\<close>

text \<open>Groups each behind a colon, and the bytes of groups.\<close>

definition colon_groups :: "nat list \<Rightarrow> string" where
  "colon_groups gs = concat (map (\<lambda>g. CHR '':'' # hex_digits g) gs)"

definition groups_bytes :: "nat list \<Rightarrow> bytes" where
  "groups_bytes gs = concat (map group_bytes gs)"

lemma groups_bytes_simps [simp]:
  "groups_bytes [] = []" "groups_bytes (g # gs) = group_bytes g @ groups_bytes gs"
  "groups_bytes (gs @ hs) = groups_bytes gs @ groups_bytes hs"
  "length (groups_bytes gs) = 2 * length gs" "groups_bytes (replicate n 0) = replicate (2 * n) 0"
proof -
  show "length (groups_bytes gs) = 2 * length gs"
    by (induction gs) (simp_all add: groups_bytes_def group_bytes_def)
  show "groups_bytes (replicate n 0) = replicate (2 * n) 0"
    by (induction n) (simp_all add: groups_bytes_def group_bytes_def)
qed (simp_all add: groups_bytes_def)

lemma length_group_bytes [simp]: "length (group_bytes v) = 2"
  by (simp add: group_bytes_def)

lemma join_groups_enum: "0 < n \<Longrightarrow> concat (map (\<lambda>(i, g). (if i = 0 then '''' else '':'') @ hex_digits g) (enumerate n gs)) = colon_groups gs"
  by (induction gs arbitrary: n) (simp_all add: colon_groups_def)

lemma join_groups_simps [simp]:
  "join_groups [] = []" "join_groups (g # gs) = hex_digits g @ colon_groups gs"
  by (simp_all add: join_groups_def join_groups_enum)

lemma join_groups_Nil_iff [simp]: "join_groups gs = [] \<longleftrightarrow> gs = []"
  by (cases gs) simp_all

lemma colon_groups_simps [simp]:
  "colon_groups [] = []" "colon_groups (g # gs) = CHR '':'' # hex_digits g @ colon_groups gs"
  by (simp_all add: colon_groups_def)

text \<open>One turn of the loop on a printed group.\<close>

lemma not_hex_simps [simp]: "\<not> is_hex CHR '':''" "\<not> is_hex CHR ''.''"
  by (simp_all add: is_hex_def digit_val_def)

lemma hex_digits_hd: "\<exists>d x. hex_digits g = d # x \<and> is_hex d"
  using hex_digits_are_hex [of "hd (hex_digits g)" g] by (cases "hex_digits g") auto

lemma group_split:
  assumes "t = [] \<or> \<not> is_hex (hd t)"
  shows "takeWhile is_hex (hex_digits g @ t) = hex_digits g" "dropWhile is_hex (hex_digits g @ t) = t"
proof -
  have h: "takeWhile is_hex t = []" "dropWhile is_hex t = t" using assms by (cases t; simp)+
  have "\<forall>c \<in> set (hex_digits g). is_hex c" using hex_digits_are_hex by blast
  then show "takeWhile is_hex (hex_digits g @ t) = hex_digits g" "dropWhile is_hex (hex_digits g @ t) = t"
    by (simp_all add: takeWhile_append2 dropWhile_append2 h)
qed

lemma parse6_group:
  assumes g: "g < 65536" and ip: "length ip < 16" and t: "t = [] \<or> hd t = CHR '':''"
  shows "parse6_loop (hex_digits g @ t) ip ell =
     (let ip = ip @ group_bytes g
      in (case t of
            [] \<Rightarrow> Some (ip, ell, [])
          | [c] \<Rightarrow> None
          | c # d # rest \<Rightarrow>
              if c \<noteq> CHR '':'' then None
              else if d \<noteq> CHR '':'' then parse6_loop (d # rest) ip ell
              else if ell \<noteq> None then None
              else if rest = [] then Some (ip, Some (length ip), [])
              else parse6_loop rest ip (Some (length ip))))"
proof -
  have sp: "takeWhile is_hex (hex_digits g @ t) = hex_digits g" "dropWhile is_hex (hex_digits g @ t) = t"
    using t by (auto intro: group_split)
  have "length (hex_digits g) \<le> 4" using length_hex_digits [of g 3] g by simp
  then show ?thesis
    using ip t unfolding parse6_loop.simps [of "hex_digits g @ t"] sp Let_def digits_val_hex_digits by (cases t) simp_all
qed

lemma parse6_groups:
  assumes "\<forall>g \<in> set (g # gs). g < 65536" "length ip + 2 * length (g # gs) \<le> 16"
  shows "parse6_loop (hex_digits g @ colon_groups gs) ip ell = Some (ip @ groups_bytes (g # gs), ell, [])"
  using assms
proof (induction gs arbitrary: g ip)
  case Nil
  then show ?case using parse6_group [of g ip "[]"] by simp
next
  case (Cons h gs)
  obtain d x where d: "hex_digits h = d # x" "is_hex d" using hex_digits_hd by blast
  moreover have "d \<noteq> CHR '':''" using d hex_not_separator by blast
  ultimately have "parse6_loop (hex_digits g @ colon_groups (h # gs)) ip ell =
      parse6_loop (hex_digits h @ colon_groups gs) (ip @ group_bytes g) ell"
    using Cons.prems parse6_group [of g ip "colon_groups (h # gs)" ell] by simp
  then show ?case using Cons.IH [of h "ip @ group_bytes g"] Cons.prems by simp
qed

lemma parse6_groups_ellipsis:
  assumes "\<forall>g \<in> set (g # gs). g < 65536" "length ip + 2 * length (g # gs) \<le> 16"
  shows "parse6_loop (hex_digits g @ colon_groups gs @ ''::'' @ t) ip None =
     (let ip' = ip @ groups_bytes (g # gs)
      in if t = [] then Some (ip', Some (length ip'), []) else parse6_loop t ip' (Some (length ip')))"
  using assms
proof (induction gs arbitrary: g ip)
  case Nil
  then show ?case using parse6_group [of g ip "''::'' @ t"] by (simp add: Let_def)
next
  case (Cons h gs)
  obtain d x where d: "hex_digits h = d # x" "is_hex d" using hex_digits_hd by blast
  moreover have "d \<noteq> CHR '':''" using d hex_not_separator by blast
  ultimately have "parse6_loop (hex_digits g @ colon_groups (h # gs) @ ''::'' @ t) ip None =
      parse6_loop (hex_digits h @ colon_groups gs @ ''::'' @ t) (ip @ group_bytes g) None"
    using Cons.prems parse6_group [of g ip "colon_groups (h # gs) @ ''::'' @ t" None] by simp
  then show ?case using Cons.IH [of h "ip @ group_bytes g"] Cons.prems by simp
qed

text \<open>The run that is left out consists of zeros.\<close>

lemma zero_run_replicate: "take (zero_run gs) gs = replicate (zero_run gs) 0" "zero_run gs \<le> length gs"
proof -
  show "take (zero_run gs) gs = replicate (zero_run gs) 0"
    unfolding zero_run_def
    by (metis (mono_tags, lifting) replicate_length_same set_takeWhileD takeWhile_eq_take)
  show "zero_run gs \<le> length gs" unfolding zero_run_def by (rule length_takeWhile_le)
qed

lemma longest_zeros_sound:
  assumes "\<And>s l. best = (s, l) \<Longrightarrow> s + l \<le> length all \<and> take l (drop s all) = replicate l 0"
    and "gs = drop i all" "i \<le> length all"
  shows "case longest_zeros i gs best of (s, l) \<Rightarrow> s + l \<le> length all \<and> take l (drop s all) = replicate l 0"
  using assms
proof (induction i gs best rule: longest_zeros.induct)
  case (1 i best)
  then show ?case by (cases best) auto
next
  case (2 i g gs best)
  have i: "Suc i \<le> length all" "gs = drop (Suc i) all"
    using 2(3,4) by (metis Suc_leI drop_eq_Nil linorder_not_le list.distinct(1)) (metis 2(3) drop_Suc list.sel(3) tl_drop)
  let ?l = "zero_run (g # gs)"
  let ?best = "if 2 \<le> ?l \<and> snd best < ?l then (i, ?l) else best"
  have "i + ?l \<le> length all" "take ?l (drop i all) = replicate ?l 0"
    using zero_run_replicate [of "g # gs"] 2(3,4) by (metis le_diff_conv2 length_drop add.commute, metis)
  then have "s + l \<le> length all \<and> take l (drop s all) = replicate l 0" if "?best = (s, l)" for s l
    using that 2(2) [of s l] by (auto split: if_splits)
  from 2(1) [OF refl this i(2,1)] show ?case by (simp add: Let_def)
qed

lemma parseIPv6_full:
  assumes "\<forall>g \<in> set gs. g < 65536" "length gs = 8"
  shows "parseIPv6 (join_groups gs) = Some (groups_bytes gs)"
proof -
  obtain g hs where gs: "gs = g # hs" using assms(2) by (cases gs) auto
  obtain d x where "hex_digits g = d # x" "is_hex d" using hex_digits_hd by blast
  then have "\<not> HasPrefix (hex_digits g @ colon_groups hs) ''::''" by auto
  moreover have "parse6_loop (hex_digits g @ colon_groups hs) [] None = Some (groups_bytes gs, None, [])"
    using parse6_groups [of g hs "[]" None] assms by (simp add: gs)
  ultimately show ?thesis
    using assms(2) by (simp add: parseIPv6_def Let_def expand_ellipsis_def gs)
qed

lemma parseIPv6_short:
  assumes "\<forall>g \<in> set (pre @ post). g < 65536" "length pre + l + length post = 8" "0 < l"
  shows "parseIPv6 (join_groups pre @ ''::'' @ join_groups post) = Some (groups_bytes (pre @ replicate l 0 @ post))"
proof -
  have rest: "parse6_loop (join_groups post) ip ell = Some (ip @ groups_bytes post, ell, [])"
    if "post \<noteq> []" "length ip = 2 * length pre" for ip ell
    using that parse6_groups [of "hd post" "tl post" ip ell] assms by (cases post) simp_all
  have fill: "expand_ellipsis (groups_bytes pre @ groups_bytes post) (Some (2 * length pre)) =
      Some (groups_bytes (pre @ replicate l 0 @ post))"
    using assms(2,3) by (simp add: expand_ellipsis_def)
  show ?thesis
  proof (cases pre)
    case Nil
    then show ?thesis
      using rest [of "[]" "Some 0"] fill assms(2) by (cases "post = []") (auto simp: parseIPv6_def Let_def)
  next
    case (Cons g gs)
    obtain d x where "hex_digits g = d # x" "is_hex d" using hex_digits_hd by blast
    then have "\<not> HasPrefix (hex_digits g @ colon_groups gs @ ''::'' @ join_groups post) ''::''" by auto
    moreover have "parse6_loop (hex_digits g @ colon_groups gs @ ''::'' @ join_groups post) [] None =
        Some (groups_bytes pre @ groups_bytes post, Some (2 * length pre), [])"
      using parse6_groups_ellipsis [of g gs "[]" "join_groups post"] rest [of "groups_bytes pre" "Some (2 * length pre)"]
        assms Cons by (cases post) (auto simp: Let_def)
    ultimately show ?thesis using fill Cons by (simp add: parseIPv6_def Let_def)
  qed
qed

lemma parseIPv6_string6:
  assumes "\<forall>g \<in> set gs. g < 65536" "length gs = 8"
  shows "parseIPv6 (string6 gs) = Some (groups_bytes gs)"
proof -
  obtain s l where sl: "longest_zeros 0 gs (0, 0) = (s, l)" by (cases "longest_zeros 0 gs (0, 0)")
  have z: "s + l \<le> length gs" "take l (drop s gs) = replicate l 0"
    using longest_zeros_sound [of "(0, 0)" gs gs 0] sl by auto
  have split: "take s gs @ replicate l 0 @ drop (s + l) gs = gs"
    unfolding z(2) [symmetric] by (simp flip: drop_drop add: add.commute)
  show ?thesis
  proof (cases "l = 0")
    case False
    have "\<forall>g \<in> set (take s gs @ drop (s + l) gs). g < 65536"
      using assms(1) by (auto dest: in_set_takeD in_set_dropD)
    moreover have "length (take s gs) + l + length (drop (s + l) gs) = 8" using z(1) assms(2) by simp
    ultimately show ?thesis
      using parseIPv6_short [of "take s gs" "drop (s + l) gs" l] False unfolding split string6_def sl by simp
  qed (use parseIPv6_full [OF assms] sl in \<open>simp add: string6_def\<close>)
qed

lemma word_256: "(256 :: u8) = 0"
  by simp

lemma groups_of_bytes: "length b = 2 * n \<Longrightarrow> groups_bytes (map (v6_group b) [0..<n]) = b"
proof (induction n arbitrary: b)
  case (Suc n)
  obtain b' x y where b: "b = b' @ [x, y]"
  proof -
    have "b \<noteq> []" "butlast b \<noteq> []" using Suc.prems by (auto simp: length_Suc_conv butlast_conv_take)
    then have "b = butlast (butlast b) @ [last (butlast b), last b]"
      by (metis append_Cons append_assoc append_butlast_last_id append_self_conv2)
    then show thesis by (rule that)
  qed
  then have l: "length b' = 2 * n" using Suc.prems by simp
  have m: "map (v6_group b) [0..<n] = map (v6_group b') [0..<n]"
    using l by (auto simp: b v6_group_def nth_append)
  have g: "group_bytes (v6_group b n) = [x, y]"
    using l unsigned_less [where ?'a = nat, of x] unsigned_less [where ?'a = nat, of y]
    by (simp add: b v6_group_def group_bytes_def nth_append word_256)
  have "map (v6_group b) [0..<Suc n] = map (v6_group b) [0..<n] @ [v6_group b n]" by simp
  then show ?case by (simp only: m groups_bytes_simps g Suc.IH [OF l]) (simp add: b)
qed simp

section \<open>Printing and parsing\<close>

lemma ParseIP_colons:
  assumes "\<forall>c \<in> set s. is_hex c \<or> c = CHR '':''" "CHR '':'' \<in> set s"
  shows "ParseIP s = parseIPv6 s"
proof -
  let ?P = "\<lambda>c. c \<noteq> CHR ''.'' \<and> c \<noteq> CHR '':'' \<and> c \<noteq> CHR ''%''"
  have no: "CHR ''%'' \<notin> set s" using assms(1) hex_not_separator by blast
  have ne: "dropWhile ?P s \<noteq> []" using assms(2) by (auto simp: dropWhile_eq_Nil_conv)
  have "hd (dropWhile ?P s) \<in> set s" by (rule set_dropWhileD [OF list.set_sel(1) [OF ne]])
  moreover have "\<not> ?P (hd (dropWhile ?P s))" using hd_dropWhile [OF ne] .
  ultimately have "hd (dropWhile ?P s) = CHR '':''" using assms(1) hex_not_separator by blast
  with ne no show ?thesis by (cases "dropWhile ?P s") (auto simp: ParseIP_def)
qed

lemma set_join_groups: "c \<in> set (join_groups gs) \<Longrightarrow> is_hex c \<or> c = CHR '':''"
proof -
  have *: "c \<in> set (colon_groups hs) \<Longrightarrow> is_hex c \<or> c = CHR '':''" for hs
    by (induction hs) (auto dest: hex_digits_are_hex)
  show "c \<in> set (join_groups gs) \<Longrightarrow> is_hex c \<or> c = CHR '':''"
    by (cases gs) (auto dest: hex_digits_are_hex *)
qed

lemma v6_group_bound: "v6_group b i < 65536"
proof -
  have "unat (b ! (2 * i)) < 256" "unat (b ! (2 * i + 1)) < 256"
    using unsigned_less [where ?'a = nat, of "b ! (2 * i)"] unsigned_less [where ?'a = nat, of "b ! (2 * i + 1)"] by simp_all
  then show ?thesis by (simp add: v6_group_def)
qed
lemma ParseIP_string6:
  assumes "length b = 16"
  shows "ParseIP (string6 (map (v6_group b) [0..<8])) = Some b"
proof -
  let ?gs = "map (v6_group b) [0..<8]"
  have "\<forall>c \<in> set (string6 ?gs). is_hex c \<or> c = CHR '':''"
    using set_join_groups by (auto simp: string6_def Let_def split: prod.splits if_splits)
  moreover have "CHR '':'' \<in> set (string6 ?gs)"
    by (auto simp: string6_def Let_def upt_conv_Cons split: prod.splits)
  ultimately have "ParseIP (string6 ?gs) = parseIPv6 (string6 ?gs)" by (rule ParseIP_colons)
  also have "\<dots> = Some (groups_bytes ?gs)" by (rule parseIPv6_string6) (simp_all add: v6_group_bound)
  finally show ?thesis using groups_of_bytes [of b 8] assms by simp
qed

lemma ParseIP_mapped:
  assumes "length b = 4"
  shows "ParseIP (''::ffff:'' @ string4 b) = Some (v4_mapped_prefix @ b)"
proof -
  obtain p q r s where b: "b = [p, q, r, s]" using assms by (rule four_bytes)
  have "CHR ''%'' \<notin> set (string4 b)"
    using dec_digits_are_hex hex_not_separator by (auto simp: b string4_four)
  then have "ParseIP (''::ffff:'' @ string4 b) = parseIPv6 (''::ffff:'' @ string4 b)"
    by (simp add: ParseIP_def)
  also have "\<dots> = Some (v4_mapped_prefix @ b)"
  proof -
    let ?p = "dec_digits (unat p)"
    obtain t where t: "string4 b = ?p @ CHR ''.'' # t" by (simp add: b string4_four)
    have h: "\<forall>c \<in> set ?p. is_hex c" using dec_digits_are_hex by blast
    then have sp: "takeWhile is_hex (string4 b) = ?p" "dropWhile is_hex (string4 b) = CHR ''.'' # t"
      by (simp_all add: t takeWhile_append2 dropWhile_append2)
    have l: "length ?p \<le> 4"
      using length_dec_digits [of "unat p" 2] unsigned_less [where ?'a = nat, of p] by simp
    have last: "parse6_loop (string4 b) [255, 255] (Some 0) = Some ([255, 255] @ b, Some 0, [])"
      using l by (simp add: parse6_loop.simps [of "string4 b"] sp parseIPv4Fields_string4 [OF assms])
    have "char_of (102 :: nat) = CHR ''f''" using char_of_char [where ?'a = nat, of "CHR ''f''"] by simp
    then have ffff: "hex_digits 65535 = ''ffff''" "group_bytes 65535 = [255, 255]"
      by (simp_all add: hex_digits.simps hex_lower_def group_bytes_def)
    obtain d x where d: "string4 b = d # x" "is_hex d"
      using t h by (cases ?p) auto
    have "parse6_loop (''ffff:'' @ string4 b) [] (Some 0) = parse6_loop (string4 b) [255, 255] (Some 0)"
      using parse6_group [of 65535 "[]" "'':'' @ string4 b" "Some 0"] d by (auto simp: ffff Let_def)
    with last show ?thesis
      using assms by (simp add: parseIPv6_def expand_ellipsis_def v4_mapped_prefix_def numeral_eq_Suc)
  qed
  finally show ?thesis .
qed

text \<open>The sixteen bytes of an address, and the addresses that exist.\<close>

fun As16 :: "addr \<Rightarrow> bytes" where
  "As16 AddrZero = replicate 16 0"
| "As16 (AddrV4 b) = v4_mapped_prefix @ b"
| "As16 (AddrV6 b) = b"

fun addr_ok :: "addr \<Rightarrow> bool" where
  "addr_ok AddrZero \<longleftrightarrow> False"
| "addr_ok (AddrV4 b) \<longleftrightarrow> length b = 4"
| "addr_ok (AddrV6 b) \<longleftrightarrow> length b = 16"

lemma ParseIP_addr_String: "addr_ok a \<Longrightarrow> ParseIP (addr_String a) = Some (As16 a)"
proof (cases a)
  case (AddrV6 b)
  assume "addr_ok a"
  with AddrV6 have b: "length b = 16" by simp
  show ?thesis
  proof (cases "take 12 b = v4_mapped_prefix")
    case True
    have "v4_mapped_prefix @ drop 12 b = b" using append_take_drop_id [of 12 b] True by simp
    then show ?thesis using ParseIP_mapped [of "drop 12 b"] b True AddrV6 by simp
  qed (use ParseIP_string6 [OF b] AddrV6 in simp)
qed (simp_all add: ParseIP_string4)

end
