(* ===== verification/Resolver.thy ===== *)
theory Resolver
  imports Go_Strings "HOL-Library.AList" "HOL-Library.Multiset"
begin

text \<open>
  The reverse DNS resolver, \<^verbatim>\<open>src/dns/resolver.go\<close>: a cache of two generations, the set of addresses
  a query is under way for, and a fixed number of slots for queries. A map whose size is
  asked for is an association list. The background goroutines are steps of a relation:
  the locked part that records an answer, the release of the slot, and the query itself,
  which may outlive both.

  The theory shows that queries and slots are bounded, that an address is asked about once
  at a time, that the cache is bounded, that a name shown for an address is one that a query
  for it returned, and that the goroutines left behind by queries that ignore their
  deadline are not bounded.
\<close>

section \<open>The cache\<close>

record result =
  res_name :: string
  res_resolved :: bool

record Resolver =
  rs_cur :: "(string \<times> result) list"
  rs_prev :: "(string \<times> result) list"
  rs_inflight :: "string set"
  rs_slots :: nat                      \<comment> \<open>what is in the channel \<^verbatim>\<open>sem\<close>\<close>
  r_timeout :: int
  maxConcurrent :: nat
  maxCacheEntries :: nat

definition default_lookupTimeout :: int where "default_lookupTimeout = 2 * 1000000000"
definition default_maxConcurrent :: nat where "default_maxConcurrent = 8"
definition default_maxCacheEntries :: nat where "default_maxCacheEntries = 4096"

definition WithLookupTimeout :: "int \<Rightarrow> Resolver \<Rightarrow> Resolver" where
  "WithLookupTimeout d r = r\<lparr>r_timeout := d\<rparr>"

definition WithMaxConcurrent :: "int \<Rightarrow> Resolver \<Rightarrow> Resolver" where
  "WithMaxConcurrent n r = r\<lparr>maxConcurrent := nat (max n 1)\<rparr>"

definition WithMaxCacheEntries :: "int \<Rightarrow> Resolver \<Rightarrow> Resolver" where
  "WithMaxCacheEntries n r = r\<lparr>maxCacheEntries := nat (max n 1)\<rparr>"

definition NewResolverWith :: "(Resolver \<Rightarrow> Resolver) list \<Rightarrow> Resolver" where
  "NewResolverWith opts =
     fold (\<lambda>opt r. opt r) opts
       \<lparr>rs_cur = [], rs_prev = [], rs_inflight = {}, rs_slots = 0, r_timeout = default_lookupTimeout,
        maxConcurrent = default_maxConcurrent, maxCacheEntries = default_maxCacheEntries\<rparr>"

text \<open>\<open>rs_put\<close> rotates the generations when the current one is full.\<close>

definition rs_put :: "string \<Rightarrow> result \<Rightarrow> Resolver \<Rightarrow> Resolver" where
  "rs_put ip res r =
     (let r = (if maxCacheEntries r \<le> length (rs_cur r) then r\<lparr>rs_prev := rs_cur r, rs_cur := []\<rparr> else r)
      in r\<lparr>rs_cur := AList.update ip res (rs_cur r)\<rparr>)"

text \<open>\<open>rs_get\<close> promotes a hit in the outgoing generation.\<close>

definition rs_get :: "string \<Rightarrow> Resolver \<Rightarrow> result option \<times> Resolver" where
  "rs_get ip r =
     (case map_of (rs_cur r) ip of
        Some res \<Rightarrow> (Some res, r)
      | None \<Rightarrow>
          (case map_of (rs_prev r) ip of
             None \<Rightarrow> (None, r)
           | Some res \<Rightarrow> (Some res, rs_put ip res r)))"

definition firstName :: "string list \<Rightarrow> string" where
  "firstName names = (case names of [] \<Rightarrow> '''' | n # _ \<Rightarrow> TrimSuffix n ''.'')"

section \<open>Lookups\<close>

text \<open>\<open>Lookup\<close> returns what to show, whether a query is started, and the new state.\<close>

definition Lookup_ip :: "string \<Rightarrow> Resolver \<Rightarrow> string \<times> bool \<times> Resolver" where
  "Lookup_ip ip r =
     (if ip = '''' then (ip, False, r)
      else case rs_get ip r of
        (Some res, r) \<Rightarrow> (if res_resolved res then res_name res else ip, False, r)
      | (None, r) \<Rightarrow>
          if ip \<in> rs_inflight r then (ip, False, r)
          else if \<not> rs_slots r < maxConcurrent r then (ip, False, r)
          else (ip, True, r\<lparr>rs_slots := rs_slots r + 1, rs_inflight := insert ip (rs_inflight r)\<rparr>))"

text \<open>
  The locked end of \<open>resolve\<close>: the answer is the list of names, or \<open>None\<close> for an error or the
  expired deadline; \<open>cancelled\<close> says whether the caller's context has ended.
\<close>

definition resolve_record :: "string \<Rightarrow> bool \<Rightarrow> string list option \<Rightarrow> Resolver \<Rightarrow> Resolver" where
  "resolve_record ip cancelled answer r =
     (let r = r\<lparr>rs_inflight := rs_inflight r - {ip}\<rparr>
      in if cancelled then r
         else let nm = firstName (case answer of None \<Rightarrow> [] | Some names \<Rightarrow> names)
              in rs_put ip \<lparr>res_name = nm, res_resolved = (answer \<noteq> None \<and> nm \<noteq> '''')\<rparr> r)"

definition resolve_release :: "Resolver \<Rightarrow> Resolver" where
  "resolve_release r = r\<lparr>rs_slots := rs_slots r - 1\<rparr>"

text \<open>
  The resolver with its goroutines: those of \<open>resolve\<close> that wait for an answer, those about to
  release their slot, the queries that are running, and every answer recorded so far.
\<close>

record world =
  w_resolver :: Resolver
  w_waiting :: "string multiset"
  w_releasing :: nat
  w_queries :: "string multiset"
  w_answers :: "(string \<times> string list) set"

definition start_world :: "(Resolver \<Rightarrow> Resolver) list \<Rightarrow> world" where
  "start_world opts = \<lparr>w_resolver = NewResolverWith opts, w_waiting = {#}, w_releasing = 0,
     w_queries = {#}, w_answers = {}\<rparr>"

inductive resolver_step :: "world \<Rightarrow> world \<Rightarrow> bool" where
  lookup: "Lookup_ip ip (w_resolver w) = (shown, started, r) \<Longrightarrow>
    resolver_step w (w\<lparr>w_resolver := r,
      w_waiting := (if started then add_mset ip (w_waiting w) else w_waiting w),
      w_queries := (if started then add_mset ip (w_queries w) else w_queries w)\<rparr>)"
| answered: "ip \<in># w_waiting w \<Longrightarrow> ip \<in># w_queries w \<Longrightarrow>
    resolver_step w (w\<lparr>w_resolver := resolve_record ip cancelled answer (w_resolver w),
      w_waiting := w_waiting w - {#ip#}, w_releasing := w_releasing w + 1,
      w_queries := w_queries w - {#ip#},
      w_answers := (case answer of None \<Rightarrow> w_answers w | Some names \<Rightarrow> insert (ip, names) (w_answers w))\<rparr>)"
| deadline: "ip \<in># w_waiting w \<Longrightarrow>
    resolver_step w (w\<lparr>w_resolver := resolve_record ip cancelled None (w_resolver w),
      w_waiting := w_waiting w - {#ip#}, w_releasing := w_releasing w + 1\<rparr>)"
| release: "0 < w_releasing w \<Longrightarrow>
    resolver_step w (w\<lparr>w_resolver := resolve_release (w_resolver w), w_releasing := w_releasing w - 1\<rparr>)"
| stray: "ip \<in># w_queries w - w_waiting w \<Longrightarrow> resolver_step w (w\<lparr>w_queries := w_queries w - {#ip#}\<rparr>)"

inductive_cases resolver_stepE: "resolver_step w w'"

section \<open>The invariant\<close>

definition cached :: "Resolver \<Rightarrow> (string \<times> result) set" where
  "cached r = set (rs_cur r) \<union> set (rs_prev r)"

definition cache_wf :: "Resolver \<Rightarrow> bool" where
  "cache_wf r \<longleftrightarrow> 0 < maxCacheEntries r \<and> distinct (map fst (rs_cur r)) \<and> distinct (map fst (rs_prev r)) \<and>
     length (rs_cur r) \<le> maxCacheEntries r \<and> length (rs_prev r) \<le> maxCacheEntries r"

lemma update_length: "length (AList.update k v xs) \<le> Suc (length xs)"
  by (induction xs) auto

lemma set_update_subset: "set (AList.update k v xs) \<subseteq> insert (k, v) (set xs)"
  by (induction xs) auto

lemma put_frame [simp]:
  "rs_inflight (rs_put ip res r) = rs_inflight r" "rs_slots (rs_put ip res r) = rs_slots r"
  "maxConcurrent (rs_put ip res r) = maxConcurrent r" "maxCacheEntries (rs_put ip res r) = maxCacheEntries r"
  by (simp_all add: rs_put_def Let_def)

lemma put_wf: "cache_wf r \<Longrightarrow> cache_wf (rs_put ip res r)"
  using update_length [of ip res "rs_cur r"]
  by (auto simp: rs_put_def Let_def cache_wf_def distinct_update)

lemma put_cached: "cached (rs_put ip res r) \<subseteq> insert (ip, res) (cached r)"
  using set_update_subset [of ip res "rs_cur r"] by (auto simp: rs_put_def Let_def cached_def)

lemma put_map: "map_of (rs_cur (rs_put ip res r)) ip = Some res"
  by (simp add: rs_put_def Let_def update_conv')

lemma get_frame [simp]:
  "rs_inflight (snd (rs_get ip r)) = rs_inflight r" "rs_slots (snd (rs_get ip r)) = rs_slots r"
  "maxConcurrent (snd (rs_get ip r)) = maxConcurrent r" "maxCacheEntries (snd (rs_get ip r)) = maxCacheEntries r"
  by (simp_all add: rs_get_def split: option.split)

lemma get_wf: "cache_wf r \<Longrightarrow> cache_wf (snd (rs_get ip r))"
  by (simp add: rs_get_def put_wf split: option.split)

lemma get_cached: "cached (snd (rs_get ip r)) \<subseteq> cached r"
proof (cases "map_of (rs_cur r) ip = None \<and> map_of (rs_prev r) ip \<noteq> None")
  case True
  then obtain res where "map_of (rs_prev r) ip = Some res" "map_of (rs_cur r) ip = None" by auto
  with put_cached [of ip res r] show ?thesis by (auto simp: rs_get_def cached_def dest: map_of_SomeD)
qed (auto simp: rs_get_def split: option.split)

lemma get_result: "fst (rs_get ip r) = Some res \<Longrightarrow> (ip, res) \<in> cached r"
  by (auto simp: rs_get_def cached_def dest: map_of_SomeD split: option.splits)

text \<open>A cached name is the first name of an answer to a query for its address.\<close>

definition backed :: "(string \<times> string list) set \<Rightarrow> string \<times> result \<Rightarrow> bool" where
  "backed answers e \<longleftrightarrow> (res_resolved (snd e) \<longrightarrow>
     (\<exists>names. (fst e, names) \<in> answers \<and> res_name (snd e) = firstName names))"

definition resolver_inv :: "world \<Rightarrow> bool" where
  "resolver_inv w \<longleftrightarrow> (let r = w_resolver w in
     cache_wf r \<and> (\<forall>e \<in> cached r. backed (w_answers w) e) \<and>
     finite (rs_inflight r) \<and> w_waiting w = mset_set (rs_inflight r) \<and>
     rs_slots r = size (w_waiting w) + w_releasing w \<and> rs_slots r \<le> maxConcurrent r)"

lemma resolver_invI:
  assumes "cache_wf (w_resolver w)" and "\<And>e. e \<in> cached (w_resolver w) \<Longrightarrow> backed (w_answers w) e"
    and "finite (rs_inflight (w_resolver w))" and "w_waiting w = mset_set (rs_inflight (w_resolver w))"
    and "rs_slots (w_resolver w) = size (w_waiting w) + w_releasing w"
    and "rs_slots (w_resolver w) \<le> maxConcurrent (w_resolver w)"
  shows "resolver_inv w"
  using assms by (simp add: resolver_inv_def Let_def)

lemma resolver_invD:
  assumes "resolver_inv w"
  shows "cache_wf (w_resolver w)" and "e \<in> cached (w_resolver w) \<Longrightarrow> backed (w_answers w) e"
    and "finite (rs_inflight (w_resolver w))" and "w_waiting w = mset_set (rs_inflight (w_resolver w))"
    and "rs_slots (w_resolver w) = size (w_waiting w) + w_releasing w"
    and "rs_slots (w_resolver w) \<le> maxConcurrent (w_resolver w)"
  using assms unfolding resolver_inv_def Let_def by blast+

lemma backed_mono: "backed A e \<Longrightarrow> A \<subseteq> B \<Longrightarrow> backed B e"
  by (auto simp: backed_def)

text \<open>What a lookup does to the state besides starting a query.\<close>

lemma Lookup_ip_cases:
  assumes "Lookup_ip ip r = (shown, started, r')"
  shows "r' = (if started then (snd (rs_get ip r))\<lparr>rs_slots := rs_slots r + 1, rs_inflight := insert ip (rs_inflight r)\<rparr>
               else if ip = '''' then r else snd (rs_get ip r))"
    and "started \<Longrightarrow> ip \<notin> rs_inflight r \<and> rs_slots r < maxConcurrent r"
    and "shown = ip \<or> (\<exists>res. (ip, res) \<in> cached r \<and> res_resolved res \<and> shown = res_name res)"
proof -
  obtain g r1 where g: "rs_get ip r = (g, r1)" by fastforce
  have f: "rs_inflight r1 = rs_inflight r" "rs_slots r1 = rs_slots r" "maxConcurrent r1 = maxConcurrent r"
    using get_frame [of ip r] by (simp_all add: g)
  have c: "g = Some res \<Longrightarrow> (ip, res) \<in> cached r" for res
    using get_result [of ip r res] by (simp add: g)
  show "r' = (if started then (snd (rs_get ip r))\<lparr>rs_slots := rs_slots r + 1, rs_inflight := insert ip (rs_inflight r)\<rparr>
               else if ip = '''' then r else snd (rs_get ip r))"
    and "started \<Longrightarrow> ip \<notin> rs_inflight r \<and> rs_slots r < maxConcurrent r"
    and "shown = ip \<or> (\<exists>res. (ip, res) \<in> cached r \<and> res_resolved res \<and> shown = res_name res)"
    using assms f c by (auto simp: Lookup_ip_def g split: if_splits option.splits)
qed

lemma cache_wf_frame [simp]:
  "cache_wf (r\<lparr>rs_slots := n\<rparr>) = cache_wf r" "cache_wf (r\<lparr>rs_inflight := I\<rparr>) = cache_wf r"
  "cached (r\<lparr>rs_slots := n\<rparr>) = cached r" "cached (r\<lparr>rs_inflight := I\<rparr>) = cached r"
  by (simp_all add: cache_wf_def cached_def)

lemma resolve_record_result:
  assumes "cache_wf r"
  shows "cache_wf (resolve_record ip cancelled answer r)"
    and "rs_inflight (resolve_record ip cancelled answer r) = rs_inflight r - {ip}"
    and "rs_slots (resolve_record ip cancelled answer r) = rs_slots r"
    and "maxConcurrent (resolve_record ip cancelled answer r) = maxConcurrent r"
    and "e \<in> cached (resolve_record ip cancelled answer r) \<Longrightarrow> e \<in> cached r \<or>
      fst e = ip \<and> (res_resolved (snd e) \<longrightarrow> (\<exists>names. answer = Some names \<and> res_name (snd e) = firstName names))"
  using assms put_cached [of ip _ "r\<lparr>rs_inflight := rs_inflight r - {ip}\<rparr>"]
  by (auto simp: resolve_record_def Let_def put_wf split: if_splits option.splits) fastforce+

lemma resolver_inv_lookup:
  assumes inv: "resolver_inv w" and l: "Lookup_ip ip (w_resolver w) = (shown, started, r)"
  shows "resolver_inv (w\<lparr>w_resolver := r,
      w_waiting := (if started then add_mset ip (w_waiting w) else w_waiting w),
      w_queries := (if started then add_mset ip (w_queries w) else w_queries w)\<rparr>)"
proof -
  note i = resolver_invD [OF inv]
  note c = Lookup_ip_cases [OF l]
  have "cached r \<subseteq> cached (w_resolver w)" using get_cached [of ip "w_resolver w"] by (auto simp: c(1))
  then have b: "e \<in> cached r \<Longrightarrow> backed (w_answers w) e" for e using i(2) by blast
  have wf: "cache_wf r" using i(1) by (simp add: c(1) get_wf)
  show ?thesis
    by (rule resolver_invI) (use i c(2) wf b in \<open>auto simp: c(1)\<close>)
qed

lemma resolver_inv_record:
  assumes inv: "resolver_inv w" and ip: "ip \<in># w_waiting w"
    and A: "w_answers w \<subseteq> A" "\<And>names. answer = Some names \<Longrightarrow> (ip, names) \<in> A"
  shows "resolver_inv (w\<lparr>w_resolver := resolve_record ip cancelled answer (w_resolver w),
      w_waiting := w_waiting w - {#ip#}, w_releasing := w_releasing w + 1, w_queries := Q, w_answers := A\<rparr>)"
proof -
  note i = resolver_invD [OF inv]
  note r = resolve_record_result [OF i(1)]
  have "ip \<in> rs_inflight (w_resolver w)" using ip i(3,4) by simp
  then have "size (w_waiting w - {#ip#}) + 1 = size (w_waiting w)" "w_waiting w - {#ip#} = mset_set (rs_inflight (w_resolver w) - {ip})"
    using ip i(3,4) by (simp_all add: size_Diff_singleton mset_set_Diff)
       (metis Suc_pred card_gt_0_iff empty_iff)
  moreover have "backed A e" if "e \<in> cached (resolve_record ip cancelled answer (w_resolver w))" for e
    using r(5) [OF that] i(2) [of e] backed_mono [OF _ A(1)] A(2)
    by (cases e) (auto simp: backed_def)
  ultimately show ?thesis
    by (intro resolver_invI) (use i r in auto)
qed

lemma resolver_inv_step:
  assumes "resolver_step w w'" and inv: "resolver_inv w"
  shows "resolver_inv w'"
  using assms(1)
proof cases
  case (lookup ip shown started r)
  then show ?thesis using resolver_inv_lookup [OF inv lookup(2)] by simp
next
  case (answered ip answer cancelled)
  then show ?thesis
    using resolver_inv_record [OF inv answered(2), where A = "w_answers w'" and answer = answer and cancelled = cancelled and Q = "w_queries w - {#ip#}"]
    by (auto split: option.splits)
next
  case (deadline ip cancelled)
  then show ?thesis
    using resolver_inv_record [OF inv deadline(2), where A = "w_answers w" and answer = None and cancelled = cancelled and Q = "w_queries w"] by simp
next
  case release
  note i = resolver_invD [OF inv]
  show ?thesis unfolding release(1)
    by (rule resolver_invI) (use i release(2) in \<open>auto simp: resolve_release_def\<close>)
next
  case (stray ip)
  with inv show ?thesis by (simp add: resolver_inv_def)
qed

interpretation resolver_run: step_invariant resolver_step resolver_inv
  by unfold_locales (rule resolver_inv_step)

text \<open>The options a resolver can be made with.\<close>

definition options :: "(Resolver \<Rightarrow> Resolver) set" where
  "options = range WithLookupTimeout \<union> range WithMaxConcurrent \<union> range WithMaxCacheEntries"

lemma NewResolverWith_limits:
  assumes "set opts \<subseteq> options"
  shows "resolver_inv (start_world opts) \<and> 0 < maxConcurrent (NewResolverWith opts)"
proof -
  define P :: "Resolver \<Rightarrow> bool" where "P = (\<lambda>r. rs_cur r = [] \<and> rs_prev r = [] \<and> rs_inflight r = {} \<and> rs_slots r = 0 \<and>
    0 < maxConcurrent r \<and> 0 < maxCacheEntries r)"
  have "P (fold (\<lambda>opt r. opt r) opts r)" if "P r" for r
    using assms that
  proof (induction opts arbitrary: r)
    case (Cons opt opts)
    then have "P (opt r)"
      by (auto simp: P_def options_def WithLookupTimeout_def WithMaxConcurrent_def WithMaxCacheEntries_def)
    with Cons show ?case by simp
  qed simp
  then have "P (NewResolverWith opts)"
    by (simp add: NewResolverWith_def P_def default_maxConcurrent_def default_maxCacheEntries_def)
  then show ?thesis
    by (simp add: P_def start_world_def resolver_inv_def Let_def cache_wf_def cached_def)
qed

section \<open>Properties\<close>


text \<open>
  The answer to a query is what later lookups show, without another query: a query that has
  been answered in time ends with the address cached.
\<close>

lemma answer_shown:
  assumes "ip \<noteq> []" and "firstName names \<noteq> []"
  shows "\<exists>r'. Lookup_ip ip (resolve_record ip False (Some names) r) = (firstName names, False, r')"
  using assms put_map [of ip] by (simp add: Lookup_ip_def resolve_record_def rs_get_def Let_def)

text \<open>
  Queries that outlive their deadline are not bounded by the slots: each of any number of
  addresses, offered one after the other, can leave a running query behind.
\<close>

definition quiet :: "world \<Rightarrow> bool" where
  "quiet w \<longleftrightarrow> w_waiting w = {#} \<and> w_releasing w = 0 \<and> rs_inflight (w_resolver w) = {} \<and>
     rs_slots (w_resolver w) = 0 \<and> 0 < maxConcurrent (w_resolver w)"

lemma get_absent: "ip \<notin> fst ` cached r \<Longrightarrow> rs_get ip r = (None, r)"
proof -
  assume "ip \<notin> fst ` cached r"
  then have "map_of (rs_cur r) ip = None" "map_of (rs_prev r) ip = None"
    by (auto simp: map_of_eq_None_iff cached_def)
  then show ?thesis by (simp add: rs_get_def)
qed

lemma stuck_round:
  assumes q: "quiet w" and ip: "ip \<noteq> []" "ip \<notin> fst ` cached (w_resolver w)"
  shows "\<exists>w'. resolver_step\<^sup>*\<^sup>* w w' \<and> quiet w' \<and> w_queries w' = add_mset ip (w_queries w) \<and>
    fst ` cached (w_resolver w') \<subseteq> insert ip (fst ` cached (w_resolver w))"
proof -
  define r1 where "r1 = (w_resolver w)\<lparr>rs_slots := 1, rs_inflight := {ip}\<rparr>"
  define r2 where "r2 = resolve_record ip False None r1"
  have l: "Lookup_ip ip (w_resolver w) = (ip, True, r1)"
    using q ip by (simp add: Lookup_ip_def get_absent quiet_def r1_def)
  define w1 where "w1 = w\<lparr>w_resolver := r1, w_waiting := {#ip#}, w_queries := add_mset ip (w_queries w)\<rparr>"
  define w2 where "w2 = w1\<lparr>w_resolver := r2, w_waiting := {#}, w_releasing := 1\<rparr>"
  define w3 where "w3 = w2\<lparr>w_resolver := resolve_release r2, w_releasing := 0\<rparr>"
  have s1: "resolver_step w w1"
    using resolver_step.lookup [OF l] q by (simp add: w1_def quiet_def)
  have s2: "resolver_step w1 w2"
    using resolver_step.deadline [of ip w1 False] q by (simp add: w1_def w2_def r2_def quiet_def)
  have s3: "resolver_step w2 w3"
    using resolver_step.release [of w2] by (simp add: w2_def w3_def)
  have r2: "rs_inflight r2 = {}" "rs_slots r2 = 1" "maxConcurrent r2 = maxConcurrent (w_resolver w)"
      "cached r2 \<subseteq> insert (ip, \<lparr>res_name = [], res_resolved = False\<rparr>) (cached (w_resolver w))"
    using put_cached [of ip "\<lparr>res_name = [], res_resolved = False\<rparr>" "r1\<lparr>rs_inflight := {}\<rparr>"]
    by (simp_all add: r2_def r1_def resolve_record_def firstName_def)
  have "resolver_step\<^sup>*\<^sup>* w w3" using s1 s2 s3 by (meson converse_rtranclp_into_rtranclp rtranclp.rtrancl_refl)
  moreover have "quiet w3"
    using q r2 by (simp add: quiet_def w3_def w2_def resolve_release_def)
  moreover have "w_queries w3 = add_mset ip (w_queries w)" by (simp add: w3_def w2_def w1_def)
  moreover have "fst ` cached (w_resolver w3) \<subseteq> insert ip (fst ` cached (w_resolver w))"
    using r2(4) by (auto simp: w3_def resolve_release_def)
  ultimately show ?thesis by blast
qed

lemma stray_queries_unbounded:
  assumes "distinct ips" and "[] \<notin> set ips" and "quiet w" and "set ips \<inter> fst ` cached (w_resolver w) = {}"
  shows "\<exists>w'. resolver_step\<^sup>*\<^sup>* w w' \<and> quiet w' \<and> w_queries w' = mset ips + w_queries w"
  using assms
proof (induction ips arbitrary: w)
  case (Cons ip ips)
  have disj: "set ips \<inter> X1 = {}" if "X1 \<subseteq> insert ip X" "set (ip # ips) \<inter> X = {}" "distinct (ip # ips)" for X X1
    using that by auto
  have "ip \<noteq> []" "ip \<notin> fst ` cached (w_resolver w)"
    using Cons.prems(2) disjoint_iff [THEN iffD1, OF Cons.prems(4)] by (metis list.set_intros(1))+
  from stuck_round [OF Cons.prems(3) this] obtain w1 where
      w1: "resolver_step\<^sup>*\<^sup>* w w1" "quiet w1" "w_queries w1 = add_mset ip (w_queries w)"
      "fst ` cached (w_resolver w1) \<subseteq> insert ip (fst ` cached (w_resolver w))" by blast
  have "distinct ips" "[] \<notin> set ips" using Cons.prems(1,2) by simp_all
  from Cons.IH [OF this w1(2) disj [OF w1(4) Cons.prems(4,1)]]
  obtain w2 where "resolver_step\<^sup>*\<^sup>* w1 w2" "quiet w2" "w_queries w2 = mset ips + w_queries w1" by blast
  moreover from this(1) w1(1) have "resolver_step\<^sup>*\<^sup>* w w2" by (meson rtranclp_trans)
  ultimately show ?case using w1(3) by (intro exI [of _ w2]) simp
qed auto

lemma sample_lookup: "Lookup_ip ''1.1.1.1'' (NewResolverWith [WithMaxConcurrent 0]) =
    (''1.1.1.1'', True, (NewResolverWith [WithMaxConcurrent 0])\<lparr>rs_slots := 1, rs_inflight := {''1.1.1.1''}\<rparr>)"
  by (simp add: Lookup_ip_def NewResolverWith_def WithMaxConcurrent_def rs_get_def)


end
