(* ===== verification/Tui_Filters.thy ===== *)
theory Tui_Filters
  imports Tui_Table Go_ParseIP Resolver Hostname_Cache
begin

text \<open>
  The row filters of the terminal interface, \<^verbatim>\<open>cmd/trafficmon/internal/tui/filters.go\<close>, and the name
  shown for a destination, \<^verbatim>\<open>Hostname\<close> in \<^verbatim>\<open>model.go\<close>. Asking for a name moves an entry of the
  hostname cache and may start a query of the resolver, so the functions that ask thread the
  two. A filter writes its result over the start of its argument's array, which it has already
  read that far: the result is a list of its own here.

  The theory shows which rows the address filters keep, for every address in its printed
  form, and where a name that is shown comes from.
\<close>

section \<open>Names\<close>

text \<open>Where names come from; a resolver stands with its goroutines.\<close>

record name_sources =
  ns_world :: "world option"
  ns_cache :: "HostnameCache option"

definition lookup_name :: "string \<Rightarrow> world \<Rightarrow> string \<times> world" where
  "lookup_name ip w =
     (let (shown, started, r) = Lookup_ip ip (w_resolver w)
      in (shown, w\<lparr>w_resolver := r,
            w_waiting := (if started then add_mset ip (w_waiting w) else w_waiting w),
            w_queries := (if started then add_mset ip (w_queries w) else w_queries w)\<rparr>))"

definition cached_name :: "string \<Rightarrow> time \<Rightarrow> name_sources \<Rightarrow> string option \<times> name_sources" where
  "cached_name ip now ns =
     (case ns_cache ns of
        None \<Rightarrow> (None, ns)
      | Some c \<Rightarrow> (let (host, c) = Get ip now c in (host, ns\<lparr>ns_cache := Some c\<rparr>)))"

definition row_Hostname :: "time \<Rightarrow> Row \<Rightarrow> name_sources \<Rightarrow> string \<times> name_sources" where
  "row_Hostname now r ns =
     (if w_Hostname r \<noteq> '''' then (w_Hostname r, ns)
      else if w_RemoteAddr r = '''' then (w_RemoteAddr r, ns)
      else case cached_name (w_RemoteAddr r) now ns of
        (Some host, ns) \<Rightarrow> (host, ns)
      | (None, ns) \<Rightarrow>
          (case ns_world ns of
             None \<Rightarrow> (w_RemoteAddr r, ns)
           | Some w \<Rightarrow> (let (shown, w) = lookup_name (w_RemoteAddr r) w in (shown, ns\<lparr>ns_world := Some w\<rparr>))))"

section \<open>Filters\<close>

text \<open>The loop of \<open>filterRows\<close>, on the lower-case query.\<close>

fun filter_loop :: "string \<Rightarrow> (Row \<Rightarrow> 's \<Rightarrow> string \<times> 's) option \<Rightarrow> Row list \<Rightarrow> 's \<Rightarrow> Row list \<times> 's" where
  "filter_loop q names [] s = ([], s)"
| "filter_loop q names (r # rs) s =
     (if Contains (ToLower (w_Label r)) q
      then (let (out, s) = filter_loop q names rs s in (r # out, s))
      else case names of
        None \<Rightarrow> filter_loop q names rs s
      | Some f \<Rightarrow>
          (let (name, s) = f r s; (out, s) = filter_loop q names rs s
           in (if Contains (ToLower name) q then r # out else out, s)))"

definition filterRows :: "Row list \<Rightarrow> string \<Rightarrow> (Row \<Rightarrow> 's \<Rightarrow> string \<times> 's) option \<Rightarrow> 's \<Rightarrow> Row list \<times> 's" where
  "filterRows rows q names s = (if q = '''' then (rows, s) else filter_loop (ToLower q) names rows s)"

definition listenState :: string where "listenState = ''LISTEN''"

definition filterListening :: "Row list \<Rightarrow> bool \<Rightarrow> Row list" where
  "filterListening rows show = (if show then rows else filter (\<lambda>r. w_State r \<noteq> listenState) rows)"

definition filterProto :: "Row list \<Rightarrow> bool \<Rightarrow> bool \<Rightarrow> Row list" where
  "filterProto rows showTCP showUDP =
     (if showTCP \<and> showUDP then rows
      else filter (\<lambda>r. if w_Proto r = ''tcp'' then showTCP else if w_Proto r = ''udp'' then showUDP else True) rows)"

definition filterIPFamily :: "Row list \<Rightarrow> bool \<Rightarrow> bool \<Rightarrow> Row list" where
  "filterIPFamily rows showIPv4 showIPv6 =
     (if showIPv4 \<and> showIPv6 then rows
      else filter (\<lambda>r. case ParseIP (w_RemoteAddr r) of
             None \<Rightarrow> True
           | Some ip \<Rightarrow> if To4 ip \<noteq> None then showIPv4 else showIPv6) rows)"

definition filterPrivate :: "Row list \<Rightarrow> bool \<Rightarrow> Row list" where
  "filterPrivate rows show =
     (if show then rows
      else filter (\<lambda>r. case ParseIP (w_RemoteAddr r) of None \<Rightarrow> True | Some ip \<Rightarrow> \<not> IsPrivate ip) rows)"

text \<open>A missing key of the map reads as false.\<close>

definition filterIface :: "Row list \<Rightarrow> (string \<rightharpoonup> bool) \<Rightarrow> Row list" where
  "filterIface rows active = filter (\<lambda>r. w_Iface r = '''' \<or> active (w_Iface r) = Some True) rows"

section \<open>Addresses\<close>

text \<open>The private ranges: 10/8, 172.16/12, 192.168/16, and fc00::/7.\<close>

fun private_addr :: "addr \<Rightarrow> bool" where
  "private_addr (AddrV4 (p # q # b)) \<longleftrightarrow> p = 10 \<or> p = 172 \<and> 16 \<le> q \<and> q < 32 \<or> p = 192 \<and> q = 168"
| "private_addr (AddrV6 (p # b)) \<longleftrightarrow> p = 0xfc \<or> p = 0xfd"
| "private_addr _ \<longleftrightarrow> False"

fun is_v4 :: "addr \<Rightarrow> bool" where
  "is_v4 (AddrV4 b) \<longleftrightarrow> True"
| "is_v4 _ \<longleftrightarrow> False"

text \<open>A fact about a byte, checked on all of them.\<close>

lemma all_bytes: "list_all P [0..255] \<Longrightarrow> P (uint q)" for q :: u8
  using unsigned_less [where ?'a = int, of q] unsigned_greater_eq [where ?'a = int, of q] by (simp add: list_all_iff)

lemma and_f0: "and q 0xf0 = 16 \<longleftrightarrow> 16 \<le> q \<and> q < 32" for q :: u8
proof -
  have "list_all (\<lambda>n. (and (word_of_int n) 0xf0 = (16 :: u8)) = (16 \<le> n \<and> n < 32)) [0..255]" by code_simp
  from all_bytes [OF this, of q] show ?thesis by (simp add: word_le_def word_less_def)
qed

lemma and_fe: "and p 0xfe = 0xfc \<longleftrightarrow> p = 0xfc \<or> p = 0xfd" for p :: u8
proof -
  have "list_all (\<lambda>n. (and (word_of_int n) 0xfe = (0xfc :: u8)) = (n = 0xfc \<or> n = 0xfd)) [0..255]" by code_simp
  from all_bytes [OF this, of p] show ?thesis by (simp add: word_uint_eq_iff)
qed

lemma mapped_or_not:
  assumes "addr_ok a"
  shows "To4 (As16 a) = (case Unmap a of AddrV4 b \<Rightarrow> Some b | _ \<Rightarrow> None)"
  using assms by (cases a) (auto simp: To4_def v4_mapped_prefix_def)

lemma first_bytes:
  assumes "addr_ok a"
  shows "Unmap a = AddrV4 b \<Longrightarrow> \<exists>p q r s. b = [p, q, r, s]"
    and "Unmap a = AddrV6 b \<Longrightarrow> As16 a = b \<and> length b = 16"
  using assms by (cases a; auto simp: length_Suc_conv numeral_eq_Suc split: if_splits)+

lemma IsPrivate_As16: "addr_ok a \<Longrightarrow> IsPrivate (As16 a) = private_addr (Unmap a)"
proof (cases "Unmap a")
  case (AddrV4 b)
  assume "addr_ok a"
  from first_bytes(1) [OF this AddrV4] mapped_or_not [OF this] AddrV4 show ?thesis
    by (auto simp: IsPrivate_def and_f0)
next
  case (AddrV6 b)
  assume ok: "addr_ok a"
  then obtain p t where "b = p # t" using first_bytes(2) [OF ok AddrV6] by (cases b) auto
  with first_bytes(2) [OF ok AddrV6] mapped_or_not [OF ok] AddrV6 show ?thesis
    by (auto simp: IsPrivate_def and_fe)
qed (cases a; simp split: if_splits)

section \<open>Which rows are kept\<close>

text \<open>
  C37: the filters on addresses decide by the address a row shows: in any set of rows, one whose
  remote address is the printed form of an address is kept by the family filter exactly when
  its family is shown, IPv4-mapped addresses counting as IPv4, and by the private filter
  exactly when private addresses are shown or it lies outside 10/8, 172.16/12, 192.168/16 and
  fc00::/7; a row whose remote address is no address is always kept.
\<close>

theorem address_filters_exact:
  assumes "addr_ok a" and "w_RemoteAddr r = addr_String a" and "ParseIP (w_RemoteAddr r') = None"
  shows "(r \<in> set (filterIPFamily rows v4 v6) \<longleftrightarrow> r \<in> set rows \<and> (if is_v4 (Unmap a) then v4 else v6)) \<and>
    (r \<in> set (filterPrivate rows priv) \<longleftrightarrow> r \<in> set rows \<and> (priv \<or> \<not> private_addr (Unmap a))) \<and>
    (r' \<in> set (filterIPFamily rows v4 v6) \<longleftrightarrow> r' \<in> set rows) \<and>
    (r' \<in> set (filterPrivate rows priv) \<longleftrightarrow> r' \<in> set rows)"
proof -
  have ip: "ParseIP (w_RemoteAddr r) = Some (As16 a)" using assms(1,2) by (simp add: ParseIP_addr_String)
  have "To4 (As16 a) \<noteq> None \<longleftrightarrow> is_v4 (Unmap a)" by (simp add: mapped_or_not assms(1) split: addr.split)
  then show ?thesis
    using assms(3) ip IsPrivate_As16 [OF assms(1)] by (auto simp: filterIPFamily_def filterPrivate_def)
qed

theorem address_filters_exact_witness:
  "let r = zero_row\<lparr>w_RemoteAddr := ''172.20.0.1''\<rparr>; r' = zero_row\<lparr>w_RemoteAddr := ''host''\<rparr>
   in r \<in> set (filterIPFamily [r, r'] True False) \<and> r \<notin> set (filterPrivate [r, r'] False) \<and>
      r' \<in> set (filterIPFamily [r, r'] False False) \<and> r' \<in> set (filterPrivate [r, r'] False)"
proof -
  let ?a = "AddrV4 [172, 20, 0, 1]"
  let ?r = "zero_row\<lparr>w_RemoteAddr := ''172.20.0.1''\<rparr>" and ?r' = "zero_row\<lparr>w_RemoteAddr := ''host''\<rparr>"
  have "addr_String ?a = ''172.20.0.1''" by code_simp
  then have r: "w_RemoteAddr ?r = addr_String ?a" by simp
  have r': "ParseIP (w_RemoteAddr ?r') = None" by (simp add: ParseIP_def)
  have "addr_ok ?a" "is_v4 (Unmap ?a)" "private_addr (Unmap ?a)" by simp_all
  with address_filters_exact [OF _ r r', where rows = "[?r, ?r']" and ?v4.0 = True and ?v6.0 = False and priv = False]
    address_filters_exact [OF _ r r', where rows = "[?r, ?r']" and ?v4.0 = False and ?v6.0 = False and priv = False]
  show ?thesis unfolding Let_def by simp
qed

section \<open>Where a name comes from\<close>

lemma lookup_name_step: "lookup_name ip w = (shown, w') \<Longrightarrow> resolver_step w w'"
  by (auto simp: lookup_name_def intro: resolver_step.lookup split: prod.splits)

text \<open>What a lookup shows, in a state the resolver can be in.\<close>

lemma lookup_name_shown:
  assumes "resolver_inv w" and "lookup_name ip w = (shown, w')"
  shows "shown = ip \<or> (\<exists>names. (ip, names) \<in> w_answers w \<and> shown = firstName names)"
proof -
  obtain started r where l: "Lookup_ip ip (w_resolver w) = (shown, started, r)"
    using assms(2) by (auto simp: lookup_name_def split: prod.splits)
  from Lookup_ip_cases(3) [OF l] resolver_invD(2) [OF assms(1)] show ?thesis
    by (fastforce simp: backed_def)
qed

text \<open>
  C38: the name shown for a row is the one found in its own packets, when there is one; else, for
  a row with an address, the one the hostname cache holds for the address; else, with a
  resolver at any moment of a run of it, the first name that a query for the address
  returned, or the address itself. Asking changes the cache only by a lookup and the resolver
  only by a step of its own.
\<close>

theorem shown_name_source:
  assumes "set opts \<subseteq> options" and "resolver_step\<^sup>*\<^sup>* (start_world opts) w"
    and "row_Hostname now r \<lparr>ns_world = Some w, ns_cache = Some c\<rparr> = (name, ns)"
  shows "(if w_Hostname r \<noteq> '''' then name = w_Hostname r \<and> ns = \<lparr>ns_world = Some w, ns_cache = Some c\<rparr>
      else case fst (Get (w_RemoteAddr r) now c) of
        Some host \<Rightarrow> name = (if w_RemoteAddr r = '''' then '''' else host)
      | None \<Rightarrow> name = w_RemoteAddr r \<or>
          (\<exists>names. (w_RemoteAddr r, names) \<in> w_answers w \<and> name = firstName names)) \<and>
    (\<exists>w'. ns_world ns = Some w' \<and> resolver_step\<^sup>*\<^sup>* (start_world opts) w') \<and>
    ns_cache ns \<in> {Some c, Some (snd (Get (w_RemoteAddr r) now c))}"
proof -
  let ?ip = "w_RemoteAddr r"
  have inv: "resolver_inv w"
    using resolver_run.run_keeps [OF assms(2)] NewResolverWith_limits [OF assms(1)] by blast
  obtain h c' where g: "Get ?ip now c = (h, c')" by fastforce
  obtain shown w' where l: "lookup_name ?ip w = (shown, w')" by fastforce
  have "resolver_step\<^sup>*\<^sup>* (start_world opts) w'"
    using assms(2) lookup_name_step [OF l] by (rule rtranclp.rtrancl_into_rtrancl)
  then show ?thesis
    using assms(2,3) lookup_name_shown [OF inv l] g l
    by (cases h) (auto simp: row_Hostname_def cached_name_def split: if_splits)
qed

theorem shown_name_source_witness:
  "fst (row_Hostname 0 (zero_row\<lparr>w_RemoteAddr := ''10.0.0.1''\<rparr>)
     \<lparr>ns_world = Some (start_world []), ns_cache = Some (NewHostnameCache 1 second)\<rparr>) = ''10.0.0.1''"
proof -
  let ?r = "zero_row\<lparr>w_RemoteAddr := ''10.0.0.1''\<rparr>" and ?c = "NewHostnameCache 1 second"
  obtain name ns where h: "row_Hostname 0 ?r \<lparr>ns_world = Some (start_world []), ns_cache = Some ?c\<rparr> = (name, ns)" by fastforce
  have "fst (Get ''10.0.0.1'' 0 ?c) = None" by (simp add: Get_def NewHostnameCache_def)
  with shown_name_source [OF _ rtranclp.rtrancl_refl h] have "name = ''10.0.0.1''"
    by (simp add: zero_row_def start_world_def)
  with h show ?thesis by simp
qed

end
