(* ===== verification/Tui_Events.thy ===== *)
theory Tui_Events
  imports Tui_Table
begin

text \<open>
  The events panel of the terminal interface, \<^verbatim>\<open>cmd/trafficmon/internal/tui/events.go\<close>, and the
  scrolling of both panels (\<^verbatim>\<open>visibleWindow\<close> in \<^verbatim>\<open>view.go\<close>). Each refresh hands over five streams of
  events; they become records, are merged by time and go into a ring of 500. Times are
  printed by a parameter, since the clock's zone is not in the program. Colours are left out.

  The theory shows that the ring is another instance of the contract \<open>drop_oldest\<close>, that merging
  keeps every event and the order within a stream, that windows always show the cursor and
  scroll no further than needed, and that lines have the width of their columns.
\<close>

section \<open>Records\<close>

datatype eventKind = eventSYN | eventRST | eventDNSQuery | eventDNSError | eventDNSAnswer

fun eventKind_String :: "eventKind \<Rightarrow> string" where
  "eventKind_String eventRST = ''RST''"
| "eventKind_String eventDNSQuery = ''DNS Q''"
| "eventKind_String eventDNSError = ''DNS ERR''"
| "eventKind_String eventDNSAnswer = ''DNS A''"
| "eventKind_String eventSYN = ''SYN''"

datatype eventSeverity = severityInfo | severityError

fun severity :: "eventKind \<Rightarrow> eventSeverity" where
  "severity eventRST = severityError"
| "severity eventDNSError = severityError"
| "severity _ = severityInfo"

fun eventSeverity_String :: "eventSeverity \<Rightarrow> string" where
  "eventSeverity_String severityError = ''ERR''"
| "eventSeverity_String severityInfo = ''INFO''"

record eventRecord =
  er_At :: time
  er_Kind :: eventKind
  er_Local :: string
  er_Remote :: string
  er_Info :: string

definition eventRingCapacity :: nat where "eventRingCapacity = 500"

definition eventRing_push :: "eventRecord \<Rightarrow> eventRecord list \<Rightarrow> eventRecord list" where
  "eventRing_push rec items =
     (let items = (if eventRingCapacity \<le> length items
                   then take (length items - 1) (go_copy items (drop 1 items)) else items)
      in items @ [rec])"

definition addr_port :: "addr \<Rightarrow> u16 \<Rightarrow> string" where
  "addr_port a p = JoinHostPort (addr_String a) (Itoa (int (unat p)))"

definition syn_rec :: "SYNEvent \<Rightarrow> eventRecord" where
  "syn_rec e = \<lparr>er_At = se_At e, er_Kind = eventSYN, er_Local = addr_port (se_LocalAddr e) (se_LocalPort e),
     er_Remote = addr_port (se_RemoteAddr e) (se_RemotePort e), er_Info = se_Iface e\<rparr>"

definition rst_rec :: "RSTEvent \<Rightarrow> eventRecord" where
  "rst_rec e = \<lparr>er_At = re_At e, er_Kind = eventRST, er_Local = addr_port (re_LocalAddr e) (re_LocalPort e),
     er_Remote = addr_port (re_RemoteAddr e) (re_RemotePort e), er_Info = re_Iface e\<rparr>"

definition query_rec :: "QueryFinding \<Rightarrow> eventRecord" where
  "query_rec q = \<lparr>er_At = qf_At q, er_Kind = eventDNSQuery, er_Local = qf_ClientAddr q, er_Remote = qf_ServerAddr q,
     er_Info = qf_Name q @ '' ('' @ qf_QType q @ '')''\<rparr>"

definition error_rec :: "DNSErrorFinding \<Rightarrow> eventRecord" where
  "error_rec e = \<lparr>er_At = ef_At e, er_Kind = eventDNSError, er_Local = '''', er_Remote = ef_ServerAddr e,
     er_Info = ef_Name e @ '' ('' @ ef_QType e @ '') '' @ ef_RCode e\<rparr>"

definition answer_rec :: "DNSAnswerFinding \<Rightarrow> eventRecord" where
  "answer_rec a = \<lparr>er_At = af_At a, er_Kind = eventDNSAnswer, er_Local = '''', er_Remote = af_ServerAddr a,
     er_Info = af_Name a @ '' ('' @ af_QType a @ '') -> '' @ af_Answer a @ '' (ttl '' @
       dec_digits (unat (af_TTL a)) @ ''s)''\<rparr>"

text \<open>The five streams of a snapshot one after the other, and merged by time.\<close>

definition event_records :: "Snapshot \<Rightarrow> eventRecord list" where
  "event_records snap = map syn_rec (sn_SYNEvents snap) @ map rst_rec (sn_RSTEvents snap) @
     map query_rec (sn_DNSQueries snap) @ map error_rec (sn_DNSErrors snap) @ map answer_rec (sn_DNSAnswers snap)"

definition merged_events :: "Snapshot \<Rightarrow> eventRecord list" where
  "merged_events snap = SliceStable (\<lambda>a b. er_At a < er_At b) (event_records snap)"

section \<open>Scrolling\<close>

definition clamp :: "int \<Rightarrow> int \<Rightarrow> int \<Rightarrow> int" where
  "clamp v lo hi = min (max v lo) hi"

definition eventsWindowStart :: "int \<Rightarrow> int \<Rightarrow> int \<Rightarrow> int \<Rightarrow> int" where
  "eventsWindowStart prevStart cursor n limit =
     (if limit \<le> 0 \<or> n \<le> limit then 0
      else let start = clamp prevStart 0 (n - limit);
               start = (if cursor < start then cursor else start);
               start = (if start + limit - 1 < cursor then cursor - limit + 1 else start)
           in clamp start 0 (n - limit))"

definition eventsVisibleWindow :: "int \<Rightarrow> int \<Rightarrow> int \<Rightarrow> int \<Rightarrow> int \<times> int" where
  "eventsVisibleWindow prevTop cursor n limit =
     (if limit \<le> 0 \<or> n \<le> limit then (0, n)
      else let start = eventsWindowStart prevTop cursor n limit in (start, start + limit))"

definition visibleWindow :: "int \<Rightarrow> int \<Rightarrow> int \<Rightarrow> int \<times> int" where
  "visibleWindow n cursor limit =
     (if limit \<le> 0 \<or> n \<le> limit then (0, n)
      else let start = (if limit \<le> cursor then cursor - limit + 1 else 0);
               start = (if n < start + limit then n - limit else start)
           in (start, start + limit))"

section \<open>Lines\<close>

definition eventTimeWidth :: int where "eventTimeWidth = 8"
definition eventSeverityWidth :: int where "eventSeverityWidth = 4"
definition eventTypeWidth :: int where "eventTypeWidth = 7"
definition eventAddrWidth :: int where "eventAddrWidth = 21"

definition formatEventRow :: "(time \<Rightarrow> string) \<Rightarrow> eventRecord \<Rightarrow> string list" where
  "formatEventRow clock rec =
     [clock (er_At rec), eventSeverity_String (severity (er_Kind rec)), eventKind_String (er_Kind rec),
      er_Local rec, er_Remote rec, er_Info rec]"

definition eventInfoWidth :: "int \<Rightarrow> int" where
  "eventInfoWidth contentWidth =
     (let fixed = eventTimeWidth + eventSeverityWidth + eventTypeWidth + eventAddrWidth * 2 + colGap * 5
      in clamp (contentWidth - fixed) minLabelWidth contentWidth)"

definition eventColumnTitles :: "string list" where
  "eventColumnTitles = [''TIME'', ''LVL'', ''TYPE'', ''LOCAL'', ''REMOTE'', ''INFO'']"

definition eventColumnWidths :: "int \<Rightarrow> int list" where
  "eventColumnWidths infoWidth =
     [eventTimeWidth, eventSeverityWidth, eventTypeWidth, eventAddrWidth, eventAddrWidth, infoWidth]"

definition renderEventHeader :: "(rtext \<Rightarrow> nat) \<Rightarrow> int \<Rightarrow> rtext" where
  "renderEventHeader W infoWidth =
     join_text (map2 (\<lambda>title w. pad W (runes title) w alignLeft False) eventColumnTitles (eventColumnWidths infoWidth))
       (replicate (nat colGap) blank)"

definition renderEventRow :: "(rtext \<Rightarrow> nat) \<Rightarrow> (time \<Rightarrow> string) \<Rightarrow> eventRecord \<Rightarrow> int \<Rightarrow> rtext" where
  "renderEventRow W clock rec infoWidth =
     join_text (map2 (\<lambda>cell w. pad W (runes cell) w alignLeft False) (formatEventRow clock rec) (eventColumnWidths infoWidth))
       (replicate (nat colGap) blank)"

section \<open>The ring\<close>

interpretation event_ring: drop_oldest eventRing_push eventRingCapacity
proof unfold_locales
  show "0 < eventRingCapacity" by (simp add: eventRingCapacity_def)
  then show "length items \<le> eventRingCapacity \<Longrightarrow> eventRing_push e items = latest eventRingCapacity (items @ [e])" for items e
    unfolding eventRing_push_def Let_def by (rule push_is_latest [rotated])
qed

text \<open>Merging sorts by time and keeps what has equal times in its order.\<close>

lemma merged_events_sort: "merged_events snap = sort_key er_At (event_records snap)"
  unfolding merged_events_def by (rule SliceStable_key) simp

lemma merged_events_mset [simp]: "mset (merged_events snap) = mset (event_records snap)"
  by (simp add: merged_events_sort)

section \<open>Windows\<close>

lemma clamp_range: "lo \<le> hi \<Longrightarrow> lo \<le> clamp v lo hi \<and> clamp v lo hi \<le> hi"
  by (simp add: clamp_def)

lemma clamp_id: "lo \<le> v \<Longrightarrow> v \<le> hi \<Longrightarrow> clamp v lo hi = v"
  by (simp add: clamp_def)

text \<open>
  Both windows always show the cursor and are as large as they can be: for every cursor on a
  list of \<open>n\<close> rows, any earlier window and any room, the range that is drawn lies in the list,
  contains the cursor, and has the size of the room, or of the list when that is smaller or the
  room is unknown. The events window is moved no further than needed: no other window of its
  size with the cursor in it is nearer to where it was.
\<close>

theorem windows_show_cursor:
  assumes "0 \<le> cursor" and "cursor < n"
  shows "(case eventsVisibleWindow prevTop cursor n limit of (s, e) \<Rightarrow>
      0 \<le> s \<and> s \<le> cursor \<and> cursor < e \<and> e \<le> n \<and> e - s = (if limit \<le> 0 then n else min n limit) \<and>
      (\<forall>s'. 0 \<le> s' \<and> s' \<le> cursor \<and> cursor < s' + (e - s) \<and> s' + (e - s) \<le> n \<longrightarrow> \<bar>s - prevTop\<bar> \<le> \<bar>s' - prevTop\<bar>)) \<and>
    (case visibleWindow n cursor limit of (s, e) \<Rightarrow>
      0 \<le> s \<and> s \<le> cursor \<and> cursor < e \<and> e \<le> n \<and> e - s = (if limit \<le> 0 then n else min n limit))"
proof (cases "limit \<le> 0 \<or> n \<le> limit")
  case True
  with assms show ?thesis by (auto simp: eventsVisibleWindow_def visibleWindow_def)
next
  case False
  let ?s = "eventsWindowStart prevTop cursor n limit"
  have "0 \<le> ?s" "?s \<le> cursor" "cursor < ?s + limit" "?s + limit \<le> n"
    using assms False by (auto simp: eventsWindowStart_def clamp_def Let_def)
  moreover have "\<bar>?s - prevTop\<bar> \<le> \<bar>s' - prevTop\<bar>" if "0 \<le> s'" "s' \<le> cursor" "cursor < s' + limit" "s' + limit \<le> n" for s'
    using assms False that by (auto simp: eventsWindowStart_def clamp_def Let_def)
  ultimately show ?thesis
    using assms False by (auto simp: eventsVisibleWindow_def visibleWindow_def Let_def)
qed

theorem windows_show_cursor_witness:
  "eventsVisibleWindow 3 7 20 4 = (4, 8) \<and>
   (case eventsVisibleWindow 3 7 20 4 of (s, e) \<Rightarrow> s \<le> (7 :: int) \<and> 7 < e) \<and> (case visibleWindow 20 7 4 of (s, e) \<Rightarrow> s \<le> (7 :: int) \<and> 7 < e)"
proof -
  have "eventsVisibleWindow 3 7 20 4 = (4, 8)" by code_simp
  with windows_show_cursor [where cursor = 7 and n = 20 and prevTop = 3 and limit = 4] show ?thesis by (auto split: prod.splits)
qed

section \<open>Widths\<close>

lemma event_line_width:
  assumes "width_ok W" and "length cells = 6" and "0 \<le> info"
  shows "int (W (join_text (map2 (\<lambda>c w. pad W (runes c) w alignLeft False) cells (eventColumnWidths info)) (replicate (nat colGap) blank))) =
    71 + info"
proof -
  obtain a b c d e f where cells: "cells = [a, b, c, d, e, f]"
    using assms(2) by (auto simp: length_Suc_conv numeral_eq_Suc)
  show ?thesis
    unfolding cells eventColumnWidths_def
    using assms(3) by (simp add: width_simps(2,4) [OF assms(1)] pad_width [OF assms(1)] eventTimeWidth_def
      eventSeverityWidth_def eventTypeWidth_def eventAddrWidth_def colGap_def)
qed

text \<open>In a panel of at least 81 cells every line of the events fills it exactly.\<close>

lemma event_lines_fill:
  assumes "width_ok W" and "81 \<le> contentWidth"
  shows "int (W (renderEventRow W clock rec (eventInfoWidth contentWidth))) = contentWidth"
    and "int (W (renderEventHeader W (eventInfoWidth contentWidth))) = contentWidth"
proof -
  have i: "eventInfoWidth contentWidth = contentWidth - 71"
    using assms(2) by (simp add: eventInfoWidth_def clamp_def eventTimeWidth_def eventSeverityWidth_def
      eventTypeWidth_def eventAddrWidth_def colGap_def minLabelWidth_def)
  show "int (W (renderEventRow W clock rec (eventInfoWidth contentWidth))) = contentWidth"
    "int (W (renderEventHeader W (eventInfoWidth contentWidth))) = contentWidth"
    unfolding renderEventRow_def renderEventHeader_def i
    using assms(2) by (simp_all add: event_line_width [OF assms(1)] formatEventRow_def eventColumnTitles_def)
qed

end
