(* ===== verification/Tui_Model.thy ===== *)
theory Tui_Model
  imports Tui_Filters Tui_Events
begin

text \<open>
  The state of the terminal interface and everything that changes it:
  \<^verbatim>\<open>model.go\<close>, \<^verbatim>\<open>state.go\<close>, \<^verbatim>\<open>keys.go\<close> and the part of \<^verbatim>\<open>events.go\<close> that works on the model, under
  \<^verbatim>\<open>cmd/trafficmon/internal/tui\<close>. \<open>Update\<close> handles one message: a new window size, a mouse event, a
  tick of the clock or a key. The line editor is the \<^verbatim>\<open>textinput\<close> bubble, a record of operations
  \<open>T\<close>; of a key message only its type and its name are read. A tick carries what the
  aggregator is handed at that moment. Rows and coordinates are integers without a bound.

  The theory has the definitions; \<open>Tui_Props\<close> and \<open>Tui_Keys\<close> have what is shown of them.
\<close>

section \<open>Messages and keys\<close>

datatype KeyType = KeyCtrlC | KeyEsc | KeyEnter | KeySpace | KeyOther

record KeyMsg =
  key_Type :: KeyType
  key_String :: string

datatype MouseAction = MouseActionPress | MouseActionRelease | MouseActionMotion

datatype tea_msg =
  WindowSizeMsg int int
  | MouseMsg MouseAction int
  | tickMsg walks "Connection list" time
  | KeyPress KeyMsg

datatype tea_cmd = NoCmd | Quit_cmd | Tick_cmd | Input_cmd

text \<open>A binding is the list of the names of its keys.\<close>

record KeyMap =
  km_Up :: "string list"
  km_Down :: "string list"
  km_PageUp :: "string list"
  km_PageDown :: "string list"
  km_Home :: "string list"
  km_End :: "string list"
  km_Grouping :: "string list"
  km_Sort :: "string list"
  km_RateSort :: "string list"
  km_Filter :: "string list"
  km_ToggleListening :: "string list"
  km_ToggleTCP :: "string list"
  km_ToggleUDP :: "string list"
  km_ToggleIPv4 :: "string list"
  km_ToggleIPv6 :: "string list"
  km_TogglePrivate :: "string list"
  km_Interfaces :: "string list"
  km_FocusNext :: "string list"
  km_Zoom :: "string list"
  km_Unzoom :: "string list"
  km_Pause :: "string list"
  km_Help :: "string list"
  km_Quit :: "string list"

definition DefaultKeyMap :: KeyMap where
  "DefaultKeyMap =
     \<lparr>km_Up = [''up'', ''k''], km_Down = [''down'', ''j''], km_PageUp = [''pgup'', ''ctrl+b''],
      km_PageDown = [''pgdown'', ''ctrl+f''], km_Home = [''home''], km_End = [''end'', ''G''],
      km_Grouping = [''g''], km_Sort = [''s''], km_RateSort = [''r''], km_Filter = [''/''],
      km_ToggleListening = [''l''], km_ToggleTCP = [''t''], km_ToggleUDP = [''u''], km_ToggleIPv4 = [''4''],
      km_ToggleIPv6 = [''6''], km_TogglePrivate = [''P''], km_Interfaces = [''i''], km_FocusNext = [''tab''],
      km_Zoom = [''enter''], km_Unzoom = [''esc''], km_Pause = [''p'', '' ''], km_Help = [''?''],
      km_Quit = [''q'', ''ctrl+c'']\<rparr>"

definition key_Matches :: "KeyMsg \<Rightarrow> string list \<Rightarrow> bool" where
  "key_Matches msg binding \<longleftrightarrow> key_String msg \<in> set binding"

section \<open>The model\<close>

definition connChromeLines :: int where "connChromeLines = 4"
definition eventsChromeLines :: int where "eventsChromeLines = 3"
definition eventsHeightFraction :: int where "eventsHeightFraction = 4"
definition minPanelDataRows :: int where "minPanelDataRows = 3"
definition defaultPageSize :: int where "defaultPageSize = 10"

datatype panelFocus = focusConnections | focusEvents

record 'i textinput =
  ti_New :: 'i
  ti_Update :: "KeyMsg \<Rightarrow> 'i \<Rightarrow> 'i"
  ti_Value :: "'i \<Rightarrow> string"
  ti_SetValue :: "string \<Rightarrow> 'i \<Rightarrow> 'i"
  ti_Focus :: "'i \<Rightarrow> 'i"
  ti_Blur :: "'i \<Rightarrow> 'i"

record 'i Model =
  tm_agg :: "(records \<times> Capturer) option"
  tm_names :: name_sources
  tm_interfaces :: "string list"
  tm_activeInterfaces :: "string \<rightharpoonup> bool"
  tm_showIfacePicker :: bool
  tm_ifaceCursor :: int
  tm_keys :: KeyMap
  tm_grouping :: Grouping
  tm_sort :: SortKey
  tm_snap :: Snapshot
  tm_rows :: "Row list"
  tm_cursor :: int
  tm_now :: time
  tm_paused :: bool
  tm_showHelp :: bool
  tm_filter :: string
  tm_input :: 'i
  tm_filtering :: bool
  tm_filterBefore :: string
  tm_showListening :: bool
  tm_showTCP :: bool
  tm_showUDP :: bool
  tm_showIPv4 :: bool
  tm_showIPv6 :: bool
  tm_showPrivate :: bool
  tm_events :: "eventRecord list"
  tm_eventsCursor :: int
  tm_eventsWindowTop :: int
  tm_focus :: panelFocus
  tm_zoomed :: bool
  tm_eventsPanelRows :: int
  tm_draggingDivider :: bool
  tm_dragRow :: int
  tm_width :: int
  tm_height :: int

definition zero_snapshot :: Snapshot where
  "zero_snapshot = \<lparr>sn_At = 0, sn_Connections = [], sn_SYNEvents = [], sn_RSTEvents = [], sn_DNSQueries = [],
     sn_DNSErrors = [], sn_DNSAnswers = [], sn_PacketStats = Map.empty\<rparr>"

definition NewModel :: "'i textinput \<Rightarrow> (records \<times> Capturer) option \<Rightarrow> name_sources \<Rightarrow> string list \<Rightarrow> 'i Model" where
  "NewModel T agg names interfaces =
     \<lparr>tm_agg = agg, tm_names = names, tm_interfaces = interfaces,
      tm_activeInterfaces = fold (\<lambda>name active. active(name \<mapsto> True)) interfaces Map.empty,
      tm_showIfacePicker = False, tm_ifaceCursor = 0, tm_keys = DefaultKeyMap, tm_grouping = GroupNone,
      tm_sort = SortPID, tm_snap = zero_snapshot, tm_rows = [], tm_cursor = 0, tm_now = 0, tm_paused = False,
      tm_showHelp = False, tm_filter = '''', tm_input = ti_New T, tm_filtering = False, tm_filterBefore = '''',
      tm_showListening = True, tm_showTCP = True, tm_showUDP = True, tm_showIPv4 = True, tm_showIPv6 = True,
      tm_showPrivate = True, tm_events = [], tm_eventsCursor = 0, tm_eventsWindowTop = 0,
      tm_focus = focusConnections, tm_zoomed = False, tm_eventsPanelRows = 0, tm_draggingDivider = False,
      tm_dragRow = 0, tm_width = 0, tm_height = 0\<rparr>"

definition event_count :: "'i Model \<Rightarrow> int" where
  "event_count m = int (length (tm_events m))"

definition row_count :: "'i Model \<Rightarrow> int" where
  "row_count m = int (length (tm_rows m))"

section \<open>Layout\<close>

definition splitTotalLines :: "'i Model \<Rightarrow> int" where
  "splitTotalLines m = max (tm_height m - 1) 0"

definition layout :: "'i Model \<Rightarrow> int \<times> int" where
  "layout m =
     (if tm_height m \<le> 0 then (0, 0)
      else if tm_zoomed m
      then (let avail = splitTotalLines m
            in if tm_focus m = focusEvents then (0, max (avail - eventsChromeLines) 1)
               else (max (avail - connChromeLines) 1, 0))
      else (let total = splitTotalLines m;
                eventsRows = max (tm_eventsPanelRows m) minPanelDataRows;
                connRows = total - connChromeLines - (eventsRows + eventsChromeLines)
            in if connRows < minPanelDataRows
               then (minPanelDataRows, max (total - connChromeLines - minPanelDataRows - eventsChromeLines) minPanelDataRows)
               else (connRows, eventsRows)))"

definition eventsRowLines :: "'i Model \<Rightarrow> int" where
  "eventsRowLines m = snd (layout m)"

definition rowLines :: "'i Model \<Rightarrow> int" where
  "rowLines m = fst (layout m)"

definition pageSize :: "'i Model \<Rightarrow> int" where
  "pageSize m =
     (let (connRows, eventsRows) = layout m; n = (if tm_focus m = focusEvents then eventsRows else connRows)
      in if 0 < n then n else defaultPageSize)"

definition resizePanels :: "int \<Rightarrow> int \<Rightarrow> 'i Model \<Rightarrow> 'i Model" where
  "resizePanels width height m =
     (let frac = (if 0 < tm_eventsPanelRows m \<and> 0 < splitTotalLines m
                  then f_div (float64 (tm_eventsPanelRows m + eventsChromeLines)) (float64 (splitTotalLines m))
                  else f_div (1, 1) (float64 eventsHeightFraction));
          m = m\<lparr>tm_width := width, tm_height := height\<rparr>;
          rows = f_int (f_mul (float64 (splitTotalLines m)) frac) - eventsChromeLines
      in m\<lparr>tm_eventsPanelRows := max rows minPanelDataRows\<rparr>)"

definition dividerRow :: "'i Model \<Rightarrow> int" where
  "dividerRow m = (if tm_zoomed m then -1 else connChromeLines + fst (layout m) - 1)"

definition adjustEventsPanelRows :: "int \<Rightarrow> 'i Model \<Rightarrow> 'i Model" where
  "adjustEventsPanelRows delta m =
     (let maxRows = max (splitTotalLines m - connChromeLines - eventsChromeLines - minPanelDataRows) minPanelDataRows
      in m\<lparr>tm_eventsPanelRows := clamp (tm_eventsPanelRows m + delta) minPanelDataRows maxRows\<rparr>)"

definition handleMouse :: "MouseAction \<Rightarrow> int \<Rightarrow> 'i Model \<Rightarrow> 'i Model \<times> tea_cmd" where
  "handleMouse action y m =
     (if tm_zoomed m then (m, NoCmd)
      else case action of
        MouseActionPress \<Rightarrow>
          ((if y = dividerRow m then m\<lparr>tm_draggingDivider := True, tm_dragRow := y\<rparr> else m), NoCmd)
      | MouseActionMotion \<Rightarrow>
          ((if tm_draggingDivider m
            then (let delta = y - tm_dragRow m in adjustEventsPanelRows (- delta) (m\<lparr>tm_dragRow := y\<rparr>)) else m), NoCmd)
      | MouseActionRelease \<Rightarrow> (m\<lparr>tm_draggingDivider := False\<rparr>, NoCmd))"

section \<open>Cursors\<close>

definition moveCursor :: "int \<Rightarrow> 'i Model \<Rightarrow> 'i Model" where
  "moveCursor delta m =
     (if tm_rows m = [] then m\<lparr>tm_cursor := 0\<rparr>
      else m\<lparr>tm_cursor := clamp (tm_cursor m + delta) 0 (row_count m - 1)\<rparr>)"

definition moveEventsCursor :: "int \<Rightarrow> 'i Model \<Rightarrow> 'i Model" where
  "moveEventsCursor delta m =
     (let n = event_count m
      in if n = 0 then m\<lparr>tm_eventsCursor := 0, tm_eventsWindowTop := 0\<rparr>
         else let m = m\<lparr>tm_eventsCursor := clamp (tm_eventsCursor m + delta) 0 (n - 1)\<rparr>
              in m\<lparr>tm_eventsWindowTop := eventsWindowStart (tm_eventsWindowTop m) (tm_eventsCursor m) n (eventsRowLines m)\<rparr>)"

definition moveSelection :: "int \<Rightarrow> 'i Model \<Rightarrow> 'i Model" where
  "moveSelection delta m = (if tm_focus m = focusEvents then moveEventsCursor delta m else moveCursor delta m)"

definition selectionLen :: "'i Model \<Rightarrow> int" where
  "selectionLen m = (if tm_focus m = focusEvents then event_count m else row_count m)"

definition toggleFocus :: "'i Model \<Rightarrow> 'i Model" where
  "toggleFocus m = m\<lparr>tm_focus := (if tm_focus m = focusConnections then focusEvents else focusConnections)\<rparr>"

definition moveIfaceCursor :: "int \<Rightarrow> 'i Model \<Rightarrow> 'i Model" where
  "moveIfaceCursor delta m =
     (if tm_interfaces m = [] then m\<lparr>tm_ifaceCursor := 0\<rparr>
      else m\<lparr>tm_ifaceCursor := clamp (tm_ifaceCursor m + delta) 0 (int (length (tm_interfaces m)) - 1)\<rparr>)"

section \<open>Rows\<close>

definition selectedKey :: "'i Model \<Rightarrow> string" where
  "selectedKey m =
     (if tm_cursor m < 0 \<or> row_count m \<le> tm_cursor m then '''' else w_Key (tm_rows m ! nat (tm_cursor m)))"

text \<open>The loop of \<open>cursorFor\<close>: the first row with the key.\<close>

fun find_key :: "int \<Rightarrow> string \<Rightarrow> Row list \<Rightarrow> int option" where
  "find_key i key [] = None"
| "find_key i key (r # rs) = (if w_Key r = key then Some i else find_key (i + 1) key rs)"

definition cursorFor :: "Row list \<Rightarrow> string \<Rightarrow> int \<Rightarrow> int" where
  "cursorFor rows key fallback =
     (if rows = [] then 0
      else case (if key \<noteq> '''' then find_key 0 key rows else None) of
        Some i \<Rightarrow> i
      | None \<Rightarrow> clamp fallback 0 (int (length rows) - 1))"

definition setRows :: "Row list \<Rightarrow> 'i Model \<Rightarrow> 'i Model" where
  "setRows rows m =
     (let key = selectedKey m; m = m\<lparr>tm_rows := rows\<rparr>
      in m\<lparr>tm_cursor := cursorFor rows key (tm_cursor m)\<rparr>)"

definition resetRows :: "'i Model \<Rightarrow> 'i Model" where
  "resetRows m = m\<lparr>tm_rows := [], tm_cursor := 0\<rparr>"

definition rebuild :: "'i Model \<Rightarrow> 'i Model" where
  "rebuild m =
     (let rows = Rows (tm_snap m) (tm_grouping m);
          rows = filterListening rows (tm_showListening m);
          rows = filterProto rows (tm_showTCP m) (tm_showUDP m);
          rows = filterIPFamily rows (tm_showIPv4 m) (tm_showIPv6 m);
          rows = filterPrivate rows (tm_showPrivate m);
          rows = filterIface rows (tm_activeInterfaces m);
          (rows, names) = filterRows rows (tm_filter m) (Some (row_Hostname (tm_now m))) (tm_names m);
          rows = sortRows rows (tm_sort m)
      in setRows rows (m\<lparr>tm_names := names\<rparr>))"

definition toggleActiveInterface :: "'i Model \<Rightarrow> 'i Model" where
  "toggleActiveInterface m =
     (if tm_ifaceCursor m < 0 \<or> int (length (tm_interfaces m)) \<le> tm_ifaceCursor m then m
      else let name = tm_interfaces m ! nat (tm_ifaceCursor m)
           in rebuild (m\<lparr>tm_activeInterfaces :=
                (tm_activeInterfaces m)(name \<mapsto> (tm_activeInterfaces m name \<noteq> Some True))\<rparr>))"

definition cycleGrouping :: "'i Model \<Rightarrow> 'i Model" where
  "cycleGrouping m = rebuild (resetRows (m\<lparr>tm_grouping := Next (tm_grouping m)\<rparr>))"

definition setSort :: "SortKey \<Rightarrow> 'i Model \<Rightarrow> 'i Model" where
  "setSort k m = rebuild (m\<lparr>tm_sort := k\<rparr>)"

definition toggleListening :: "'i Model \<Rightarrow> 'i Model" where
  "toggleListening m = rebuild (m\<lparr>tm_showListening := \<not> tm_showListening m\<rparr>)"

definition toggleTCP :: "'i Model \<Rightarrow> 'i Model" where
  "toggleTCP m = rebuild (m\<lparr>tm_showTCP := \<not> tm_showTCP m\<rparr>)"

definition toggleUDP :: "'i Model \<Rightarrow> 'i Model" where
  "toggleUDP m = rebuild (m\<lparr>tm_showUDP := \<not> tm_showUDP m\<rparr>)"

definition toggleIPv4 :: "'i Model \<Rightarrow> 'i Model" where
  "toggleIPv4 m = rebuild (m\<lparr>tm_showIPv4 := \<not> tm_showIPv4 m\<rparr>)"

definition toggleIPv6 :: "'i Model \<Rightarrow> 'i Model" where
  "toggleIPv6 m = rebuild (m\<lparr>tm_showIPv6 := \<not> tm_showIPv6 m\<rparr>)"

definition togglePrivate :: "'i Model \<Rightarrow> 'i Model" where
  "togglePrivate m = rebuild (m\<lparr>tm_showPrivate := \<not> tm_showPrivate m\<rparr>)"

definition appendEvents :: "Snapshot \<Rightarrow> 'i Model \<Rightarrow> 'i Model" where
  "appendEvents snap m =
     (let followLatest = (event_count m = 0 \<or> tm_eventsCursor m = event_count m - 1);
          m = m\<lparr>tm_events := fold eventRing_push (merged_events snap) (tm_events m)\<rparr>;
          m = (if followLatest \<and> 0 < event_count m then m\<lparr>tm_eventsCursor := event_count m - 1\<rparr> else m)
      in m\<lparr>tm_eventsWindowTop :=
           eventsWindowStart (tm_eventsWindowTop m) (tm_eventsCursor m) (event_count m) (eventsRowLines m)\<rparr>)"

definition tui_refresh :: "walks \<Rightarrow> Connection list \<Rightarrow> time \<Rightarrow> 'i Model \<Rightarrow> 'i Model" where
  "tui_refresh w conns now m =
     (case tm_agg m of
        None \<Rightarrow> m
      | Some s \<Rightarrow>
          (let (snap, s) = Refresh w conns now s;
               m = appendEvents snap (m\<lparr>tm_agg := Some s\<rparr>)
           in rebuild (m\<lparr>tm_snap := snap, tm_now := now\<rparr>)))"

section \<open>Keys\<close>

definition openFilter :: "'i textinput \<Rightarrow> 'i Model \<Rightarrow> 'i Model" where
  "openFilter T m =
     (let m = m\<lparr>tm_filterBefore := tm_filter m, tm_filtering := True,
                tm_input := ti_Focus T (ti_SetValue T '''' (tm_input m))\<rparr>
      in rebuild (m\<lparr>tm_filter := ''''\<rparr>))"

definition commitFilter :: "'i textinput \<Rightarrow> 'i Model \<Rightarrow> 'i Model" where
  "commitFilter T m = m\<lparr>tm_filtering := False, tm_input := ti_Blur T (tm_input m)\<rparr>"

definition cancelFilter :: "'i textinput \<Rightarrow> 'i Model \<Rightarrow> 'i Model" where
  "cancelFilter T m =
     (let m = m\<lparr>tm_filtering := False, tm_input := ti_Blur T (tm_input m)\<rparr>
      in rebuild (m\<lparr>tm_filter := tm_filterBefore m\<rparr>))"

definition handleFilterKey :: "'i textinput \<Rightarrow> KeyMsg \<Rightarrow> 'i Model \<Rightarrow> 'i Model \<times> tea_cmd" where
  "handleFilterKey T msg m =
     (case key_Type msg of
        KeyCtrlC \<Rightarrow> (m, Quit_cmd)
      | KeyEsc \<Rightarrow> (cancelFilter T m, NoCmd)
      | KeyEnter \<Rightarrow> (commitFilter T m, NoCmd)
      | _ \<Rightarrow>
          (let m = m\<lparr>tm_input := ti_Update T msg (tm_input m)\<rparr>
           in (rebuild (m\<lparr>tm_filter := ti_Value T (tm_input m)\<rparr>), Input_cmd)))"

definition handleIfacePickerKey :: "KeyMsg \<Rightarrow> 'i Model \<Rightarrow> 'i Model \<times> tea_cmd" where
  "handleIfacePickerKey msg m =
     (if key_Matches msg (km_Quit (tm_keys m)) then (m, Quit_cmd)
      else if key_Matches msg (km_Interfaces (tm_keys m)) \<or> key_Type msg = KeyEsc
      then (m\<lparr>tm_showIfacePicker := False\<rparr>, NoCmd)
      else if key_Matches msg (km_Up (tm_keys m)) then (moveIfaceCursor (- 1) m, NoCmd)
      else if key_Matches msg (km_Down (tm_keys m)) then (moveIfaceCursor 1 m, NoCmd)
      else if key_Type msg = KeySpace \<or> key_Type msg = KeyEnter then (toggleActiveInterface m, NoCmd)
      else (m, NoCmd))"

definition handleTableKey :: "'i textinput \<Rightarrow> KeyMsg \<Rightarrow> 'i Model \<Rightarrow> 'i Model \<times> tea_cmd" where
  "handleTableKey T msg m =
     (let k = tm_keys m
      in if key_Matches msg (km_Quit k) then (m, Quit_cmd)
         else if key_Matches msg (km_Up k) then (moveSelection (- 1) m, NoCmd)
         else if key_Matches msg (km_Down k) then (moveSelection 1 m, NoCmd)
         else if key_Matches msg (km_PageUp k) then (moveSelection (- pageSize m) m, NoCmd)
         else if key_Matches msg (km_PageDown k) then (moveSelection (pageSize m) m, NoCmd)
         else if key_Matches msg (km_Home k) then (moveSelection (- selectionLen m) m, NoCmd)
         else if key_Matches msg (km_End k) then (moveSelection (selectionLen m) m, NoCmd)
         else if key_Matches msg (km_FocusNext k) then (if tm_zoomed m then m else toggleFocus m, NoCmd)
         else if key_Matches msg (km_Zoom k) then (m\<lparr>tm_zoomed := True\<rparr>, NoCmd)
         else if key_Matches msg (km_Grouping k) then (cycleGrouping m, NoCmd)
         else if key_Matches msg (km_Sort k) then (setSort (SortKey_next (tm_sort m)) m, NoCmd)
         else if key_Matches msg (km_RateSort k) then (setSort (toggleRate (tm_sort m)) m, NoCmd)
         else if key_Matches msg (km_Filter k) then (openFilter T m, Input_cmd)
         else if key_Matches msg (km_ToggleListening k) then (toggleListening m, NoCmd)
         else if key_Matches msg (km_ToggleTCP k) then (toggleTCP m, NoCmd)
         else if key_Matches msg (km_ToggleUDP k) then (toggleUDP m, NoCmd)
         else if key_Matches msg (km_ToggleIPv4 k) then (toggleIPv4 m, NoCmd)
         else if key_Matches msg (km_ToggleIPv6 k) then (toggleIPv6 m, NoCmd)
         else if key_Matches msg (km_TogglePrivate k) then (togglePrivate m, NoCmd)
         else if key_Matches msg (km_Pause k) then (m\<lparr>tm_paused := \<not> tm_paused m\<rparr>, NoCmd)
         else if key_Matches msg (km_Help k) then (m\<lparr>tm_showHelp := \<not> tm_showHelp m\<rparr>, NoCmd)
         else if key_Matches msg (km_Interfaces k) then (m\<lparr>tm_showIfacePicker := \<not> tm_showIfacePicker m\<rparr>, NoCmd)
         else (m, NoCmd))"

definition handleKey :: "'i textinput \<Rightarrow> KeyMsg \<Rightarrow> 'i Model \<Rightarrow> 'i Model \<times> tea_cmd" where
  "handleKey T msg m =
     (if tm_filtering m then handleFilterKey T msg m
      else if tm_showHelp m
      then (if key_Matches msg (km_Quit (tm_keys m)) then (m, Quit_cmd)
            else if key_Matches msg (km_Help (tm_keys m)) \<or> key_Type msg = KeyEsc
            then (m\<lparr>tm_showHelp := False\<rparr>, NoCmd) else (m, NoCmd))
      else if tm_showIfacePicker m then handleIfacePickerKey msg m
      else if tm_zoomed m \<and> key_Matches msg (km_Unzoom (tm_keys m)) then (m\<lparr>tm_zoomed := False\<rparr>, NoCmd)
      else handleTableKey T msg m)"

section \<open>Messages\<close>

definition Update :: "'i textinput \<Rightarrow> tea_msg \<Rightarrow> 'i Model \<Rightarrow> 'i Model \<times> tea_cmd" where
  "Update T msg m =
     (case msg of
        WindowSizeMsg width height \<Rightarrow> (resizePanels width height m, NoCmd)
      | MouseMsg action y \<Rightarrow> handleMouse action y m
      | tickMsg w conns now \<Rightarrow> (if tm_paused m then m else tui_refresh w conns now m, Tick_cmd)
      | KeyPress k \<Rightarrow> handleKey T k m)"

end
