(* ===== verification/Tui_Props.thy ===== *)
theory Tui_Props
  imports Tui_Model "HOL-Library.Sublist"
begin

text \<open>
  What the terminal interface guarantees. The messages are the steps of a relation, together
  with the changes the other goroutines make to the aggregator and the sources of names.
  In every state that can be reached the table shows what the settings say, the cursors are
  on rows that exist and at most one overlay is open, and the selection stays on its row.
\<close>

section \<open>The table\<close>

text \<open>The rows the toggles let through.\<close>

definition shown_by :: "'i Model \<Rightarrow> Row \<Rightarrow> bool" where
  "shown_by m r \<longleftrightarrow>
     (tm_showListening m \<or> w_State r \<noteq> listenState) \<and>
     (w_Proto r = ''tcp'' \<longrightarrow> tm_showTCP m) \<and> (w_Proto r = ''udp'' \<longrightarrow> tm_showUDP m) \<and>
     (case ParseIP (w_RemoteAddr r) of
        None \<Rightarrow> True
      | Some ip \<Rightarrow> (if To4 ip \<noteq> None then tm_showIPv4 m else tm_showIPv6 m) \<and> (tm_showPrivate m \<or> \<not> IsPrivate ip)) \<and>
     (w_Iface r = '''' \<or> tm_activeInterfaces m (w_Iface r) = Some True)"

definition candidates :: "'i Model \<Rightarrow> Row list" where
  "candidates m = filter (shown_by m) (Rows (tm_snap m) (tm_grouping m))"

lemma filters_as_filter:
  "filterListening rows l = filter (\<lambda>r. l \<or> w_State r \<noteq> listenState) rows"
  "filterProto rows t u = filter (\<lambda>r. (w_Proto r = ''tcp'' \<longrightarrow> t) \<and> (w_Proto r = ''udp'' \<longrightarrow> u)) rows"
  "filterIPFamily rows v4 v6 =
     filter (\<lambda>r. case ParseIP (w_RemoteAddr r) of None \<Rightarrow> True | Some ip \<Rightarrow> if To4 ip \<noteq> None then v4 else v6) rows"
  "filterPrivate rows p = filter (\<lambda>r. case ParseIP (w_RemoteAddr r) of None \<Rightarrow> True | Some ip \<Rightarrow> p \<or> \<not> IsPrivate ip) rows"
proof -
  have all: "(\<And>r. P r) \<Longrightarrow> rows = filter P rows" for P by simp
  show "filterListening rows l = filter (\<lambda>r. l \<or> w_State r \<noteq> listenState) rows"
    by (simp add: filterListening_def)
  show "filterProto rows t u = filter (\<lambda>r. (w_Proto r = ''tcp'' \<longrightarrow> t) \<and> (w_Proto r = ''udp'' \<longrightarrow> u)) rows"
    unfolding filterProto_def by (auto intro!: filter_cong)
  show "filterIPFamily rows v4 v6 =
     filter (\<lambda>r. case ParseIP (w_RemoteAddr r) of None \<Rightarrow> True | Some ip \<Rightarrow> if To4 ip \<noteq> None then v4 else v6) rows"
    unfolding filterIPFamily_def by (simp, intro impI all) (simp split: option.split)
  show "filterPrivate rows p = filter (\<lambda>r. case ParseIP (w_RemoteAddr r) of None \<Rightarrow> True | Some ip \<Rightarrow> p \<or> \<not> IsPrivate ip) rows"
    unfolding filterPrivate_def by (cases p) (auto intro!: all split: option.split)
qed

lemma toggles_filter:
  "filterIface (filterPrivate (filterIPFamily (filterProto (filterListening (Rows (tm_snap m) (tm_grouping m))
      (tm_showListening m)) (tm_showTCP m) (tm_showUDP m)) (tm_showIPv4 m) (tm_showIPv6 m)) (tm_showPrivate m))
      (tm_activeInterfaces m) = candidates m"
  unfolding filters_as_filter filterIface_def candidates_def filter_filter
  by (rule filter_cong [OF refl]) (auto simp: shown_by_def split: option.split)

text \<open>What the text filter keeps: rows in their order, those whose label matches among them.\<close>

lemma filter_loop_subseq: "subseq (fst (filter_loop q names rs s)) rs"
  by (induction rs arbitrary: s) (auto simp: Let_def case_prod_beta split: option.split)

lemma filter_loop_labels: "r \<in> set rs \<Longrightarrow> Contains (ToLower (w_Label r)) q \<Longrightarrow> r \<in> set (fst (filter_loop q names rs s))"
  by (induction rs arbitrary: s) (auto simp: Let_def case_prod_beta split: option.split)

text \<open>The table shows the candidates that pass the filter, sorted.\<close>

definition table_ok :: "'i Model \<Rightarrow> bool" where
  "table_ok m \<longleftrightarrow> (\<exists>xs. tm_rows m = sortRows xs (tm_sort m) \<and> subseq xs (candidates m) \<and>
     (\<forall>r \<in> set (candidates m). Contains (ToLower (w_Label r)) (ToLower (tm_filter m)) \<longrightarrow> r \<in> set xs) \<and>
     (tm_filter m = '''' \<longrightarrow> xs = candidates m))"

lemma rebuild_eq:
  obtains names xs where
    "rebuild m = m\<lparr>tm_names := names, tm_rows := sortRows xs (tm_sort m),
       tm_cursor := cursorFor (sortRows xs (tm_sort m)) (selectedKey m) (tm_cursor m)\<rparr>"
    "subseq xs (candidates m)"
    "\<forall>r \<in> set (candidates m). Contains (ToLower (w_Label r)) (ToLower (tm_filter m)) \<longrightarrow> r \<in> set xs"
    "tm_filter m = '''' \<Longrightarrow> xs = candidates m"
proof -
  obtain xs names where f: "filterRows (candidates m) (tm_filter m) (Some (row_Hostname (tm_now m))) (tm_names m) = (xs, names)"
    by fastforce
  have "rebuild m = m\<lparr>tm_names := names, tm_rows := sortRows xs (tm_sort m),
       tm_cursor := cursorFor (sortRows xs (tm_sort m)) (selectedKey m) (tm_cursor m)\<rparr>"
    by (simp add: rebuild_def toggles_filter f setRows_def selectedKey_def row_count_def Let_def)
  moreover have "xs = fst (filter_loop (ToLower (tm_filter m)) (Some (row_Hostname (tm_now m))) (candidates m) (tm_names m))"
    if "tm_filter m \<noteq> []"
    using f that by (simp add: filterRows_def)
  moreover have "tm_filter m = [] \<Longrightarrow> xs = candidates m" using f by (simp add: filterRows_def)
  ultimately show thesis
    by (intro that [of xs names]; cases "tm_filter m = []") (simp_all add: filter_loop_subseq filter_loop_labels)
qed

section \<open>The cursor of the table\<close>

lemma find_key_Some:
  "find_key i key rs = Some j \<Longrightarrow> i \<le> j \<and> j < i + int (length rs) \<and> w_Key (rs ! nat (j - i)) = key"
proof (induction rs arbitrary: i)
  case (Cons r rs)
  show ?case
  proof (cases "w_Key r = key")
    case False
    with Cons have IH: "i + 1 \<le> j \<and> j < i + 1 + int (length rs) \<and> w_Key (rs ! nat (j - (i + 1))) = key" by simp
    then have "i + 1 \<le> j" by simp
    then have "nat (j - i) = Suc (nat (j - (i + 1)))" by arith
    with IH show ?thesis by simp
  qed (use Cons.prems in auto)
qed simp

lemma find_key_None: "find_key i key rs = None \<longleftrightarrow> key \<notin> w_Key ` set rs"
  by (induction rs arbitrary: i) auto

lemma cursorFor_range: "0 \<le> cursorFor rows key c" "cursorFor rows key c < max 1 (int (length rows))"
proof -
  have *: "rows \<noteq> [] \<Longrightarrow> 0 < int (length rows)" by simp
  show "0 \<le> cursorFor rows key c" "cursorFor rows key c < max 1 (int (length rows))"
    using * find_key_Some [of 0 key rows] clamp_range [of 0 "int (length rows) - 1" c]
    by (auto simp: cursorFor_def less_max_iff_disj split: option.splits)
qed

lemma cursorFor_key:
  assumes "key \<noteq> ''''" and "key \<in> w_Key ` set rows"
  shows "w_Key (rows ! nat (cursorFor rows key c)) = key" "cursorFor rows key c < int (length rows)"
proof -
  have "rows \<noteq> []" using assms(2) by auto
  moreover obtain j where "find_key 0 key rows = Some j" using assms(2) find_key_None [of 0 key rows] by auto
  ultimately show "w_Key (rows ! nat (cursorFor rows key c)) = key" "cursorFor rows key c < int (length rows)"
    using find_key_Some [of 0 key rows j] assms(1) by (simp_all add: cursorFor_def)
qed

definition cursor_ok :: "'i Model \<Rightarrow> bool" where
  "cursor_ok m \<longleftrightarrow> 0 \<le> tm_cursor m \<and> tm_cursor m < max 1 (row_count m)"

section \<open>The invariant\<close>

definition rest_ok :: "'i Model \<Rightarrow> bool" where
  "rest_ok m \<longleftrightarrow> length (tm_events m) \<le> eventRingCapacity \<and>
     0 \<le> tm_eventsCursor m \<and> tm_eventsCursor m < max 1 (event_count m) \<and> 0 \<le> tm_eventsWindowTop m \<and>
     (tm_eventsPanelRows m = 0 \<or> minPanelDataRows \<le> tm_eventsPanelRows m) \<and>
     0 \<le> tm_ifaceCursor m \<and> tm_ifaceCursor m < max 1 (int (length (tm_interfaces m))) \<and>
     set (tm_interfaces m) \<subseteq> dom (tm_activeInterfaces m) \<and>
     (tm_filtering m \<longrightarrow> \<not> tm_showHelp m \<and> \<not> tm_showIfacePicker m) \<and> \<not> (tm_showHelp m \<and> tm_showIfacePicker m) \<and>
     tm_sort m < numSortKeys \<and> tm_grouping m < numGroupings \<and> tm_keys m = DefaultKeyMap"

definition tui_inv :: "'i Model \<Rightarrow> bool" where
  "tui_inv m \<longleftrightarrow> rest_ok m \<and> table_ok m \<and> cursor_ok m"

text \<open>A rebuild establishes what concerns the table, and leaves the rest alone.\<close>

lemma rebuild_rest: "rest_ok (rebuild m) \<longleftrightarrow> rest_ok m"
  by (rule rebuild_eq [of m]) (simp add: rest_ok_def event_count_def)

text \<open>The settings that decide which rows are candidates, and all the table depends on.\<close>

definition show_fields where
  "show_fields m = ((tm_snap m, tm_grouping m, tm_activeInterfaces m),
     (tm_showListening m, tm_showTCP m, tm_showUDP m, tm_showIPv4 m, tm_showIPv6 m, tm_showPrivate m))"

definition table_fields where
  "table_fields m = (tm_rows m, tm_sort m, tm_filter m, show_fields m)"

lemma candidates_cong: "show_fields m' = show_fields m \<Longrightarrow> candidates m' = candidates m"
proof -
  assume *: "show_fields m' = show_fields m"
  then have "shown_by m' r = shown_by m r" for r by (simp add: shown_by_def show_fields_def split: option.split)
  then have "shown_by m' = shown_by m" ..
  with * show ?thesis by (simp add: candidates_def show_fields_def)
qed

lemma candidates_frame [simp]:
  "candidates (m\<lparr>tm_names := n, tm_rows := rs, tm_cursor := c\<rparr>) = candidates m"
  by (rule candidates_cong) (simp add: show_fields_def)

lemma inv_rebuild: "rest_ok m \<Longrightarrow> tui_inv (rebuild m)"
proof (rule rebuild_eq [of m])
  fix names xs
  assume r: "rest_ok m" and
    e: "rebuild m = m\<lparr>tm_names := names, tm_rows := sortRows xs (tm_sort m),
       tm_cursor := cursorFor (sortRows xs (tm_sort m)) (selectedKey m) (tm_cursor m)\<rparr>" and
    xs: "subseq xs (candidates m)" "\<forall>r \<in> set (candidates m). Contains (ToLower (w_Label r)) (ToLower (tm_filter m)) \<longrightarrow> r \<in> set xs"
      "tm_filter m = [] \<Longrightarrow> xs = candidates m"
  have "table_ok (rebuild m)"
    unfolding e table_ok_def using xs by (intro exI [of _ xs]) simp
  moreover have "cursor_ok (rebuild m)"
    unfolding e cursor_ok_def using cursorFor_range [of "sortRows xs (tm_sort m)"] by (simp add: row_count_def)
  ultimately show "tui_inv (rebuild m)" using r by (simp add: tui_inv_def rebuild_rest)
qed

text \<open>An operation that leaves the table's fields alone keeps the table.\<close>

lemma table_ok_cong: "table_fields m' = table_fields m \<Longrightarrow> table_ok m' = table_ok m"
  using candidates_cong [of m' m] by (simp add: table_ok_def table_fields_def)

lemma inv_keep:
  assumes "tui_inv m" and "table_fields m' = table_fields m" and "cursor_ok m'" and "rest_ok m'"
  shows "tui_inv m'"
  using assms table_ok_cong [OF assms(2)] unfolding tui_inv_def by blast

section \<open>Operations\<close>

lemmas inv_parts = tui_inv_def rest_ok_def cursor_ok_def row_count_def event_count_def
lemmas field_defs = table_fields_def show_fields_def

lemma eventsWindowStart_nonneg: "0 \<le> eventsWindowStart t c n limit"
  by (simp add: eventsWindowStart_def clamp_def Let_def)

lemma inv_resizePanels: "tui_inv m \<Longrightarrow> tui_inv (resizePanels w h m)"
  by (rule inv_keep [of m]) (auto simp: resizePanels_def Let_def field_defs inv_parts)

lemma inv_adjust: "tui_inv m \<Longrightarrow> tui_inv (adjustEventsPanelRows d m)"
  by (rule inv_keep [of m]) (auto simp: adjustEventsPanelRows_def Let_def field_defs inv_parts clamp_def)

lemma inv_drag: "tui_inv (m\<lparr>tm_dragRow := y\<rparr>) = tui_inv m" "tui_inv (m\<lparr>tm_draggingDivider := b\<rparr>) = tui_inv m"
proof -
  have "table_ok (m\<lparr>tm_dragRow := y\<rparr>) = table_ok m" "table_ok (m\<lparr>tm_draggingDivider := b\<rparr>) = table_ok m"
    by (rule table_ok_cong, simp add: field_defs)+
  then show "tui_inv (m\<lparr>tm_dragRow := y\<rparr>) = tui_inv m" "tui_inv (m\<lparr>tm_draggingDivider := b\<rparr>) = tui_inv m"
    by (simp_all add: inv_parts)
qed

lemma inv_handleMouse: "tui_inv m \<Longrightarrow> tui_inv (fst (handleMouse a y m))"
  by (cases a) (auto simp: handleMouse_def Let_def inv_drag inv_adjust)

lemma inv_moveCursor: "tui_inv m \<Longrightarrow> tui_inv (moveCursor d m)"
  by (rule inv_keep [of m]) (auto simp: moveCursor_def field_defs inv_parts clamp_def)

lemma inv_moveEventsCursor: "tui_inv m \<Longrightarrow> tui_inv (moveEventsCursor d m)"
  by (rule inv_keep [of m]) (auto simp: moveEventsCursor_def Let_def field_defs inv_parts clamp_def eventsWindowStart_nonneg)

lemma inv_moveSelection: "tui_inv m \<Longrightarrow> tui_inv (moveSelection d m)"
  by (simp add: moveSelection_def inv_moveCursor inv_moveEventsCursor)

lemma inv_moveIfaceCursor: "tui_inv m \<Longrightarrow> tui_inv (moveIfaceCursor d m)"
  by (rule inv_keep [of m]) (auto simp: moveIfaceCursor_def field_defs inv_parts clamp_def)

lemma inv_flags:
  assumes "tui_inv m"
  shows "tui_inv (toggleFocus m)" "tui_inv (m\<lparr>tm_zoomed := b\<rparr>)" "tui_inv (m\<lparr>tm_paused := b\<rparr>)"
    "tui_inv (m\<lparr>tm_showHelp := False\<rparr>)" "tui_inv (m\<lparr>tm_showIfacePicker := False\<rparr>)"
    "\<not> tm_filtering m \<Longrightarrow> \<not> tm_showIfacePicker m \<Longrightarrow> tui_inv (m\<lparr>tm_showHelp := b\<rparr>)"
    "\<not> tm_filtering m \<Longrightarrow> \<not> tm_showHelp m \<Longrightarrow> tui_inv (m\<lparr>tm_showIfacePicker := b\<rparr>)"
    "tui_inv (m\<lparr>tm_agg := a, tm_names := n\<rparr>)" "tui_inv (commitFilter T m)"
  by (rule inv_keep [OF assms]; use assms in \<open>simp add: field_defs inv_parts toggleFocus_def commitFilter_def\<close>)+

lemma inv_toggles:
  assumes "rest_ok m"
  shows "tui_inv (toggleListening m)" "tui_inv (toggleTCP m)" "tui_inv (toggleUDP m)" "tui_inv (toggleIPv4 m)"
    "tui_inv (toggleIPv6 m)" "tui_inv (togglePrivate m)"
  unfolding toggleListening_def toggleTCP_def toggleUDP_def toggleIPv4_def toggleIPv6_def togglePrivate_def
  by (rule inv_rebuild, use assms in \<open>simp add: rest_ok_def event_count_def\<close>)+

lemma small_mod: "(g + 1) mod 3 < (3 :: u8)"
  by (rule word_mod_less_divisor) simp

lemma inv_settings:
  assumes "rest_ok m"
  shows "tui_inv (cycleGrouping m)" "k < numSortKeys \<Longrightarrow> tui_inv (setSort k m)"
    "\<not> tm_showHelp m \<Longrightarrow> \<not> tm_showIfacePicker m \<Longrightarrow> tui_inv (openFilter T m)" "tui_inv (cancelFilter T m)"
  unfolding cycleGrouping_def setSort_def openFilter_def cancelFilter_def Let_def
  by (rule inv_rebuild, use assms in \<open>simp add: rest_ok_def event_count_def resetRows_def Next_def numGroupings_def small_mod\<close>)+

lemma inv_toggleActiveInterface:
  assumes "tui_inv m"
  shows "tui_inv (toggleActiveInterface m)"
proof -
  have "rest_ok (m\<lparr>tm_activeInterfaces := (tm_activeInterfaces m)(name \<mapsto> b)\<rparr>)" for name b
    using assms by (simp add: tui_inv_def rest_ok_def event_count_def subset_insertI2)
  from inv_rebuild [OF this] assms show ?thesis by (simp add: toggleActiveInterface_def Let_def)
qed

lemma sort_keys_small: "SortKey_next k < numSortKeys" "toggleRate k < numSortKeys"
  by (simp_all add: SortKey_next_def toggleRate_def numSortKeys_def SortRate_def SortTotal_def small_mod)

lemma ring_pushes: "length items \<le> eventRingCapacity \<Longrightarrow> fold eventRing_push es items = latest eventRingCapacity (items @ es)"
  using event_ring.pushes_latest [of es items] by (simp add: latest_def)

lemma appendEvents_events:
  "tm_events (appendEvents snap m) = fold eventRing_push (merged_events snap) (tm_events m)"
  by (simp add: appendEvents_def Let_def)

lemma rest_appendEvents: "rest_ok m \<Longrightarrow> rest_ok (appendEvents snap m)"
proof -
  assume r: "rest_ok m"
  define evs where "evs = fold eventRing_push (merged_events snap) (tm_events m)"
  have "length (tm_events m) \<le> eventRingCapacity" using r by (simp add: rest_ok_def)
  then have "length evs = min eventRingCapacity (length (tm_events m) + length (merged_events snap))"
    by (simp add: evs_def ring_pushes)
  then have "length evs \<le> eventRingCapacity" "length (tm_events m) \<le> length evs"
    using \<open>length (tm_events m) \<le> eventRingCapacity\<close> by simp_all
  then show ?thesis
    using r by (auto simp: rest_ok_def appendEvents_def Let_def event_count_def eventsWindowStart_nonneg simp flip: evs_def)
qed

lemma inv_refresh:
  assumes "tui_inv m"
  shows "tui_inv (tui_refresh w conns now m)"
proof (cases "tm_agg m")
  case (Some s)
  obtain snap s' where "Refresh w conns now s = (snap, s')" by (cases "Refresh w conns now s")
  moreover have "rest_ok (m\<lparr>tm_agg := Some s'\<rparr>)"
    using assms by (simp add: inv_parts)
  from rest_appendEvents [OF this]
  have "rest_ok ((appendEvents snap (m\<lparr>tm_agg := Some s'\<rparr>))\<lparr>tm_snap := snap, tm_now := now\<rparr>)"
    by (simp add: rest_ok_def event_count_def)
  ultimately show ?thesis using Some inv_rebuild by (simp add: tui_refresh_def Let_def)
qed (use assms in \<open>simp add: tui_refresh_def\<close>)

lemma inv_handleFilterKey:
  assumes "tui_inv m"
  shows "tui_inv (fst (handleFilterKey T k m))"
proof -
  have "rest_ok (m\<lparr>tm_input := i, tm_filter := f\<rparr>)" for i f
    using assms by (simp add: inv_parts)
  from inv_rebuild [OF this] show ?thesis
    using assms inv_settings(4) [of m T] inv_flags(9) [OF assms]
    by (cases "key_Type k") (simp_all add: handleFilterKey_def Let_def tui_inv_def)
qed

lemma inv_handleTableKey:
  assumes i: "tui_inv m" and o: "\<not> tm_filtering m" "\<not> tm_showHelp m" "\<not> tm_showIfacePicker m"
  shows "tui_inv (fst (handleTableKey T k m))"
proof -
  have r: "rest_ok m" using i by (simp add: tui_inv_def)
  show ?thesis
    by (simp add: handleTableKey_def Let_def i o inv_moveSelection inv_flags [OF i] inv_toggles [OF r]
        inv_settings [OF r] sort_keys_small)
qed

lemma inv_handleIfacePickerKey: "tui_inv m \<Longrightarrow> tui_inv (fst (handleIfacePickerKey k m))"
  by (simp add: handleIfacePickerKey_def inv_flags inv_moveIfaceCursor inv_toggleActiveInterface)

lemma inv_Update: "tui_inv m \<Longrightarrow> tui_inv (fst (Update T msg m))"
  by (cases msg)
     (simp_all add: Update_def handleKey_def inv_resizePanels inv_handleMouse inv_refresh inv_handleFilterKey
       inv_handleTableKey inv_handleIfacePickerKey inv_flags)

text \<open>
  A step handles a message, or lets the other goroutines change the aggregator's state and the
  sources of names.
\<close>

inductive tui_step :: "'i textinput \<Rightarrow> 'i Model \<Rightarrow> 'i Model \<Rightarrow> bool" for T where
  message: "tui_step T m (fst (Update T msg m))"
| outside: "tui_step T m (m\<lparr>tm_agg := a, tm_names := n\<rparr>)"

inductive_cases tui_stepE: "tui_step T m m'"

interpretation tui_run: step_invariant "tui_step T" tui_inv for T
  by unfold_locales (auto elim!: tui_stepE intro: inv_Update inv_flags)

lemma active_all: "dom (fold (\<lambda>name active. active(name \<mapsto> True)) names A) = set names \<union> dom A"
  by (induction names arbitrary: A) auto

lemma inv_NewModel: "tui_inv (NewModel T agg names interfaces)"
proof -
  have "candidates (NewModel T agg names interfaces) = []"
    by (simp add: candidates_def NewModel_def zero_snapshot_def Rows_def rowsUngrouped_def rollup_def GroupNone_def GroupByPID_def GroupByProcessName_def)
  then have "table_ok (NewModel T agg names interfaces)"
    by (simp add: table_ok_def NewModel_def sortRows_def SliceStable_def)
  then show ?thesis
    by (simp add: inv_parts NewModel_def active_all SortPID_def numSortKeys_def GroupNone_def numGroupings_def eventRingCapacity_def)
qed

section \<open>The table shows what the settings say\<close>

lemma SliceStable_mset [simp]: "mset (SliceStable before xs) = mset xs"
proof -
  have "mset (insert_stable before x ys) = add_mset x (mset ys)" for x ys by (induction ys) auto
  then show ?thesis by (induction xs) (simp_all add: SliceStable_def)
qed

lemma accumulate_key: "w_Key (accumulate c r) = w_Key r"
  by (simp add: accumulate_def Let_def)

lemma group_row_key: "(\<And>c. w_Key (seed c k) = k) \<Longrightarrow> w_Key (group_row key seed recs k) = k"
proof -
  assume "\<And>c. w_Key (seed c k) = k"
  moreover have "w_Key (fold accumulate g r) = w_Key r" for g r
    by (induction g arbitrary: r) (simp_all add: accumulate_key)
  ultimately show ?thesis by (simp add: group_row_def Let_def)
qed

lemma rollup_keys:
  assumes "\<And>c k. w_Key (seed c k) = k"
  shows "map w_Key (rollup recs key seed) = appearances (map key recs)"
  using rollup_invariant [of key seed recs] group_row_key [of seed] assms
  by (simp add: rollup_def grouped_def comp_def)

lemma Rows_keys: "distinct (map w_Key (Rows snap g))" "r \<in> set (Rows snap g) \<Longrightarrow> w_Key r \<noteq> ''''"
proof -
  have seeds: "w_Key (seed_connection c k) = k" "w_Key (seed_pid c k) = k" "w_Key (seed_process c k) = k" for c k
    by (simp_all add: seed_connection_def seed_pid_def seed_process_def)
  obtain key where k: "map w_Key (Rows snap g) = appearances (map key (sn_Connections snap))" "\<And>c. key c \<noteq> []"
  proof (cases "g = GroupByPID")
    case True
    then show ?thesis using that [of pidRemoteKey] by (simp add: Rows_def rowsByPID_def rollup_keys seeds pidRemoteKey_def)
  next
    case no: False
    show ?thesis
    proof (cases "g = GroupByProcessName")
      case True
      with no show ?thesis using that [of processRemoteKey]
        by (simp add: Rows_def rowsByProcessName_def rollup_keys seeds processRemoteKey_def)
    qed (use no that [of connectionKey] in \<open>simp add: Rows_def rowsUngrouped_def rollup_keys seeds connectionKey_def\<close>)
  qed
  then show "distinct (map w_Key (Rows snap g))" by simp
  assume "r \<in> set (Rows snap g)"
  then have "w_Key r \<in> set (map key (sn_Connections snap))"
    using k(1) appearances_simps(2) by (metis image_eqI list.set_map)
  then show "w_Key r \<noteq> ''''" using k(2) by (metis imageE list.set_map)
qed

lemma subseq_distinct: "subseq xs ys \<Longrightarrow> distinct ys \<Longrightarrow> distinct xs"
proof (induction rule: list_emb.induct)
  case (list_emb_Cons2 x y xs ys)
  then show ?case using list_emb_set [OF list_emb_Cons2(2)] by auto
qed simp_all

lemma table_rows:
  assumes "table_ok m"
  shows "set (tm_rows m) \<subseteq> set (candidates m)" "distinct (map w_Key (tm_rows m))"
proof -
  obtain xs where xs: "tm_rows m = sortRows xs (tm_sort m)" "subseq xs (candidates m)"
    using assms by (auto simp: table_ok_def)
  have m: "mset (tm_rows m) = mset xs" by (simp add: xs sortRows_def)
  then have "set (tm_rows m) = set xs" by (rule mset_eq_setD)
  then show "set (tm_rows m) \<subseteq> set (candidates m)" using list_emb_set [OF xs(2)] by blast
  have "subseq (map w_Key xs) (map w_Key (Rows (tm_snap m) (tm_grouping m)))"
    using xs(2) unfolding candidates_def by (meson subseq_filter_left subseq_map subseq_order.trans)
  then have "distinct (map w_Key xs)" using Rows_keys(1) subseq_distinct by blast
  with m show "distinct (map w_Key (tm_rows m))" by (metis mset_eq_imp_distinct_iff mset_map)
qed


text \<open>A line editor that appends what is typed, for examples.\<close>

definition plain_input :: "string textinput" where
  "plain_input = \<lparr>ti_New = '''', ti_Update = (\<lambda>k s. s @ key_String k), ti_Value = (\<lambda>s. s),
     ti_SetValue = (\<lambda>v s. v), ti_Focus = (\<lambda>s. s), ti_Blur = (\<lambda>s. s)\<rparr>"

definition press :: "string \<Rightarrow> tea_msg" where
  "press k = KeyPress \<lparr>key_Type = KeyOther, key_String = k\<rparr>"

definition start_model :: "string Model" where
  "start_model = NewModel plain_input None \<lparr>ns_world = None, ns_cache = None\<rparr> [''eth0'', ''lo'']"

lemma start_rows: "Rows (tm_snap start_model) g = []"
  by (simp add: start_model_def NewModel_def zero_snapshot_def Rows_def rowsUngrouped_def rowsByPID_def rowsByProcessName_def rollup_def)

lemma rebuild_frame [simp]:
  "tm_snap (rebuild m) = tm_snap m" "tm_grouping (rebuild m) = tm_grouping m" "tm_sort (rebuild m) = tm_sort m"
  "tm_filter (rebuild m) = tm_filter m" "tm_filtering (rebuild m) = tm_filtering m" "tm_filterBefore (rebuild m) = tm_filterBefore m"
  "tm_input (rebuild m) = tm_input m" "tm_showHelp (rebuild m) = tm_showHelp m" "tm_showIfacePicker (rebuild m) = tm_showIfacePicker m"
  "tm_paused (rebuild m) = tm_paused m" "tm_showListening (rebuild m) = tm_showListening m" "tm_keys (rebuild m) = tm_keys m"
  "tm_zoomed (rebuild m) = tm_zoomed m" "tm_focus (rebuild m) = tm_focus m" "tm_eventsPanelRows (rebuild m) = tm_eventsPanelRows m"
  "tm_height (rebuild m) = tm_height m" "tm_width (rebuild m) = tm_width m" "tm_eventsCursor (rebuild m) = tm_eventsCursor m"
  "tm_events (rebuild m) = tm_events m" "tm_interfaces (rebuild m) = tm_interfaces m" "tm_ifaceCursor (rebuild m) = tm_ifaceCursor m"
  by (rule rebuild_eq [of m], simp)+


section \<open>The selection\<close>

lemma rebuild_keeps_selection:
  assumes "selectedKey m \<noteq> ''''" and "selectedKey m \<in> w_Key ` set (tm_rows (rebuild m))"
  shows "selectedKey (rebuild m) = selectedKey m"
proof (rule rebuild_eq [of m])
  fix names xs
  assume e: "rebuild m = m\<lparr>tm_names := names, tm_rows := sortRows xs (tm_sort m),
       tm_cursor := cursorFor (sortRows xs (tm_sort m)) (selectedKey m) (tm_cursor m)\<rparr>"
  let ?rows = "sortRows xs (tm_sort m)"
  have "selectedKey m \<in> w_Key ` set ?rows" using assms(2) e by simp
  note k = cursorFor_key [OF assms(1) this, of "tm_cursor m"]
  show ?thesis
    unfolding e using k cursorFor_range(1) [of ?rows "selectedKey m" "tm_cursor m"]
    by (simp add: selectedKey_def [of "m\<lparr>tm_names := _, tm_rows := _, tm_cursor := _\<rparr>"] row_count_def)
qed

text \<open>The selection depends on the rows and the cursor only.\<close>

lemma selectedKey_cong: "tm_rows m' = tm_rows m \<Longrightarrow> tm_cursor m' = tm_cursor m \<Longrightarrow> selectedKey m' = selectedKey m"
  by (simp add: selectedKey_def row_count_def)

definition keeps_selection :: "'i Model \<Rightarrow> 'i Model \<Rightarrow> bool" where
  "keeps_selection m m' \<longleftrightarrow> selectedKey m \<noteq> '''' \<and> selectedKey m \<in> w_Key ` set (tm_rows m') \<longrightarrow> selectedKey m' = selectedKey m"

lemma keeps_refl: "tm_rows m' = tm_rows m \<Longrightarrow> tm_cursor m' = tm_cursor m \<Longrightarrow> keeps_selection m m'"
  unfolding keeps_selection_def using selectedKey_cong [of m' m] by simp

lemma keeps_rebuild: "tm_rows m' = tm_rows m \<Longrightarrow> tm_cursor m' = tm_cursor m \<Longrightarrow> keeps_selection m (rebuild m')"
  using rebuild_keeps_selection [of m'] selectedKey_cong [of m' m] by (simp add: keeps_selection_def)

text \<open>The keys that move the cursor of the table, or change what a row is.\<close>

definition movers :: "string list" where
  "movers = [''up'', ''k'', ''down'', ''j'', ''pgup'', ''ctrl+b'', ''pgdown'', ''ctrl+f'', ''home'', ''end'', ''G'', ''g'']"

fun moves :: "'i Model \<Rightarrow> tea_msg \<Rightarrow> bool" where
  "moves m (KeyPress k) \<longleftrightarrow> \<not> tm_filtering m \<and> key_String k \<in> set movers"
| "moves m _ \<longleftrightarrow> False"

lemma keeps_same [simp]: "keeps_selection m m"
  by (simp add: keeps_refl)

lemma keeps_ops:
  "keeps_selection m (toggleFocus m)" "keeps_selection m (m\<lparr>tm_zoomed := b\<rparr>)" "keeps_selection m (m\<lparr>tm_paused := b\<rparr>)"
  "keeps_selection m (m\<lparr>tm_showHelp := b\<rparr>)" "keeps_selection m (m\<lparr>tm_showIfacePicker := b\<rparr>)"
  "keeps_selection m (setSort sk m)" "keeps_selection m (openFilter T m)" "keeps_selection m (cancelFilter T m)"
  "keeps_selection m (commitFilter T m)" "keeps_selection m (toggleListening m)" "keeps_selection m (toggleTCP m)"
  "keeps_selection m (toggleUDP m)" "keeps_selection m (toggleIPv4 m)" "keeps_selection m (toggleIPv6 m)"
  "keeps_selection m (togglePrivate m)" "keeps_selection m (moveIfaceCursor d m)" "keeps_selection m (toggleActiveInterface m)"
  "keeps_selection m (resizePanels w h m)" "keeps_selection m (fst (handleMouse act y m))"
  by (simp_all add: keeps_rebuild keeps_refl toggleFocus_def setSort_def openFilter_def cancelFilter_def commitFilter_def toggleListening_def toggleTCP_def
    toggleUDP_def toggleIPv4_def toggleIPv6_def togglePrivate_def moveIfaceCursor_def toggleActiveInterface_def resizePanels_def
    handleMouse_def adjustEventsPanelRows_def Let_def split: MouseAction.split)

lemma keeps_handleTableKey:
  assumes "key_String k \<notin> set movers" and "tm_keys m = DefaultKeyMap"
  shows "keeps_selection m (fst (handleTableKey T k m))"
proof -
  have "\<not> key_Matches k (km_Up (tm_keys m))" "\<not> key_Matches k (km_Down (tm_keys m))" "\<not> key_Matches k (km_PageUp (tm_keys m))"
    "\<not> key_Matches k (km_PageDown (tm_keys m))" "\<not> key_Matches k (km_Home (tm_keys m))" "\<not> key_Matches k (km_End (tm_keys m))"
    "\<not> key_Matches k (km_Grouping (tm_keys m))"
    using assms by (auto simp: key_Matches_def movers_def DefaultKeyMap_def)
  then show ?thesis by (simp add: handleTableKey_def Let_def keeps_ops)
qed

lemma appendEvents_frame [simp]: "tm_rows (appendEvents snap m) = tm_rows m" "tm_cursor (appendEvents snap m) = tm_cursor m"
  by (simp_all add: appendEvents_def Let_def)

lemma keeps_refresh: "keeps_selection m (tui_refresh w conns now m)"
  by (cases "tm_agg m"; cases "Refresh w conns now (the (tm_agg m))") (simp_all add: tui_refresh_def Let_def keeps_rebuild)

lemma keeps_handleFilterKey: "keeps_selection m (fst (handleFilterKey T k m))"
  by (cases "key_Type k") (simp_all add: handleFilterKey_def Let_def keeps_ops keeps_rebuild)

lemma keeps_handleIfacePickerKey: "keeps_selection m (fst (handleIfacePickerKey k m))"
  by (simp add: handleIfacePickerKey_def keeps_ops)

lemma keeps_Update:
  assumes "\<not> moves m msg" and "tm_keys m = DefaultKeyMap"
  shows "keeps_selection m (fst (Update T msg m))"
  using assms by (cases msg) (auto simp: Update_def handleKey_def keeps_ops keeps_refresh keeps_handleFilterKey
    keeps_handleIfacePickerKey keeps_handleTableKey)

lemma cursor_on_row:
  assumes "cursor_ok m" and "tm_rows m \<noteq> []"
  shows "0 \<le> tm_cursor m" "tm_cursor m < row_count m" "tm_rows m ! nat (tm_cursor m) \<in> set (tm_rows m)"
    "selectedKey m = w_Key (tm_rows m ! nat (tm_cursor m))"
proof -
  have "1 \<le> int (length (tm_rows m))" using assms(2) by (cases "tm_rows m") simp_all
  then show c: "0 \<le> tm_cursor m" "tm_cursor m < row_count m"
    using assms(1) by (simp_all add: cursor_ok_def row_count_def)
  then show "tm_rows m ! nat (tm_cursor m) \<in> set (tm_rows m)" by (simp add: row_count_def nat_less_iff)
  show "selectedKey m = w_Key (tm_rows m ! nat (tm_cursor m))" using c by (simp add: selectedKey_def)
qed

text \<open>
  C36: the selection stays on its row. Whatever message is handled, except a key that moves the
  cursor or changes the grouping, if the row that was selected is still in the table, wherever
  it has moved to, it is the selected row afterwards.
\<close>

theorem selection_follows_row:
  assumes "(tui_step T)\<^sup>*\<^sup>* (NewModel T agg names interfaces) m" and "\<not> moves m msg"
    and "tm_rows m \<noteq> []" and "r \<in> set (tm_rows (fst (Update T msg m)))" and "w_Key r = w_Key (tm_rows m ! nat (tm_cursor m))"
  shows "tm_rows (fst (Update T msg m)) ! nat (tm_cursor (fst (Update T msg m))) = r"
proof -
  let ?m = "fst (Update T msg m)"
  have i: "tui_inv m" using tui_run.run_keeps [OF assms(1)] inv_NewModel by blast
  then have i': "tui_inv ?m" by (rule inv_Update)
  note c = cursor_on_row [OF _ assms(3)]
  have "tm_rows m ! nat (tm_cursor m) \<in> set (Rows (tm_snap m) (tm_grouping m))"
    using table_rows(1) [of m] c(3) i by (auto simp: tui_inv_def candidates_def)
  then have ne: "selectedKey m \<noteq> []" and k: "selectedKey m = w_Key r"
    using Rows_keys(2) c(4) i assms(5) by (auto simp: tui_inv_def)
  have "keeps_selection m ?m" by (rule keeps_Update [OF assms(2)]) (use i in \<open>simp add: inv_parts\<close>)
  then have s: "selectedKey ?m = w_Key r" using ne k assms(4) by (auto simp: keeps_selection_def)
  have "tm_rows ?m \<noteq> []" using assms(4) by auto
  note c' = cursor_on_row [OF _ this]
  have "inj_on w_Key (set (tm_rows ?m))"
    using table_rows(2) [of ?m] i' by (simp add: tui_inv_def distinct_map)
  moreover have "w_Key (tm_rows ?m ! nat (tm_cursor ?m)) = w_Key r" "tm_rows ?m ! nat (tm_cursor ?m) \<in> set (tm_rows ?m)"
    using c' s i' by (simp_all add: tui_inv_def)
  ultimately show ?thesis using assms(4) by (simp add: inj_onD)
qed


text \<open>A model that has been handed one connection.\<close>

definition sample_engine :: "records \<times> Capturer" where
  "sample_engine = (Map.empty, (New (DefaultConfig sample_parsers))\<lparr>cap_table := sample_table\<rparr>)"

definition ticked_model :: "string Model" where
  "ticked_model = fst (Update plain_input (tickMsg sample_walks [sample_conn] 2)
     (NewModel plain_input (Some sample_engine) \<lparr>ns_world = None, ns_cache = None\<rparr> [''eth0'']))"

lemma unfiltered_rows: "table_ok m \<Longrightarrow> tm_filter m = '''' \<Longrightarrow> set (tm_rows m) = set (candidates m)"
  by (auto simp: table_ok_def sortRows_def mset_eq_setD [OF SliceStable_mset])

lemma group_row_iface:
  "w_Iface (group_row connectionKey seed_connection recs k) = r_Iface (hd (filter (\<lambda>c. connectionKey c = k) recs))"
proof -
  have "w_Iface (fold accumulate g r) = w_Iface r" for g r
    by (induction g arbitrary: r) (simp_all add: accumulate_def Let_def)
  then show ?thesis by (simp add: group_row_def Let_def seed_connection_def)
qed

lemma ticked_model_rows: "tm_rows ticked_model \<noteq> []" "tm_filter ticked_model = ''''" "\<not> tm_filtering ticked_model"
proof -
  let ?c = "(New (DefaultConfig sample_parsers))\<lparr>cap_table := sample_table\<rparr>"
  let ?m0 = "NewModel plain_input (Some sample_engine) \<lparr>ns_world = None, ns_cache = None\<rparr> [''eth0'']"
  define snap where "snap = fst (Refresh sample_walks [sample_conn] 2 sample_engine)"
  obtain s' where s': "Refresh sample_walks [sample_conn] 2 sample_engine = (snap, s')"
    unfolding snap_def by (cases "Refresh sample_walks [sample_conn] 2 sample_engine") simp
  define m where "m = (appendEvents snap (?m0\<lparr>tm_agg := Some s'\<rparr>))\<lparr>tm_snap := snap, tm_now := 2\<rparr>"
  have t: "ticked_model = rebuild m"
    by (simp add: ticked_model_def Update_def tui_refresh_def s' m_def Let_def NewModel_def)
  have f: "tm_filter m = ''''" "\<not> tm_filtering m" "tm_grouping m = GroupNone" "tm_snap m = snap"
      "tm_activeInterfaces m = [''eth0'' \<mapsto> True]"
      "tm_showListening m" "tm_showTCP m" "tm_showUDP m" "tm_showIPv4 m" "tm_showIPv6 m" "tm_showPrivate m"
    by (simp_all add: m_def appendEvents_def Let_def NewModel_def)
  then show "tm_filter ticked_model = ''''" "\<not> tm_filtering ticked_model" by (simp_all add: t)
  obtain r where r: "r \<in> set (sn_Connections snap)" "r_Iface r = ''eth0''"
    using refresh_record [of ?c sample_walks sample_conn "[sample_conn]" sample_flow 2 Map.empty]
    unfolding snap_def sample_engine_def
    by (auto simp: sample_table_result sample_flow_strip sample_walks_def) (auto simp: sample_conn_def sample_flow_def)
  have "length (sn_Connections snap) \<le> 1"
    by (simp add: snap_def sample_engine_def Refresh_parts(1) record_list_def sort_Slice_key sample_walks_def List.map_filter_def)
  then have one: "sn_Connections snap = [r]" using r(1) by (cases "sn_Connections snap") auto
  have rows: "Rows snap GroupNone = [group_row connectionKey seed_connection [r] (connectionKey r)]"
    using rollup_invariant [of connectionKey seed_connection "[r]"] 
    by (simp add: Rows_def GroupNone_def GroupByPID_def GroupByProcessName_def rowsUngrouped_def rollup_def one grouped_def appearances_def)
  have "candidates m = Rows snap GroupNone"
    unfolding candidates_def using f by (simp add: rows shown_by_def group_row_iface r(2) split: option.split)
  then show "tm_rows ticked_model \<noteq> []"
    using f(1) by - (rule rebuild_eq [of m], auto simp: t rows sortRows_def SliceStable_def)
qed


theorem selection_follows_row_witness:
  "let m = fst (Update plain_input (press ''s'') ticked_model)
   in tm_sort m = SortRate \<and> tm_rows m ! nat (tm_cursor m) = tm_rows ticked_model ! nat (tm_cursor ticked_model)"
proof -
  let ?start = "NewModel plain_input (Some sample_engine) \<lparr>ns_world = None, ns_cache = None\<rparr> [''eth0'']"
  let ?m = "fst (Update plain_input (press ''s'') ticked_model)"
  have "tui_step plain_input ?start ticked_model" unfolding ticked_model_def by (rule tui_step.message)
  then have reach: "(tui_step plain_input)\<^sup>*\<^sup>* ?start ticked_model" by simp
  have i: "tui_inv ticked_model" using tui_run.run_keeps [OF reach] inv_NewModel by blast
  then have i': "tui_inv ?m" by (rule inv_Update)
  have k: "tm_sort ticked_model = SortPID" "\<not> tm_showHelp ticked_model" "\<not> tm_showIfacePicker ticked_model"
      "\<not> tm_zoomed ticked_model" "tm_keys ticked_model = DefaultKeyMap" "\<not> tm_filtering ticked_model"
    unfolding ticked_model_def Update_def tui_refresh_def Let_def
    by (simp_all add: NewModel_def appendEvents_def Let_def split: prod.split)
  then have m: "?m = setSort (SortKey_next SortPID) ticked_model"
    by (simp add: Update_def press_def handleKey_def handleTableKey_def key_Matches_def DefaultKeyMap_def)
  have "show_fields ?m = show_fields ticked_model"
    unfolding m setSort_def by (rule rebuild_eq [of "ticked_model\<lparr>tm_sort := SortKey_next SortPID\<rparr>"]) (simp add: show_fields_def)
  moreover have "tm_filter ?m = ''''" by (simp add: m setSort_def ticked_model_rows)
  ultimately have "set (tm_rows ?m) = set (tm_rows ticked_model)"
    using unfiltered_rows [of ?m] unfiltered_rows [of ticked_model] candidates_cong [of ?m ticked_model] ticked_model_rows(2) i i'
    by (simp add: tui_inv_def)
  moreover have "tm_rows ticked_model ! nat (tm_cursor ticked_model) \<in> set (tm_rows ticked_model)"
    by (rule cursor_on_row(3)) (use i ticked_model_rows(1) in \<open>simp_all add: tui_inv_def\<close>)
  moreover have "\<not> moves ticked_model (press ''s'')" by (simp add: press_def movers_def)
  ultimately have "tm_rows ?m ! nat (tm_cursor ?m) = tm_rows ticked_model ! nat (tm_cursor ticked_model)"
    using selection_follows_row [OF reach _ ticked_model_rows(1)] by simp
  moreover have "tm_sort ?m = SortRate"
    by (simp add: m setSort_def) (simp add: SortKey_next_def SortPID_def numSortKeys_def SortRate_def)
  ultimately show ?thesis by (simp add: Let_def)
qed

end
