(* ===== verification/Tui_Keys.thy ===== *)
theory Tui_Keys
  imports Tui_Props
begin

text \<open>
  What keys and mouse do to the terminal interface, and the history of events: a cancelled filter
  leaves the settings as they were, only the keys meant for it end the program, the panels
  fill the screen, the divider follows the mouse, and the events panel holds the latest
  events of all refreshes. Two observations on the code stand at the end: a resize to the same size
  can shrink the events panel, and a held selection slides when the ring is full.
\<close>

section \<open>Keys\<close>

text \<open>No key has two bindings.\<close>

lemma default_keys_distinct:
  "distinct (concat (map (\<lambda>b. b DefaultKeyMap) [km_Up, km_Down, km_PageUp, km_PageDown, km_Home, km_End, km_Grouping, km_Sort,
     km_RateSort, km_Filter, km_ToggleListening, km_ToggleTCP, km_ToggleUDP, km_ToggleIPv4, km_ToggleIPv6, km_TogglePrivate,
     km_Interfaces, km_FocusNext, km_Zoom, km_Unzoom, km_Pause, km_Help, km_Quit]))"
  by code_simp

text \<open>
  In every reachable state the program ends on exactly these keys: while the filter line is open,
  a key of the type ctrl-C; otherwise \<open>q\<close> and ctrl-C. No other message ends it.
\<close>

lemma quit_keys:
  assumes "tm_keys m = DefaultKeyMap"
  shows "snd (Update T (KeyPress k) m) = Quit_cmd \<longleftrightarrow>
    (if tm_filtering m then key_Type k = KeyCtrlC else key_String k = ''q'' \<or> key_String k = ''ctrl+c'')"
proof (cases "tm_filtering m")
  case True
  then show ?thesis by (cases "key_Type k") (simp_all add: Update_def handleKey_def handleFilterKey_def Let_def)
next
  case False
  have q: "key_Matches k (km_Quit (tm_keys m)) \<longleftrightarrow> key_String k = ''q'' \<or> key_String k = ''ctrl+c''"
    by (auto simp: key_Matches_def assms DefaultKeyMap_def)
  have esc: "\<not> key_Matches k (km_Quit (tm_keys m))" if "key_Matches k (km_Unzoom (tm_keys m))"
    using that by (auto simp: key_Matches_def assms DefaultKeyMap_def)
  show ?thesis
    unfolding q [symmetric] using False esc
    by (auto simp: Update_def handleKey_def handleTableKey_def handleIfacePickerKey_def Let_def)
qed

section \<open>The filter line\<close>

text \<open>The settings of the table and what is open, the filter and the line editor apart.\<close>

definition settings where
  "settings m = (show_fields m, tm_sort m, tm_paused m, (tm_showHelp m, tm_showIfacePicker m, tm_ifaceCursor m),
     (tm_focus m, tm_zoomed m, tm_eventsPanelRows m, tm_width m, tm_height m), (tm_events m, tm_eventsCursor m))"

fun press_all :: "'i textinput \<Rightarrow> KeyMsg list \<Rightarrow> 'i Model \<Rightarrow> 'i Model" where
  "press_all T [] m = m"
| "press_all T (k # ks) m = press_all T ks (fst (Update T (KeyPress k) m))"

lemma settings_rebuild [simp]: "settings (rebuild m) = settings m"
  by (rule rebuild_eq [of m]) (simp add: settings_def show_fields_def)

definition typed :: "KeyMsg \<Rightarrow> bool" where
  "typed k \<longleftrightarrow> key_Type k \<noteq> KeyCtrlC \<and> key_Type k \<noteq> KeyEsc \<and> key_Type k \<noteq> KeyEnter"

lemma filter_key_typed:
  assumes "tm_filtering m" and "typed k"
  shows "fst (Update T (KeyPress k) m) =
    rebuild (m\<lparr>tm_input := ti_Update T k (tm_input m), tm_filter := ti_Value T (ti_Update T k (tm_input m))\<rparr>)"
  using assms by (cases "key_Type k") (simp_all add: Update_def handleKey_def handleFilterKey_def typed_def Let_def)

lemma filter_editing:
  assumes "tm_filtering m" and "list_all typed ks"
  shows "tm_filtering (press_all T ks m)" "tm_filterBefore (press_all T ks m) = tm_filterBefore m"
    "settings (press_all T ks m) = settings m"
    "tm_filter (press_all T ks m) = (if ks = [] then tm_filter m else ti_Value T (fold (ti_Update T) ks (tm_input m)))"
proof -
  have "tm_filtering (press_all T ks m) \<and> tm_filterBefore (press_all T ks m) = tm_filterBefore m \<and>
    settings (press_all T ks m) = settings m \<and>
    tm_filter (press_all T ks m) = (if ks = [] then tm_filter m else ti_Value T (fold (ti_Update T) ks (tm_input m)))"
    using assms
  proof (induction ks arbitrary: m)
    case (Cons k ks)
    define m' where "m' = fst (Update T (KeyPress k) m)"
    have m': "m' = rebuild (m\<lparr>tm_input := ti_Update T k (tm_input m), tm_filter := ti_Value T (ti_Update T k (tm_input m))\<rparr>)"
      unfolding m'_def using Cons.prems by (simp add: filter_key_typed)
    have "tm_filtering m'" "tm_filterBefore m' = tm_filterBefore m" "tm_input m' = ti_Update T k (tm_input m)"
        "tm_filter m' = ti_Value T (ti_Update T k (tm_input m))" "settings m' = settings m"
      using Cons.prems by (simp_all add: m') (simp add: settings_def show_fields_def)
    with Cons.IH [of m'] Cons.prems show ?case by (auto simp: m'_def [symmetric])
  qed simp
  then show "tm_filtering (press_all T ks m)" "tm_filterBefore (press_all T ks m) = tm_filterBefore m"
    "settings (press_all T ks m) = settings m"
    "tm_filter (press_all T ks m) = (if ks = [] then tm_filter m else ti_Value T (fold (ti_Update T) ks (tm_input m)))"
    by blast+
qed

lemma open_filter:
  assumes "\<not> tm_filtering m" and "\<not> tm_showHelp m" and "\<not> tm_showIfacePicker m" and "tm_keys m = DefaultKeyMap"
    and "key_String k = ''/''"
  shows "fst (Update T (KeyPress k) m) = openFilter T m"
  using assms by (simp add: Update_def handleKey_def handleTableKey_def key_Matches_def DefaultKeyMap_def)

lemma openFilter_result:
  "tm_filtering (openFilter T m)" "tm_filterBefore (openFilter T m) = tm_filter m" "settings (openFilter T m) = settings m"
  "tm_input (openFilter T m) = ti_Focus T (ti_SetValue T '''' (tm_input m))"
  by (simp_all add: openFilter_def Let_def) (simp add: settings_def show_fields_def)

lemma cancelFilter_result:
  "\<not> tm_filtering (cancelFilter T m)" "tm_filter (cancelFilter T m) = tm_filterBefore m" "settings (cancelFilter T m) = settings m"
  by (simp_all add: cancelFilter_def Let_def) (simp add: settings_def show_fields_def)

lemma settings_candidates: "settings m' = settings m \<Longrightarrow> candidates m' = candidates m \<and> tm_sort m' = tm_sort m"
  using candidates_cong [of m' m] by (simp add: settings_def)

text \<open>
  C39: while the filter line is open keys are text. From every reachable state with no overlay open,
  after \<open>/\<close> and any keys but escape, enter and ctrl-C, whatever bindings they have, the filter
  is what the line editor made of them and nothing else has changed: grouping, sort,
  toggles, focus, zoom, sizes, pause and events. Escape then puts the earlier filter back, and with
  it, when there was none, the very rows that were shown.
\<close>

theorem filter_cancel_restores:
  fixes T :: "'i textinput"
  assumes "(tui_step T)\<^sup>*\<^sup>* (NewModel T agg names interfaces) m"
    and "\<not> tm_filtering m" and "\<not> tm_showHelp m" and "\<not> tm_showIfacePicker m"
    and "key_String slash = ''/''" and "list_all typed ks" and "key_Type esc = KeyEsc"
  defines "m1 \<equiv> press_all T (slash # ks) m"
  defines "m2 \<equiv> fst (Update T (KeyPress esc) m1)"
  shows "tm_filtering m1 \<and> settings m1 = settings m \<and>
    (ks = [] \<or> tm_filter m1 = ti_Value T (fold (ti_Update T) ks (ti_Focus T (ti_SetValue T '''' (tm_input m))))) \<and>
    \<not> tm_filtering m2 \<and> tm_filter m2 = tm_filter m \<and> settings m2 = settings m \<and>
    (tm_filter m = '''' \<longrightarrow> tm_rows m2 = tm_rows m)"
proof -
  have i: "tui_inv m" using tui_run.run_keeps [OF assms(1)] inv_NewModel by blast
  then have "fst (Update T (KeyPress slash) m) = openFilter T m"
    using assms(2-5) by (intro open_filter) (simp_all add: inv_parts)
  then have m1: "m1 = press_all T ks (openFilter T m)" by (simp add: m1_def)
  note e = filter_editing [OF openFilter_result(1) [of T m] assms(6), of T, folded m1]
  have f: "tm_filtering m1" "settings m1 = settings m" "tm_filterBefore m1 = tm_filter m"
      "ks = [] \<or> tm_filter m1 = ti_Value T (fold (ti_Update T) ks (ti_Focus T (ti_SetValue T '''' (tm_input m))))"
    using e by (simp_all add: openFilter_result)
  have m2: "m2 = cancelFilter T m1"
    using f(1) assms(7) by (simp add: m2_def Update_def handleKey_def handleFilterKey_def)
  have s: "\<not> tm_filtering m2" "tm_filter m2 = tm_filter m" "settings m2 = settings m"
    using f by (simp_all add: m2 cancelFilter_result)
  have "tm_rows m2 = tm_rows m" if "tm_filter m = ''''"
  proof -
    have "tui_inv (press_all T ks' n)" if "tui_inv n" for ks' n
      using that by (induction ks' arbitrary: n) (simp_all add: inv_Update)
    then have "tui_inv m2" using i unfolding m2_def m1_def by (blast intro: inv_Update)
    then have "tm_rows m2 = sortRows (candidates m2) (tm_sort m2)" using s(2) that by (auto simp: tui_inv_def table_ok_def)
    also have "\<dots> = tm_rows m" using settings_candidates [OF s(3)] i that by (auto simp: tui_inv_def table_ok_def)
    finally show ?thesis .
  qed
  with f s show ?thesis by blast
qed

theorem filter_cancel_restores_witness:
  "let m1 = press_all plain_input (map (\<lambda>c. \<lparr>key_Type = KeyOther, key_String = [c]\<rparr>) ''/quit'') start_model;
       m2 = fst (Update plain_input (KeyPress \<lparr>key_Type = KeyEsc, key_String = ''esc''\<rparr>) m1)
   in tm_filter m1 = ''quit'' \<and> tm_filter m2 = '''' \<and> tm_rows m2 = [] \<and> settings m2 = settings start_model"
proof -
  let ?ks = "map (\<lambda>c. \<lparr>key_Type = KeyOther, key_String = [c]\<rparr>) ''quit''"
  let ?slash = "\<lparr>key_Type = KeyOther, key_String = ''/''\<rparr>" and ?esc = "\<lparr>key_Type = KeyEsc, key_String = ''esc''\<rparr>"
  have s: "\<not> tm_filtering start_model" "\<not> tm_showHelp start_model" "\<not> tm_showIfacePicker start_model"
      "tm_filter start_model = ''''" "tm_rows start_model = []" "tm_input start_model = ''''"
    by (simp_all add: start_model_def NewModel_def plain_input_def)
  have t: "list_all typed ?ks" by (simp add: typed_def)
  have v: "ti_Value plain_input (fold (ti_Update plain_input) ?ks (ti_Focus plain_input (ti_SetValue plain_input '''' ''''))) = ''quit''"
    by (simp add: plain_input_def)
  have "(tui_step plain_input)\<^sup>*\<^sup>* (NewModel plain_input None \<lparr>ns_world = None, ns_cache = None\<rparr> [''eth0'', ''lo'']) start_model"
    by (simp add: start_model_def)
  from filter_cancel_restores [OF this s(1-3) _ t, of ?slash ?esc] v s(4-6) show ?thesis by (simp add: Let_def)
qed

section \<open>Panels\<close>

lemmas layout_consts = connChromeLines_def eventsChromeLines_def minPanelDataRows_def

text \<open>
  The panels fill the screen: with at least 14 lines, the data rows of both, their frames and the
  footer make up the height exactly and each panel has at least three rows; zoomed, the
  panel with the focus takes it all.
\<close>

lemma panels_fill_screen:
  "\<not> tm_zoomed m \<Longrightarrow> 14 \<le> tm_height m \<Longrightarrow>
     3 \<le> fst (layout m) \<and> 3 \<le> snd (layout m) \<and> (4 + fst (layout m)) + (3 + snd (layout m)) + 1 = tm_height m"
  "tm_zoomed m \<Longrightarrow> 6 \<le> tm_height m \<Longrightarrow>
     layout m = (if tm_focus m = focusEvents then (0, tm_height m - 4) else (tm_height m - 5, 0))"
  by (auto simp: layout_def splitTotalLines_def layout_consts Let_def)

text \<open>A drag under way: the events panel has a size within its limits and the mouse is on the divider.\<close>

definition dragging :: "'i Model \<Rightarrow> bool" where
  "dragging m \<longleftrightarrow> \<not> tm_zoomed m \<and> tm_draggingDivider m \<and> tm_dragRow m = dividerRow m \<and> 14 \<le> tm_height m \<and>
     3 \<le> tm_eventsPanelRows m \<and> tm_eventsPanelRows m \<le> tm_height m - 11"

lemma drag_motion:
  assumes "dragging m" and "6 \<le> y" and "y \<le> tm_height m - 8"
  shows "dragging (fst (Update T (MouseMsg MouseActionMotion y) m))"
    "dividerRow (fst (Update T (MouseMsg MouseActionMotion y) m)) = y"
    "tm_height (fst (Update T (MouseMsg MouseActionMotion y) m)) = tm_height m"
  using assms
  by (auto simp: dragging_def Update_def handleMouse_def adjustEventsPanelRows_def dividerRow_def layout_def splitTotalLines_def
      layout_consts Let_def clamp_def)

text \<open>
  The divider follows the mouse. On a screen of at least 14 lines, with an events panel of a size
  both panels have room for, a press on the divider and any motions between rows 6 and
  \<open>height - 8\<close> put the divider where the mouse is, and the release leaves it there.
\<close>

lemma divider_follows_mouse:
  assumes "\<not> tm_zoomed m" and "14 \<le> tm_height m" and "3 \<le> tm_eventsPanelRows m" and "tm_eventsPanelRows m \<le> tm_height m - 11"
    and "\<forall>y \<in> set ys. 6 \<le> y \<and> y \<le> tm_height m - 8" and "ys \<noteq> []"
  shows "dividerRow (fold (\<lambda>msg m. fst (Update T msg m))
    (MouseMsg MouseActionPress (dividerRow m) # map (MouseMsg MouseActionMotion) ys @ [MouseMsg MouseActionRelease z]) m) = last ys"
proof -
  define m' where "m' = fst (Update T (MouseMsg MouseActionPress (dividerRow m)) m)"
  have m': "dragging m'" "tm_height m' = tm_height m"
    using assms(1-4) by (auto simp: m'_def dragging_def Update_def handleMouse_def dividerRow_def layout_def splitTotalLines_def Let_def)
  define run where "run = (\<lambda>ys n. fold (\<lambda>msg m. fst (Update T msg m)) (map (MouseMsg MouseActionMotion) ys) n)"
  have "dragging (run ys n) \<and> (ys \<noteq> [] \<longrightarrow> dividerRow (run ys n) = last ys)"
    if "dragging n" "tm_height n = tm_height m" "\<forall>y \<in> set ys. 6 \<le> y \<and> y \<le> tm_height m - 8" for n
    using that
  proof (induction ys arbitrary: n)
    case (Cons y ys)
    note d = drag_motion [OF Cons.prems(1), of y T]
    have "6 \<le> y" "y \<le> tm_height n - 8" using Cons.prems(2,3) by auto
    note d = d [OF this]
    from Cons.IH [OF d(1)] d(2,3) Cons.prems(2,3) show ?case by (cases ys) (auto simp: run_def)
  qed (simp add: run_def)
  from this [OF m' assms(5)] assms(6) have r: "dragging (run ys m')" "dividerRow (run ys m') = last ys" by simp_all
  have "dividerRow (fst (Update T (MouseMsg MouseActionRelease z) n)) = dividerRow n" if "dragging n" for n :: "'a Model"
    using that by (simp add: dragging_def Update_def handleMouse_def dividerRow_def layout_def splitTotalLines_def)
  with r show ?thesis by (simp add: run_def m'_def)
qed

section \<open>Events\<close>

text \<open>The snapshots that a run of messages takes.\<close>

fun taken :: "'i textinput \<Rightarrow> tea_msg list \<Rightarrow> 'i Model \<Rightarrow> Snapshot list" where
  "taken T [] m = []"
| "taken T (msg # msgs) m =
     (case (msg, tm_agg m) of
        (tickMsg w conns now, Some s) \<Rightarrow> if tm_paused m then [] else [fst (Refresh w conns now s)]
      | _ \<Rightarrow> []) @ taken T msgs (fst (Update T msg m))"

lemma events_ops:
  "tm_events (toggleFocus m) = tm_events m" "tm_events (setSort sk m) = tm_events m" "tm_events (openFilter T m) = tm_events m"
  "tm_events (cancelFilter T m) = tm_events m" "tm_events (commitFilter T m) = tm_events m" "tm_events (toggleListening m) = tm_events m"
  "tm_events (toggleTCP m) = tm_events m" "tm_events (toggleUDP m) = tm_events m" "tm_events (toggleIPv4 m) = tm_events m"
  "tm_events (toggleIPv6 m) = tm_events m" "tm_events (togglePrivate m) = tm_events m" "tm_events (moveIfaceCursor d m) = tm_events m"
  "tm_events (toggleActiveInterface m) = tm_events m" "tm_events (resizePanels w h m) = tm_events m"
  "tm_events (fst (handleMouse act y m)) = tm_events m" "tm_events (moveSelection d m) = tm_events m" "tm_events (cycleGrouping m) = tm_events m"
  by (simp_all add: toggleFocus_def setSort_def openFilter_def cancelFilter_def commitFilter_def toggleListening_def toggleTCP_def
    toggleUDP_def toggleIPv4_def toggleIPv6_def togglePrivate_def moveIfaceCursor_def toggleActiveInterface_def resizePanels_def
    handleMouse_def adjustEventsPanelRows_def moveSelection_def moveCursor_def moveEventsCursor_def cycleGrouping_def resetRows_def
    Let_def split: MouseAction.split)

lemma events_handleKey: "tm_events (fst (handleKey T k m)) = tm_events m"
proof -
  have "tm_events (fst (handleFilterKey T k m)) = tm_events m"
    by (cases "key_Type k") (simp_all add: handleFilterKey_def Let_def events_ops)
  then show ?thesis by (simp add: handleKey_def handleTableKey_def handleIfacePickerKey_def Let_def events_ops)
qed

lemma events_Update:
  "tm_events (fst (Update T msg m)) = fold eventRing_push (concat (map merged_events (taken T [msg] m))) (tm_events m)"
proof (cases msg)
  case (tickMsg w conns now)
  show ?thesis
  proof (cases "tm_agg m")
    case (Some s)
    obtain snap s' where "Refresh w conns now s = (snap, s')" by (cases "Refresh w conns now s")
    with Some tickMsg show ?thesis by (simp add: Update_def tui_refresh_def Let_def appendEvents_events)
  qed (simp add: tickMsg Update_def tui_refresh_def)
qed (simp_all add: Update_def events_ops events_handleKey)


section \<open>Observations\<close>

text \<open>
  A window size message that repeats the current size, as terminals send them, takes a row
  from the events panel when the fraction rounds down, here with 24 lines and a panel of 10 rows.
\<close>

lemma same_size_resize_shrinks:
  assumes "tm_height m = 24" and "tm_eventsPanelRows m = 10"
  shows "tm_eventsPanelRows (resizePanels w 24 m) = 9"
proof -
  have "f_int (f_mul (float64 23) (f_div (float64 13) (float64 23))) = 12" by code_simp
  then show ?thesis using assms by (simp add: resizePanels_def splitTotalLines_def layout_consts Let_def)
qed

text \<open>
  When the ring is full, a cursor the user holds on an older event stays at its place in the list
  while the list moves: after \<open>k\<close> new events it is on the event \<open>k\<close> places later.
\<close>

lemma held_event_slides:
  assumes "length (tm_events m) = 500" and "0 \<le> tm_eventsCursor m" and "tm_eventsCursor m + int k < 500" and "tm_eventsCursor m \<noteq> 499"
    and "length (event_records snap) = k"
  shows "tm_eventsCursor (appendEvents snap m) = tm_eventsCursor m \<and>
    tm_events (appendEvents snap m) ! nat (tm_eventsCursor (appendEvents snap m)) = tm_events m ! nat (tm_eventsCursor m + int k)"
proof -
  have l: "length (merged_events snap) = k" using assms(5) merged_events_mset [of snap] by (metis size_mset)
  have e: "tm_events (appendEvents snap m) = drop k (tm_events m @ merged_events snap)"
    using assms(1) l by (simp add: appendEvents_events ring_pushes eventRingCapacity_def latest_def)
  have c: "tm_eventsCursor (appendEvents snap m) = tm_eventsCursor m"
    using assms(1,4) by (simp add: appendEvents_def Let_def event_count_def)
  have "nat (tm_eventsCursor m + int k) = k + nat (tm_eventsCursor m)" "k + nat (tm_eventsCursor m) < 500" using assms(2,3) by linarith+
  with e c assms(1) l show ?thesis by (simp add: nth_append)
qed

end
