(* ===== verification/Spec2Isabelle.thy ===== *)
theory Spec2Isabelle
  imports Ebpf_Path Bpf_Headers Ebpf_Attach Byte_Counter Flow_Decode Event_Rings Rows Otel_Receiver Tui_Keys
begin

text \<open>
  Verification of trafficmon, a monitor that attributes a host's network traffic to the
  processes that own the sockets.

  \<^bold>\<open>The program.\<close> Three BPF programs in the kernel report TCP connects and state transitions
  through ring buffers (\<^verbatim>\<open>src/procinfo/bpf\<close>, in C, against the kernel headers \<^verbatim>\<open>vmlinux.h\<close> for
  arm64 and \<^verbatim>\<open>vmlinux_amd64.h\<close>). The Go engine decodes the events and keeps the table of open
  connections (\<^verbatim>\<open>src/procinfo/ebpf_linux.go\<close>), seeded from \<^verbatim>\<open>/proc\<close>; where BPF is not available a
  poller walks \<^verbatim>\<open>/proc\<close> instead (\<^verbatim>\<open>libproc_linux.go\<close>, \<^verbatim>\<open>poller.go\<close>). The capture engine reads packets from
  libpcap, counts them per flow and looks for hostnames in TLS, QUIC and DNS packets
  (\<^verbatim>\<open>src/capture\<close>, \<^verbatim>\<open>src/dpi\<close>). The aggregator joins connections with flow counters once a second
  and rolls them up into rows (\<^verbatim>\<open>src/aggregate\<close>). Two front ends read its snapshots: a terminal interface
  (\<^verbatim>\<open>src/cmd/trafficmon/internal/tui\<close>) and a receiver of the OpenTelemetry collector that exports metrics
  and logs (\<^verbatim>\<open>src/receiver\<close>).

  \<^bold>\<open>Theories, in the order of the data.\<close>

  \<^item> \<open>Prelude\<close>, \<open>Wire\<close>, \<open>Go_Strings\<close>, \<open>Go_Addr\<close>, \<open>Go_Time\<close>: shared material. Machine integers are words,
    little-endian encoding, and the parts of Go's library in use: strings and numbers, the
    printing of addresses, times. The locale \<open>step_invariant\<close> is what the state machines share.
    \<open>Go_Text\<close>, \<open>Go_Float\<close>, \<open>Go_ParseIP\<close>: text functions, rounding to 53 bits, and the parsing of addresses,
    which inverts their printing.
  \<^item> \<open>C_Types\<close>: layout of C types (size, alignment, bit fields, packed structures) with the general
    theorems that members lie inside their structure, aligned, and apart.
    \<open>Vmlinux_Arm64\<close>, \<open>Vmlinux_Amd64\<close>: the declarations of the two kernel headers that the programs reach,
    each a definition of its C type. \<open>Bpf_Headers\<close>: the two headers agree on everything the
    portable programs read, sockets begin with the part that is read, and all declarations
    of the event agree with the Go decoder.
  \<^item> \<open>Bpf_Runtime\<close>, \<open>Bpf_Fentry\<close>, \<open>Bpf_Kprobe\<close>, \<open>Bpf_Sockstate\<close>: the programs, one definition for each
    function of the C source, statement by statement, on kernel memory.
    \<open>Ebpf_Event\<close>: the decoders, inverse to what the programs write. \<open>Ebpf_Path\<close> and this theory
    compose them: what stands in kernel memory is what the engine sees; the kprobe pair and
    the fexit program are equivalent under every interleaving of threads.
  \<^item> \<open>Ebpf_Source\<close>: the connection table (\<open>handleEvent\<close>, \<open>applyEvent\<close>, \<open>consume\<close>, \<open>bootstrap\<close>).
    \<open>Socket_Tracker\<close>: the abstract tracker keyed by sockets; the table refines it while live sockets
    have distinct tuples, so the order of events of different sockets does not matter.
    \<open>Ebpf_Attach\<close>: attaching with its fallback, and which resources are held on every path.
  \<^item> \<open>Proc_Linux\<close>, \<open>Poller\<close>: reading \<^verbatim>\<open>/proc\<close> and one poll.
  \<^item> \<open>Hello_Assembler\<close>, \<open>Byte_Counter\<close>, \<open>Flow_Decode\<close>, \<open>Event_Rings\<close>, \<open>Hostname_Cache\<close>, \<open>Dpi\<close>: the parts of the capture
    engine: reassembly of a ClientHello, per-flow counters with their rate window, packet
    decoding and direction, the bounded buffers (one contract, the locale \<open>drop_oldest\<close>,
    interpreted for all five rings), the cache with its linked list and index, the inspectors.
  \<^item> \<open>Flow_Table\<close>: the flow table with counters behind pointers. The locked sections of \<open>record\<close> and
    \<open>Evict\<close> are atomic steps of a relation (\<open>rec_step\<close>, \<open>capture_step\<close>) in which goroutines interleave.
    \<open>Capturer\<close>: one packet, the read loop, \<open>Run\<close>.
  \<^item> \<open>Aggregator\<close>, \<open>Rows\<close>: the join, the refresh with its eviction, the groupings.
  \<^item> \<open>Resolver\<close>: reverse DNS lookups (\<^verbatim>\<open>src/dns\<close>) with their background goroutines as steps of a
    relation. \<open>Syn_Attempts\<close>: the count of connection attempts (\<^verbatim>\<open>src/receiver/synattempts.go\<close>).
  \<^item> \<open>Iface_Select\<close>: which interfaces are captured (\<^verbatim>\<open>src/capture/iface.go\<close> and \<^verbatim>\<open>route_*.go\<close>), with the four
    platforms as instances of a record of functions.
  \<^item> \<open>Otel_Metrics\<close>, \<open>Otel_Receiver\<close>: the metrics with the cap on peers and the counters that survive a
    collection (\<^verbatim>\<open>translate.go\<close>), the log records, the loops that collect and forward, and the
    life cycle of a receiver that the signals share (\<^verbatim>\<open>receiver.go\<close>, \<^verbatim>\<open>factory.go\<close>).
  \<^item> \<open>Tui_Format\<close>, \<open>Tui_Table\<close>, \<open>Tui_Filters\<close>, \<open>Tui_Events\<close>: text, columns, order, filters and the events
    panel, one theory for each file. \<open>Tui_Model\<close>: the state and \<open>Update\<close> with every handler of \<^verbatim>\<open>state.go\<close>,
    \<^verbatim>\<open>keys.go\<close> and \<^verbatim>\<open>model.go\<close>. \<open>Tui_Props\<close>: messages as a step relation (\<open>tui_step\<close>) and its invariant.
    \<open>Tui_Keys\<close>: keys, mouse, panels and the history of events.

  \<^bold>\<open>What the theorems show.\<close> Events reach the engine with the values that stand in kernel
  memory (C1 to C3, C9, C13 to C15); the connection table implements the tracker and keeps
  its invariants (C4 to C8); enumeration and polling report what \<^verbatim>\<open>/proc\<close> has (C10 to C12);
  a failed attachment releases what it holds, but for one reader in one case (C16). Bytes are accounted exactly,
  sequentially and with recorders that interleave (C17, C18, C20, C21, C23); the hostname cache
  is a least-recently-used cache (C19); a ClientHello is found however it is cut (C24); evictions,
  refreshes and rows are what they promise (C22, C25, C26); the resolver's queries, cache and answers
  are under control (C27). What is captured is exported, counted once and within the cap
  (C28 to C30); the log pipeline loses only what it counts as dropped, and the engine runs exactly
  while a signal holds it (C31, C32); interfaces are what the user named (C33). In the terminal, lines fill the
  screen (C34), the table shows what the settings say and the selection stays on its row in
  every reachable state (C35, C36), filters and names are exact (C37, C38), a cancelled filter
  leaves no trace (C39), and the events panel is the latest part of all events (C40). The other
  theorems of the theories are of the same kinds; some state where the code falls short of its
  comments: a packet lost by an eviction, a late event that brings back a closed
  connection, a resize to the same size that shrinks a panel, a held selection that slides.

  \<^bold>\<open>Abstractions.\<close> Kernel helpers, CO-RE relocation and ring space are the record \<open>bpf_env\<close>, and
  what the programs rely on is a hypothesis about it. gopacket, libpcap, and the parsers of TLS,
  QUIC and DNS messages are arguments. An operation on shared state is a function on the
  state, atomic where the code holds a lock. Go does not fix the order of a walk over a map:
  the order is an argument, or the result is a set. Rates are exact quotients instead of
  64-bit floats, except where the terminal rounds them for printing or for the layout; a time is an integer of
  nanoseconds since Go's zero time. The display width of text, the line editor and the zone of
  the clock are arguments of the terminal's definitions. All loops of the model are structural recursions
  over their input or have a termination proof, so no definition has fuel; endless loops
  (\<open>consume\<close>, the read loop) run over the list of what they will read.

  \<^bold>\<open>Not modelled.\<close> The rest of the kernel headers, which no program reaches; opening capture handles
  and the system calls behind the routing tables, whose answers are arguments; the colours, borders and
  composition of the terminal's frames, which are calls of a styling library; the
  enumeration on Darwin and Windows, which is a sequence of calls of system libraries; the command lines
  that wire the parts together.
\<close>

section \<open>Concrete kernel memory for the examples\<close>

text \<open>Memory whose byte at address \<open>a\<close> is the low byte of \<open>a\<close>; process 42, thread 43.\<close>

definition demo_mem :: "u64 \<Rightarrow> u8" where
  "demo_mem a = ucast a"

definition demo_event :: event where
  "demo_event = \<lparr>ev_timestamp_ns = 0, ev_skaddr = 0, ev_pid = 0, ev_proto = 0, ev_ip_ver = 0,
     ev_local_port = 0, ev_remote_port = 0, ev_local_addr = replicate 16 0xAA,
     ev_remote_addr = replicate 16 0xBB, ev_new_state = 0, ev_source = 0\<rparr>"

definition demo_env :: "ctype \<Rightarrow> bpf_env" where
  "demo_env t = kernel_env demo_mem t 7 0x2A0000002B (Some demo_event) True"

lemma demo_env_simps [simp]:
  "ringbuf_reserve (demo_env t) = Some (fit_event demo_event)"
  "get_current_pid_tgid (demo_env t) = 0x2A0000002B"
  "map_update_elem_ok (demo_env t)"
  by (simp_all add: demo_env_def kernel_env_def)

lemma demo_tgid: "(ucast (drop_bit 32 (0x2A0000002B :: u64)) :: i32) = 42"
  by (simp add: drop_bit_eq_div)

lemma demo_sock_arm64: "sock_kernel (demo_env struct_sock_arm64) demo_mem struct_sock_arm64"
  unfolding demo_env_def by (rule arm64.sock_kernel_axioms)

lemma demo_tuple_arm64:
  "sock_tuple demo_mem struct_sock_arm64 0x1000 4 =
     \<lparr>k_localAddr = AddrV4 [4, 5, 6, 7], k_localPort = 0x0F0E,
      k_remoteAddr = AddrV4 [0, 1, 2, 3], k_remotePort = 0x0C0D\<rparr>"
  by (simp add: sock_tuple_def sock_addr_def member_bytes_def layout mem_bytes_def demo_mem_def upt_rec)

section \<open>From the kernel to the table\<close>

text \<open>
  C1: when \<^verbatim>\<open>tcp_v4_connect\<close> or \<^verbatim>\<open>tcp_v6_connect\<close> returns 0 and the ring buffer has room, the fexit
  program submits exactly one record, and decoding that record in Go gives the socket's own
  identity, the calling process, the socket's TCP state and the 4-tuple that stands in the
  socket's members in kernel memory, whatever the reserved memory contained before.
\<close>

theorem fexit_connect_reported:
  assumes "sock_kernel env mem t" and "ringbuf_reserve env = Some g"
  shows "(\<exists>raw. fexit_tcp_v4_connect env sk 0 ring = (0, ring @ [raw]) \<and>
      reports raw sk (tgid_of env) (sock_tuple mem t sk 4)
        (ucast (le_word (sock_addr mem t sk ''skc_state'') :: u8))) \<and>
    (\<exists>raw. fexit_tcp_v6_connect env sk 0 ring = (0, ring @ [raw]) \<and>
      reports raw sk (tgid_of env) (sock_tuple mem t sk 6)
        (ucast (le_word (sock_addr mem t sk ''skc_state'') :: u8)))"
  unfolding fexit_tcp_v4_connect_def fexit_tcp_v6_connect_def
  by (intro conjI emit_connect_event_reports [OF assms])

theorem fexit_connect_reported_witness:
  "\<exists>raw. fexit_tcp_v4_connect (demo_env struct_sock_arm64) 0x1000 0 [] = (0, [raw]) \<and>
     reports raw 0x1000 42
       \<lparr>k_localAddr = AddrV4 [4, 5, 6, 7], k_localPort = 0x0F0E,
        k_remoteAddr = AddrV4 [0, 1, 2, 3], k_remotePort = 0x0C0D\<rparr> 18"
proof -
  have "sock_addr demo_mem struct_sock_arm64 0x1000 ''skc_state'' = [18]"
    by (simp add: sock_addr_def member_bytes_def layout mem_bytes_def demo_mem_def upt_rec)
  then show ?thesis
    using conjunct1 [OF fexit_connect_reported [OF demo_sock_arm64 demo_env_simps(1), of "0x1000" "[]"]]
    by (simp add: demo_tgid demo_tuple_arm64)
qed

text \<open>
  C2: the kprobe/kretprobe pair behaves as the fexit program: however the probes of other
  threads interleave between a thread's entry and return, the return probe submits the
  same records the fexit program submits for the socket the thread entered with (none when
  connect failed or the ring is full), and leaves nothing behind in \<open>connect_args_map\<close>.
\<close>

theorem kprobe_pair_is_fexit:
  assumes "map_update_elem_ok env0" and "tid_of env0 = tid_of env1" and "sk \<noteq> 0"
    and "\<forall>p \<in> set ps. probe_tid p \<noteq> tid_of env1"
  shows "kp_events (run_probes (Entry env0 sk # ps @ [Exit env1 ret ip_ver]) st) =
      snd (emit_connect_event env1 sk ret ip_ver (kp_events (run_probes (Entry env0 sk # ps) st))) \<and>
    connect_args_map (run_probes (Entry env0 sk # ps @ [Exit env1 ret ip_ver]) st) (tid_of env1) = None"
  by (intro conjI kprobe_pair_runs assms)

theorem kprobe_pair_is_fexit_witness:
  "kp_events (run_probes
     [Entry (demo_env struct_sock_amd64) 0x1000,
      Entry (kernel_env demo_mem struct_sock_amd64 8 0x2A0000002C None True) 0x2000,
      Exit (demo_env struct_sock_amd64) 0 4] \<lparr>connect_args_map = Map.empty, kp_events = []\<rparr>) =
   snd (emit_connect_event (demo_env struct_sock_amd64) 0x1000 0 4 [])"
  using conjunct1 [OF kprobe_pair_is_fexit [of "demo_env struct_sock_amd64" "demo_env struct_sock_amd64"
        "0x1000" "[Entry (kernel_env demo_mem struct_sock_amd64 8 0x2A0000002C None True) 0x2000]" 0 4
        "\<lparr>connect_args_map = Map.empty, kp_events = []\<rparr>"]]
  by (simp add: kernel_env_def kprobe_connect_entry_def)

text \<open>
  C3: for a TCP transition with room in the ring buffer the tracepoint program submits one
  record, and decoding it gives the socket address, state, ports and addresses that stand
  in the tracepoint's context.
\<close>

theorem transition_reported:
  assumes "trace_kernel env mem t" and "ringbuf_reserve env = Some g"
    and "ctx_field mem t ctx ''protocol'' = le_bytes 2 (6 :: u16)"
  shows "\<exists>raw. tracepoint_inet_sock_set_state mem env ctx ring = (0, ring @ [raw]) \<and>
    reports raw (le_word (ctx_field mem t ctx ''skaddr'')) (tgid_of env) (ctx_tuple mem t ctx)
      (le_word (ctx_field mem t ctx ''newstate''))"
  using assms by (rule tracepoint_reports)

text \<open>A context at address 0: socket 0x1000 becomes ESTABLISHED, 10.0.0.1:8080 to 1.1.1.1:443.\<close>

definition demo_ctx_mem :: "u64 \<Rightarrow> u8" where
  "demo_ctx_mem a =
     ((\<lambda>_. 0)(9 := 0x10, 20 := 1, 24 := 0x90, 25 := 0x1F, 26 := 0xBB, 27 := 1, 28 := 2, 30 := 6,
        32 := 10, 35 := 1, 36 := 1, 37 := 1, 38 := 1, 39 := 1)) a"

lemma demo_ctx_fields:
  "ctx_field demo_ctx_mem struct_trace_event_raw_inet_sock_set_state_arm64 0 ''protocol'' = [6, 0]"
  "ctx_field demo_ctx_mem struct_trace_event_raw_inet_sock_set_state_arm64 0 ''family'' = [2, 0]"
  "ctx_field demo_ctx_mem struct_trace_event_raw_inet_sock_set_state_arm64 0 ''skaddr'' = [0, 0x10, 0, 0, 0, 0, 0, 0]"
  "ctx_field demo_ctx_mem struct_trace_event_raw_inet_sock_set_state_arm64 0 ''newstate'' = [1, 0, 0, 0]"
  "ctx_field demo_ctx_mem struct_trace_event_raw_inet_sock_set_state_arm64 0 ''sport'' = [0x90, 0x1F]"
  "ctx_field demo_ctx_mem struct_trace_event_raw_inet_sock_set_state_arm64 0 ''dport'' = [0xBB, 1]"
  "ctx_field demo_ctx_mem struct_trace_event_raw_inet_sock_set_state_arm64 0 ''saddr'' = [10, 0, 0, 1]"
  "ctx_field demo_ctx_mem struct_trace_event_raw_inet_sock_set_state_arm64 0 ''daddr'' = [1, 1, 1, 1]"
  by (simp_all add: ctx_field_def member_bytes_def struct_trace_event_raw_inet_sock_set_state_arm64_def
      layout mem_bytes_def demo_ctx_mem_def upt_rec)

lemma demo_le_bytes: "le_bytes 2 (6 :: u16) = [6, 0]" "le_bytes 2 (2 :: u16) = [2, 0]"
  by code_simp+

theorem transition_reported_witness:
  "\<exists>raw. tracepoint_inet_sock_set_state demo_ctx_mem
       (kernel_env demo_ctx_mem struct_trace_event_raw_inet_sock_set_state_arm64 7 0x2A0000002B
          (Some demo_event) True) 0 [] = (0, [raw]) \<and>
     reports raw 0x1000 42 \<lparr>k_localAddr = AddrV4 [10, 0, 0, 1], k_localPort = 8080,
       k_remoteAddr = AddrV4 [1, 1, 1, 1], k_remotePort = 443\<rparr> 1"
proof -
  let ?env = "kernel_env demo_ctx_mem struct_trace_event_raw_inet_sock_set_state_arm64 7 0x2A0000002B
    (Some demo_event) True"
  have "ringbuf_reserve ?env = Some (fit_event demo_event)" "get_current_pid_tgid ?env = 0x2A0000002B"
    by (simp_all add: kernel_env_def)
  from transition_reported [OF trace_arm64.trace_kernel_axioms this(1), of 0 "[]"] this(2)
  show ?thesis
    by (simp add: demo_ctx_fields demo_le_bytes demo_tgid ctx_tuple_def AF_INET_def)
qed

end
